(* ===== verification/JS_Prelude.thy ===== *)
theory JS_Prelude
  imports Complex_Main "HOL-Library.Word" "HOL-Library.Sublist"
begin

text \<open>
  Shared vocabulary of the development: the part of the JavaScript language and of its standard
  library that the modelled sources use, and the generic lemmas about it.

  \<^item> Strings are Isabelle strings; a character stands for one UTF-16 code unit below 256 (Latin-1),
    so trimming, case folding, regular-expression classes and UTF-8 encoding are written out for
    exactly those code units.
  \<^item> \<open>jsnum\<close> is a JavaScript number whose finite values are integers (the counters, cursors and
    millisecond clocks of the code), with NaN and the infinities kept apart.
  \<^item> \<open>jsv\<close> is a JSON-like dynamic value; objects are association lists in insertion order.
  \<^item> A thrown \<open>Error\<close> is the left injection of \<open>result\<close>, holding the message.
  \<^item> Instants (\<open>Date.now()\<close>, ISO strings made from a clock value) are integers of milliseconds.
\<close>

named_theorems js_defs \<open>definitions of the JavaScript library functions\<close>
named_theorems inv_intros \<open>preservation lemmas of the component invariants\<close>

type_synonym 'a result = "string + 'a"
type_synonym byte = "8 word"
type_synonym bytes = "byte list"
type_synonym millis = int

section \<open>Results\<close>

definition bind_result :: "'a result \<Rightarrow> ('a \<Rightarrow> 'b result) \<Rightarrow> 'b result" where
  "bind_result r f = (case r of Inl e \<Rightarrow> Inl e | Inr a \<Rightarrow> f a)"

lemma bind_result_simps [simp]:
  "bind_result (Inl e) f = Inl e"
  "bind_result (Inr a) f = f a"
  by (simp_all add: bind_result_def)

lemma bind_result_eq_Inr:
  "bind_result r f = Inr b \<longleftrightarrow> (\<exists>a. r = Inr a \<and> f a = Inr b)"
  by (cases r) auto

section \<open>Numbers\<close>

datatype jsnum = NaN | PosInf | NegInf | Fin int

fun is_finite :: "jsnum \<Rightarrow> bool" where
  "is_finite (Fin _) = True"
| "is_finite _ = False"

text \<open>Comparison, \<open>Math.max\<close>, \<open>Math.min\<close> and addition: NaN compares false and is absorbing.\<close>

fun js_le :: "jsnum \<Rightarrow> jsnum \<Rightarrow> bool" where
  "js_le NaN _ = False"
| "js_le _ NaN = False"
| "js_le NegInf _ = True"
| "js_le _ PosInf = True"
| "js_le (Fin a) (Fin b) = (a \<le> b)"
| "js_le _ _ = False"

definition js_lt :: "jsnum \<Rightarrow> jsnum \<Rightarrow> bool" where
  "js_lt a b = (js_le a b \<and> a \<noteq> b)"

definition js_max :: "jsnum \<Rightarrow> jsnum \<Rightarrow> jsnum" where
  "js_max a b = (if a = NaN \<or> b = NaN then NaN else if js_le a b then b else a)"

definition js_min :: "jsnum \<Rightarrow> jsnum \<Rightarrow> jsnum" where
  "js_min a b = (if a = NaN \<or> b = NaN then NaN else if js_le a b then a else b)"

fun js_add :: "jsnum \<Rightarrow> jsnum \<Rightarrow> jsnum" where
  "js_add (Fin a) (Fin b) = Fin (a + b)"
| "js_add NaN _ = NaN"
| "js_add _ NaN = NaN"
| "js_add PosInf NegInf = NaN"
| "js_add NegInf PosInf = NaN"
| "js_add PosInf _ = PosInf"
| "js_add NegInf _ = NegInf"
| "js_add _ PosInf = PosInf"
| "js_add _ NegInf = NegInf"

lemma js_lt_Fin [simp]: "js_lt (Fin a) (Fin b) = (a < b)"
  by (auto simp: js_lt_def)

lemma js_lt_NaN [simp]: "\<not> js_lt NaN b" "\<not> js_lt a NaN"
  by (cases a; simp add: js_lt_def)+

lemma js_le_NaN [simp]: "\<not> js_le a NaN"
  by (cases a) auto

lemma js_max_Fin [simp]: "js_max (Fin a) (Fin b) = Fin (max a b)"
  by (simp add: js_max_def max_def)

lemma js_min_Fin [simp]: "js_min (Fin a) (Fin b) = Fin (min a b)"
  by (simp add: js_min_def min_def)

lemma js_max_NaN [simp]: "js_max NaN b = NaN" "js_max a NaN = NaN"
  by (simp_all add: js_max_def)

lemma js_min_NaN [simp]: "js_min NaN b = NaN" "js_min a NaN = NaN"
  by (simp_all add: js_min_def)

text \<open>\<open>Number(x || d)\<close> on an optional integer field: absent and 0 both take the default.\<close>

definition or_num :: "int option \<Rightarrow> int \<Rightarrow> int" where
  "or_num x d = (case x of None \<Rightarrow> d | Some n \<Rightarrow> if n = 0 then d else n)"

lemma or_num_simps [simp]:
  "or_num None d = d"
  "or_num (Some 0) d = d"
  "n \<noteq> 0 \<Longrightarrow> or_num (Some n) d = n"
  by (simp_all add: or_num_def)

lemma or_num_zero [simp]: "or_num (Some n) 0 = n"
  by (simp add: or_num_def)

text \<open>\<open>a || b\<close> on strings: the empty string is falsy.\<close>

definition or_str :: "string \<Rightarrow> string \<Rightarrow> string" where
  "or_str a b = (if a = [] then b else a)"

text \<open>\<open>x || null\<close> on an optional string.\<close>

definition or_null :: "string option \<Rightarrow> string option" where
  "or_null x = (case x of None \<Rightarrow> None | Some s \<Rightarrow> if s = [] then None else Some s)"

lemma or_str_nonempty [simp]: "b \<noteq> [] \<Longrightarrow> or_str a b \<noteq> []"
  by (simp add: or_str_def)

section \<open>Strings\<close>

definition is_ws :: "char \<Rightarrow> bool" where
  "is_ws c = (let n = (of_char c :: nat) in (9 \<le> n \<and> n \<le> 13) \<or> n = 32 \<or> n = 160)"

definition js_trim :: "string \<Rightarrow> string" where
  "js_trim s = rev (dropWhile is_ws (rev (dropWhile is_ws s)))"

definition lower_char :: "char \<Rightarrow> char" where
  "lower_char c = (let n = (of_char c :: nat) in
     if (65 \<le> n \<and> n \<le> 90) \<or> (192 \<le> n \<and> n \<le> 222 \<and> n \<noteq> 215) then char_of (n + 32) else c)"

definition to_lower :: "string \<Rightarrow> string" where
  "to_lower s = map lower_char s"

definition js_starts_with :: "string \<Rightarrow> string \<Rightarrow> bool" where
  "js_starts_with s p = (take (length p) s = p)"

text \<open>\<open>s.includes(sub)\<close>.\<close>

fun js_includes :: "string \<Rightarrow> string \<Rightarrow> bool" where
  "js_includes [] sub = (sub = [])"
| "js_includes (c # cs) sub = (js_starts_with (c # cs) sub \<or> js_includes cs sub)"

lemma js_starts_with_prefix: "js_starts_with s p \<longleftrightarrow> (\<exists>r. s = p @ r)"
  by (metis js_starts_with_def append_eq_conv_conj)

lemma js_includes_sublist: "js_includes s sub \<longleftrightarrow> (\<exists>l r. s = l @ sub @ r)"
proof (induction s)
  case Nil
  then show ?case by auto
next
  case (Cons c cs)
  show ?case
  proof
    assume "js_includes (c # cs) sub"
    then consider "js_starts_with (c # cs) sub" | "js_includes cs sub" by auto
    then show "\<exists>l r. c # cs = l @ sub @ r"
    proof cases
      case 1
      then show ?thesis by (metis append_Nil js_starts_with_prefix)
    next
      case 2
      then obtain l r where "cs = l @ sub @ r" using Cons.IH by blast
      then have "c # cs = (c # l) @ sub @ r" by simp
      then show ?thesis by blast
    qed
  next
    assume "\<exists>l r. c # cs = l @ sub @ r"
    then obtain l r where eq: "c # cs = l @ sub @ r" by blast
    show "js_includes (c # cs) sub"
    proof (cases l)
      case Nil
      with eq have "js_starts_with (c # cs) sub" by (auto simp: js_starts_with_prefix)
      then show ?thesis by simp
    next
      case (Cons d l')
      with eq have "cs = l' @ sub @ r" by simp
      with Cons.IH show ?thesis by auto
    qed
  qed
qed

lemma js_includes_append [simp]: "js_includes (l @ sub @ r) sub"
  by (auto simp: js_includes_sublist)

lemma js_includes_mono: "js_includes s t \<Longrightarrow> js_includes t u \<Longrightarrow> js_includes s u"
proof -
  assume "js_includes s t" and "js_includes t u"
  then obtain a b c d where "s = a @ t @ b" and "t = c @ u @ d"
    by (auto simp: js_includes_sublist)
  then have "s = (a @ c) @ u @ (d @ b)" by simp
  then show ?thesis unfolding js_includes_sublist by blast
qed

text \<open>\<open>s.padStart(n, '0')\<close>.\<close>

definition pad_start :: "nat \<Rightarrow> string \<Rightarrow> string" where
  "pad_start n s = replicate (n - length s) (CHR ''0'') @ s"

text \<open>\<open>xs.slice(i)\<close> with a possibly negative start.\<close>

definition js_slice_from :: "int \<Rightarrow> 'a list \<Rightarrow> 'a list" where
  "js_slice_from i xs = drop (nat (if i < 0 then max (int (length xs) + i) 0 else i)) xs"

lemma length_js_slice_from_neg:
  "0 < n \<Longrightarrow> length (js_slice_from (- int n) xs) = min n (length xs)"
  by (auto simp: js_slice_from_def)

lemma set_js_slice_from: "set (js_slice_from i xs) \<subseteq> set xs"
  by (simp add: js_slice_from_def set_drop_subset)

subsection \<open>Trimming\<close>

lemma dropWhile_none: "\<forall>x \<in> set xs. \<not> P x \<Longrightarrow> dropWhile P xs = xs"
  by (induction xs) auto

lemma js_trim_no_ws: "\<forall>c \<in> set s. \<not> is_ws c \<Longrightarrow> js_trim s = s"
  by (simp add: js_trim_def dropWhile_none)

lemma set_js_trim: "set (js_trim s) \<subseteq> set s"
  by (auto simp: js_trim_def dest!: set_dropWhileD)

lemma length_js_trim: "length (js_trim s) \<le> length s"
proof -
  have "length (js_trim s) \<le> length (dropWhile is_ws s)"
    unfolding js_trim_def length_rev
    by (metis length_dropWhile_le length_rev)
  also have "\<dots> \<le> length s" by (rule length_dropWhile_le)
  finally show ?thesis .
qed

lemma js_trim_Nil [simp]: "js_trim [] = []"
  by (simp add: js_trim_def)

lemma dropWhile_rev_hd:
  "dropWhile P s = s \<Longrightarrow> dropWhile P (rev (dropWhile P (rev s))) = rev (dropWhile P (rev s))"
proof (cases s)
  case Nil
  then show ?thesis by simp
next
  case (Cons a t)
  assume "dropWhile P s = s"
  with Cons have na: "\<not> P a" by (metis dropWhile.simps(2) hd_dropWhile list.distinct(1) list.sel(1))
  have "dropWhile P (rev s) = dropWhile P (rev t @ [a])" using Cons by simp
  also have "\<dots> = (if \<forall>x\<in>set t. P x then [a] else dropWhile P (rev t) @ [a])"
    using na by (simp add: dropWhile_append dropWhile_eq_Nil_conv)
  finally show ?thesis using na by (auto split: if_splits)
qed

lemma js_trim_idem [simp]: "js_trim (js_trim s) = js_trim s"
proof -
  have "dropWhile is_ws (js_trim s) = js_trim s"
    unfolding js_trim_def by (rule dropWhile_rev_hd) (simp add: dropWhile_idem)
  then show ?thesis
    by (subst js_trim_def) (simp add: js_trim_def dropWhile_idem)
qed

section \<open>Decimal rendering\<close>

definition digit_char :: "nat \<Rightarrow> char" where
  "digit_char d = char_of (48 + d)"

fun show_nat :: "nat \<Rightarrow> string" where
  "show_nat n = (if n < 10 then [digit_char n] else show_nat (n div 10) @ [digit_char (n mod 10)])"

declare show_nat.simps [simp del]

definition show_int :: "int \<Rightarrow> string" where
  "show_int i = (if i < 0 then CHR ''-'' # show_nat (nat (- i)) else show_nat (nat i))"

definition read_nat :: "string \<Rightarrow> nat" where
  "read_nat s = foldl (\<lambda>a c. 10 * a + (of_char c - 48)) 0 s"

lemma of_char_digit: "d < 10 \<Longrightarrow> (of_char (digit_char d) :: nat) = 48 + d"
  by (simp add: digit_char_def)

lemma read_show_nat [simp]: "read_nat (show_nat n) = n"
proof (induction n rule: show_nat.induct)
  case (1 n)
  then show ?case
    by (subst show_nat.simps) (auto simp: read_nat_def of_char_digit)
qed

lemma show_nat_inj: "show_nat a = show_nat b \<longleftrightarrow> a = b"
  by (metis read_show_nat)

lemma show_nat_digits: "c \<in> set (show_nat n) \<Longrightarrow> 48 \<le> (of_char c :: nat) \<and> (of_char c :: nat) \<le> 57"
proof (induction n rule: show_nat.induct)
  case (1 n)
  from "1.prems" consider "c \<in> set (show_nat (n div 10))" "\<not> n < 10" | "c = digit_char (n mod 10)"
    by (subst (asm) show_nat.simps) (auto split: if_splits)
  then show ?case
    by cases (use "1.IH" in \<open>auto simp: of_char_digit\<close>)
qed

lemma show_nat_nonempty [simp]: "show_nat n \<noteq> []"
  by (subst show_nat.simps) simp

lemma show_int_nonempty [simp]: "show_int i \<noteq> []"
  by (simp add: show_int_def)

lemma show_int_nonempty2 [simp]: "[] \<noteq> show_int i"
  using show_int_nonempty [of i] by metis

lemma show_int_chars:
  "c \<in> set (show_int i) \<Longrightarrow> (of_char c :: nat) = 45 \<or> 48 \<le> (of_char c :: nat) \<and> (of_char c :: nat) \<le> 57"
  by (auto simp: show_int_def dest: show_nat_digits split: if_splits)

lemma minus_notin_show_nat: "CHR ''-'' \<notin> set (show_nat n)"
  by (auto dest: show_nat_digits)

lemma show_int_inj: "show_int a = show_int b \<longleftrightarrow> a = b"
proof
  assume eq: "show_int a = show_int b"
  show "a = b"
  proof (cases "a < 0"; cases "b < 0")
    assume "a < 0" "b < 0"
    with eq show ?thesis by (simp add: show_int_def show_nat_inj nat_eq_iff)
  next
    assume "a < 0" "\<not> b < 0"
    with eq show ?thesis by (metis list.set_intros(1) minus_notin_show_nat show_int_def)
  next
    assume "\<not> a < 0" "b < 0"
    with eq show ?thesis by (metis list.set_intros(1) minus_notin_show_nat show_int_def)
  next
    assume "\<not> a < 0" "\<not> b < 0"
    with eq show ?thesis by (simp add: show_int_def show_nat_inj nat_eq_iff)
  qed
qed simp

text \<open>
  \<open>Number(s)\<close> on a string that holds an integer literal (decimal with an optional sign, or empty);
  every other string is NaN.
\<close>

definition all_digits :: "string \<Rightarrow> bool" where
  "all_digits s = (s \<noteq> [] \<and> list_all (\<lambda>c. 48 \<le> (of_char c :: nat) \<and> (of_char c :: nat) \<le> 57) s)"

definition js_number :: "string \<Rightarrow> jsnum" where
  "js_number s = (case js_trim s of
       [] \<Rightarrow> Fin 0
     | c # cs \<Rightarrow> if c = CHR ''-'' then (if all_digits cs then Fin (- int (read_nat cs)) else NaN)
                else if c = CHR ''+'' then (if all_digits cs then Fin (int (read_nat cs)) else NaN)
                else if all_digits (c # cs) then Fin (int (read_nat (c # cs))) else NaN)"

lemma digit_not_ws: "48 \<le> (of_char c :: nat) \<Longrightarrow> (of_char c :: nat) \<le> 57 \<Longrightarrow> \<not> is_ws c"
  by (simp add: is_ws_def Let_def)

lemma js_number_show_nat [simp]: "js_number (show_nat n) = Fin (int n)"
proof -
  have trim: "js_trim (show_nat n) = show_nat n"
    by (rule js_trim_no_ws) (auto dest: show_nat_digits simp: digit_not_ws)
  obtain c cs where eq: "show_nat n = c # cs" by (cases "show_nat n") auto
  have "all_digits (show_nat n)"
    by (auto simp: all_digits_def list_all_iff dest: show_nat_digits)
  moreover have "c \<noteq> CHR ''-''" "c \<noteq> CHR ''+''"
    using show_nat_digits [of c n] eq by auto
  ultimately show ?thesis
    using trim eq read_show_nat [of n] by (simp add: js_number_def)
qed

section \<open>Joining\<close>

fun js_join :: "string \<Rightarrow> string list \<Rightarrow> string" where
  "js_join sep [] = []"
| "js_join sep [x] = x"
| "js_join sep (x # y # ys) = x @ sep @ js_join sep (y # ys)"

lemma split_at_char:
  assumes "a @ c # r = b @ c # s" and "c \<notin> set a" and "c \<notin> set b"
  shows "a = b \<and> r = s"
  using assms
proof (induction a arbitrary: b)
  case Nil
  then show ?case by (cases b) auto
next
  case (Cons x a)
  then show ?case by (cases b) auto
qed

lemma js_join_inj:
  assumes "length xs = length ys"
    and "\<forall>x \<in> set xs. c \<notin> set x" and "\<forall>y \<in> set ys. c \<notin> set y"
    and "js_join [c] xs = js_join [c] ys"
  shows "xs = ys"
  using assms
proof (induction xs ys rule: list_induct2)
  case Nil
  then show ?case by simp
next
  case (Cons x xs y ys)
  show ?case
  proof (cases xs)
    case Nil
    with Cons show ?thesis by auto
  next
    case (Cons x' xs')
    with Cons.hyps obtain y' ys' where ys: "ys = y' # ys'" by (cases ys) auto
    have "x @ c # js_join [c] xs = y @ c # js_join [c] ys"
      using Cons.prems(3) Cons ys by simp
    then have "x = y \<and> js_join [c] xs = js_join [c] ys"
      by (rule split_at_char) (use Cons.prems in auto)
    then show ?thesis using Cons.IH Cons.prems by auto
  qed
qed

lemma js_join_nonempty: "x \<noteq> [] \<Longrightarrow> js_join sep (x # xs) \<noteq> []"
  by (cases xs) auto

text \<open>\<open>s.split(sep)\<close> for a one-character separator.\<close>

fun js_split :: "char \<Rightarrow> string \<Rightarrow> string list" where
  "js_split sep [] = [[]]"
| "js_split sep (c # cs) =
     (if c = sep then [] # js_split sep cs
      else case js_split sep cs of x # xs \<Rightarrow> (c # x) # xs | [] \<Rightarrow> [[c]])"

lemma js_split_nonempty [simp]: "js_split sep s \<noteq> []"
  by (induction s) (auto split: list.split)

lemma js_split_join: "js_join [sep] (js_split sep s) = s"
proof (induction s)
  case (Cons c cs)
  obtain x xs where x: "js_split sep cs = x # xs" by (cases "js_split sep cs") auto
  then show ?case using Cons by (cases xs) auto
qed simp

lemma js_split_no_sep: "x \<in> set (js_split sep s) \<Longrightarrow> sep \<notin> set x"
proof (induction s arbitrary: x)
  case (Cons c cs)
  obtain y ys where y: "js_split sep cs = y # ys" by (cases "js_split sep cs") auto
  then show ?case using Cons.prems Cons.IH [of x] Cons.IH [of y] by (auto split: if_splits)
qed simp

lemma js_split_joined: "xs \<noteq> [] \<Longrightarrow> \<forall>x \<in> set xs. sep \<notin> set x \<Longrightarrow> js_split sep (js_join [sep] xs) = xs"
proof (induction xs rule: induct_list012)
  case (2 x)
  then show ?case by (induction x) auto
next
  case (3 x y zs)
  have "js_split sep (x @ sep # r) = x # js_split sep r" if "sep \<notin> set x" for x r
    using that by (induction x) auto
  with 3 show ?case by simp
qed simp

section \<open>Objects as association lists\<close>

text \<open>Reading, assigning and deleting a property; assignment to a present key keeps its place.\<close>

abbreviation obj_get :: "('k \<times> 'v) list \<Rightarrow> 'k \<Rightarrow> 'v option" where
  "obj_get \<equiv> map_of"

fun obj_set :: "'k \<Rightarrow> 'v \<Rightarrow> ('k \<times> 'v) list \<Rightarrow> ('k \<times> 'v) list" where
  "obj_set k v [] = [(k, v)]"
| "obj_set k v ((k', v') # ps) = (if k = k' then (k, v) # ps else (k', v') # obj_set k v ps)"

definition obj_del :: "'k \<Rightarrow> ('k \<times> 'v) list \<Rightarrow> ('k \<times> 'v) list" where
  "obj_del k ps = filter (\<lambda>p. fst p \<noteq> k) ps"

abbreviation obj_keys :: "('k \<times> 'v) list \<Rightarrow> 'k list" where
  "obj_keys ps \<equiv> map fst ps"

lemma obj_get_set: "obj_get (obj_set k v ps) = (obj_get ps)(k \<mapsto> v)"
  by (induction ps) (auto simp: fun_eq_iff)

lemma obj_get_del: "obj_get (obj_del k ps) = (obj_get ps)(k := None)"
  by (induction ps) (auto simp: obj_del_def fun_eq_iff)

lemma fst_set_obj_set: "fst ` set (obj_set k v ps) = insert k (fst ` set ps)"
  by (induction k v ps rule: obj_set.induct) auto

lemma set_obj_keys_set: "set (obj_keys (obj_set k v ps)) = insert k (set (obj_keys ps))"
  by (simp add: fst_set_obj_set)

lemma set_obj_keys_del: "set (obj_keys (obj_del k ps)) = set (obj_keys ps) - {k}"
  by (auto simp: obj_del_def)

lemma distinct_obj_set: "distinct (obj_keys ps) \<Longrightarrow> distinct (obj_keys (obj_set k v ps))"
  by (induction k v ps rule: obj_set.induct) (auto simp: fst_set_obj_set)

lemma distinct_obj_del: "distinct (obj_keys ps) \<Longrightarrow> distinct (obj_keys (obj_del k ps))"
  by (simp add: obj_del_def distinct_map_filter)

lemma obj_get_None_iff: "obj_get ps k = None \<longleftrightarrow> k \<notin> set (obj_keys ps)"
  by (simp add: map_of_eq_None_iff)

text \<open>
  The interface a client of a JavaScript object relies on: reading after an assignment and after
  a deletion.
\<close>

locale object_store =
  fixes get :: "'m \<Rightarrow> 'k \<Rightarrow> 'v option"
    and put :: "'k \<Rightarrow> 'v \<Rightarrow> 'm \<Rightarrow> 'm"
    and del :: "'k \<Rightarrow> 'm \<Rightarrow> 'm"
  assumes get_put: "get (put k v m) = (get m)(k \<mapsto> v)"
    and get_del: "get (del k m) = (get m)(k := None)"
begin

lemma get_put_same: "get (put k v m) k = Some v"
  by (simp add: get_put)

lemma get_put_other: "k' \<noteq> k \<Longrightarrow> get (put k v m) k' = get m k'"
  by (simp add: get_put)

lemma get_del_same: "get (del k m) k = None"
  by (simp add: get_del)

lemma get_del_other: "k' \<noteq> k \<Longrightarrow> get (del k m) k' = get m k'"
  by (simp add: get_del)

lemma dom_put: "dom (get (put k v m)) = insert k (dom (get m))"
  by (auto simp: get_put)

lemma dom_del: "dom (get (del k m)) = dom (get m) - {k}"
  by (auto simp: get_del)

lemma get_fold_del: "get (fold del ks m) = (\<lambda>k. if k \<in> set ks then None else get m k)"
  by (induction ks arbitrary: m) (auto simp: get_del)

end

interpretation js_obj: object_store "map_of :: ('k \<times> 'v) list \<Rightarrow> _" obj_set obj_del
  by unfold_locales (simp_all add: obj_get_set obj_get_del)

section \<open>Transition systems\<close>

text \<open>
  The interface of a component that runs step by step: what every step keeps holds in every
  reachable state.
\<close>

locale invariant_system =
  fixes init :: "'s \<Rightarrow> bool"
    and step :: "'s \<Rightarrow> 's \<Rightarrow> bool"
    and inv :: "'s \<Rightarrow> bool"
  assumes inv_init: "init s \<Longrightarrow> inv s"
    and inv_step: "step s t \<Longrightarrow> inv s \<Longrightarrow> inv t"
begin

lemma inv_steps: "rtranclp step s t \<Longrightarrow> inv s \<Longrightarrow> inv t"
  by (induction rule: rtranclp_induct) (auto intro: inv_step)

lemma inv_reachable: "init s \<Longrightarrow> rtranclp step s t \<Longrightarrow> inv t"
  by (blast intro: inv_init inv_steps)

end

section \<open>UTF-8 of Latin-1 code units\<close>

definition utf8_char :: "char \<Rightarrow> bytes" where
  "utf8_char c = (let n = (of_char c :: nat) in
     if n < 128 then [of_nat n] else [of_nat (192 + n div 64), of_nat (128 + n mod 64)])"

definition utf8 :: "string \<Rightarrow> bytes" where
  "utf8 s = concat (map utf8_char s)"

lemma of_char_lt_256: "(of_char c :: nat) < 256"
  by (metis nat_of_char_less_256)

lemma unat_of_nat_byte: "n < 256 \<Longrightarrow> unat (of_nat n :: byte) = n"
  by (simp add: unat_of_nat)

lemma of_nat_byte_inj: "a < 256 \<Longrightarrow> b < 256 \<Longrightarrow> (of_nat a :: byte) = of_nat b \<longleftrightarrow> a = b"
  by (metis unat_of_nat_byte)

lemma utf8_char_append_inj:
  assumes "utf8_char c @ xs = utf8_char d @ ys"
  shows "c = d \<and> xs = ys"
proof -
  let ?m = "of_char c :: nat" and ?n = "of_char d :: nat"
  have lt: "?m < 256" "?n < 256" by (rule of_char_lt_256)+
  have q: "192 + k div 64 < 256" if "k < 256" for k :: nat
    using that by (simp add: div_less_iff_less_mult)
  have "?m = ?n \<and> xs = ys"
  proof (cases "?m < 128"; cases "?n < 128")
    assume a: "?m < 128" "?n < 128"
    with assms show ?thesis by (auto simp: utf8_char_def Let_def of_nat_byte_inj)
  next
    assume a: "?m < 128" "\<not> ?n < 128"
    with assms have "(of_nat ?m :: byte) = of_nat (192 + ?n div 64)"
      by (simp add: utf8_char_def Let_def)
    moreover have "192 + ?n div 64 < 256" by (rule q [OF lt(2)])
    ultimately have "?m = 192 + ?n div 64" using lt of_nat_byte_inj by blast
    with a show ?thesis by simp
  next
    assume a: "\<not> ?m < 128" "?n < 128"
    with assms have "(of_nat (192 + ?m div 64) :: byte) = of_nat ?n"
      by (simp add: utf8_char_def Let_def)
    moreover have "192 + ?m div 64 < 256" by (rule q [OF lt(1)])
    ultimately have "192 + ?m div 64 = ?n" using lt of_nat_byte_inj by blast
    with a show ?thesis by simp
  next
    assume a: "\<not> ?m < 128" "\<not> ?n < 128"
    with assms have e: "(of_nat (192 + ?m div 64) :: byte) = of_nat (192 + ?n div 64)"
        "(of_nat (128 + ?m mod 64) :: byte) = of_nat (128 + ?n mod 64)" "xs = ys"
      by (simp_all add: utf8_char_def Let_def del: of_nat_add)
    have b: "192 + ?m div 64 < 256" "192 + ?n div 64 < 256" by (rule q [OF lt(1)], rule q [OF lt(2)])
    have r: "?m mod 64 < 64" "?n mod 64 < 64" by simp_all
    then have b': "128 + ?m mod 64 < 256" "128 + ?n mod 64 < 256" by linarith+
    have "192 + ?m div 64 = 192 + ?n div 64"
      using e(1) b of_nat_byte_inj by blast
    moreover have "128 + ?m mod 64 = 128 + ?n mod 64"
      using e(2) b' of_nat_byte_inj by blast
    ultimately have "?m = ?n" by (metis add_left_imp_eq div_mult_mod_eq)
    with e(3) show ?thesis by simp
  qed
  then show ?thesis by (metis char_of_char)
qed

lemma utf8_char_nonempty [simp]: "utf8_char c \<noteq> []"
  by (simp add: utf8_char_def Let_def)

lemma utf8_inj: "utf8 s = utf8 t \<longleftrightarrow> s = t"
proof
  assume "utf8 s = utf8 t"
  then show "s = t"
  proof (induction s arbitrary: t)
    case Nil
    then show ?case by (cases t) (auto simp: utf8_def)
  next
    case (Cons c s)
    then obtain d t' where t: "t = d # t'" by (cases t) (auto simp: utf8_def)
    have "utf8_char c @ utf8 s = utf8_char d @ utf8 t'"
      using Cons.prems t by (simp add: utf8_def)
    then have "c = d \<and> utf8 s = utf8 t'" by (rule utf8_char_append_inj)
    with Cons.IH t show ?case by simp
  qed
qed simp

end
