(* ===== verification/JSON_Value.thy ===== *)
theory JSON_Value
  imports JS_Prelude
begin

text \<open>
  JSON-like dynamic values with the operators the sources apply to them (truthiness, \<open>||\<close>,
  \<open>??\<close>, optional property access) and \<open>JSON.stringify\<close>. Numbers are rendered for integral finite
  values; NaN and the infinities become \<open>null\<close> as in ECMAScript.
\<close>

datatype jsv =
    JUndef
  | JNull
  | JBool bool
  | JNum jsnum
  | JStr string
  | JArr "jsv list"
  | JObj "(string \<times> jsv) list"

fun truthy :: "jsv \<Rightarrow> bool" where
  "truthy JUndef = False"
| "truthy JNull = False"
| "truthy (JBool b) = b"
| "truthy (JNum n) = (n \<noteq> NaN \<and> n \<noteq> Fin 0)"
| "truthy (JStr s) = (s \<noteq> [])"
| "truthy (JArr _) = True"
| "truthy (JObj _) = True"

definition js_or :: "jsv \<Rightarrow> jsv \<Rightarrow> jsv" where
  "js_or a b = (if truthy a then a else b)"

fun is_nullish :: "jsv \<Rightarrow> bool" where
  "is_nullish JUndef = True"
| "is_nullish JNull = True"
| "is_nullish _ = False"

definition js_nullish :: "jsv \<Rightarrow> jsv \<Rightarrow> jsv" where
  "js_nullish a b = (if is_nullish a then b else a)"

fun is_plain_object :: "jsv \<Rightarrow> bool" where
  "is_plain_object (JObj _) = True"
| "is_plain_object _ = False"

text \<open>\<open>v && typeof v === 'object'\<close>: objects and arrays.\<close>

fun is_objectlike :: "jsv \<Rightarrow> bool" where
  "is_objectlike (JObj _) = True"
| "is_objectlike (JArr _) = True"
| "is_objectlike _ = False"

text \<open>\<open>v?.name\<close> for a property name that is not an array index.\<close>

fun getp :: "jsv \<Rightarrow> string \<Rightarrow> jsv" where
  "getp (JObj ps) k = (case map_of ps k of None \<Rightarrow> JUndef | Some v \<Rightarrow> v)"
| "getp _ _ = JUndef"

fun members :: "jsv \<Rightarrow> (string \<times> jsv) list" where
  "members (JObj ps) = ps"
| "members _ = []"

fun str_of :: "jsv \<Rightarrow> string option" where
  "str_of (JStr s) = Some s"
| "str_of _ = None"

text \<open>\<open>typeof v\<close>.\<close>

fun js_typeof :: "jsv \<Rightarrow> string" where
  "js_typeof JUndef = ''undefined''"
| "js_typeof JNull = ''object''"
| "js_typeof (JBool _) = ''boolean''"
| "js_typeof (JNum _) = ''number''"
| "js_typeof (JStr _) = ''string''"
| "js_typeof (JArr _) = ''object''"
| "js_typeof (JObj _) = ''object''"

text \<open>\<open>{ ...base, ...over }\<close>: later members win and keep the earlier position.\<close>

definition spread :: "(string \<times> jsv) list \<Rightarrow> (string \<times> jsv) list \<Rightarrow> (string \<times> jsv) list" where
  "spread base over = fold (\<lambda>(k, v) acc. obj_set k v acc) over base"

lemma map_of_spread: "distinct (map fst over) \<Longrightarrow>
  map_of (spread base over) k = (case map_of over k of Some v \<Rightarrow> Some v | None \<Rightarrow> map_of base k)"
proof (induction over arbitrary: base)
  case Nil
  then show ?case by (simp add: spread_def)
next
  case (Cons p over)
  obtain a b where p: "p = (a, b)" by (cases p)
  have ih: "map_of (spread (obj_set a b base) over) k =
      (case map_of over k of Some v \<Rightarrow> Some v | None \<Rightarrow> map_of (obj_set a b base) k)"
    using Cons by simp
  have "a \<notin> fst ` set over" using Cons.prems p by auto
  then have "map_of over a = None" by (simp add: map_of_eq_None_iff)
  then show ?case using ih p
    by (auto simp: spread_def obj_get_set split: option.splits)
qed

text \<open>Own entries of a spread operand: an array and a string contribute their indices.\<close>

fun own_entries :: "jsv \<Rightarrow> (string \<times> jsv) list" where
  "own_entries (JObj ps) = ps"
| "own_entries (JArr vs) = zip (map show_nat [0..<length vs]) vs"
| "own_entries (JStr s) = zip (map show_nat [0..<length s]) (map (\<lambda>c. JStr [c]) s)"
| "own_entries _ = []"

text \<open>\<open>Number(v)\<close>: null is 0, undefined is NaN, a one-element array converts as its element.\<close>

function (sequential) js_to_number :: "jsv \<Rightarrow> jsnum" where
  "js_to_number JUndef = NaN"
| "js_to_number JNull = Fin 0"
| "js_to_number (JBool b) = (if b then Fin 1 else Fin 0)"
| "js_to_number (JNum n) = n"
| "js_to_number (JStr s) = js_number s"
| "js_to_number (JArr []) = Fin 0"
| "js_to_number (JArr [JUndef]) = Fin 0"
| "js_to_number (JArr [JBool b]) = NaN"
| "js_to_number (JArr [v]) = js_to_number v"
| "js_to_number (JArr _) = NaN"
| "js_to_number (JObj _) = NaN"
  by pat_completeness auto
termination by (relation "measure size") auto

text \<open>\<open>String(v)\<close>: an array joins its elements with commas, null and undefined elements being empty.\<close>

fun js_string :: "jsv \<Rightarrow> string" where
  "js_string JUndef = ''undefined''"
| "js_string JNull = ''null''"
| "js_string (JBool b) = (if b then ''true'' else ''false'')"
| "js_string (JNum (Fin i)) = show_int i"
| "js_string (JNum NaN) = ''NaN''"
| "js_string (JNum PosInf) = ''Infinity''"
| "js_string (JNum NegInf) = ''-Infinity''"
| "js_string (JStr s) = s"
| "js_string (JArr vs) = js_join '','' (map (\<lambda>v. if is_nullish v then [] else js_string v) vs)"
| "js_string (JObj ps) = ''[object Object]''"

section \<open>JSON.stringify\<close>

definition hex_digit :: "nat \<Rightarrow> char" where
  "hex_digit d = (if d < 10 then char_of (48 + d) else char_of (87 + d))"

definition json_char :: "char \<Rightarrow> string" where
  "json_char c = (let n = (of_char c :: nat) in
     if n = 34 then [char_of (92::nat), c]
     else if n = 92 then [char_of (92::nat), c]
     else if n = 8 then [char_of (92::nat), CHR ''b'']
     else if n = 9 then [char_of (92::nat), CHR ''t'']
     else if n = 10 then [char_of (92::nat), CHR ''n'']
     else if n = 12 then [char_of (92::nat), CHR ''f'']
     else if n = 13 then [char_of (92::nat), CHR ''r'']
     else if n < 32 then [char_of (92::nat), CHR ''u'', CHR ''0'', CHR ''0'', hex_digit (n div 16), hex_digit (n mod 16)]
     else [c])"

definition json_string :: "string \<Rightarrow> string" where
  "json_string s = [char_of (34::nat)] @ concat (map json_char s) @ [char_of (34::nat)]"

fun json_num :: "jsnum \<Rightarrow> string" where
  "json_num (Fin i) = show_int i"
| "json_num _ = ''null''"

function (sequential) stringify :: "jsv \<Rightarrow> string"
  and stringify_items :: "jsv list \<Rightarrow> string list"
  and stringify_members :: "(string \<times> jsv) list \<Rightarrow> string list" where
  "stringify JUndef = ''null''"
| "stringify JNull = ''null''"
| "stringify (JBool b) = (if b then ''true'' else ''false'')"
| "stringify (JNum n) = json_num n"
| "stringify (JStr s) = json_string s"
| "stringify (JArr vs) = ''['' @ js_join '','' (stringify_items vs) @ '']''"
| "stringify (JObj ps) = ''{'' @ js_join '','' (stringify_members ps) @ ''}''"
| "stringify_items [] = []"
| "stringify_items (v # vs) = stringify v # stringify_items vs"
| "stringify_members [] = []"
| "stringify_members ((k, v) # ps) =
     (if v = JUndef then stringify_members ps
      else (json_string k @ '':'' @ stringify v) # stringify_members ps)"
  by pat_completeness auto
termination
  by (relation "measure (\<lambda>x. case x of Inl v \<Rightarrow> size v | Inr (Inl vs) \<Rightarrow> size_list size vs
        | Inr (Inr ps) \<Rightarrow> size_list (size_prod (\<lambda>_. 0) size) ps)")
    auto

text \<open>\<open>JSON.stringify(v)\<close>: \<open>undefined\<close> for an undefined argument.\<close>

definition json_stringify :: "jsv \<Rightarrow> string option" where
  "json_stringify v = (if v = JUndef then None else Some (stringify v))"

end
