(* ===== verification/Relayer_Strings.thy ===== *)
theory Relayer_Strings
  imports JSON_Value
begin

text \<open>
  \<^verbatim>\<open>workers/morpheus-relayer/src/lib/strings.js\<close>: the strict string helpers of the relayer and
  the canonical request-type normalisation, with the facts that make the token canonical (it has
  no white space, no hyphen, no upper-case letter, and normalising twice changes nothing).
\<close>

definition trimString :: "jsv \<Rightarrow> string" where
  "trimString v = (case v of JStr s \<Rightarrow> js_trim s | _ \<Rightarrow> [])"

definition is_sep :: "char \<Rightarrow> bool" where
  "is_sep c \<longleftrightarrow> is_ws c \<or> (of_char c :: nat) = 45"

text \<open>\<open>s.replace(/[\s-]+/g, '_')\<close>.\<close>

function collapse_seps :: "string \<Rightarrow> string" where
  "collapse_seps [] = []"
| "collapse_seps (c # cs) =
     (if is_sep c then CHR ''_'' # collapse_seps (dropWhile is_sep cs) else c # collapse_seps cs)"
  by pat_completeness auto
termination
  by (relation "measure length") (auto simp: length_dropWhile_le less_Suc_eq_le)

definition normalizeRequestType :: "jsv \<Rightarrow> string" where
  "normalizeRequestType v = collapse_seps (to_lower (trimString v))"

text \<open>The number after \<open>Number(value)\<close>; \<open>Math.trunc\<close> is the identity on integral values.\<close>

definition parseNonNegativeInteger :: "jsnum \<Rightarrow> int" where
  "parseNonNegativeInteger n = (case n of Fin i \<Rightarrow> if i < 0 then 0 else i | _ \<Rightarrow> 0)"

definition strip0x :: "jsv \<Rightarrow> string" where
  "strip0x v = (let s = trimString v in
     case s of a # b # r \<Rightarrow> if a = CHR ''0'' \<and> (b = CHR ''x'' \<or> b = CHR ''X'') then r else s | _ \<Rightarrow> s)"

abbreviation normalize :: "string \<Rightarrow> string" where
  "normalize s \<equiv> normalizeRequestType (JStr s)"

section \<open>Normalisation\<close>

definition canonical_char :: "char \<Rightarrow> bool" where
  "canonical_char c \<longleftrightarrow> \<not> is_sep c \<and> lower_char c = c"

lemma lower_char_idem [simp]: "lower_char (lower_char c) = lower_char c"
proof -
  let ?n = "of_char c :: nat"
  have "?n < 256" by (rule of_char_lt_256)
  then show ?thesis by (auto simp: lower_char_def Let_def)
qed

lemma is_sep_lower [simp]: "is_sep (lower_char c) = is_sep c"
proof -
  let ?n = "of_char c :: nat"
  have "?n < 256" by (rule of_char_lt_256)
  then show ?thesis
    by (auto simp: lower_char_def is_sep_def is_ws_def Let_def)
qed

lemma canonical_underscore: "canonical_char CHR ''_''"
  by (simp add: canonical_char_def is_sep_def is_ws_def lower_char_def)

lemma collapse_canonical:
  "\<forall>c \<in> set s. lower_char c = c \<Longrightarrow> \<forall>c \<in> set (collapse_seps s). canonical_char c"
proof (induction s rule: collapse_seps.induct)
  case 1
  then show ?case by simp
next
  case (2 c cs)
  then have tail: "\<forall>d \<in> set (dropWhile is_sep cs). lower_char d = d"
    by (auto dest: set_dropWhileD)
  show ?case
  proof (cases "is_sep c")
    case True
    then have "\<forall>d \<in> set (collapse_seps (dropWhile is_sep cs)). canonical_char d"
      using "2.IH"(1) tail by blast
    with True show ?thesis by (simp add: canonical_underscore)
  next
    case False
    then have "\<forall>d \<in> set (collapse_seps cs). canonical_char d"
      using "2.IH"(2) "2.prems" by simp
    with False "2.prems" show ?thesis by (simp add: canonical_char_def)
  qed
qed

lemma collapse_id: "\<forall>c \<in> set s. canonical_char c \<Longrightarrow> collapse_seps s = s"
  by (induction s) (auto simp: canonical_char_def)

lemma canonical_not_ws: "canonical_char c \<Longrightarrow> \<not> is_ws c"
  by (simp add: canonical_char_def is_sep_def)

lemma to_lower_id: "\<forall>c \<in> set s. canonical_char c \<Longrightarrow> to_lower s = s"
  by (simp add: to_lower_def canonical_char_def map_idI)

lemma normalize_canonical: "c \<in> set (normalizeRequestType v) \<Longrightarrow> canonical_char c"
  using collapse_canonical [of "to_lower (trimString v)"]
  by (auto simp: normalizeRequestType_def to_lower_def)

lemma normalize_fixed: "\<forall>c \<in> set s. canonical_char c \<Longrightarrow> normalize s = s"
  by (simp add: normalizeRequestType_def trimString_def js_trim_no_ws canonical_not_ws
      to_lower_id collapse_id)

lemma normalize_idem [simp]: "normalize (normalizeRequestType v) = normalizeRequestType v"
  by (rule normalize_fixed) (blast intro: normalize_canonical)

lemma normalize_trim: "normalize (js_trim s) = normalize s"
  by (simp add: normalizeRequestType_def trimString_def)

lemma parseNonNegativeInteger_nonneg: "0 \<le> parseNonNegativeInteger n"
  by (simp add: parseNonNegativeInteger_def split: jsnum.split)

end
