(* ===== verification/Automation_Supervisor.thy ===== *)
theory Automation_Supervisor
  imports Relayer_Strings
begin

text \<open>
  \<^verbatim>\<open>packages/shared/src/automation-supervisor.js\<close>: how an upkeep job and its execution count give the
  identifiers of the next execution. The source object is a record; an absent or non-string property
  is the empty string, as the strict \<open>trimString\<close> makes it.
\<close>

record upkeep_source =
  us_automation_id :: string
  us_workflow_id :: string
  us_workflow_version :: jsnum
  us_execution_count :: jsnum
  us_chain :: string
  us_execution_id :: string
  us_request_id :: string
  us_idempotency_key :: string
  us_replay_window :: string
  us_delivery_mode :: string

record upkeep_dispatch =
  ud_workflow_id :: string
  ud_workflow_version :: int
  ud_automation_id :: string
  ud_execution_count :: int
  ud_next_execution_count :: int
  ud_execution_id :: string
  ud_request_id :: string
  ud_idempotency_key :: string
  ud_replay_window :: string
  ud_delivery_mode :: string

definition normalizeWorkflowVersion :: "jsnum \<Rightarrow> int" where
  "normalizeWorkflowVersion n = (case n of Fin i \<Rightarrow> if i \<le> 0 then 1 else i | _ \<Rightarrow> 1)"

definition upkeep_request_id :: "string \<Rightarrow> string \<Rightarrow> int \<Rightarrow> string" where
  "upkeep_request_id c automationId n = ''automation:'' @ c @ '':'' @ automationId @ '':'' @ show_int n"

definition buildUpkeepDispatch :: "upkeep_source \<Rightarrow> upkeep_dispatch result" where
  "buildUpkeepDispatch job =
     (let automationId = js_trim (us_automation_id job) in
      if automationId = [] then Inl ''automation_id is required''
      else
        (let workflowId = or_str (js_trim (us_workflow_id job)) ''automation.upkeep'';
             executionCount = parseNonNegativeInteger (us_execution_count job);
             nextExecutionCount = executionCount + 1;
             c = or_str (js_trim (us_chain job)) ''unknown'';
             countId = workflowId @ '':'' @ automationId @ '':'' @ show_int nextExecutionCount
         in Inr
           \<lparr>ud_workflow_id = workflowId,
            ud_workflow_version = normalizeWorkflowVersion (us_workflow_version job),
            ud_automation_id = automationId,
            ud_execution_count = executionCount,
            ud_next_execution_count = nextExecutionCount,
            ud_execution_id = or_str (js_trim (us_execution_id job)) countId,
            ud_request_id = or_str (js_trim (us_request_id job))
              (upkeep_request_id c automationId nextExecutionCount),
            ud_idempotency_key = or_str (js_trim (us_idempotency_key job)) countId,
            ud_replay_window = or_str (js_trim (us_replay_window job)) ''strict'',
            ud_delivery_mode = or_str (js_trim (us_delivery_mode job)) ''onchain_callback''\<rparr>))"

definition buildUpkeepExecutionPayload :: "jsv \<Rightarrow> upkeep_source \<Rightarrow> jsv result" where
  "buildUpkeepExecutionPayload payload job =
     bind_result (buildUpkeepDispatch job) (\<lambda>d. Inr (JObj (spread (members payload)
       [(''automation_id'', JStr (ud_automation_id d)), (''workflow_id'', JStr (ud_workflow_id d)),
        (''workflow_version'', JNum (Fin (ud_workflow_version d))),
        (''execution_id'', JStr (ud_execution_id d)), (''idempotency_key'', JStr (ud_idempotency_key d)),
        (''replay_window'', JStr (ud_replay_window d)), (''delivery_mode'', JStr (ud_delivery_mode d))])))"

section \<open>The request id\<close>

lemma colon_notin_count: "CHR '':'' \<notin> set (show_int n)"
  by (auto dest: show_int_chars)

lemma split_last_colon:
  assumes "a @ CHR '':'' # x = b @ CHR '':'' # y" "CHR '':'' \<notin> set x" "CHR '':'' \<notin> set y"
  shows "a = b \<and> x = y"
proof -
  have "rev x @ CHR '':'' # rev a = rev y @ CHR '':'' # rev b"
    using arg_cong [OF assms(1), of rev] by simp
  then have "rev x = rev y \<and> rev a = rev b" by (rule split_at_char) (use assms in auto)
  then show ?thesis by simp
qed

lemma upkeep_request_id_inj:
  assumes "upkeep_request_id c a m = upkeep_request_id c b n"
  shows "a = b \<and> m = n"
proof -
  have "(''automation:'' @ c @ '':'' @ a) @ CHR '':'' # show_int m
      = (''automation:'' @ c @ '':'' @ b) @ CHR '':'' # show_int n"
    using assms by (simp add: upkeep_request_id_def)
  then have "''automation:'' @ c @ '':'' @ a = ''automation:'' @ c @ '':'' @ b \<and> show_int m = show_int n"
    by (rule split_last_colon) (rule colon_notin_count)+
  then show ?thesis by (simp add: show_int_inj)
qed

lemma dispatch_request_id:
  assumes "buildUpkeepDispatch j = Inr d" "js_trim (us_request_id j) = []"
  shows "ud_request_id d = upkeep_request_id (or_str (js_trim (us_chain j)) ''unknown'')
    (ud_automation_id d) (ud_next_execution_count d)"
  using assms by (auto simp: buildUpkeepDispatch_def Let_def or_str_def [of "[]"] split: if_splits)

text \<open>
  The on-chain request id is a cross-lane deduplication key: for jobs that pin no id of their
  own it is the same for every execution id, workflow and idempotency key a lane may carry, and two
  dispatches on one chain have the same id only for the same automation and the same execution
  number.
\<close>

theorem upkeep_request_id_dedup:
  assumes "buildUpkeepDispatch j = Inr d" "buildUpkeepDispatch k = Inr e"
    and "js_trim (us_request_id j) = []" "js_trim (us_request_id k) = []"
    and "or_str (js_trim (us_chain j)) ''unknown'' = or_str (js_trim (us_chain k)) ''unknown''"
  shows "ud_request_id d = ud_request_id e \<longleftrightarrow>
    ud_automation_id d = ud_automation_id e \<and> ud_next_execution_count d = ud_next_execution_count e"
proof -
  define c where "c = or_str (js_trim (us_chain k)) ''unknown''"
  have "ud_request_id d = upkeep_request_id c (ud_automation_id d) (ud_next_execution_count d)"
    "ud_request_id e = upkeep_request_id c (ud_automation_id e) (ud_next_execution_count e)"
    using dispatch_request_id [OF assms(1,3)] dispatch_request_id [OF assms(2,4)] assms(5)
    unfolding c_def by simp_all
  then show ?thesis by (auto dest: upkeep_request_id_inj)
qed

definition sample_upkeep :: "string \<Rightarrow> int \<Rightarrow> upkeep_source" where
  "sample_upkeep execution_id n = \<lparr>us_automation_id = ''a1'', us_workflow_id = [], us_workflow_version = NaN,
     us_execution_count = Fin n, us_chain = ''neo_n3'', us_execution_id = execution_id, us_request_id = [],
     us_idempotency_key = [], us_replay_window = [], us_delivery_mode = []\<rparr>"

lemma sample_upkeep_dispatch:
  "\<exists>d. buildUpkeepDispatch (sample_upkeep x n) = Inr d \<and> ud_automation_id d = ''a1''
    \<and> ud_next_execution_count d = parseNonNegativeInteger (Fin n) + 1"
proof -
  have "js_trim ''a1'' = ''a1''" by code_simp
  then show ?thesis by (simp add: buildUpkeepDispatch_def sample_upkeep_def Let_def)
qed

theorem upkeep_request_id_dedup_witness:
  "\<exists>d e. buildUpkeepDispatch (sample_upkeep ''edge-42'' 3) = Inr d
     \<and> buildUpkeepDispatch (sample_upkeep [] 3) = Inr e \<and> ud_request_id d = ud_request_id e"
proof -
  obtain d e where de: "buildUpkeepDispatch (sample_upkeep ''edge-42'' 3) = Inr d" "ud_automation_id d = ''a1''"
      "ud_next_execution_count d = parseNonNegativeInteger (Fin 3) + 1"
      "buildUpkeepDispatch (sample_upkeep [] 3) = Inr e" "ud_automation_id e = ''a1''"
      "ud_next_execution_count e = parseNonNegativeInteger (Fin 3) + 1"
    using sample_upkeep_dispatch [of "''edge-42''" 3] sample_upkeep_dispatch [of "[]" 3] by blast
  with upkeep_request_id_dedup [OF de(1) de(4)] show ?thesis by (auto simp: sample_upkeep_def)
qed

end
