(* ===== verification/Router_Intent.thy ===== *)
theory Router_Intent
  imports Relayer_Strings
begin

text \<open>
  Request routing of \<^verbatim>\<open>workers/morpheus-relayer/src/router.js\<close>: the mapping of a request type to
  its kernel module, operation and worker route. The cascade of tests is kept in source order.
\<close>

record kernel_intent =
  ki_legacyRequestType :: string
  ki_moduleId :: string
  ki_operation :: string
  ki_workerRoute :: string
  ki_operatorOnly :: bool

definition mk_intent :: "string \<Rightarrow> string \<Rightarrow> string \<Rightarrow> string \<Rightarrow> bool \<Rightarrow> kernel_intent" where
  "mk_intent legacy m operation route op_only =
     \<lparr>ki_legacyRequestType = legacy, ki_moduleId = m, ki_operation = operation,
      ki_workerRoute = route, ki_operatorOnly = op_only\<rparr>"

definition resolveKernelIntent :: "jsv \<Rightarrow> kernel_intent" where
  "resolveKernelIntent requestType =
     (let normalized = normalizeRequestType requestType in
      if js_includes normalized ''paymaster'' then
        mk_intent normalized ''paymaster.authorize'' (or_str normalized ''authorize'')
          ''/paymaster/authorize'' False
      else if js_includes normalized ''compute'' then
        mk_intent normalized ''compute.run'' (or_str normalized ''compute'')
          ''/compute/execute'' False
      else if js_includes normalized ''feed'' then
        mk_intent normalized ''feed.publish'' (or_str normalized ''feed'') ''/oracle/feed'' True
      else if normalized = ''rng'' \<or> js_includes normalized ''vrf''
           \<or> js_includes normalized ''random'' then
        mk_intent normalized ''random.generate'' (or_str normalized ''random'')
          ''/vrf/random'' False
      else if normalized = ''decrypt'' \<or> js_includes normalized ''decrypt''
           \<or> js_includes normalized ''reveal'' then
        mk_intent normalized ''confidential.decrypt'' (or_str normalized ''decrypt'')
          ''/oracle/decrypt'' False
      else if js_starts_with normalized ''neodid'' then
        (if js_includes normalized ''zklogin'' then
           mk_intent normalized ''identity.verify'' normalized ''/neodid/zklogin-ticket'' False
         else if js_includes normalized ''recovery'' then
           mk_intent normalized ''identity.verify'' normalized ''/neodid/recovery-ticket'' False
         else if js_includes normalized ''action'' then
           mk_intent normalized ''identity.verify'' normalized ''/neodid/action-ticket'' False
         else
           mk_intent normalized ''identity.verify'' (or_str normalized ''neodid_bind'')
             ''/neodid/bind'' False)
      else if js_starts_with normalized ''automation_'' then
        mk_intent normalized ''automation.run'' normalized ''/automation/execute'' False
      else
        mk_intent normalized ''oracle.fetch'' (or_str normalized ''privacy_oracle'')
          ''/oracle/smart-fetch'' False)"

definition isOperatorOnlyRequestType :: "jsv \<Rightarrow> bool" where
  "isOperatorOnlyRequestType v = ki_operatorOnly (resolveKernelIntent v)"

definition resolveWorkerRoute :: "jsv \<Rightarrow> string" where
  "resolveWorkerRoute requestType = ki_workerRoute (resolveKernelIntent requestType)"

abbreviation intent_of :: "string \<Rightarrow> kernel_intent" where
  "intent_of s \<equiv> resolveKernelIntent (JStr s)"

section \<open>Facts about the routing table\<close>

text \<open>The pairs of module and worker route the kernel knows.\<close>

definition kernel_routes :: "(string \<times> string) list" where
  "kernel_routes =
     [(''paymaster.authorize'', ''/paymaster/authorize''),
      (''compute.run'', ''/compute/execute''),
      (''feed.publish'', ''/oracle/feed''),
      (''random.generate'', ''/vrf/random''),
      (''confidential.decrypt'', ''/oracle/decrypt''),
      (''identity.verify'', ''/neodid/zklogin-ticket''),
      (''identity.verify'', ''/neodid/recovery-ticket''),
      (''identity.verify'', ''/neodid/action-ticket''),
      (''identity.verify'', ''/neodid/bind''),
      (''automation.run'', ''/automation/execute''),
      (''oracle.fetch'', ''/oracle/smart-fetch'')]"

lemma mk_intent_sel [simp]:
  "ki_legacyRequestType (mk_intent l m p r b) = l"
  "ki_moduleId (mk_intent l m p r b) = m"
  "ki_operation (mk_intent l m p r b) = p"
  "ki_workerRoute (mk_intent l m p r b) = r"
  "ki_operatorOnly (mk_intent l m p r b) = b"
  by (simp_all add: mk_intent_def)

lemma resolveKernelIntent_legacy:
  "ki_legacyRequestType (resolveKernelIntent v) = normalizeRequestType v"
  by (simp add: resolveKernelIntent_def Let_def)

lemma resolveKernelIntent_cong:
  "normalizeRequestType v = normalizeRequestType w \<Longrightarrow> resolveKernelIntent v = resolveKernelIntent w"
  by (simp only: resolveKernelIntent_def)

lemma resolveKernelIntent_operation_nonempty: "ki_operation (resolveKernelIntent v) \<noteq> []"
proof (cases "normalizeRequestType v = []")
  case True
  then show ?thesis by (simp add: resolveKernelIntent_def Let_def or_str_def js_starts_with_def)
next
  case False
  then show ?thesis by (simp add: resolveKernelIntent_def Let_def or_str_def)
qed

lemma resolveKernelIntent_route_in_table:
  "(ki_moduleId (resolveKernelIntent v), ki_workerRoute (resolveKernelIntent v)) \<in> set kernel_routes"
  by (simp add: resolveKernelIntent_def Let_def kernel_routes_def)

lemma operatorOnly_iff_feed_module:
  "ki_operatorOnly (resolveKernelIntent v) \<longleftrightarrow> ki_moduleId (resolveKernelIntent v) = ''feed.publish''"
  by (simp add: resolveKernelIntent_def Let_def)

text \<open>
  A request type is operator-only exactly when its canonical form mentions a feed and neither a
  paymaster nor a compute request; every other request is open to users.
\<close>

theorem operator_only_lane:
  "isOperatorOnlyRequestType v \<longleftrightarrow>
     js_includes (normalizeRequestType v) ''feed''
     \<and> \<not> js_includes (normalizeRequestType v) ''paymaster''
     \<and> \<not> js_includes (normalizeRequestType v) ''compute''"
  by (simp add: isOperatorOnlyRequestType_def resolveKernelIntent_def Let_def)

text \<open>
  Routing is stable under normalisation and always lands in the kernel's table: the intent of a
  request type is the intent of its canonical form, its legacy type is that canonical form, its
  operation is never empty, and its module and worker route are one of the known pairs.
\<close>

theorem kernel_intent_canonical:
  "resolveKernelIntent (JStr (normalizeRequestType v)) = resolveKernelIntent v
   \<and> ki_legacyRequestType (resolveKernelIntent v) = normalizeRequestType v
   \<and> ki_operation (resolveKernelIntent v) \<noteq> []
   \<and> (ki_moduleId (resolveKernelIntent v), ki_workerRoute (resolveKernelIntent v)) \<in> set kernel_routes"
proof -
  have "resolveKernelIntent (JStr (normalizeRequestType v)) = resolveKernelIntent v"
    by (rule resolveKernelIntent_cong) simp
  then show ?thesis
    by (simp add: resolveKernelIntent_legacy resolveKernelIntent_operation_nonempty
        resolveKernelIntent_route_in_table)
qed

end
