(* ===== verification/Retry_Policy.thy ===== *)
theory Retry_Policy
  imports JS_Prelude
begin

text \<open>
  \<^verbatim>\<open>workers/morpheus-relayer/src/lib/retry.js\<close>: exponential backoff with jitter. The random source
  is an argument (a rational in the half-open unit interval); \<open>Math.round\<close> is rounding half up. The
  arithmetic is exact, which is what doubles compute for millisecond delays below \<open>2^53\<close>.
\<close>

record retry_config =
  retryBaseDelayMs :: int
  retryMaxDelayMs :: int

definition js_round :: "rat \<Rightarrow> int" where
  "js_round x = \<lfloor>x + 1 / 2\<rfloor>"

definition retry_ceiling :: "('a retry_config_scheme) \<Rightarrow> int \<Rightarrow> int" where
  "retry_ceiling config attempts =
     min (retryBaseDelayMs config * 2 ^ nat (max (attempts - 1) 0)) (retryMaxDelayMs config)"

definition computeRetryDelayMs :: "('a retry_config_scheme) \<Rightarrow> int \<Rightarrow> rat \<Rightarrow> int" where
  "computeRetryDelayMs config attempts rng =
     (let ceiling = retry_ceiling config attempts;
          jitterFactor = 1 / 2 + 1 / 2 * rng
      in js_round (of_int ceiling * jitterFactor))"

lemma js_round_mono: "x \<le> y \<Longrightarrow> js_round x \<le> js_round y"
  by (simp add: js_round_def floor_mono)

lemma js_round_int [simp]: "js_round (of_int i) = i"
proof -
  have "\<lfloor>(of_int i :: rat) + 1 / 2\<rfloor> = i" by linarith
  then show ?thesis by (simp add: js_round_def)
qed

lemma retry_ceiling_nonneg:
  "0 \<le> retryBaseDelayMs c \<Longrightarrow> 0 \<le> retryMaxDelayMs c \<Longrightarrow> 0 \<le> retry_ceiling c a"
  by (simp add: retry_ceiling_def)

lemma retry_ceiling_le_max: "retry_ceiling c a \<le> retryMaxDelayMs c"
  by (simp add: retry_ceiling_def)

lemma retry_ceiling_mono:
  assumes "0 \<le> retryBaseDelayMs c" and "a \<le> b"
  shows "retry_ceiling c a \<le> retry_ceiling c b"
proof -
  have "(2::int) ^ nat (max (a - 1) 0) \<le> 2 ^ nat (max (b - 1) 0)"
    by (rule power_increasing) (use assms(2) in auto)
  then have "retryBaseDelayMs c * 2 ^ nat (max (a - 1) 0) \<le> retryBaseDelayMs c * 2 ^ nat (max (b - 1) 0)"
    by (rule mult_left_mono) (rule assms(1))
  then show ?thesis by (auto simp: retry_ceiling_def)
qed

lemma computeRetryDelayMs_upper:
  assumes "0 \<le> retryBaseDelayMs c" "0 \<le> retryMaxDelayMs c" "0 \<le> r" "r \<le> 1"
  shows "computeRetryDelayMs c a r \<le> retry_ceiling c a"
proof -
  have "(of_int (retry_ceiling c a) :: rat) * (1 / 2 + 1 / 2 * r) \<le> of_int (retry_ceiling c a) * 1"
    by (rule mult_left_mono) (use assms retry_ceiling_nonneg in auto)
  then have "js_round (of_int (retry_ceiling c a) * (1 / 2 + 1 / 2 * r)) \<le> js_round (of_int (retry_ceiling c a))"
    by (intro js_round_mono) simp
  then show ?thesis by (simp add: computeRetryDelayMs_def Let_def)
qed

lemma computeRetryDelayMs_lower:
  assumes "0 \<le> retryBaseDelayMs c" "0 \<le> retryMaxDelayMs c" "0 \<le> r"
  shows "retry_ceiling c a \<le> 2 * computeRetryDelayMs c a r"
proof -
  let ?c = "of_int (retry_ceiling c a) :: rat"
  have "?c * (1 / 2) \<le> ?c * (1 / 2 + 1 / 2 * r)"
    by (rule mult_left_mono) (use assms retry_ceiling_nonneg in auto)
  then have "js_round (?c * (1 / 2)) \<le> computeRetryDelayMs c a r"
    by (simp only: computeRetryDelayMs_def Let_def js_round_mono)
  moreover have "retry_ceiling c a \<le> 2 * js_round (?c * (1 / 2))"
    unfolding js_round_def by linarith
  ultimately show ?thesis by linarith
qed

lemma computeRetryDelayMs_nonneg:
  assumes "0 \<le> retryBaseDelayMs c" "0 \<le> retryMaxDelayMs c" "0 \<le> r"
  shows "0 \<le> computeRetryDelayMs c a r"
  using computeRetryDelayMs_lower [OF assms, of a] retry_ceiling_nonneg [OF assms(1,2), of a]
  by linarith

text \<open>
  Every retry delay lies between half the backoff ceiling and the ceiling, the ceiling never
  passes the configured maximum, and it never shrinks as the attempt count grows.
\<close>

theorem retry_delay_bounds:
  assumes "0 \<le> retryBaseDelayMs c" "0 \<le> retryMaxDelayMs c" "0 \<le> r" "r < 1" "a \<le> b"
  shows "retry_ceiling c a \<le> 2 * computeRetryDelayMs c a r
    \<and> computeRetryDelayMs c a r \<le> retry_ceiling c a
    \<and> retry_ceiling c a \<le> retryMaxDelayMs c
    \<and> retry_ceiling c a \<le> retry_ceiling c b"
  using assms by (simp add: computeRetryDelayMs_lower computeRetryDelayMs_upper
      retry_ceiling_le_max retry_ceiling_mono)

theorem retry_delay_bounds_witness:
  "retry_ceiling \<lparr>retryBaseDelayMs = 1000, retryMaxDelayMs = 30000\<rparr> 3 = 4000
   \<and> 4000 \<le> 2 * computeRetryDelayMs \<lparr>retryBaseDelayMs = 1000, retryMaxDelayMs = 30000\<rparr> 3 (1 / 4)
   \<and> computeRetryDelayMs \<lparr>retryBaseDelayMs = 1000, retryMaxDelayMs = 30000\<rparr> 3 (1 / 4) \<le> 4000"
  using retry_delay_bounds [of "\<lparr>retryBaseDelayMs = 1000, retryMaxDelayMs = 30000\<rparr>" "1 / 4" 3 5]
  by (simp add: retry_ceiling_def)

end
