(* ===== verification/Relayer_Types.thy ===== *)
theory Relayer_Types
  imports Router_Intent Retry_Policy
begin

text \<open>
  The data of the relayer: chains, on-chain request events, prepared fulfillments, retry items,
  processed records, dead letters, the per-chain and the whole state of
  \<^verbatim>\<open>workers/morpheus-relayer/src/state.js\<close>, and the configuration the operations read.

  String fields the code reads with \<open>x || ''\<close> or \<open>x ?? ''\<close> are strings (absent is the empty string);
  fields it tests for null are options. ISO time stamps are the clock value they were made from.
\<close>

section \<open>Chains\<close>

text \<open>\<open>RELAYER_CHAINS\<close>.\<close>

datatype chain = Neo_N3 | NeoX

fun chain_name :: "chain \<Rightarrow> string" where
  "chain_name Neo_N3 = ''neo_n3''"
| "chain_name NeoX = ''neox''"

instantiation chain :: enum
begin

definition enum_chain :: "chain list" where
  "enum_chain = [Neo_N3, NeoX]"

definition enum_all_chain :: "(chain \<Rightarrow> bool) \<Rightarrow> bool" where
  "enum_all_chain P \<longleftrightarrow> P Neo_N3 \<and> P NeoX"

definition enum_ex_chain :: "(chain \<Rightarrow> bool) \<Rightarrow> bool" where
  "enum_ex_chain P \<longleftrightarrow> P Neo_N3 \<or> P NeoX"

instance
proof
  show "(UNIV :: chain set) = set enum_class.enum"
    using chain.exhaust by (auto simp: enum_chain_def)
  show "distinct (enum_class.enum :: chain list)"
    by (simp add: enum_chain_def)
  show "enum_class.enum_all P \<longleftrightarrow> Ball (UNIV :: chain set) P" for P
    by (metis (full_types) UNIV_I chain.exhaust enum_all_chain_def)
  show "enum_class.enum_ex P \<longleftrightarrow> Bex (UNIV :: chain set) P" for P
    by (metis (full_types) UNIV_I chain.exhaust enum_ex_chain_def)
qed

end

lemma chain_name_inj: "chain_name a = chain_name b \<longleftrightarrow> a = b"
  by (cases a; cases b) auto

section \<open>Events and fulfillments\<close>

record oracle_event =
  ev_chain :: chain
  ev_requestId :: string
  ev_requestType :: string
  ev_appId :: string
  ev_moduleId :: string
  ev_operation :: string
  ev_requester :: string
  ev_callbackContract :: string
  ev_callbackMethod :: string
  ev_payloadText :: string
  ev_messageId :: string
  ev_createdAtMs :: int
  ev_txHash :: string
  ev_logIndex :: "int option"
  ev_blockNumber :: "int option"

record prepared_fulfillment =
  pf_success :: bool
  pf_result :: string
  pf_result_bytes_base64 :: string
  pf_error :: string
  pf_route :: string
  pf_module_id :: string
  pf_operation :: string
  pf_worker_status :: "int option"
  pf_worker_response :: "jsv option"
  pf_verification_signature :: string
  pf_trust_tier :: string

section \<open>Per-chain state\<close>

record retry_item =
  ri_key :: string
  ri_event :: oracle_event
  ri_attempts :: int
  ri_next_retry_at :: millis
  ri_first_failed_at :: millis
  ri_updated_at :: millis
  ri_last_error :: "string option"
  ri_manual_action :: "string option"
  ri_finalize_only :: bool
  ri_terminal_error :: "string option"
  ri_prepared :: "prepared_fulfillment option"
  ri_durable_claimed :: bool

text \<open>The \<open>meta\<close> argument of \<open>recordProcessedEvent\<close>.\<close>

record proc_meta =
  pm_attempts :: "int option"
  pm_route :: "string option"
  pm_module_id :: "string option"
  pm_operation :: "string option"
  pm_last_error :: "string option"
  pm_terminal_error :: "string option"
  pm_fulfill_tx :: "jsv option"
  pm_worker_status :: "int option"
  pm_request_age_ms :: "int option"
  pm_total_duration_ms :: "int option"
  pm_durations_ms :: "int option"

definition no_meta :: proc_meta where
  "no_meta = \<lparr>pm_attempts = None, pm_route = None, pm_module_id = None, pm_operation = None,
     pm_last_error = None, pm_terminal_error = None, pm_fulfill_tx = None, pm_worker_status = None,
     pm_request_age_ms = None, pm_total_duration_ms = None, pm_durations_ms = None\<rparr>"

record processed_record =
  pr_key :: string
  pr_status :: string
  pr_request_id :: string
  pr_request_type :: string
  pr_module_id :: string
  pr_operation :: string
  pr_tx_hash :: string
  pr_block_number :: int
  pr_completed_at :: millis
  pr_meta :: proc_meta

record dead_letter =
  dl_key :: string
  dl_request_id :: string
  dl_request_type :: string
  dl_module_id :: string
  dl_operation :: string
  dl_chain :: chain
  dl_event :: oracle_event
  dl_exhausted_at :: millis
  dl_shed_reason :: "string option"
  dl_meta :: proc_meta

record chain_state =
  last_block :: "jsnum option"
  last_request_id :: "jsnum option"
  last_discovery_at :: millis
  idle_discovery_skips :: int
  processed_records :: "(string \<times> processed_record) list"
  processed_order :: "string list"
  retry_queue :: "retry_item list"
  dead_letters :: "dead_letter list"

section \<open>Relayer state\<close>

record relayer_state =
  version :: int
  updated_at :: "millis option"
  chain_states :: "chain \<Rightarrow> chain_state"
  counters :: "(string \<times> int) list"
  labeled_failures :: "(string \<times> int) list"
  last_feed_sync_started_at :: "millis option"
  last_feed_sync_completed_at :: "millis option"
  last_feed_sync_success_at :: "millis option"
  last_feed_sync_duration_ms :: "int option"
  last_tick_started_at :: "millis option"
  last_tick_completed_at :: "millis option"
  last_tick_duration_ms :: "int option"
  last_run_snapshot_persisted_at :: "millis option"
  last_run_snapshot_error_at :: "millis option"
  last_fulfill_latency_ms :: "int option"

section \<open>Configuration\<close>

text \<open>
  The options the operations of the relayer read. \<^verbatim>\<open>config.js\<close> clamps every limit to a
  non-negative number, so limits are natural numbers; 0 or absent selects the documented default.
\<close>

record relayer_config = retry_config +
  maxRetries :: int
  maxCallbackRetries :: jsnum
  processedCacheSize :: nat
  deadLetterLimit :: nat
  retryQueueLimit :: nat
  maxBlocksPerTick :: int
  maxFreshEventsPerTick :: nat
  maxRetryEventsPerTick :: nat
  deferDelayMs :: int
  discoveryIdleBackoffMs :: int
  confirmations :: "chain \<Rightarrow> int"
  startBlocks :: "chain \<Rightarrow> jsnum option"
  startRequestIds :: "chain \<Rightarrow> jsnum option"
  mode :: string
  durableQueueEnabled :: bool
  durableQueueFailClosed :: bool
  allowLocalClaimDuringBackoff :: bool
  staleProcessingMs :: int
  durableSyncLimit :: int
  enclaveFulfill :: bool
  instanceId :: string

text \<open>\<open>n || d\<close> on a limit.\<close>

definition or_nat :: "nat \<Rightarrow> nat \<Rightarrow> nat" where
  "or_nat n d = (if n = 0 then d else n)"

lemma or_nat_pos [simp]: "0 < d \<Longrightarrow> 0 < or_nat n d"
  by (simp add: or_nat_def)

definition upd_chain :: "chain \<Rightarrow> (chain_state \<Rightarrow> chain_state) \<Rightarrow> relayer_state \<Rightarrow> relayer_state" where
  "upd_chain c f s = s\<lparr>chain_states := (chain_states s)(c := f (chain_states s c))\<rparr>"

lemma upd_chain_sel [simp]:
  "chain_states (upd_chain c f s) = (chain_states s)(c := f (chain_states s c))"
  "counters (upd_chain c f s) = counters s"
  "labeled_failures (upd_chain c f s) = labeled_failures s"
  by (simp_all add: upd_chain_def)

end
