(* ===== verification/Supabase_Backoff.thy ===== *)
theory Supabase_Backoff
  imports Relayer_Strings
begin

text \<open>
  The persistence backoff of \<^verbatim>\<open>workers/morpheus-relayer/src/persistence.js\<close>: how a Supabase failure
  is classified and for how long the relayer then leaves the database alone. The module-level
  variables are the record \<open>supa_backoff\<close>; the two window lengths are the resolved environment.
\<close>

record supa_backoff =
  backoffUntilMs :: millis
  backoffReason :: string

record supa_env =
  supabaseBackoffMs :: int
  supabaseTransientBackoffMs :: int

definition no_backoff :: supa_backoff where
  "no_backoff = \<lparr>backoffUntilMs = 0, backoffReason = []\<rparr>"

text \<open>\<open>Number.isFinite(parsed) && parsed > 0 ? parsed : d\<close>.\<close>

definition positive_or :: "jsnum \<Rightarrow> int \<Rightarrow> int" where
  "positive_or n d = (case n of Fin i \<Rightarrow> if i > 0 then i else d | _ \<Rightarrow> d)"

definition resolveSupabaseBackoffMs :: "jsnum \<Rightarrow> int" where
  "resolveSupabaseBackoffMs raw = positive_or raw 300000"

definition resolveSupabaseTransientBackoffMs :: "jsnum \<Rightarrow> int" where
  "resolveSupabaseTransientBackoffMs raw = positive_or raw 30000"

definition includes_any :: "string list \<Rightarrow> string \<Rightarrow> bool" where
  "includes_any needles s = list_ex (js_includes s) needles"

definition isSupabaseQuotaRestrictedError :: "string \<Rightarrow> bool" where
  "isSupabaseQuotaRestrictedError msg = includes_any
     [''exceed_db_size_quota'', ''database size quota'', ''quota exceeded'', ''402 payment required'',
      ''failed: 402''] (to_lower msg)"

definition isSupabaseConnectivityError :: "string \<Rightarrow> bool" where
  "isSupabaseConnectivityError msg =
     (if isSupabaseQuotaRestrictedError msg then False
      else includes_any
        [''pgrst002'', ''schema cache'', ''failed: 503'', ''failed: 502'', ''failed: 504'', '' 503 '',
         '' 502 '', '' 504 '', ''timed out'', ''timeout'', ''econnreset'', ''econnrefused'',
         ''eauthquery'', ''connection to database not available'', ''fetch failed'', ''network'',
         ''unavailable''] (to_lower msg))"

definition markSupabasePersistenceUnavailable ::
  "supa_env \<Rightarrow> string \<Rightarrow> millis \<Rightarrow> supa_backoff \<Rightarrow> bool \<times> supa_backoff" where
  "markSupabasePersistenceUnavailable env msg nowMs b =
     (if isSupabaseQuotaRestrictedError msg then
        (True, \<lparr>backoffUntilMs = max (backoffUntilMs b) (nowMs + supabaseBackoffMs env),
                backoffReason = ''quota_restricted''\<rparr>)
      else if isSupabaseConnectivityError msg then
        (let nextUntil = nowMs + supabaseTransientBackoffMs env in
         (True, if nextUntil > backoffUntilMs b
                then \<lparr>backoffUntilMs = nextUntil,
                      backoffReason = (if backoffReason b \<noteq> ''quota_restricted'' then ''connectivity''
                                       else backoffReason b)\<rparr>
                else b))
      else (False, b))"

record backoff_view =
  bv_active :: bool
  bv_reason :: "string option"
  bv_until :: "millis option"
  bv_remaining_ms :: int

definition getSupabasePersistenceBackoff :: "millis \<Rightarrow> supa_backoff \<Rightarrow> backoff_view" where
  "getSupabasePersistenceBackoff nowMs b =
     (if backoffUntilMs b \<le> nowMs
      then \<lparr>bv_active = False, bv_reason = None, bv_until = None, bv_remaining_ms = 0\<rparr>
      else \<lparr>bv_active = True,
            bv_reason = Some (or_str (backoffReason b) ''temporarily_unavailable''),
            bv_until = Some (backoffUntilMs b), bv_remaining_ms = backoffUntilMs b - nowMs\<rparr>)"

definition shouldSkipSupabasePersistence :: "millis \<Rightarrow> supa_backoff \<Rightarrow> bool" where
  "shouldSkipSupabasePersistence nowMs b = bv_active (getSupabasePersistenceBackoff nowMs b)"

lemma shouldSkip_iff: "shouldSkipSupabasePersistence now b \<longleftrightarrow> now < backoffUntilMs b"
  by (auto simp: shouldSkipSupabasePersistence_def getSupabasePersistenceBackoff_def)

lemma mark_until_mono: "backoffUntilMs b \<le> backoffUntilMs (snd (markSupabasePersistenceUnavailable env msg now b))"
  by (auto simp: markSupabasePersistenceUnavailable_def Let_def)

lemma mark_recognised:
  "fst (markSupabasePersistenceUnavailable env msg now b)
     \<longleftrightarrow> isSupabaseQuotaRestrictedError msg \<or> isSupabaseConnectivityError msg"
  by (simp add: markSupabasePersistenceUnavailable_def Let_def)

text \<open>
  A recognised Supabase failure opens a backoff window of at least the configured length (the
  long one for quota restrictions, the short one for connectivity), never shortens a window that is
  already open, and any other error leaves the window as it was; while the window is open every
  persistence operation is skipped and the remaining time is positive.
\<close>

theorem backoff_window:
  assumes "0 < supabaseBackoffMs env" "0 < supabaseTransientBackoffMs env"
  shows "let (recognised, b') = markSupabasePersistenceUnavailable env msg now b in
     (recognised \<longleftrightarrow> isSupabaseQuotaRestrictedError msg \<or> isSupabaseConnectivityError msg)
     \<and> backoffUntilMs b \<le> backoffUntilMs b'
     \<and> (isSupabaseQuotaRestrictedError msg \<longrightarrow> (\<forall>t < now + supabaseBackoffMs env. shouldSkipSupabasePersistence t b'))
     \<and> (isSupabaseConnectivityError msg \<longrightarrow> (\<forall>t < now + supabaseTransientBackoffMs env. shouldSkipSupabasePersistence t b'))
     \<and> (\<not> recognised \<longrightarrow> b' = b)
     \<and> (recognised \<longrightarrow> 0 < bv_remaining_ms (getSupabasePersistenceBackoff now b'))"
  using assms
  by (auto simp: markSupabasePersistenceUnavailable_def isSupabaseConnectivityError_def shouldSkip_iff
      getSupabasePersistenceBackoff_def Let_def)

theorem backoff_window_witness:
  "let env = \<lparr>supabaseBackoffMs = 300000, supabaseTransientBackoffMs = 30000\<rparr>;
       (recognised, b') = markSupabasePersistenceUnavailable env ''Quota exceeded'' 1000 no_backoff
   in recognised \<and> (\<forall>t < 301000. shouldSkipSupabasePersistence t b')"
proof -
  have q: "isSupabaseQuotaRestrictedError ''Quota exceeded''" by code_simp
  show ?thesis
    using q backoff_window [of "\<lparr>supabaseBackoffMs = 300000, supabaseTransientBackoffMs = 30000\<rparr>"
        "''Quota exceeded''" 1000 no_backoff]
    by (simp add: case_prod_beta Let_def)
qed

end
