(* ===== verification/Automation.thy ===== *)
theory Automation
  imports Automation_Supervisor Relayer_Types Supabase_Backoff
begin

text \<open>
  The automation scheduler of \<^verbatim>\<open>workers/morpheus-relayer/src/automation.js\<close>: registration and
  cancellation, the guard of queued executions, trigger evaluation, the dispatch of an execution and
  the tick that claims, broadcasts and finalises due jobs. A stored ISO time stamp is the instant it
  denotes (in JSON, the number); \<open>parse_date\<close> is the runtime's date parser and \<open>parse\<close> its
  \<open>JSON.parse\<close>. The store, the feed reader and the chain are the fields of \<open>auto_env\<close>.
\<close>

definition AUTOMATION_PROCESSING_CLAIM_MARKER :: string where
  "AUTOMATION_PROCESSING_CLAIM_MARKER = ''__morpheus_automation_processing_claim__''"

section \<open>Jobs\<close>

record automation_job =
  aj_automation_id :: string
  aj_registration_request_id :: string
  aj_project_slug :: string
  aj_chain :: string
  aj_requester :: string
  aj_callback_contract :: string
  aj_callback_method :: string
  aj_execution_request_type :: string
  aj_execution_payload :: jsv
  aj_trigger_type :: string
  aj_trigger_config :: jsv
  aj_trigger_state :: jsv
  aj_status :: string
  aj_next_run_at :: "millis option"
  aj_last_run_at :: "millis option"
  aj_execution_count :: int
  aj_max_executions :: "int option"
  aj_last_queued_request_id :: string
  aj_last_error :: "string option"
  aj_created_at :: millis
  aj_updated_at :: millis

definition parseTimestamp :: "(jsv \<Rightarrow> millis option) \<Rightarrow> jsv \<Rightarrow> millis option" where
  "parseTimestamp parse_date v =
     (if is_nullish v \<or> v = JStr [] then None else parse_date v)"

definition parsePositiveInteger :: "jsv \<Rightarrow> string \<Rightarrow> int result" where
  "parsePositiveInteger v fieldName =
     (case js_to_number v of
        Fin n \<Rightarrow> if n \<le> 0 then Inl (fieldName @ '' must be a positive integer'') else Inr n
      | _ \<Rightarrow> Inl (fieldName @ '' must be a positive integer''))"

text \<open>\<open>BigInt(String(v))\<close> on a number or its text.\<close>

definition bigint_of :: "jsv \<Rightarrow> int option" where
  "bigint_of v = (case v of
      JNum (Fin n) \<Rightarrow> Some n
    | JStr s \<Rightarrow> (case js_number s of Fin n \<Rightarrow> Some n | _ \<Rightarrow> None)
    | _ \<Rightarrow> None)"

definition parseBigIntLike :: "jsv \<Rightarrow> string \<Rightarrow> int result" where
  "parseBigIntLike v fieldName = (case bigint_of v of
      Some n \<Rightarrow> Inr n | None \<Rightarrow> Inl (fieldName @ '' must be an integer string''))"

section \<open>Registration\<close>

definition resolveExecutionRequestType :: "jsv \<Rightarrow> string result" where
  "resolveExecutionRequestType payload =
     (let execution = (if is_plain_object (getp payload ''execution'') then getp payload ''execution'' else JObj []);
          requestType = normalizeRequestType (js_or (getp execution ''request_type'')
            (js_or (getp payload ''execution_request_type'') (JStr [])))
      in if requestType = [] then Inl ''execution.request_type is required''
         else if js_includes requestType ''feed''
         then Inl ''automation execution request_type cannot be datafeed''
         else if js_starts_with requestType ''automation_''
         then Inl ''automation execution request_type cannot be an automation control type''
         else Inr requestType)"

definition resolveExecutionPayload :: "(string \<Rightarrow> jsv option) \<Rightarrow> jsv \<Rightarrow> jsv result" where
  "resolveExecutionPayload parse payload =
     (let execution = (if is_plain_object (getp payload ''execution'') then getp payload ''execution'' else JObj []);
          executionPayload = js_nullish (getp execution ''payload'') (getp payload ''execution_payload'')
      in case executionPayload of
          JStr s \<Rightarrow> Inr (case parse s of Some v \<Rightarrow> v | None \<Rightarrow> JObj [(''raw_payload'', JStr s)])
        | JObj ps \<Rightarrow> Inr (JObj ps)
        | _ \<Rightarrow> Inl ''execution.payload must be a JSON object or string'')"

record initial_trigger =
  it_triggerType :: string
  it_triggerConfig :: jsv
  it_nextRunAt :: "millis option"

definition buildInitialTrigger :: "(jsv \<Rightarrow> millis option) \<Rightarrow> millis \<Rightarrow> jsv \<Rightarrow> initial_trigger result" where
  "buildInitialTrigger parse_date now trigger =
     (let ty = normalizeRequestType (js_or (getp trigger ''type'') (JStr [])) in
      if ty = [] then Inl ''trigger.type is required''
      else if ty = ''one_shot'' then
        (case parseTimestamp parse_date (js_or (getp trigger ''execute_at'') (getp trigger ''executeAt'')) of
           None \<Rightarrow> Inl ''trigger.execute_at is required for one_shot''
         | Some t \<Rightarrow> Inr \<lparr>it_triggerType = ''one_shot'',
             it_triggerConfig = JObj [(''execute_at'', JNum (Fin t))], it_nextRunAt = Some t\<rparr>)
      else if ty = ''interval'' then
        bind_result (parsePositiveInteger (js_or (getp trigger ''interval_ms'') (getp trigger ''intervalMs''))
            ''trigger.interval_ms'') (\<lambda>intervalMs.
          (let startAt = (case parseTimestamp parse_date (js_or (getp trigger ''start_at'') (getp trigger ''startAt'')) of
                 None \<Rightarrow> now | Some t \<Rightarrow> t)
           in Inr \<lparr>it_triggerType = ''interval'',
                it_triggerConfig = JObj [(''interval_ms'', JNum (Fin intervalMs)), (''start_at'', JNum (Fin startAt))],
                it_nextRunAt = Some startAt\<rparr>))
      else if ty = ''price_threshold'' then
        (let comparator = normalizeRequestType (js_or (getp trigger ''comparator'') (JStr []));
             pair = trimString (js_or (getp trigger ''pair'') (js_or (getp trigger ''feed_pair'') (JStr [])));
             feedChain = normalizeRequestType (js_or (getp trigger ''feed_chain'') (js_or (getp trigger ''feedChain'') (JStr [])))
         in if comparator \<notin> {''gte'', ''lte'', ''cross_above'', ''cross_below''}
            then Inl ''trigger.comparator must be one of gte, lte, cross_above, cross_below''
            else if pair = [] then Inl ''trigger.pair is required for price_threshold''
            else bind_result (parseBigIntLike (getp trigger ''threshold'') ''trigger.threshold'') (\<lambda>threshold.
              bind_result (if getp trigger ''cooldown_ms'' \<noteq> JUndef
                  then map_sum id Some (parsePositiveInteger (getp trigger ''cooldown_ms'') ''trigger.cooldown_ms'')
                  else Inr None) (\<lambda>cooldownMs.
                Inr \<lparr>it_triggerType = ''price_threshold'',
                  it_triggerConfig = JObj [(''pair'', JStr pair), (''comparator'', JStr comparator),
                    (''threshold'', JStr (show_int threshold)),
                    (''cooldown_ms'', case cooldownMs of None \<Rightarrow> JNull | Some n \<Rightarrow> JNum (Fin n)),
                    (''feed_chain'', if feedChain = [] then JNull else JStr feedChain)],
                  it_nextRunAt = None\<rparr>)))
      else Inl (''unsupported trigger.type: '' @ (case str_of (getp trigger ''type'') of Some s \<Rightarrow> s | None \<Rightarrow> [])))"

text \<open>The random part of the new id is an argument.\<close>

definition buildAutomationJobFromPayload ::
  "(string \<Rightarrow> jsv option) \<Rightarrow> (jsv \<Rightarrow> millis option) \<Rightarrow> string \<Rightarrow> millis \<Rightarrow> oracle_event \<Rightarrow> jsv \<Rightarrow> automation_job result" where
  "buildAutomationJobFromPayload parse parse_date uuid now event payload =
     (if \<not> is_plain_object payload then Inl ''automation registration payload must be a JSON object''
      else if \<not> is_plain_object (getp payload ''trigger'') then Inl ''trigger is required''
      else
        bind_result (resolveExecutionRequestType payload) (\<lambda>executionRequestType.
        bind_result (resolveExecutionPayload parse payload) (\<lambda>executionPayload.
        bind_result (buildInitialTrigger parse_date now (getp payload ''trigger'')) (\<lambda>t.
        bind_result (let m = getp payload ''max_executions'' in
            if is_nullish m \<or> m = JStr [] then Inr None
            else map_sum id Some (parsePositiveInteger m ''max_executions'')) (\<lambda>maxExecutions.
          Inr \<lparr>aj_automation_id = ''automation:'' @ chain_name (ev_chain event) @ '':'' @ uuid,
               aj_registration_request_id = ev_requestId event,
               aj_project_slug = trimString (js_or (getp payload ''project_slug'')
                  (js_or (getp executionPayload ''project_slug'') (JStr []))),
               aj_chain = chain_name (ev_chain event), aj_requester = js_trim (ev_requester event),
               aj_callback_contract = js_trim (ev_callbackContract event),
               aj_callback_method = js_trim (ev_callbackMethod event),
               aj_execution_request_type = executionRequestType, aj_execution_payload = executionPayload,
               aj_trigger_type = it_triggerType t, aj_trigger_config = it_triggerConfig t,
               aj_trigger_state = JObj [], aj_status = ''active'', aj_next_run_at = it_nextRunAt t,
               aj_last_run_at = None, aj_execution_count = 0, aj_max_executions = maxExecutions,
               aj_last_queued_request_id = [], aj_last_error = None, aj_created_at = now,
               aj_updated_at = now\<rparr>)))))"

section \<open>Patches\<close>

text \<open>The columns a \<open>PATCH\<close> sets; \<open>None\<close> leaves a column alone. The store stamps \<open>updated_at\<close>.\<close>

record auto_patch =
  ap_status :: "string option"
  ap_next_run_at :: "millis option option"
  ap_last_error :: "string option option"
  ap_execution_count :: "int option"
  ap_last_queued_request_id :: "string option"
  ap_last_run_at :: "millis option"
  ap_trigger_state :: "jsv option"

definition no_patch :: auto_patch where
  "no_patch = \<lparr>ap_status = None, ap_next_run_at = None, ap_last_error = None, ap_execution_count = None,
     ap_last_queued_request_id = None, ap_last_run_at = None, ap_trigger_state = None\<rparr>"

definition set_col :: "'a option \<Rightarrow> 'a \<Rightarrow> 'a" where
  "set_col new old = (case new of None \<Rightarrow> old | Some v \<Rightarrow> v)"

definition apply_patch :: "auto_patch \<Rightarrow> millis \<Rightarrow> automation_job \<Rightarrow> automation_job" where
  "apply_patch p now job = job
     \<lparr>aj_status := set_col (ap_status p) (aj_status job),
      aj_next_run_at := set_col (ap_next_run_at p) (aj_next_run_at job),
      aj_last_error := set_col (ap_last_error p) (aj_last_error job),
      aj_execution_count := set_col (ap_execution_count p) (aj_execution_count job),
      aj_last_queued_request_id := set_col (ap_last_queued_request_id p) (aj_last_queued_request_id job),
      aj_last_run_at := (case ap_last_run_at p of None \<Rightarrow> aj_last_run_at job | Some t \<Rightarrow> Some t),
      aj_trigger_state := set_col (ap_trigger_state p) (aj_trigger_state job),
      aj_updated_at := now\<rparr>"

section \<open>Cancellation\<close>

definition err_text :: "automation_job \<Rightarrow> string" where
  "err_text job = js_trim (case aj_last_error job of None \<Rightarrow> [] | Some e \<Rightarrow> e)"

definition isReclaimableInflightStatus :: "automation_job \<Rightarrow> bool" where
  "isReclaimableInflightStatus job =
     (let status = js_trim (aj_status job) in
      if status = ''processing'' then True
      else status = ''paused'' \<and> err_text job = AUTOMATION_PROCESSING_CLAIM_MARKER)"

definition resolveInFlightExecutionForCancel :: "automation_job \<Rightarrow> string option" where
  "resolveInFlightExecutionForCancel job =
     (if \<not> isReclaimableInflightStatus job then None
      else let r = js_trim (aj_last_queued_request_id job) in if r = [] then None else Some r)"

definition buildRegistrationResult :: "automation_job \<Rightarrow> jsv" where
  "buildRegistrationResult job = JObj
     [(''mode'', JStr ''automation''), (''action'', JStr ''register''),
      (''automation_id'', JStr (aj_automation_id job)), (''chain'', JStr (aj_chain job)),
      (''requester'', JStr (aj_requester job)), (''callback_contract'', JStr (aj_callback_contract job)),
      (''execution_request_type'', JStr (aj_execution_request_type job)),
      (''trigger_type'', JStr (aj_trigger_type job)),
      (''next_run_at'', case aj_next_run_at job of None \<Rightarrow> JNull | Some t \<Rightarrow> JNum (Fin t)),
      (''status'', JStr (aj_status job))]"

definition buildCancellationResult :: "automation_job \<Rightarrow> string \<Rightarrow> jsv" where
  "buildCancellationResult job automationId =
     (let inFlight = resolveInFlightExecutionForCancel job in
      JObj ([(''mode'', JStr ''automation''), (''action'', JStr ''cancel''),
        (''automation_id'', JStr automationId), (''chain'', js_or (JStr (aj_chain job)) JNull),
        (''status'', JStr (if inFlight \<noteq> None then ''cancelling'' else ''cancelled'')),
        (''future_executions_cancelled'', JBool True)] @
        (case inFlight of None \<Rightarrow> [] | Some r \<Rightarrow>
          [(''in_flight_execution'', JObj [(''request_id'', JStr r), (''will_be_charged'', JBool True)]),
           (''message'', JStr ''one already-queued execution will still run and be charged; all future executions are cancelled'')])))"

definition cancellation_patch :: "automation_job \<Rightarrow> auto_patch" where
  "cancellation_patch job =
     (let p = no_patch\<lparr>ap_status := Some ''cancelled'', ap_next_run_at := Some None\<rparr> in
      if resolveInFlightExecutionForCancel job = None then p\<lparr>ap_last_error := Some None\<rparr> else p)"

section \<open>Triggers\<close>

record feed_record =
  fr_price :: jsv
  fr_roundId :: jsv

record evaluation =
  evl_due :: bool
  evl_patch :: "auto_patch option"
  evl_triggerReason :: string
  evl_observedValue :: string

definition not_due :: "auto_patch option \<Rightarrow> evaluation" where
  "not_due p = \<lparr>evl_due = False, evl_patch = p, evl_triggerReason = [], evl_observedValue = []\<rparr>"

definition plain_or_empty :: "jsv \<Rightarrow> jsv" where
  "plain_or_empty v = (if is_plain_object v then v else JObj [])"

definition crossed :: "string \<Rightarrow> int \<Rightarrow> int \<Rightarrow> int option \<Rightarrow> bool" where
  "crossed comparator threshold current previous =
     (if comparator = ''gte'' then current \<ge> threshold
      else if comparator = ''lte'' then current \<le> threshold
      else if comparator = ''cross_above''
      then (case previous of None \<Rightarrow> False | Some p \<Rightarrow> p < threshold \<and> current \<ge> threshold)
      else if comparator = ''cross_below''
      then (case previous of None \<Rightarrow> False | Some p \<Rightarrow> p > threshold \<and> current \<le> threshold)
      else False)"

text \<open>A value that is not an integer makes \<open>BigInt\<close> throw.\<close>

definition evaluatePriceThreshold :: "automation_job \<Rightarrow> feed_record \<Rightarrow> millis \<Rightarrow> jsnum \<Rightarrow> evaluation result" where
  "evaluatePriceThreshold job rec nowMs defaultCooldownMs =
     (let cfg = plain_or_empty (aj_trigger_config job);
          st = plain_or_empty (aj_trigger_state job);
          seen = getp st ''last_observed_value'';
          bad = Inl ''Cannot convert value to a BigInt''
      in case bigint_of (js_or (getp cfg ''threshold'') (JStr ''0'')) of None \<Rightarrow> bad
      | Some threshold \<Rightarrow>
        (case bigint_of (js_or (fr_price rec) (JStr ''0'')) of None \<Rightarrow> bad
        | Some current \<Rightarrow>
          (case (if is_nullish seen \<or> seen = JStr [] then Some None else map_option Some (bigint_of seen)) of
             None \<Rightarrow> bad
           | Some previous \<Rightarrow>
             (let comparator = normalizeRequestType (js_or (getp cfg ''comparator'') (JStr []));
                  cooldownMs = (if is_nullish (getp cfg ''cooldown_ms'') then defaultCooldownMs
                                else js_to_number (getp cfg ''cooldown_ms''));
                  due = crossed comparator threshold current previous
              in Inr \<lparr>evl_due = due,
                  evl_patch = Some (no_patch
                    \<lparr>ap_trigger_state := Some (JObj (spread (members st)
                       [(''last_observed_value'', JStr (show_int current)),
                        (''last_observed_at'', JNum (Fin nowMs)),
                        (''last_round_id'', js_or (fr_roundId rec) (JStr ''0''))])),
                     ap_next_run_at := Some (case cooldownMs of
                         Fin d \<Rightarrow> if due \<and> d > 0 then Some (nowMs + d) else aj_next_run_at job
                       | _ \<Rightarrow> aj_next_run_at job)\<rparr>),
                  evl_triggerReason = comparator @ '':'' @ (case str_of (getp cfg ''pair'') of Some s \<Rightarrow> s | None \<Rightarrow> []),
                  evl_observedValue = show_int current\<rparr>))))"

record automation_config =
  ac_enabled :: bool
  ac_batchSize :: int
  ac_maxQueuedPerTick :: nat
  ac_claimStaleMs :: int
  ac_defaultPriceCooldownMs :: jsnum
  ac_idleBackoffMs :: int

definition max_reached :: "automation_job \<Rightarrow> bool" where
  "max_reached job = (case aj_max_executions job of None \<Rightarrow> False | Some m \<Rightarrow> aj_execution_count job \<ge> m)"

definition evaluateAutomationJob ::
  "automation_config \<Rightarrow> (jsv \<Rightarrow> millis option) \<Rightarrow> (string \<Rightarrow> feed_record result) \<Rightarrow> automation_job \<Rightarrow> millis \<Rightarrow> evaluation result" where
  "evaluateAutomationJob cfg parse_date fetchFeed job nowMs =
     (if aj_status job \<noteq> ''active'' then Inr (not_due None)
      else if max_reached job
      then Inr (not_due (Some (no_patch\<lparr>ap_status := Some ''completed'', ap_next_run_at := Some None\<rparr>)))
      else if aj_trigger_type job = ''one_shot'' \<or> aj_trigger_type job = ''interval'' then
        (case (case aj_next_run_at job of Some t \<Rightarrow> Some t
               | None \<Rightarrow> parseTimestamp parse_date (getp (plain_or_empty (aj_trigger_config job)) ''start_at'')) of
           None \<Rightarrow> Inr (not_due (Some (no_patch\<lparr>ap_status := Some ''error'',
                     ap_last_error := Some (Some ''invalid next_run_at'')\<rparr>)))
         | Some t \<Rightarrow> Inr \<lparr>evl_due = t \<le> nowMs, evl_patch = None, evl_triggerReason = [], evl_observedValue = []\<rparr>)
      else if aj_trigger_type job = ''price_threshold'' then
        (let pair = trimString (js_or (getp (plain_or_empty (aj_trigger_config job)) ''pair'') (JStr [])) in
         if pair = [] then Inr (not_due (Some (no_patch\<lparr>ap_status := Some ''error'',
              ap_last_error := Some (Some ''price_threshold pair missing'')\<rparr>)))
         else if (case aj_next_run_at job of Some t \<Rightarrow> t > nowMs | None \<Rightarrow> False) then Inr (not_due None)
         else bind_result (fetchFeed pair)
           (\<lambda>rec. evaluatePriceThreshold job rec nowMs (ac_defaultPriceCooldownMs cfg)))
      else Inr (not_due (Some (no_patch\<lparr>ap_status := Some ''error'',
              ap_last_error := Some (Some (''unsupported trigger type: '' @ aj_trigger_type job))\<rparr>))))"

definition computeNextIntervalRun :: "automation_job \<Rightarrow> millis \<Rightarrow> millis option" where
  "computeNextIntervalRun job nowMs =
     (case js_to_number (js_or (getp (plain_or_empty (aj_trigger_config job)) ''interval_ms'') (JNum (Fin 0))) of
        Fin d \<Rightarrow> if d \<le> 0 then None else Some (nowMs + d)
      | _ \<Rightarrow> None)"

section \<open>Dispatch\<close>

definition source_of_job :: "automation_job \<Rightarrow> int \<Rightarrow> string \<Rightarrow> upkeep_source" where
  "source_of_job job count request_id = \<lparr>us_automation_id = aj_automation_id job, us_workflow_id = [],
     us_workflow_version = NaN, us_execution_count = Fin count, us_chain = aj_chain job,
     us_execution_id = [], us_request_id = request_id, us_idempotency_key = [], us_replay_window = [],
     us_delivery_mode = []\<rparr>"

definition resolveAutomationExecutionDispatch :: "automation_job \<Rightarrow> (upkeep_dispatch \<times> bool) result" where
  "resolveAutomationExecutionDispatch job =
     (let currentCount = parseNonNegativeInteger (Fin (aj_execution_count job));
          pinned = js_trim (aj_last_queued_request_id job)
      in bind_result (buildUpkeepDispatch (source_of_job job (currentCount - 1) [])) (\<lambda>advanced.
           if isReclaimableInflightStatus job \<and> currentCount > 0 \<and> pinned \<noteq> []
              \<and> pinned = ud_request_id advanced
           then Inr (advanced, True)
           else bind_result (buildUpkeepDispatch (source_of_job job (aj_execution_count job) []))
                  (\<lambda>d. Inr (d, False))))"

definition classifyAutomationExecutionFailure :: "string \<Rightarrow> bool \<Rightarrow> bool \<times> auto_patch" where
  "classifyAutomationExecutionFailure error inFlight =
     (let message = js_trim error in
      if js_includes (to_lower message) ''request fee not paid''
      then (True, no_patch\<lparr>ap_status := Some ''error'', ap_next_run_at := Some None,
                   ap_last_error := Some (Some message)\<rparr>)
      else if inFlight
      then (False, no_patch\<lparr>ap_status := Some ''processing'', ap_last_error := Some (Some message)\<rparr>)
      else (False, no_patch\<lparr>ap_status := Some ''active'', ap_last_error := Some (Some message)\<rparr>))"

definition buildQueuedAutomationPatch ::
  "automation_job \<Rightarrow> auto_patch option \<Rightarrow> millis \<Rightarrow> upkeep_dispatch \<Rightarrow> string \<Rightarrow> auto_patch" where
  "buildQueuedAutomationPatch job evalPatch nowMs dispatch queuedRequestId =
     (let base = (case evalPatch of None \<Rightarrow> no_patch | Some p \<Rightarrow> p);
          (status1, next1) =
            (if aj_trigger_type job = ''one_shot'' then (''completed'', None)
             else if aj_trigger_type job = ''interval'' then (''active'', computeNextIntervalRun job nowMs)
             else (''active'', set_col (ap_next_run_at base) (aj_next_run_at job)));
          (status2, next2) =
            (case aj_max_executions job of
               None \<Rightarrow> (status1, next1)
             | Some m \<Rightarrow> if ud_next_execution_count dispatch \<ge> m then (''completed'', None) else (status1, next1))
      in base\<lparr>ap_execution_count := Some (ud_next_execution_count dispatch),
              ap_last_run_at := Some nowMs,
              ap_last_queued_request_id := Some (or_str queuedRequestId (ud_request_id dispatch)),
              ap_next_run_at := Some next2, ap_status := Some status2, ap_last_error := Some None\<rparr>)"

section \<open>The store and the chain\<close>

record queue_reply =
  qr_request_id :: string
  qr_duplicate :: bool
  qr_body :: jsv

record run_record =
  rr_automation_id :: string
  rr_queued_request_id :: "string option"
  rr_status :: string
  rr_trigger_reason :: string
  rr_observed_value :: "string option"
  rr_error :: "string option"

datatype auto_effect =
    APatch string auto_patch
  | AClaim string auto_patch
  | AQueue string string string
  | ARun run_record

record auto_env =
  ae_now :: millis
  ae_supa_env :: supa_env
  ae_parse_date :: "jsv \<Rightarrow> millis option"
  ae_fetch :: "auto_effect list \<Rightarrow> automation_job list result"
  ae_claim :: "auto_effect list \<Rightarrow> string \<Rightarrow> auto_patch \<Rightarrow> automation_job option result"
  ae_patch :: "auto_effect list \<Rightarrow> string \<Rightarrow> auto_patch \<Rightarrow> unit result"
  ae_run :: "auto_effect list \<Rightarrow> run_record \<Rightarrow> unit result"
  ae_feed :: "string \<Rightarrow> feed_record result"
  ae_queue :: "auto_effect list \<Rightarrow> automation_job \<Rightarrow> string \<Rightarrow> string \<Rightarrow> queue_reply result"

definition claim_fields :: "upkeep_dispatch \<Rightarrow> bool \<Rightarrow> auto_patch" where
  "claim_fields dispatch alreadyAdvanced =
     (let p = no_patch\<lparr>ap_status := Some ''processing'', ap_last_error := Some None\<rparr> in
      if alreadyAdvanced then p
      else p\<lparr>ap_execution_count := Some (ud_next_execution_count dispatch),
             ap_last_queued_request_id := Some (ud_request_id dispatch)\<rparr>)"

text \<open>\<open>queueAutomationExecution\<close>: the payload text and the broadcast.\<close>

definition queueAutomationExecution ::
  "auto_env \<Rightarrow> automation_job \<Rightarrow> upkeep_dispatch \<Rightarrow> auto_effect list \<Rightarrow> queue_reply result \<times> auto_effect list" where
  "queueAutomationExecution env job dispatch trace =
     (case buildUpkeepExecutionPayload (aj_execution_payload job)
         (source_of_job job (ud_execution_count dispatch) (ud_request_id dispatch)) of
        Inl e \<Rightarrow> (Inl e, trace)
      | Inr payload \<Rightarrow>
          if aj_chain job \<noteq> ''neo_n3'' then (Inl (''Invalid automation job chain: '' @ aj_chain job), trace)
          else (ae_queue env trace job (stringify payload) (ud_request_id dispatch),
                trace @ [AQueue (aj_automation_id job) (ud_request_id dispatch) (stringify payload)]))"

datatype job_outcome = Queued | Skipped | Failed

record tick_world =
  tw_trace :: "auto_effect list"
  tw_backoff :: supa_backoff
  tw_lastEmptyFetchAt :: millis

definition patch_row :: "auto_env \<Rightarrow> string \<Rightarrow> auto_patch \<Rightarrow> auto_effect list \<Rightarrow> unit result \<times> auto_effect list" where
  "patch_row env k p trace = (ae_patch env trace k p, trace @ [APatch k p])"

definition record_run :: "auto_env \<Rightarrow> run_record \<Rightarrow> auto_effect list \<Rightarrow> unit result \<times> auto_effect list" where
  "record_run env r trace = (ae_run env trace r, trace @ [ARun r])"

text \<open>The catch block of the loop body.\<close>

definition fail_job ::
  "auto_env \<Rightarrow> automation_job \<Rightarrow> string \<Rightarrow> bool \<Rightarrow> auto_effect list \<Rightarrow> job_outcome \<times> auto_effect list" where
  "fail_job env job error inFlight trace =
     (let (_, patch) = classifyAutomationExecutionFailure error inFlight;
          (_, t1) = patch_row env (aj_automation_id job) patch trace;
          (_, t2) = record_run env \<lparr>rr_automation_id = aj_automation_id job, rr_queued_request_id = None,
             rr_status = ''failed'', rr_trigger_reason = aj_trigger_type job, rr_observed_value = None,
             rr_error = Some error\<rparr> t1
      in (Failed, t2))"

definition finalize_job ::
  "auto_env \<Rightarrow> automation_job \<Rightarrow> automation_job \<Rightarrow> evaluation \<Rightarrow> upkeep_dispatch \<Rightarrow> queue_reply \<Rightarrow> auto_effect list
     \<Rightarrow> job_outcome \<times> auto_effect list" where
  "finalize_job env job executionJob evl dispatch reply trace =
     (let queuedRequestId = or_str (qr_request_id reply) (ud_request_id dispatch);
          run = \<lparr>rr_automation_id = aj_automation_id executionJob, rr_queued_request_id = Some queuedRequestId,
            rr_status = (if qr_duplicate reply then ''skipped'' else ''queued''),
            rr_trigger_reason = or_str (evl_triggerReason evl) (aj_trigger_type executionJob),
            rr_observed_value = or_null (Some (evl_observedValue evl)), rr_error = None\<rparr>
      in case record_run env run trace of
          (Inl e, t1) \<Rightarrow> fail_job env job e True t1
        | (Inr _, t1) \<Rightarrow>
            (case patch_row env (aj_automation_id executionJob)
                (buildQueuedAutomationPatch executionJob (evl_patch evl) (ae_now env) dispatch queuedRequestId) t1 of
               (Inl e, t2) \<Rightarrow> fail_job env job e True t2
             | (Inr _, t2) \<Rightarrow> (if qr_duplicate reply then Skipped else Queued, t2)))"

definition claim_and_queue ::
  "auto_env \<Rightarrow> automation_job \<Rightarrow> automation_job \<Rightarrow> evaluation \<Rightarrow> auto_effect list \<Rightarrow> job_outcome \<times> auto_effect list" where
  "claim_and_queue env job schedulable evl trace =
     (case resolveAutomationExecutionDispatch (schedulable\<lparr>aj_status := aj_status job, aj_last_error := aj_last_error job\<rparr>) of
        Inl e \<Rightarrow> fail_job env job e False trace
      | Inr (dispatch, alreadyAdvanced) \<Rightarrow>
          (let fields = claim_fields dispatch alreadyAdvanced;
               reply = ae_claim env trace (aj_automation_id schedulable) fields;
               t1 = trace @ [AClaim (aj_automation_id schedulable) fields]
           in case reply of
               Inl e \<Rightarrow> fail_job env job e False t1
             | Inr None \<Rightarrow> (Skipped, t1)
             | Inr (Some claimed) \<Rightarrow>
                 (let executionJob = claimed\<lparr>aj_execution_count := ud_next_execution_count dispatch,
                        aj_last_queued_request_id := ud_request_id dispatch, aj_status := ''active''\<rparr>
                  in case queueAutomationExecution env executionJob dispatch t1 of
                      (Inl e, t2) \<Rightarrow> fail_job env job e True t2
                    | (Inr q, t2) \<Rightarrow> finalize_job env job executionJob evl dispatch q t2)))"

definition process_job ::
  "automation_config \<Rightarrow> auto_env \<Rightarrow> automation_job \<Rightarrow> auto_effect list \<Rightarrow> job_outcome \<times> auto_effect list" where
  "process_job cfg env job trace =
     (let schedulable = (if isReclaimableInflightStatus job then job\<lparr>aj_status := ''active''\<rparr> else job) in
      case evaluateAutomationJob cfg (ae_parse_date env) (ae_feed env) schedulable (ae_now env) of
        Inl e \<Rightarrow> fail_job env job e False trace
      | Inr evl \<Rightarrow>
          (case (case evl_patch evl of None \<Rightarrow> (Inr (), trace)
                 | Some p \<Rightarrow> patch_row env (aj_automation_id schedulable) p trace) of
             (Inl e, t1) \<Rightarrow> fail_job env job e False t1
           | (Inr _, t1) \<Rightarrow>
               if \<not> evl_due evl then (Skipped, t1)
               else claim_and_queue env job schedulable evl t1))"

record tick_counts =
  tc_queued :: nat
  tc_skipped :: nat
  tc_failed :: nat

fun process_jobs ::
  "automation_config \<Rightarrow> auto_env \<Rightarrow> automation_job list \<Rightarrow> tick_counts \<Rightarrow> auto_effect list
     \<Rightarrow> tick_counts \<times> auto_effect list" where
  "process_jobs cfg env [] counts trace = (counts, trace)"
| "process_jobs cfg env (job # jobs) counts trace =
     (if tc_queued counts \<ge> ac_maxQueuedPerTick cfg then (counts, trace)
      else case process_job cfg env job trace of
          (Queued, t) \<Rightarrow> process_jobs cfg env jobs (counts\<lparr>tc_queued := tc_queued counts + 1\<rparr>) t
        | (Skipped, t) \<Rightarrow> process_jobs cfg env jobs (counts\<lparr>tc_skipped := tc_skipped counts + 1\<rparr>) t
        | (Failed, t) \<Rightarrow> process_jobs cfg env jobs (counts\<lparr>tc_failed := tc_failed counts + 1\<rparr>) t)"

definition processAutomationJobs ::
  "automation_config \<Rightarrow> auto_env \<Rightarrow> tick_world \<Rightarrow> (tick_counts \<times> nat) \<times> tick_world" where
  "processAutomationJobs cfg env w =
     (let none = (\<lparr>tc_queued = 0, tc_skipped = 0, tc_failed = 0\<rparr>, 0);
          idle = max (ac_idleBackoffMs cfg) 0
      in if \<not> ac_enabled cfg then (none, w)
         else if shouldSkipSupabasePersistence (ae_now env) (tw_backoff w) then (none, w)
         else if idle > 0 \<and> tw_lastEmptyFetchAt w > 0 \<and> ae_now env - tw_lastEmptyFetchAt w < idle then (none, w)
         else case ae_fetch env (tw_trace w) of
             Inl e \<Rightarrow> (none, w\<lparr>tw_backoff := snd (markSupabasePersistenceUnavailable (ae_supa_env env) e (ae_now env) (tw_backoff w))\<rparr>)
           | Inr jobs \<Rightarrow>
               (let w1 = w\<lparr>tw_lastEmptyFetchAt := (if jobs = [] then ae_now env else 0)\<rparr>;
                    (counts, trace) = process_jobs cfg env jobs (fst none) (tw_trace w1)
                in ((counts, length jobs), w1\<lparr>tw_trace := trace\<rparr>)))"

section \<open>Control requests and the guard\<close>

definition isAutomationControlRequestType :: "string \<Rightarrow> bool" where
  "isAutomationControlRequestType requestType \<longleftrightarrow>
     normalize requestType = ''automation_register'' \<or> normalize requestType = ''automation_cancel''"

record control_response =
  cr_ok :: bool
  cr_status :: int
  cr_body :: jsv
  cr_route :: string

record queued_run =
  qn_automation_id :: string
  qn_queued_request_id :: string

text \<open>
  The store operations of a control request: the upsert of a new job with its encrypted fields, the
  lookup of a job or run, and the patch of either.
\<close>

record control_env =
  ce_now :: millis
  ce_uuid :: string
  ce_parse :: "string \<Rightarrow> jsv option"
  ce_parse_date :: "jsv \<Rightarrow> millis option"
  ce_upsert :: "automation_job \<Rightarrow> unit result"
  ce_persistEncrypted :: "automation_job \<Rightarrow> unit result"
  ce_fetchJob :: "string \<Rightarrow> automation_job option result"
  ce_patchJob :: "string \<Rightarrow> auto_patch \<Rightarrow> unit result"
  ce_fetchRun :: "string \<Rightarrow> queued_run option result"

definition cancel_error :: "int \<Rightarrow> string \<Rightarrow> control_response" where
  "cancel_error status message = \<lparr>cr_ok = False, cr_status = status,
     cr_body = JObj [(''error'', JStr message)], cr_route = ''automation:cancel''\<rparr>"

definition handleAutomationControlRequest :: "control_env \<Rightarrow> oracle_event \<Rightarrow> jsv \<Rightarrow> control_response option result" where
  "handleAutomationControlRequest env event payload =
     (let normalized = normalize (ev_requestType event) in
      if normalized = ''automation_register'' then
        bind_result (buildAutomationJobFromPayload (ce_parse env) (ce_parse_date env) (ce_uuid env) (ce_now env) event payload) (\<lambda>job.
        bind_result (ce_upsert env job) (\<lambda>_.
        bind_result (ce_persistEncrypted env job) (\<lambda>_.
          Inr (Some \<lparr>cr_ok = True, cr_status = 200, cr_body = buildRegistrationResult job,
                     cr_route = ''automation:register''\<rparr>))))
      else if normalized = ''automation_cancel'' then
        (let automationId = trimString (js_or (getp payload ''automation_id'') (js_or (getp payload ''id'') (JStr []))) in
         if automationId = [] then Inr (Some (cancel_error 400 ''automation_id required''))
         else bind_result (ce_fetchJob env automationId) (\<lambda>found.
           (case found of
              None \<Rightarrow> Inr (Some (cancel_error 404 (''automation not found: '' @ automationId)))
            | Some job \<Rightarrow>
                if js_trim (aj_requester job) \<noteq> js_trim (ev_requester event)
                then Inr (Some (cancel_error 403 ''automation cancel requester mismatch''))
                else bind_result (ce_patchJob env automationId (cancellation_patch job)) (\<lambda>_.
                  Inr (Some \<lparr>cr_ok = True, cr_status = 200, cr_body = buildCancellationResult job automationId,
                             cr_route = ''automation:cancel''\<rparr>)))))
      else Inr None)"

record guard_result =
  gr_blocked :: bool
  gr_route :: string
  gr_error :: string
  gr_automation_id :: "string option"
  gr_job_status :: "string option"

definition allowed :: "string option \<Rightarrow> guard_result" where
  "allowed automationId = \<lparr>gr_blocked = False, gr_route = [], gr_error = [], gr_automation_id = automationId,
     gr_job_status = None\<rparr>"

definition buildCancelledExecutionError :: "string \<Rightarrow> string" where
  "buildCancelledExecutionError automationId = ''automation cancelled before execution: '' @ automationId"

text \<open>The patches of the run are best effort: their failure is swallowed.\<close>

definition guardQueuedAutomationExecution :: "control_env \<Rightarrow> oracle_event \<Rightarrow> guard_result result" where
  "guardQueuedAutomationExecution env event =
     (let txHash = js_trim (ev_txHash event) in
      if txHash = [] then Inr (allowed None)
      else bind_result (ce_fetchRun env txHash) (\<lambda>found.
        (case found of
           None \<Rightarrow> Inr (allowed None)
         | Some run \<Rightarrow>
             (let automationId = js_trim (qn_automation_id run) in
              if automationId = [] then
                Inr \<lparr>gr_blocked = True, gr_route = ''automation:invalid-queued-run'',
                     gr_error = ''queued automation run missing automation_id'', gr_automation_id = None,
                     gr_job_status = None\<rparr>
              else bind_result (ce_fetchJob env automationId) (\<lambda>foundJob.
                (case foundJob of
                   None \<Rightarrow> Inr \<lparr>gr_blocked = True, gr_route = ''automation:missing-before-execution'',
                     gr_error = ''automation job missing before execution: '' @ automationId,
                     gr_automation_id = Some automationId, gr_job_status = None\<rparr>
                 | Some job \<Rightarrow>
                     (let inFlight = js_trim (aj_last_queued_request_id job);
                          mine = (inFlight \<noteq> [] \<and> js_trim (qn_queued_request_id run) = inFlight)
                      in if js_trim (aj_status job) = ''cancelled'' \<and> \<not> mine
                         then Inr \<lparr>gr_blocked = True, gr_route = ''automation:cancelled-before-execution'',
                                gr_error = buildCancelledExecutionError automationId,
                                gr_automation_id = Some automationId, gr_job_status = Some (aj_status job)\<rparr>
                         else Inr (allowed (Some automationId)))))))))"

end
