(* ===== verification/Automation_Store.thy ===== *)
theory Automation_Store
  imports Automation "HOL-Library.Product_Lexorder"
begin

text \<open>
  The automation table of \<^verbatim>\<open>workers/morpheus-relayer/src/persistence.js\<close>: the row filters of the fetch
  and of the conditional claim, the unconditional patch, and the environment in which a tick of the
  scheduler runs against that table. The table is what the writes of the trace so far make of the
  rows at the start of the tick. \<open>at_processing_ok\<close> tells whether the status check constraint
  admits \<open>processing\<close>; a write that it refuses changes nothing.
\<close>

record auto_table =
  at_rows :: "automation_job list"
  at_processing_ok :: bool

definition check_violation :: string where
  "check_violation = ''violates check constraint morpheus_automation_jobs_status_check''"

definition status_check :: "auto_table \<Rightarrow> auto_patch \<Rightarrow> bool" where
  "status_check tab p \<longleftrightarrow> at_processing_ok tab \<or> ap_status p \<noteq> Some ''processing''"

definition patch_rows :: "(automation_job \<Rightarrow> bool) \<Rightarrow> auto_patch \<Rightarrow> millis \<Rightarrow> auto_table \<Rightarrow> auto_table" where
  "patch_rows hit p now tab =
     tab\<lparr>at_rows := map (\<lambda>r. if hit r then apply_patch p now r else r) (at_rows tab)\<rparr>"

definition patchAutomationJob :: "string \<Rightarrow> auto_patch \<Rightarrow> millis \<Rightarrow> auto_table \<Rightarrow> unit result \<times> auto_table" where
  "patchAutomationJob automationId p now tab =
     (if status_check tab p then (Inr (), patch_rows (\<lambda>r. aj_automation_id r = automationId) p now tab)
      else (Inl check_violation, tab))"

definition upsertAutomationJob :: "automation_job \<Rightarrow> auto_table \<Rightarrow> auto_table" where
  "upsertAutomationJob job tab =
     tab\<lparr>at_rows := (if \<exists>r \<in> set (at_rows tab). aj_automation_id r = aj_automation_id job
                then map (\<lambda>r. if aj_automation_id r = aj_automation_id job then job else r) (at_rows tab)
                else at_rows tab @ [job])\<rparr>"

definition due_at :: "millis \<Rightarrow> automation_job \<Rightarrow> bool" where
  "due_at due r \<longleftrightarrow> aj_status r = ''active'' \<and>
     (case aj_next_run_at r of None \<Rightarrow> True | Some t \<Rightarrow> t \<le> due)"

definition stale_claim :: "millis \<Rightarrow> automation_job \<Rightarrow> bool" where
  "stale_claim stale r \<longleftrightarrow> aj_updated_at r < stale \<and>
     (aj_status r = ''processing'' \<or>
      aj_status r = ''paused'' \<and> aj_last_error r = Some AUTOMATION_PROCESSING_CLAIM_MARKER)"

definition claim_filter :: "string \<Rightarrow> millis \<Rightarrow> millis \<Rightarrow> automation_job \<Rightarrow> bool" where
  "claim_filter automationId due stale r \<longleftrightarrow>
     aj_automation_id r = automationId \<and> (due_at due r \<or> stale_claim stale r)"

definition paused_claim :: "auto_patch \<Rightarrow> auto_patch" where
  "paused_claim p = p\<lparr>ap_status := Some ''paused'', ap_last_error := Some (Some AUTOMATION_PROCESSING_CLAIM_MARKER)\<rparr>"

text \<open>
  The claim: one conditional \<open>PATCH\<close> whose representation is the claimed row, repeated with the
  \<open>paused\<close> marker where the first is refused by the check constraint.
\<close>

definition claimAutomationJob ::
  "string \<Rightarrow> auto_patch \<Rightarrow> millis \<Rightarrow> millis \<Rightarrow> millis \<Rightarrow> auto_table \<Rightarrow> automation_job option result \<times> auto_table" where
  "claimAutomationJob automationId claimFields due stale now tab =
     (let k = js_trim automationId;
          hit = claim_filter k due stale;
          p = (if status_check tab claimFields then claimFields else paused_claim claimFields)
      in if k = [] then (Inr None, tab)
         else (Inr (map_option (apply_patch p now) (List.find hit (at_rows tab))), patch_rows hit p now tab))"

definition buildSchedulableAutomationJobFilter :: "millis \<Rightarrow> automation_job \<Rightarrow> bool" where
  "buildSchedulableAutomationJobFilter due r \<longleftrightarrow> due_at due r \<or> stale_claim (due - 120000) r"

definition fetch_key :: "automation_job \<Rightarrow> bool \<times> millis \<times> millis" where
  "fetch_key r = (case aj_next_run_at r of
      None \<Rightarrow> (True, 0, aj_updated_at r) | Some t \<Rightarrow> (False, t, aj_updated_at r))"

definition fetchActiveAutomationJobs :: "nat \<Rightarrow> millis \<Rightarrow> auto_table \<Rightarrow> automation_job list" where
  "fetchActiveAutomationJobs limit due tab =
     take limit (sort_key fetch_key (filter (buildSchedulableAutomationJobFilter due) (at_rows tab)))"

section \<open>A tick against the table\<close>

definition stale_before :: "automation_config \<Rightarrow> millis \<Rightarrow> millis" where
  "stale_before cfg now = now - max (if ac_claimStaleMs cfg = 0 then 120000 else ac_claimStaleMs cfg) 1000"

definition on_table :: "automation_config \<Rightarrow> millis \<Rightarrow> auto_effect \<Rightarrow> auto_table \<Rightarrow> auto_table" where
  "on_table cfg now eff tab = (case eff of
      APatch k p \<Rightarrow> snd (patchAutomationJob k p now tab)
    | AClaim k p \<Rightarrow> snd (claimAutomationJob k p now (stale_before cfg now) now tab)
    | AQueue _ _ _ \<Rightarrow> tab
    | ARun _ \<Rightarrow> tab)"

definition table_after :: "automation_config \<Rightarrow> millis \<Rightarrow> auto_table \<Rightarrow> auto_effect list \<Rightarrow> auto_table" where
  "table_after cfg now tab trace = fold (on_table cfg now) trace tab"

definition table_env ::
  "automation_config \<Rightarrow> millis \<Rightarrow> supa_env \<Rightarrow> (jsv \<Rightarrow> millis option) \<Rightarrow> (string \<Rightarrow> feed_record result)
    \<Rightarrow> (auto_effect list \<Rightarrow> automation_job \<Rightarrow> string \<Rightarrow> string \<Rightarrow> queue_reply result) \<Rightarrow> auto_table \<Rightarrow> auto_env" where
  "table_env cfg now senv parse_date feed queue tab =
     \<lparr>ae_now = now, ae_supa_env = senv, ae_parse_date = parse_date,
      ae_fetch = (\<lambda>trace. Inr (fetchActiveAutomationJobs (nat (ac_batchSize cfg)) now (table_after cfg now tab trace))),
      ae_claim = (\<lambda>trace k p. fst (claimAutomationJob k p now (stale_before cfg now) now (table_after cfg now tab trace))),
      ae_patch = (\<lambda>trace k p. fst (patchAutomationJob k p now (table_after cfg now tab trace))),
      ae_run = (\<lambda>trace r. Inr ()),
      ae_feed = feed,
      ae_queue = queue\<rparr>"

definition broadcasts :: "auto_effect list \<Rightarrow> string list" where
  "broadcasts trace = concat (map (\<lambda>eff. case eff of AQueue _ r _ \<Rightarrow> [r] | _ \<Rightarrow> []) trace)"

end
