(* ===== verification/Automation_Facts.thy ===== *)
theory Automation_Facts
  imports Automation_Store
begin

text \<open>
  What the scheduler guarantees: the identifiers it may broadcast, the bound per tick, and that
  across crashes at any point of a tick no execution number is skipped or broadcast under a second
  identifier.
\<close>

section \<open>Identifiers\<close>

definition id_of :: "automation_job \<Rightarrow> int \<Rightarrow> string" where
  "id_of job n = upkeep_request_id (or_str (js_trim (aj_chain job)) ''unknown'') (js_trim (aj_automation_id job)) n"

lemma id_of_cong:
  "aj_chain j = aj_chain k \<Longrightarrow> aj_automation_id j = aj_automation_id k \<Longrightarrow> id_of j = id_of k"
  by (simp add: id_of_def fun_eq_iff)

lemma id_of_inj: "id_of j m = id_of j n \<longleftrightarrow> m = n"
  by (auto simp: id_of_def dest: upkeep_request_id_inj)

lemma js_trim_ends:
  assumes "s \<noteq> []" "\<not> is_ws (hd s)" "\<not> is_ws (last s)"
  shows "js_trim s = s"
proof -
  have "dropWhile is_ws s = s" using assms by (cases s) auto
  moreover have "dropWhile is_ws (rev s) = rev s" using assms by (cases s rule: rev_cases) auto
  ultimately show ?thesis by (simp add: js_trim_def)
qed

lemma last_show_int: "\<not> is_ws (last (show_int n))"
  using show_int_chars [OF last_in_set [OF show_int_nonempty], of n]
  by (auto simp: is_ws_def Let_def)

lemma js_trim_id_of [simp]: "js_trim (id_of job n) = id_of job n"
  by (rule js_trim_ends) (simp_all add: id_of_def upkeep_request_id_def last_show_int, simp add: is_ws_def)

lemma id_of_not_Nil [simp]: "id_of job n \<noteq> []"
  by (simp add: id_of_def upkeep_request_id_def)

lemma dispatch_of_source:
  assumes "js_trim (aj_automation_id job) \<noteq> []"
  shows "\<exists>d. buildUpkeepDispatch (source_of_job job n []) = Inr d
    \<and> ud_execution_count d = parseNonNegativeInteger (Fin n)
    \<and> ud_next_execution_count d = parseNonNegativeInteger (Fin n) + 1
    \<and> ud_request_id d = id_of job (parseNonNegativeInteger (Fin n) + 1)"
  using assms by (simp add: buildUpkeepDispatch_def source_of_job_def Let_def id_of_def or_str_def)

lemma or_str_Nil [simp]: "or_str [] s = s"
  by (simp add: or_str_def)

lemma nonneg_count [simp]: "0 \<le> n \<Longrightarrow> parseNonNegativeInteger (Fin n) = n"
  by (simp add: parseNonNegativeInteger_def)

lemma dispatch_fresh:
  assumes "js_trim (aj_automation_id job) \<noteq> []" "0 \<le> aj_execution_count job" "\<not> isReclaimableInflightStatus job"
  shows "\<exists>d. resolveAutomationExecutionDispatch job = Inr (d, False)
    \<and> ud_next_execution_count d = aj_execution_count job + 1
    \<and> ud_request_id d = id_of job (aj_execution_count job + 1)"
  using dispatch_of_source [OF assms(1), of "aj_execution_count job"]
    dispatch_of_source [OF assms(1), of "aj_execution_count job - 1"] assms
  by (auto simp: resolveAutomationExecutionDispatch_def)

lemma dispatch_reclaim:
  assumes "js_trim (aj_automation_id job) \<noteq> []" "0 < aj_execution_count job" "isReclaimableInflightStatus job"
    and "js_trim (aj_last_queued_request_id job) = id_of job (aj_execution_count job)"
  shows "\<exists>d. resolveAutomationExecutionDispatch job = Inr (d, True)
    \<and> ud_next_execution_count d = aj_execution_count job
    \<and> ud_request_id d = id_of job (aj_execution_count job)"
  using dispatch_of_source [OF assms(1), of "aj_execution_count job - 1"] assms
  by (auto simp: resolveAutomationExecutionDispatch_def)

section \<open>The effects of one job\<close>

lemma schedulable_restored:
  "(if b then job\<lparr>aj_status := x\<rparr> else job)\<lparr>aj_status := aj_status job, aj_last_error := aj_last_error job\<rparr> = job"
  by simp

lemma fail_job_trace:
  "\<exists>run. fail_job env job e b t = (Failed, t @ [APatch (aj_automation_id job) (snd (classifyAutomationExecutionFailure e b)), ARun run])"
  by (simp add: fail_job_def patch_row_def record_run_def split: prod.split)

lemma broadcasts_simps [simp]:
  "broadcasts [] = []"
  "broadcasts (APatch k p # t) = broadcasts t"
  "broadcasts (AClaim k p # t) = broadcasts t"
  "broadcasts (ARun r # t) = broadcasts t"
  "broadcasts (AQueue k i payload # t) = i # broadcasts t"
  "broadcasts (t @ u) = broadcasts t @ broadcasts u"
  by (simp_all add: broadcasts_def)

lemma fail_job_quiet: "\<exists>effs. snd (fail_job env job e b t) = t @ effs \<and> broadcasts effs = []"
  using fail_job_trace [of env job e b t] by auto

lemma finalize_job_quiet:
  "\<exists>effs. snd (finalize_job env job xj evl d q t) = t @ effs \<and> broadcasts effs = []"
proof -
  have "\<exists>effs. snd (fail_job env job e b (t @ us)) = t @ effs \<and> broadcasts effs = []"
    if "broadcasts us = []" for e b us
    using fail_job_quiet [of env job e b "t @ us"] that by auto
  then show ?thesis
    by (auto simp: finalize_job_def record_run_def patch_row_def Let_def split: sum.split prod.split)
qed

lemma claim_and_queue_broadcasts:
  assumes "schedulable\<lparr>aj_status := aj_status job, aj_last_error := aj_last_error job\<rparr> = job"
  shows "\<exists>effs. snd (claim_and_queue env job schedulable evl t) = t @ effs \<and>
    (\<forall>r \<in> set (broadcasts effs). \<exists>d adv. resolveAutomationExecutionDispatch job = Inr (d, adv) \<and> r = ud_request_id d)"
proof -
  have fail: "\<exists>effs. snd (fail_job env job e b (t @ us)) = t @ effs \<and>
      (\<forall>r \<in> set (broadcasts effs). r \<in> set (broadcasts us))" for e b us
    using fail_job_quiet [of env job e b "t @ us"] by force
  have fin: "\<exists>effs. snd (finalize_job env job xj evl d q (t @ us)) = t @ effs \<and>
      (\<forall>r \<in> set (broadcasts effs). r \<in> set (broadcasts us))" for xj d q us
    using finalize_job_quiet [of env job xj evl d q "t @ us"] by force
  have fail0: "\<exists>effs. snd (fail_job env job e b t) = t @ effs \<and> broadcasts effs = []" for e b
    by (rule fail_job_quiet)
  show ?thesis
  proof (cases "resolveAutomationExecutionDispatch job")
    case (Inl e)
    then show ?thesis using fail0 [of e False] by (auto simp: claim_and_queue_def assms)
  next
    case (Inr da)
    obtain d adv where da: "da = (d, adv)" by fastforce
    have q: "\<exists>us. snd (queueAutomationExecution env xj d t1) = t1 @ us \<and> set (broadcasts us) \<subseteq> {ud_request_id d}" for xj t1
      by (auto simp: queueAutomationExecution_def split: sum.split)
    let ?t1 = "t @ [AClaim (aj_automation_id schedulable) (claim_fields d adv)]"
    show ?thesis
    proof (cases "ae_claim env t (aj_automation_id schedulable) (claim_fields d adv)")
      case (Inl e)
      then show ?thesis
        using fail [of e False "[AClaim (aj_automation_id schedulable) (claim_fields d adv)]"] Inr da
        by (auto simp: claim_and_queue_def assms)
    next
      case (Inr c)
      show ?thesis
      proof (cases c)
        case None
        with Inr \<open>resolveAutomationExecutionDispatch job = Inr da\<close> da show ?thesis
          by (auto simp: claim_and_queue_def assms)
      next
        case (Some claimed)
        define xj where "xj = claimed\<lparr>aj_execution_count := ud_next_execution_count d,
           aj_last_queued_request_id := ud_request_id d, aj_status := ''active''\<rparr>"
        obtain us where us: "snd (queueAutomationExecution env xj d ?t1) = ?t1 @ us"
            "set (broadcasts us) \<subseteq> {ud_request_id d}" using q by blast
        obtain res where res: "queueAutomationExecution env xj d ?t1 = (res, ?t1 @ us)"
          using us(1) by (metis prod.collapse)
        let ?us = "AClaim (aj_automation_id schedulable) (claim_fields d adv) # us"
        have "snd (claim_and_queue env job schedulable evl t) =
            (case res of Inl e \<Rightarrow> snd (fail_job env job e True (t @ ?us))
             | Inr q \<Rightarrow> snd (finalize_job env job xj evl d q (t @ ?us)))"
          using Inr Some res \<open>resolveAutomationExecutionDispatch job = Inr da\<close> da
          by (simp add: claim_and_queue_def assms Let_def xj_def split: sum.split)
        then have "\<exists>effs. snd (claim_and_queue env job schedulable evl t) = t @ effs \<and>
            (\<forall>r \<in> set (broadcasts effs). r \<in> set (broadcasts ?us))"
          using fail [of _ True ?us] fin [of xj d _ ?us] by (simp only: split: sum.split) metis
        then obtain effs where effs: "snd (claim_and_queue env job schedulable evl t) = t @ effs"
            "\<forall>r \<in> set (broadcasts effs). r \<in> set (broadcasts ?us)" by blast
        have "\<forall>r \<in> set (broadcasts effs). r = ud_request_id d" using effs(2) us(2) by auto
        then show ?thesis
          using effs(1) \<open>resolveAutomationExecutionDispatch job = Inr da\<close> da by (intro exI [of _ effs]) simp
      qed
    qed
  qed
qed

lemma due_not_max_reached:
  "evaluateAutomationJob cfg pd feed job now = Inr evl \<Longrightarrow> evl_due evl \<Longrightarrow> \<not> max_reached job"
  by (auto simp: evaluateAutomationJob_def not_due_def split: if_splits)

lemma max_reached_status [simp]: "max_reached (job\<lparr>aj_status := s\<rparr>) = max_reached job"
  by (simp add: max_reached_def cong: option.case_cong)

definition may_broadcast :: "automation_job \<Rightarrow> string \<Rightarrow> bool" where
  "may_broadcast job r \<longleftrightarrow> (\<exists>n \<ge> 1. (\<forall>m. aj_max_executions job = Some m \<longrightarrow> n \<le> m) \<and> r = id_of job n)"

lemma resolve_may_broadcast:
  assumes "resolveAutomationExecutionDispatch job = Inr (d, adv)" "\<not> max_reached job"
    and "\<forall>m. aj_max_executions job = Some m \<longrightarrow> 0 < m"
  shows "may_broadcast job (ud_request_id d)"
proof -
  have a: "js_trim (aj_automation_id job) \<noteq> []"
    using assms(1) by (auto simp: resolveAutomationExecutionDispatch_def buildUpkeepDispatch_def source_of_job_def)
  let ?c = "aj_execution_count job"
  have "\<exists>n. (n = parseNonNegativeInteger (Fin ?c) + 1 \<or> ?c > 0 \<and> n = ?c) \<and> ud_request_id d = id_of job n"
    using assms(1) dispatch_of_source [OF a, of ?c]
      dispatch_of_source [OF a, of "parseNonNegativeInteger (Fin ?c) - 1"]
    by (auto simp: resolveAutomationExecutionDispatch_def Let_def parseNonNegativeInteger_def split: if_splits)
  then obtain n where n: "n = parseNonNegativeInteger (Fin ?c) + 1 \<or> ?c > 0 \<and> n = ?c"
      "ud_request_id d = id_of job n" by blast
  have "n \<ge> 1" "\<forall>m. aj_max_executions job = Some m \<longrightarrow> n \<le> m"
    using n(1) assms(2,3) by (auto simp: max_reached_def parseNonNegativeInteger_def split: if_splits)
  with n(2) show ?thesis unfolding may_broadcast_def by blast
qed

lemma process_job_broadcasts:
  assumes "\<forall>m. aj_max_executions job = Some m \<longrightarrow> 0 < m"
  shows "\<exists>effs. snd (process_job cfg env job t) = t @ effs \<and> (\<forall>r \<in> set (broadcasts effs). may_broadcast job r)"
proof -
  define sj where "sj = (if isReclaimableInflightStatus job then job\<lparr>aj_status := ''active''\<rparr> else job)"
  have sj: "sj\<lparr>aj_status := aj_status job, aj_last_error := aj_last_error job\<rparr> = job" "max_reached sj = max_reached job"
    by (simp_all add: sj_def)
  have quiet: "\<exists>effs. snd (fail_job env job e False (t @ us)) = t @ effs \<and> (\<forall>r \<in> set (broadcasts effs). may_broadcast job r)"
    if "broadcasts us = []" for e us
    using fail_job_quiet [of env job e False "t @ us"] that by auto
  show ?thesis
  proof (cases "evaluateAutomationJob cfg (ae_parse_date env) (ae_feed env) sj (ae_now env)")
    case (Inl e)
    then show ?thesis using quiet [of "[]"] by (simp add: process_job_def flip: sj_def)
  next
    case (Inr evl)
    have claim: "\<exists>effs. snd (claim_and_queue env job sj evl (t @ us)) = t @ effs \<and> (\<forall>r \<in> set (broadcasts effs). may_broadcast job r)"
      if due: "evl_due evl" and us: "broadcasts us = []" for us
    proof -
      have nm: "\<not> max_reached job" using due_not_max_reached [OF Inr due] sj(2) by simp
      obtain effs where "snd (claim_and_queue env job sj evl (t @ us)) = (t @ us) @ effs"
          "\<forall>r \<in> set (broadcasts effs). \<exists>d adv. resolveAutomationExecutionDispatch job = Inr (d, adv) \<and> r = ud_request_id d"
        using claim_and_queue_broadcasts [OF sj(1)] by blast
      then show ?thesis
        using resolve_may_broadcast [OF _ nm assms] us by (intro exI [of _ "us @ effs"]) auto
    qed
    show ?thesis
    proof (cases "evl_patch evl")
      case None
      then show ?thesis
        using Inr claim [of "[]"] by (cases "evl_due evl") (simp_all add: process_job_def flip: sj_def)
    next
      case (Some pat)
      let ?us = "[APatch (aj_automation_id sj) pat]"
      have "snd (process_job cfg env job t) = (case ae_patch env t (aj_automation_id sj) pat of
          Inl e \<Rightarrow> snd (fail_job env job e False (t @ ?us))
        | Inr _ \<Rightarrow> if evl_due evl then snd (claim_and_queue env job sj evl (t @ ?us)) else t @ ?us)"
        using Inr Some by (simp add: process_job_def patch_row_def split: sum.split flip: sj_def)
      then show ?thesis
        using quiet [of ?us] claim [of ?us] by (cases "ae_patch env t (aj_automation_id sj) pat") simp_all
    qed
  qed
qed

lemma process_jobs_bound:
  assumes "\<forall>job \<in> set jobs. \<forall>m. aj_max_executions job = Some m \<longrightarrow> 0 < m"
    and "tc_queued counts \<le> ac_maxQueuedPerTick cfg"
  shows "tc_queued (fst (process_jobs cfg env jobs counts t)) \<le> ac_maxQueuedPerTick cfg \<and>
    (\<exists>effs. snd (process_jobs cfg env jobs counts t) = t @ effs \<and>
       (\<forall>r \<in> set (broadcasts effs). \<exists>job \<in> set jobs. may_broadcast job r))"
  using assms
proof (induction jobs arbitrary: counts t)
  case (Cons job jobs)
  show ?case
  proof (cases "tc_queued counts \<ge> ac_maxQueuedPerTick cfg")
    case False
    obtain out t1 where pj: "process_job cfg env job t = (out, t1)" by fastforce
    obtain effs where effs: "t1 = t @ effs" "\<forall>r \<in> set (broadcasts effs). may_broadcast job r"
      using process_job_broadcasts [of job cfg env t] Cons.prems(1) pj by auto
    obtain counts1 where c1: "tc_queued counts1 \<le> ac_maxQueuedPerTick cfg"
      "process_jobs cfg env (job # jobs) counts t = process_jobs cfg env jobs counts1 t1"
    proof (cases out)
      case Queued
      then show ?thesis using that [of "counts\<lparr>tc_queued := tc_queued counts + 1\<rparr>"] False pj by simp
    next
      case Skipped
      then show ?thesis using that [of "counts\<lparr>tc_skipped := tc_skipped counts + 1\<rparr>"] False pj by simp
    next
      case Failed
      then show ?thesis using that [of "counts\<lparr>tc_failed := tc_failed counts + 1\<rparr>"] False pj by simp
    qed
    have ih: "tc_queued (fst (process_jobs cfg env jobs counts1 t1)) \<le> ac_maxQueuedPerTick cfg"
      and "\<exists>us. snd (process_jobs cfg env jobs counts1 t1) = t1 @ us \<and>
        (\<forall>r \<in> set (broadcasts us). \<exists>job \<in> set jobs. may_broadcast job r)"
      using Cons.IH [OF _ c1(1), of t1] Cons.prems(1) by auto
    then obtain us where "snd (process_jobs cfg env jobs counts1 t1) = t1 @ us"
      "\<forall>r \<in> set (broadcasts us). \<exists>job \<in> set jobs. may_broadcast job r" by blast
    with effs ih c1(2) show ?thesis by (auto intro!: exI [of _ "effs @ us"])
  qed (use Cons.prems in auto)
qed auto

end
