(* ===== verification/Automation_System.thy ===== *)
theory Automation_System
  imports Automation_Facts
begin

text \<open>
  The scheduler over many ticks: one row of the automation table, the identifiers broadcast so far,
  and a step relation in which a tick may crash between any two of its effects and a cancellation
  may arrive between ticks.
\<close>

definition table1 :: "bool \<Rightarrow> automation_job \<Rightarrow> auto_table" where
  "table1 ok row = \<lparr>at_rows = [row], at_processing_ok = ok\<rparr>"

section \<open>The table with one row\<close>

lemma apply_patch_static [simp]:
  "aj_automation_id (apply_patch p now row) = aj_automation_id row"
  "aj_chain (apply_patch p now row) = aj_chain row"
  "aj_trigger_type (apply_patch p now row) = aj_trigger_type row"
  "aj_max_executions (apply_patch p now row) = aj_max_executions row"
  "aj_requester (apply_patch p now row) = aj_requester row"
  by (simp_all add: apply_patch_def)

lemma apply_patch_cols:
  "aj_status (apply_patch p now row) = set_col (ap_status p) (aj_status row)"
  "aj_execution_count (apply_patch p now row) = set_col (ap_execution_count p) (aj_execution_count row)"
  "aj_last_queued_request_id (apply_patch p now row) = set_col (ap_last_queued_request_id p) (aj_last_queued_request_id row)"
  "aj_last_error (apply_patch p now row) = set_col (ap_last_error p) (aj_last_error row)"
  "aj_next_run_at (apply_patch p now row) = set_col (ap_next_run_at p) (aj_next_run_at row)"
  "aj_updated_at (apply_patch p now row) = now"
  by (simp_all add: apply_patch_def)

lemma set_col_simps [simp]: "set_col None x = x" "set_col (Some y) x = y"
  by (simp_all add: set_col_def)

lemma patch_table1:
  "patchAutomationJob (aj_automation_id row) p now (table1 ok row) =
     (if ok \<or> ap_status p \<noteq> Some ''processing'' then (Inr (), table1 ok (apply_patch p now row))
      else (Inl check_violation, table1 ok row))"
  by (simp add: patchAutomationJob_def status_check_def patch_rows_def table1_def)

definition claim_patch :: "bool \<Rightarrow> auto_patch \<Rightarrow> auto_patch" where
  "claim_patch ok p = (if ok \<or> ap_status p \<noteq> Some ''processing'' then p else paused_claim p)"

lemma claim_table1:
  assumes "js_trim (aj_automation_id row) = aj_automation_id row" "aj_automation_id row \<noteq> []"
  shows "claimAutomationJob (aj_automation_id row) p due stale now (table1 ok row) =
     (if due_at due row \<or> stale_claim stale row
      then (Inr (Some (apply_patch (claim_patch ok p) now row)), table1 ok (apply_patch (claim_patch ok p) now row))
      else (Inr None, table1 ok row))"
  using assms
  by (simp add: claimAutomationJob_def status_check_def patch_rows_def table1_def claim_filter_def claim_patch_def Let_def)

lemma table_after_simps [simp]:
  "table_after cfg now tab [] = tab"
  "table_after cfg now tab (a # t) = table_after cfg now (on_table cfg now a tab) t"
  by (simp_all add: table_after_def)

lemma on_table_simps [simp]:
  "on_table cfg now (AQueue k r text) tab = tab"
  "on_table cfg now (ARun run) tab = tab"
  by (simp_all add: on_table_def)

section \<open>The invariant\<close>

definition identified :: "automation_job \<Rightarrow> bool" where
  "identified row \<longleftrightarrow> aj_automation_id row \<noteq> [] \<and> js_trim (aj_automation_id row) = aj_automation_id row
     \<and> aj_chain row = ''neo_n3'' \<and> aj_trigger_type row \<in> {''one_shot'', ''interval''}"

definition sched_inv :: "automation_job \<Rightarrow> string list \<Rightarrow> bool" where
  "sched_inv row ids \<longleftrightarrow>
     0 \<le> aj_execution_count row
     \<and> (\<forall>m. aj_max_executions row = Some m \<longrightarrow> aj_execution_count row \<le> m)
     \<and> set ids \<subseteq> id_of row ` {1..aj_execution_count row}
     \<and> id_of row ` {1..<aj_execution_count row} \<subseteq> set ids
     \<and> (isReclaimableInflightStatus row \<longrightarrow> 0 < aj_execution_count row
          \<and> js_trim (aj_last_queued_request_id row) = id_of row (aj_execution_count row))
     \<and> (aj_status row = ''active'' \<longrightarrow> 0 < aj_execution_count row \<longrightarrow> id_of row (aj_execution_count row) \<in> set ids)"

lemma trim_statuses [simp]:
  "js_trim ''active'' = ''active''" "js_trim ''processing'' = ''processing''" "js_trim ''paused'' = ''paused''"
  "js_trim ''completed'' = ''completed''" "js_trim ''error'' = ''error''" "js_trim ''cancelled'' = ''cancelled''"
  "js_trim AUTOMATION_PROCESSING_CLAIM_MARKER = AUTOMATION_PROCESSING_CLAIM_MARKER"
  by code_simp+

lemma id_of_patch [simp]: "id_of (apply_patch p now row) = id_of row"
  by (rule id_of_cong) simp_all

lemma identified_patch [simp]: "identified (apply_patch p now row) = identified row"
  by (simp add: identified_def)

lemma reclaimable_iff:
  "isReclaimableInflightStatus row \<longleftrightarrow> js_trim (aj_status row) = ''processing'' \<or>
     js_trim (aj_status row) = ''paused'' \<and> err_text row = AUTOMATION_PROCESSING_CLAIM_MARKER"
  by (simp add: isReclaimableInflightStatus_def Let_def)

lemma stale_reclaimable: "stale_claim stale row \<Longrightarrow> isReclaimableInflightStatus row"
  by (auto simp: stale_claim_def reclaimable_iff err_text_def)

lemma due_not_reclaimable: "due_at due row \<Longrightarrow> \<not> isReclaimableInflightStatus row"
  by (auto simp: due_at_def reclaimable_iff)

text \<open>A patch that stops the job keeps the invariant.\<close>

lemma sched_inv_stop:
  assumes "sched_inv row ids" "ap_execution_count p = None" "ap_last_queued_request_id p = None"
    and "ap_status p = Some s" "s \<in> {''completed'', ''error'', ''cancelled''}"
  shows "sched_inv (apply_patch p now row) ids"
  using assms by (auto simp: sched_inv_def apply_patch_cols reclaimable_iff)

text \<open>After the claim of execution \<open>n\<close> the row is in flight and pins its identifier.\<close>

definition claimed_for :: "automation_job \<Rightarrow> int \<Rightarrow> bool" where
  "claimed_for row n \<longleftrightarrow> 0 < n \<and> aj_execution_count row = n \<and> isReclaimableInflightStatus row
     \<and> js_trim (aj_last_queued_request_id row) = id_of row n
     \<and> (\<forall>m. aj_max_executions row = Some m \<longrightarrow> n \<le> m)"

lemma claim_patch_cols:
  "set_col (ap_execution_count (claim_patch ok (claim_fields d adv))) c = (if adv then c else ud_next_execution_count d)"
  "set_col (ap_last_queued_request_id (claim_patch ok (claim_fields d adv))) r = (if adv then r else ud_request_id d)"
  by (simp_all add: claim_patch_def claim_fields_def paused_claim_def Let_def no_patch_def)

lemma claim_patch_inflight:
  "isReclaimableInflightStatus (apply_patch (claim_patch ok (claim_fields d adv)) now row)"
  by (simp add: claim_patch_def claim_fields_def paused_claim_def Let_def no_patch_def reclaimable_iff
      apply_patch_cols err_text_def)

lemma claim_gives_claimed:
  assumes inv: "sched_inv row ids" "identified row" and hit: "due_at due row \<or> stale_claim stale row"
    and max: "\<not> max_reached row"
  shows "\<exists>d adv n. resolveAutomationExecutionDispatch row = Inr (d, adv) \<and> ud_next_execution_count d = n
     \<and> ud_request_id d = id_of row n
     \<and> claimed_for (apply_patch (claim_patch ok (claim_fields d adv)) now row) n
     \<and> set ids \<subseteq> id_of row ` {1..n} \<and> id_of row ` {1..<n} \<subseteq> set ids"
proof (cases "isReclaimableInflightStatus row")
  case True
  with inv have c: "0 < aj_execution_count row"
      "js_trim (aj_last_queued_request_id row) = id_of row (aj_execution_count row)"
    by (auto simp: sched_inv_def)
  obtain d where d: "resolveAutomationExecutionDispatch row = Inr (d, True)"
      "ud_next_execution_count d = aj_execution_count row" "ud_request_id d = id_of row (aj_execution_count row)"
    using dispatch_reclaim [OF _ c(1) True c(2)] inv(2) by (auto simp: identified_def)
  have "claimed_for (apply_patch (claim_patch ok (claim_fields d True)) now row) (aj_execution_count row)"
    using c inv(1) by (auto simp: claimed_for_def claim_patch_inflight apply_patch_cols claim_patch_cols sched_inv_def)
  with d inv(1) show ?thesis unfolding sched_inv_def by blast
next
  case False
  with hit have act: "aj_status row = ''active''" by (auto simp: due_at_def dest: stale_reclaimable)
  have c: "0 \<le> aj_execution_count row" using inv(1) by (simp add: sched_inv_def)
  let ?n = "aj_execution_count row + 1"
  obtain d where d: "resolveAutomationExecutionDispatch row = Inr (d, False)"
      "ud_next_execution_count d = ?n" "ud_request_id d = id_of row ?n"
    using dispatch_fresh [OF _ c False] inv(2) by (auto simp: identified_def)
  have "claimed_for (apply_patch (claim_patch ok (claim_fields d False)) now row) ?n"
    using c max d by (auto simp: claimed_for_def claim_patch_inflight apply_patch_cols claim_patch_cols max_reached_def)
  moreover have "{1..aj_execution_count row} \<subseteq> {1..?n}" by auto
  then have "set ids \<subseteq> id_of row ` {1..?n}" using inv(1) by (auto simp: sched_inv_def)
  moreover have "id_of row x \<in> set ids" if "x \<in> {1..<?n}" for x
  proof (cases "x = aj_execution_count row")
    case True
    with that inv(1) act show ?thesis by (simp add: sched_inv_def)
  next
    case False
    with that have "x \<in> {1..<aj_execution_count row}" by simp
    with inv(1) show ?thesis unfolding sched_inv_def by blast
  qed
  then have "id_of row ` {1..<?n} \<subseteq> set ids" by blast
  ultimately show ?thesis using d by blast
qed

lemma claimed_sched_inv:
  assumes "claimed_for row n" "set ids \<subseteq> id_of row ` {1..n}" "id_of row ` {1..<n} \<subseteq> set ids"
  shows "sched_inv row ids"
  using assms by (auto simp: sched_inv_def claimed_for_def reclaimable_iff)

section \<open>Every prefix of a tick\<close>

definition every_prefix :: "('a list \<Rightarrow> bool) \<Rightarrow> 'a list \<Rightarrow> bool" where
  "every_prefix Q t \<longleftrightarrow> (\<forall>n. Q (take n t))"

lemma every_prefix_simps [simp]:
  "every_prefix Q [] \<longleftrightarrow> Q []"
  "every_prefix Q (a # t) \<longleftrightarrow> Q [] \<and> every_prefix (\<lambda>u. Q (a # u)) t"
proof -
  show "every_prefix Q [] \<longleftrightarrow> Q []" by (simp add: every_prefix_def)
  have "(\<forall>n. Q (take n (a # t))) \<longleftrightarrow> Q [] \<and> (\<forall>n. Q (a # take n t))"
  proof safe
    fix n
    assume *: "\<forall>n. Q (take n (a # t))"
    show "Q []" using spec [OF *, of 0] by simp
    show "Q (a # take n t)" using spec [OF *, of "Suc n"] by simp
  next
    fix n
    assume "Q []" "\<forall>n. Q (a # take n t)"
    then show "Q (take n (a # t))" by (cases n) auto
  qed
  then show "every_prefix Q (a # t) \<longleftrightarrow> Q [] \<and> every_prefix (\<lambda>u. Q (a # u)) t" by (simp add: every_prefix_def)
qed

definition leads :: "automation_config \<Rightarrow> millis \<Rightarrow> bool \<Rightarrow> automation_job \<Rightarrow> string list \<Rightarrow> auto_effect list \<Rightarrow> bool" where
  "leads cfg now ok row ids t \<longleftrightarrow> (\<exists>row'. table_after cfg now (table1 ok row) t = table1 ok row'
     \<and> identified row' \<and> id_of row' = id_of row \<and> aj_max_executions row' = aj_max_executions row
     \<and> sched_inv row' (ids @ broadcasts t))"

lemma leads_Nil: "identified row \<Longrightarrow> sched_inv row ids \<Longrightarrow> leads cfg now ok row ids []"
  by (auto simp: leads_def intro!: exI [of _ row])

lemma leads_queue: "leads cfg now ok row ids (AQueue k r text # t) = leads cfg now ok row (ids @ [r]) t"
  by (simp add: leads_def)

lemma leads_run: "leads cfg now ok row ids (ARun run # t) = leads cfg now ok row ids t"
  by (simp add: leads_def)

lemma leads_patch:
  assumes "k = aj_automation_id row"
  shows "leads cfg now ok row ids (APatch k p # t) =
     (if ok \<or> ap_status p \<noteq> Some ''processing'' then leads cfg now ok (apply_patch p now row) ids t
      else leads cfg now ok row ids t)"
  using assms by (simp add: leads_def on_table_def patch_table1)

lemma leads_claim:
  assumes "k = aj_automation_id row" "identified row"
  shows "leads cfg now ok row ids (AClaim k p # t) =
     (if due_at now row \<or> stale_claim (stale_before cfg now) row
      then leads cfg now ok (apply_patch (claim_patch ok p) now row) ids t
      else leads cfg now ok row ids t)"
  using assms by (simp add: leads_def on_table_def claim_table1 identified_def)

lemmas leads_simps = leads_queue leads_run leads_patch leads_claim

text \<open>The failure patch and the final patch of an execution that has been broadcast.\<close>

lemma sched_inv_failure:
  assumes "claimed_for row n" "set ids \<subseteq> id_of row ` {1..n}" "id_of row ` {1..<n} \<subseteq> set ids"
  shows "sched_inv (apply_patch (snd (classifyAutomationExecutionFailure e True)) now row) ids"
  using assms
  by (auto simp: classifyAutomationExecutionFailure_def Let_def sched_inv_def claimed_for_def apply_patch_cols
      reclaimable_iff no_patch_def)

lemma queued_patch_cols:
  assumes "aj_trigger_type xj \<in> {''one_shot'', ''interval''}"
  shows "ap_execution_count (buildQueuedAutomationPatch xj None now d q) = Some (ud_next_execution_count d)"
    and "ap_status (buildQueuedAutomationPatch xj None now d q) \<in> {Some ''active'', Some ''completed''}"
  using assms by (auto simp: buildQueuedAutomationPatch_def Let_def split: option.split)

lemma sched_inv_finalised:
  assumes "claimed_for row n" "set ids \<subseteq> id_of row ` {1..n}" "id_of row ` {1..<n} \<subseteq> set ids" "id_of row n \<in> set ids"
    and "ap_execution_count p = Some n" "ap_status p \<in> {Some ''active'', Some ''completed''}"
  shows "sched_inv (apply_patch p now row) ids"
  using assms by (auto simp: sched_inv_def claimed_for_def apply_patch_cols reclaimable_iff)

lemma identified_dispatch: "identified row \<Longrightarrow> \<exists>d adv. resolveAutomationExecutionDispatch row = Inr (d, adv)"
  using dispatch_of_source [of row "aj_execution_count row"]
    dispatch_of_source [of row "parseNonNegativeInteger (Fin (aj_execution_count row)) - 1"]
  by (auto simp: identified_def resolveAutomationExecutionDispatch_def Let_def)

lemma identified_payload:
  "identified row \<Longrightarrow> \<exists>v. buildUpkeepExecutionPayload x (source_of_job row n r) = Inr v"
  by (auto simp: identified_def buildUpkeepExecutionPayload_def buildUpkeepDispatch_def source_of_job_def Let_def)

lemma evaluate_timed:
  assumes "aj_trigger_type job \<in> {''one_shot'', ''interval''}"
  shows "\<exists>evl. evaluateAutomationJob cfg pd feed job now = Inr evl \<and>
    (evl_patch evl = None \<or> \<not> evl_due evl \<and> (\<exists>p s. evl_patch evl = Some p \<and> ap_status p = Some s
        \<and> s \<in> {''completed'', ''error''} \<and> ap_execution_count p = None \<and> ap_last_queued_request_id p = None))"
  using assms by (auto simp: evaluateAutomationJob_def not_due_def no_patch_def Let_def split: option.split)

lemma broadcast_ids:
  assumes "claimed_for row n" "set ids \<subseteq> id_of row ` {1..n}" "id_of row ` {1..<n} \<subseteq> set ids"
  shows "set (ids @ [id_of row n]) \<subseteq> id_of row ` {1..n}" "id_of row ` {1..<n} \<subseteq> set (ids @ [id_of row n])"
    "id_of row n \<in> set (ids @ [id_of row n])"
  using assms by (auto simp: claimed_for_def)

lemma broadcast_start:
  assumes "identified row" "claimed_for row n" "set ids \<subseteq> id_of row ` {1..n}" "id_of row ` {1..<n} \<subseteq> set ids"
  shows "leads cfg now ok row ids []" "leads cfg now ok row (ids @ [id_of row n]) []"
  using leads_Nil [OF assms(1)] claimed_sched_inv [OF assms(2)] assms(3,4) broadcast_ids [OF assms(2-4)] by blast+

lemma executed_prefixes:
  assumes row: "identified row" "claimed_for row n" "set ids \<subseteq> id_of row ` {1..n}" "id_of row ` {1..<n} \<subseteq> set ids"
    and k: "k = aj_automation_id row"
    and p: "ap_execution_count p = Some n" "ap_status p \<in> {Some ''active'', Some ''completed''}"
  shows "every_prefix (leads cfg now ok row ids) [AQueue k (id_of row n) text, ARun run, APatch k p]"
  using broadcast_start [OF row] sched_inv_finalised [OF row(2) broadcast_ids [OF row(2-4)] p, of now] row(1) p(2)
  by (auto simp: leads_simps k intro!: leads_Nil)

lemma failed_prefixes:
  assumes row: "identified row" "claimed_for row n" "set ids \<subseteq> id_of row ` {1..n}" "id_of row ` {1..<n} \<subseteq> set ids"
    and k: "k = aj_automation_id row"
  shows "every_prefix (leads cfg now ok row ids)
    [AQueue k (id_of row n) text, APatch k (snd (classifyAutomationExecutionFailure e True)), ARun run]"
  using broadcast_start [OF row] sched_inv_failure [OF row(2) broadcast_ids(1,2) [OF row(2-4)], of e now]
    claimed_sched_inv [OF row(2) broadcast_ids(1,2) [OF row(2-4)]] row(1)
  by (auto simp: leads_simps k intro!: leads_Nil)

lemma every_prefix_due:
  fixes row ids cfg now senv pd feed queue ok
  defines "env \<equiv> table_env cfg now senv pd feed queue (table1 ok row)"
  assumes row: "identified row" "sched_inv row ids" and max: "\<not> max_reached row"
    and sj: "sj\<lparr>aj_status := aj_status row, aj_last_error := aj_last_error row\<rparr> = row"
      "aj_automation_id sj = aj_automation_id row"
    and evl: "evl_patch evl = None"
  shows "every_prefix (leads cfg now ok row ids) (snd (claim_and_queue env row sj evl []))"
proof (cases "due_at now row \<or> stale_claim (stale_before cfg now) row")
  case False
  obtain d adv where "resolveAutomationExecutionDispatch row = Inr (d, adv)" using identified_dispatch [OF row(1)] by blast
  with False row have "snd (claim_and_queue env row sj evl []) = [AClaim (aj_automation_id row) (claim_fields d adv)]"
    by (simp add: claim_and_queue_def sj env_def table_env_def claim_table1 identified_def)
  with False row show ?thesis by (simp add: leads_simps leads_Nil)
next
  case True
  obtain d adv n where d: "resolveAutomationExecutionDispatch row = Inr (d, adv)" "ud_next_execution_count d = n"
      "ud_request_id d = id_of row n"
      "claimed_for (apply_patch (claim_patch ok (claim_fields d adv)) now row) n"
      "set ids \<subseteq> id_of row ` {1..n}" "id_of row ` {1..<n} \<subseteq> set ids"
    using claim_gives_claimed [OF row(2,1) True max, of ok now] by blast
  define r1 where "r1 = apply_patch (claim_patch ok (claim_fields d adv)) now row"
  define xj where "xj = r1\<lparr>aj_execution_count := n, aj_last_queued_request_id := id_of row n, aj_status := ''active''\<rparr>"
  let ?k = "aj_automation_id row"
  have xj: "identified xj" "aj_automation_id xj = ?k" "aj_chain xj = ''neo_n3''"
      "aj_trigger_type xj \<in> {''one_shot'', ''interval''}"
    using row(1) by (simp_all add: xj_def r1_def identified_def)
  have r1: "identified r1" "claimed_for r1 n" "?k = aj_automation_id r1" "id_of r1 = id_of row"
    using row(1) d(4) by (simp_all add: r1_def)
  obtain v where v: "buildUpkeepExecutionPayload (aj_execution_payload r1)
      (source_of_job xj (ud_execution_count d) (id_of row n)) = Inr v" using identified_payload [OF xj(1)] by blast
  define q where "q = ae_queue env [AClaim ?k (claim_fields d adv)] xj (stringify v) (id_of row n)"
  define t2 where "t2 = [AClaim ?k (claim_fields d adv), AQueue ?k (id_of row n) (stringify v)]"
  have step: "claim_and_queue env row sj evl [] = (case q of Inl e \<Rightarrow> fail_job env row e True t2
      | Inr y \<Rightarrow> finalize_job env row xj evl d y t2)"
  proof -
    have "ae_claim env [] ?k (claim_fields d adv) = Inr (Some r1)"
      using True row(1) by (simp add: env_def table_env_def claim_table1 identified_def r1_def)
    moreover have "queueAutomationExecution env xj d [AClaim ?k (claim_fields d adv)] = (q, t2)"
      using v xj(2,3) by (simp add: queueAutomationExecution_def q_def t2_def d(3) xj_def)
    ultimately show ?thesis
      by (simp add: claim_and_queue_def sj d(1-3) Let_def flip: xj_def split: sum.split)
  qed
  note pre = executed_prefixes [OF r1(1,2) _ _ r1(3), unfolded r1(4), OF d(5,6)]
    failed_prefixes [OF r1(1,2) _ _ r1(3), unfolded r1(4), OF d(5,6)]
  have claim: "every_prefix (leads cfg now ok row ids) (AClaim ?k (claim_fields d adv) # t)"
    if "every_prefix (leads cfg now ok r1 ids) t" for t
    using that True row by (simp add: leads_Nil leads_claim r1_def [symmetric])
  show ?thesis
  proof (cases q)
    case (Inl e)
    obtain run where "snd (claim_and_queue env row sj evl []) =
        t2 @ [APatch ?k (snd (classifyAutomationExecutionFailure e True)), ARun run]"
      using fail_job_trace [of env row e True t2] Inl step by auto
    with claim pre(2) show ?thesis by (simp add: t2_def del: every_prefix_simps)
  next
    case (Inr y)
    let ?id = "or_str (qr_request_id y) (id_of row n)"
    let ?p = "buildQueuedAutomationPatch xj None now d ?id"
    have pc: "ap_execution_count ?p = Some n" "ap_status ?p \<in> {Some ''active'', Some ''completed''}"
      using queued_patch_cols [OF xj(4)] d(2) by simp_all
    have okp: "fst (patchAutomationJob ?k ?p now (table_after cfg now (table1 ok row) us)) = Inr ()"
      if "table_after cfg now (table1 ok row) us = table1 ok r1" for us
      using pc(2) r1(3) patch_table1 [of r1 ?p now ok] that by auto
    have "snd (finalize_job env row xj evl d y t2) = t2 @ [ARun run, APatch ?k ?p]"
      if "run = \<lparr>rr_automation_id = ?k, rr_queued_request_id = Some ?id,
            rr_status = (if qr_duplicate y then ''skipped'' else ''queued''),
            rr_trigger_reason = or_str (evl_triggerReason evl) (aj_trigger_type xj),
            rr_observed_value = or_null (Some (evl_observedValue evl)), rr_error = None\<rparr>" for run
    proof -
      have "table_after cfg now (table1 ok row) (t2 @ [ARun run]) = table1 ok r1"
        using True row(1) by (simp add: t2_def on_table_def claim_table1 identified_def r1_def)
      from okp [OF this] that show ?thesis
        by (simp add: finalize_job_def record_run_def patch_row_def Let_def env_def table_env_def d(3) evl xj(2))
    qed
    with claim pre(1) [OF pc] step Inr show ?thesis by (simp add: t2_def del: every_prefix_simps)
  qed
qed

lemma every_prefix_tick:
  assumes "identified row" "sched_inv row ids"
  shows "every_prefix (leads cfg now ok row ids)
    (snd (process_job cfg (table_env cfg now senv pd feed queue (table1 ok row)) row []))"
proof -
  define env where "env = table_env cfg now senv pd feed queue (table1 ok row)"
  define sj where "sj = (if isReclaimableInflightStatus row then row\<lparr>aj_status := ''active''\<rparr> else row)"
  have sj: "sj\<lparr>aj_status := aj_status row, aj_last_error := aj_last_error row\<rparr> = row"
      "aj_automation_id sj = aj_automation_id row" "max_reached sj = max_reached row"
      "aj_trigger_type sj \<in> {''one_shot'', ''interval''}"
    using assms(1) by (simp_all add: sj_def identified_def)
  obtain evl where evl: "evaluateAutomationJob cfg pd feed sj now = Inr evl"
    and alt: "evl_patch evl = None \<or> \<not> evl_due evl \<and> (\<exists>p s. evl_patch evl = Some p \<and> ap_status p = Some s
        \<and> s \<in> {''completed'', ''error''} \<and> ap_execution_count p = None \<and> ap_last_queued_request_id p = None)"
    using evaluate_timed [OF sj(4)] by blast
  have env: "ae_parse_date env = pd" "ae_feed env = feed" "ae_now env = now" by (simp_all add: env_def table_env_def)
  have here: "leads cfg now ok row ids []" using assms by (rule leads_Nil)
  from alt have "every_prefix (leads cfg now ok row ids) (snd (process_job cfg env row []))"
  proof (elim disjE conjE exE)
    assume none: "evl_patch evl = None"
    show ?thesis
    proof (cases "evl_due evl")
      case False
      with evl none here show ?thesis by (simp add: process_job_def env flip: sj_def)
    next
      case True
      have "\<not> max_reached row" using due_not_max_reached [OF evl True] sj(3) by simp
      then have "every_prefix (leads cfg now ok row ids) (snd (claim_and_queue env row sj evl []))"
        unfolding env_def by (rule every_prefix_due [OF assms _ sj(1,2) none])
      with True evl none show ?thesis by (simp add: process_job_def env flip: sj_def)
    qed
  next
    fix p s
    assume p: "\<not> evl_due evl" "evl_patch evl = Some p" "ap_status p = Some s" "s \<in> {''completed'', ''error''}"
      "ap_execution_count p = None" "ap_last_queued_request_id p = None"
    have "patch_row env (aj_automation_id row) p [] = (Inr (), [APatch (aj_automation_id row) p])"
      using p(3,4) by (auto simp: patch_row_def env_def table_env_def patch_table1)
    then have "snd (process_job cfg env row []) = [APatch (aj_automation_id row) p]"
      using evl p sj(2) by (simp add: process_job_def env flip: sj_def)
    moreover have "leads cfg now ok (apply_patch p now row) ids []"
      by (rule leads_Nil) (use assms p(3-6) sched_inv_stop in auto)
    ultimately show ?thesis using here by (auto simp: leads_patch)
  qed
  then show ?thesis by (simp only: env_def)
qed

section \<open>Many ticks\<close>

text \<open>
  One tick of the scheduler on a row the fetch returned, cut off after its first \<open>n\<close> effects, or a
  cancellation. The broadcast may fail or succeed as \<open>queue\<close> says; the clock is free.
\<close>

inductive auto_step :: "automation_config \<Rightarrow> bool \<Rightarrow> automation_job \<times> string list \<Rightarrow> automation_job \<times> string list \<Rightarrow> bool"
  for cfg ok where
  tick: "buildSchedulableAutomationJobFilter now row \<Longrightarrow>
     trace = snd (process_job cfg (table_env cfg now senv pd feed queue (table1 ok row)) row []) \<Longrightarrow>
     table_after cfg now (table1 ok row) (take n trace) = table1 ok row' \<Longrightarrow>
     auto_step cfg ok (row, ids) (row', ids @ broadcasts (take n trace))"
| cancel: "auto_step cfg ok (row, ids) (apply_patch (cancellation_patch row) now row, ids)"

inductive_cases auto_stepE: "auto_step cfg ok (row, ids) s"

lemma table1_inject [simp]: "table1 ok r = table1 ok' r' \<longleftrightarrow> ok = ok' \<and> r = r'"
  by (auto simp: table1_def)

definition sched_ok :: "automation_job \<Rightarrow> automation_job \<times> string list \<Rightarrow> bool" where
  "sched_ok row s \<longleftrightarrow> identified (fst s) \<and> sched_inv (fst s) (snd s) \<and> id_of (fst s) = id_of row
     \<and> aj_max_executions (fst s) = aj_max_executions row"

lemma cancel_sched_inv: "sched_inv row ids \<Longrightarrow> sched_inv (apply_patch (cancellation_patch row) now row) ids"
  by (rule sched_inv_stop [where s = "''cancelled''"]) (simp_all add: cancellation_patch_def Let_def no_patch_def)

lemma auto_step_ok: "auto_step cfg ok s t \<Longrightarrow> sched_ok row0 s \<Longrightarrow> sched_ok row0 t"
proof (induction rule: auto_step.induct)
  case (tick now row trace senv pd feed queue n row' ids)
  have "leads cfg now ok row ids (take n trace)"
    using every_prefix_tick [of row ids] tick by (simp add: every_prefix_def sched_ok_def)
  then show ?case using tick by (auto simp: leads_def sched_ok_def)
next
  case (cancel row ids now)
  then show ?case by (simp add: sched_ok_def cancel_sched_inv)
qed

lemma auto_steps_ok: "(auto_step cfg ok)\<^sup>*\<^sup>* s t \<Longrightarrow> sched_ok row0 s \<Longrightarrow> sched_ok row0 t"
  by (induction rule: rtranclp_induct) (auto intro: auto_step_ok)


definition sample_cfg :: automation_config where
  "sample_cfg = \<lparr>ac_enabled = True, ac_batchSize = 50, ac_maxQueuedPerTick = 10, ac_claimStaleMs = 120000,
     ac_defaultPriceCooldownMs = Fin 60000, ac_idleBackoffMs = 0\<rparr>"

definition sample_row :: "string \<Rightarrow> jsv \<Rightarrow> int option \<Rightarrow> automation_job" where
  "sample_row trigger_type trigger_config max_executions = \<lparr>aj_automation_id = ''a1'', aj_registration_request_id = ''7'', aj_project_slug = [],
     aj_chain = ''neo_n3'', aj_requester = ''NR'', aj_callback_contract = ''0x1'', aj_callback_method = ''cb'',
     aj_execution_request_type = ''oracle'', aj_execution_payload = JObj [], aj_trigger_type = trigger_type,
     aj_trigger_config = trigger_config, aj_trigger_state = JObj [],
     aj_status = ''active'', aj_next_run_at = None, aj_last_run_at = None,
     aj_execution_count = 0, aj_max_executions = max_executions, aj_last_queued_request_id = [], aj_last_error = None,
     aj_created_at = 500, aj_updated_at = 500\<rparr>"

definition timed_row :: automation_job where
  "timed_row = (sample_row ''interval'' (JObj [(''interval_ms'', JNum (Fin 60000))]) (Some 3))\<lparr>aj_next_run_at := Some 1000\<rparr>"

definition no_date :: "jsv \<Rightarrow> millis option" where
  "no_date v = None"

definition flat_feed :: "string \<Rightarrow> string \<Rightarrow> feed_record result" where
  "flat_feed price pair = Inr \<lparr>fr_price = JStr price, fr_roundId = JStr ''1''\<rparr>"

definition accepts :: "auto_effect list \<Rightarrow> automation_job \<Rightarrow> string \<Rightarrow> string \<Rightarrow> queue_reply result" where
  "accepts trace job text r = Inr \<lparr>qr_request_id = r, qr_duplicate = False, qr_body = JNull\<rparr>"

definition no_env :: supa_env where
  "no_env = \<lparr>supabaseBackoffMs = 0, supabaseTransientBackoffMs = 0\<rparr>"

definition sample_env :: "millis \<Rightarrow> automation_job \<Rightarrow> auto_env" where
  "sample_env now row = table_env sample_cfg now no_env no_date (flat_feed ''50'') accepts (table1 True row)"

definition tick_trace :: "millis \<Rightarrow> automation_job \<Rightarrow> auto_effect list" where
  "tick_trace now row = snd (process_job sample_cfg (sample_env now row) row [])"

definition row_after :: "millis \<Rightarrow> nat \<Rightarrow> automation_job \<Rightarrow> automation_job" where
  "row_after now n row = hd (at_rows (table_after sample_cfg now (table1 True row) (take n (tick_trace now row))))"

lemma table_after_table1: "\<exists>r. table_after cfg now (table1 ok row) t = table1 ok r"
proof (induction t arbitrary: row)
  case (Cons a t)
  have "\<exists>r. on_table cfg now a (table1 ok row) = table1 ok r"
    by (auto simp: on_table_def patchAutomationJob_def claimAutomationJob_def patch_rows_def table1_def Let_def
        split: auto_effect.split)
  then show ?case using Cons.IH by auto
qed simp

lemma sample_tick:
  assumes "buildSchedulableAutomationJobFilter now row"
  shows "auto_step sample_cfg True (row, ids) (row_after now n row, ids @ broadcasts (take n (tick_trace now row)))"
proof -
  obtain r where r: "table_after sample_cfg now (table1 True row) (take n (tick_trace now row)) = table1 True r"
    using table_after_table1 by blast
  then have "row_after now n row = r" by (simp add: row_after_def table1_def)
  with r assms show ?thesis
    by (auto simp: tick_trace_def sample_env_def intro!: auto_step.tick [where now = now and n = n])
qed


section \<open>Bounds of a tick\<close>

text \<open>
  In one tick the scheduler queues at most \<open>maxQueuedPerTick\<close> executions, and every identifier
  it broadcasts - on first attempts, reclaims and retries, whatever the store, the feed and the
  chain answer - is the identifier of an execution number between 1 and the \<open>max_executions\<close> of
  a job it fetched.
\<close>

theorem tick_execution_bound:
  assumes "ae_fetch env (tw_trace w) = Inr jobs"
    and "\<forall>job \<in> set jobs. \<forall>m. aj_max_executions job = Some m \<longrightarrow> 0 < m"
    and "processAutomationJobs cfg env w = ((counts, inspected), w')"
  shows "tc_queued counts \<le> ac_maxQueuedPerTick cfg \<and>
    (\<exists>effs. tw_trace w' = tw_trace w @ effs \<and>
       (\<forall>r \<in> set (broadcasts effs). \<exists>job \<in> set jobs. may_broadcast job r))"
proof (cases "w' = w \<and> tc_queued counts = 0")
  case False
  let ?zero = "\<lparr>tc_queued = 0, tc_skipped = 0, tc_failed = 0\<rparr>"
  obtain c t where pj: "process_jobs cfg env jobs ?zero (tw_trace w) = (c, t)" by fastforce
  have "counts = c \<and> tw_trace w' = t"
    using assms(1,3) False by (auto simp: processAutomationJobs_def Let_def pj split: if_splits)
  then show ?thesis using process_jobs_bound [OF assms(2), of ?zero cfg env "tw_trace w"] pj by simp
qed auto

theorem tick_execution_bound_witness:
  "\<exists>counts inspected w'. processAutomationJobs sample_cfg (sample_env 2000 timed_row)
      \<lparr>tw_trace = [], tw_backoff = no_backoff, tw_lastEmptyFetchAt = 0\<rparr> = ((counts, inspected), w')
    \<and> tc_queued counts \<le> 10 \<and> broadcasts (tw_trace w') = [id_of timed_row 1]"
proof -
  let ?w = "\<lparr>tw_trace = [], tw_backoff = no_backoff, tw_lastEmptyFetchAt = 0\<rparr> :: tick_world"
  obtain counts inspected w' where r: "processAutomationJobs sample_cfg (sample_env 2000 timed_row) ?w = ((counts, inspected), w')"
    by (metis prod.collapse)
  have "ae_fetch (sample_env 2000 timed_row) (tw_trace ?w) = Inr [timed_row]" by code_simp
  moreover have "\<forall>job \<in> set [timed_row]. \<forall>m. aj_max_executions job = Some m \<longrightarrow> 0 < m"
    by (simp add: timed_row_def sample_row_def)
  ultimately have "tc_queued counts \<le> ac_maxQueuedPerTick sample_cfg"
    using tick_execution_bound [OF _ _ r] by blast
  moreover have "broadcasts (tw_trace (snd (processAutomationJobs sample_cfg (sample_env 2000 timed_row) ?w))) = [id_of timed_row 1]"
    by code_simp
  ultimately show ?thesis using r by (auto simp: sample_cfg_def)
qed

end
