(* ===== verification/Automation_Cases.thy ===== *)
theory Automation_Cases
  imports Automation_System
begin

text \<open>
  Runs of the scheduler whose outcome is not the one its comments describe.
\<close>

section \<open>Price triggers with a cooldown\<close>

definition cooldown_of :: "automation_config \<Rightarrow> automation_job \<Rightarrow> jsnum" where
  "cooldown_of cfg job = (let c = getp (plain_or_empty (aj_trigger_config job)) ''cooldown_ms'' in
     if is_nullish c then ac_defaultPriceCooldownMs cfg else js_to_number c)"

lemma price_patch:
  assumes "evaluateAutomationJob cfg pd feed job now = Inr evl" "aj_trigger_type job = ''price_threshold''"
    and "cooldown_of cfg job = Fin c" "0 < c" "evl_due evl"
  shows "\<exists>p. evl_patch evl = Some p \<and> ap_status p = None \<and> ap_next_run_at p = Some (Some (now + c))"
  using assms
  by (auto simp: evaluateAutomationJob_def evaluatePriceThreshold_def cooldown_of_def not_due_def no_patch_def Let_def
      bind_result_eq_Inr split: if_splits option.splits)

lemma patched_row_unclaimable:
  assumes "ap_next_run_at p = Some (Some (now + c))" "0 < c"
  shows "\<not> due_at now (apply_patch p now row) \<and> \<not> stale_claim (stale_before cfg now) (apply_patch p now row)"
  using assms by (auto simp: due_at_def stale_claim_def apply_patch_cols stale_before_def)

text \<open>
  C40: A price-threshold job whose cooldown is positive is never broadcast, whatever its row, the
  feed's price and the clock are: the tick writes \<open>next_run_at = now + cooldown\<close> and a fresh
  \<open>updated_at\<close> before it claims, and the claim's row filter then matches neither a due row nor a
  stale claim. The default cooldown is 60 seconds.
\<close>

theorem price_cooldown_never_queues:
  assumes "aj_trigger_type row = ''price_threshold''" "aj_automation_id row \<noteq> []"
    and "js_trim (aj_automation_id row) = aj_automation_id row"
    and "cooldown_of cfg row = Fin c" "0 < c"
  shows "broadcasts (snd (process_job cfg (table_env cfg now senv pd feed queue (table1 ok row)) row [])) = []"
proof -
  define env where "env = table_env cfg now senv pd feed queue (table1 ok row)"
  define sj where "sj = (if isReclaimableInflightStatus row then row\<lparr>aj_status := ''active''\<rparr> else row)"
  have sj: "sj\<lparr>aj_status := aj_status row, aj_last_error := aj_last_error row\<rparr> = row"
      "aj_automation_id sj = aj_automation_id row" "aj_trigger_type sj = ''price_threshold''" "cooldown_of cfg sj = Fin c"
    using assms by (simp_all add: sj_def cooldown_of_def)
  have fail: "broadcasts (snd (fail_job env row e b t)) = broadcasts t" for e b t
    using fail_job_quiet [of env row e b t] by auto
  have env: "ae_parse_date env = pd" "ae_feed env = feed" "ae_now env = now" by (simp_all add: env_def table_env_def)
  have "broadcasts (snd (process_job cfg env row [])) = []"
  proof (cases "evaluateAutomationJob cfg pd feed sj now")
    case (Inl e)
    then show ?thesis by (simp add: process_job_def env fail flip: sj_def)
  next
    case (Inr evl)
    show ?thesis
    proof (cases "evl_due evl")
      case False
      with Inr show ?thesis
        by (simp add: process_job_def env patch_row_def fail flip: sj_def split: option.split sum.split)
    next
      case True
      obtain p where p: "evl_patch evl = Some p" "ap_status p = None" "ap_next_run_at p = Some (Some (now + c))"
        using price_patch [OF Inr sj(3,4) assms(5) True] by blast
      let ?t = "[APatch (aj_automation_id row) p]"
      have pr: "patch_row env (aj_automation_id row) p [] = (Inr (), ?t)"
        using p(2) by (simp add: patch_row_def env_def table_env_def patch_table1)
      have tab: "table_after cfg now (table1 ok row) ?t = table1 ok (apply_patch p now row)"
        using p(2) by (simp add: on_table_def patch_table1)
      have "ae_claim env ?t (aj_automation_id row) f = Inr None" for f
        using patched_row_unclaimable [OF p(3) assms(5), of row cfg] assms(2,3)
          claim_table1 [of "apply_patch p now row" f now "stale_before cfg now" now ok]
        by (simp add: env_def table_env_def tab del: table_after_simps)
      then have "broadcasts (snd (claim_and_queue env row sj evl ?t)) = []"
        by (simp add: claim_and_queue_def sj fail split: sum.split prod.split)
      with Inr True p(1) pr sj(2) show ?thesis by (simp add: process_job_def env flip: sj_def)
    qed
  qed
  then show ?thesis by (simp only: env_def)
qed

definition price_row :: automation_job where
  "price_row = sample_row ''price_threshold''
     (JObj [(''pair'', JStr ''NEO-USD''), (''comparator'', JStr ''gte''), (''threshold'', JStr ''10''),
            (''cooldown_ms'', JNull)]) None"

theorem price_cooldown_never_queues_witness:
  "broadcasts (tick_trace 2000 price_row) = [] \<and> length (tick_trace 2000 price_row) = 2
     \<and> buildSchedulableAutomationJobFilter 2000 price_row"
proof -
  have "aj_trigger_type price_row = ''price_threshold''" "aj_automation_id price_row \<noteq> []"
    "js_trim (aj_automation_id price_row) = aj_automation_id price_row"
    "cooldown_of sample_cfg price_row = Fin 60000"
    by code_simp+
  then have "broadcasts (tick_trace 2000 price_row) = []"
    unfolding tick_trace_def sample_env_def by (rule price_cooldown_never_queues) simp
  moreover have "length (tick_trace 2000 price_row) = 2" by code_simp
  moreover have "buildSchedulableAutomationJobFilter 2000 price_row" by code_simp
  ultimately show ?thesis by simp
qed

section \<open>The last execution\<close>

definition last_row :: automation_job where
  "last_row = timed_row\<lparr>aj_max_executions := Some 1\<rparr>"

text \<open>
  A job whose last permitted execution was claimed but not yet broadcast when the relayer stopped
  loses it: the claim has already advanced the count to \<open>max_executions\<close>, so the reclaiming tick
  marks the row \<open>completed\<close> instead of broadcasting, and no identifier is ever broadcast.
\<close>

theorem last_execution_lost:
  "\<exists>row'. (auto_step sample_cfg True)\<^sup>*\<^sup>* (last_row, []) (row', []) \<and> aj_status row' = ''completed''
     \<and> aj_execution_count row' = 1 \<and> aj_max_executions row' = Some 1"
proof -
  define r1 where "r1 = row_after 2000 1 last_row"
  define r2 where "r2 = row_after 200000 4 r1"
  have f: "buildSchedulableAutomationJobFilter 2000 last_row" "buildSchedulableAutomationJobFilter 200000 r1"
    unfolding r1_def by code_simp+
  have b: "broadcasts (take 1 (tick_trace 2000 last_row)) = []" "broadcasts (take 4 (tick_trace 200000 r1)) = []"
    unfolding r1_def by code_simp+
  have r2: "aj_status r2 = ''completed''" "aj_execution_count r2 = 1" "aj_max_executions r2 = Some 1"
    unfolding r2_def r1_def by code_simp+
  have "auto_step sample_cfg True (last_row, []) (r1, [])" "auto_step sample_cfg True (r1, []) (r2, [])"
    using sample_tick [OF f(1), of "[]" 1] sample_tick [OF f(2), of "[]" 4] b by (simp_all add: r1_def r2_def)
  then have "(auto_step sample_cfg True)\<^sup>*\<^sup>* (last_row, []) (r2, [])" by simp
  with r2 show ?thesis by blast
qed

section \<open>Races\<close>

text \<open>
  A cancellation that arrives after the broadcast of a tick and before its final patch is undone
  by that patch, which sets the status without a condition: the job is active again and due to run
  at its next interval.
\<close>

theorem cancel_undone_by_finalise:
  "let r1 = row_after 2000 2 timed_row;
       r2 = apply_patch (cancellation_patch r1) 2000 r1;
       r3 = hd (at_rows (table_after sample_cfg 2000 (table1 True r2) (drop 2 (tick_trace 2000 timed_row))))
   in aj_status r2 = ''cancelled'' \<and> aj_status r3 = ''active'' \<and> aj_next_run_at r3 = Some 62000"
  unfolding Let_def by code_simp

definition claim_times_out :: "auto_env \<Rightarrow> auto_env" where
  "claim_times_out env = env\<lparr>ae_claim := \<lambda>trace k p. Inl ''fetch failed''\<rparr>"

text \<open>
  When the claim request of a reclaim fails, the catch block puts the in-flight row back to
  \<open>active\<close>: execution 1 had been broadcast, its schedule was never advanced, and the next tick
  broadcasts execution 2 for the same due time.
\<close>

theorem failed_reclaim_mints_second:
  "let r1 = row_after 2000 2 timed_row;
       (out, trace) = process_job sample_cfg (claim_times_out (sample_env 200000 r1)) r1 [];
       r2 = (case trace ! 1 of APatch k p \<Rightarrow> apply_patch p 200000 r1 | _ \<Rightarrow> r1)
   in broadcasts (take 2 (tick_trace 2000 timed_row)) = [id_of timed_row 1]
      \<and> isReclaimableInflightStatus r1 \<and> out = Failed \<and> aj_status r2 = ''active'' \<and> aj_next_run_at r2 = Some 1000
      \<and> broadcasts (tick_trace 201000 r2) = [id_of timed_row 2]"
  unfolding Let_def by code_simp

end
