(* ===== verification/Relayer_State.thy ===== *)
theory Relayer_State
  imports Relayer_Types
begin

text \<open>
  The operations of \<^verbatim>\<open>workers/morpheus-relayer/src/state.js\<close> on the relayer state, each with the
  clock value (\<open>Date.now()\<close>) it reads as an argument. File reading and writing
  (\<open>loadRelayerState\<close>, \<open>saveRelayerState\<close>) are input and output and stay outside; the normalisation
  of a loaded state is the identity on states of the record type.
\<close>

section \<open>Initial state\<close>

definition defaultChainState :: chain_state where
  "defaultChainState = \<lparr>last_block = None, last_request_id = None, last_discovery_at = 0,
     idle_discovery_skips = 0, processed_records = [], processed_order = [], retry_queue = [],
     dead_letters = []\<rparr>"

definition default_counters :: "(string \<times> int) list" where
  "default_counters = map (\<lambda>k. (k, 0))
     [''ticks_total'', ''events_scanned_total'', ''events_processed_total'', ''events_failed_total'',
      ''duplicates_skipped_total'', ''retries_scheduled_total'', ''retries_exhausted_total'',
      ''worker_calls_total'', ''worker_failures_total'', ''fulfill_success_total'',
      ''fulfill_failure_total'', ''claim_conflicts_total'', ''stale_reclaims_total'',
      ''discovery_failures_total'', ''reconciliation_failures_total'',
      ''durable_claim_skipped_during_backoff_total'', ''manual_actions_loaded_total'',
      ''feed_sync_runs_total'', ''feed_sync_success_total'', ''feed_sync_error_total'',
      ''feed_sync_skipped_total'', ''backpressure_deferred_total'',
      ''backpressure_retry_skipped_total'', ''retry_queue_overflow_total'']"

definition createEmptyRelayerState :: relayer_state where
  "createEmptyRelayerState = \<lparr>version = 2, updated_at = None,
     chain_states = (\<lambda>_. defaultChainState),
     counters = default_counters, labeled_failures = [],
     last_feed_sync_started_at = None, last_feed_sync_completed_at = None,
     last_feed_sync_success_at = None, last_feed_sync_duration_ms = None,
     last_tick_started_at = None, last_tick_completed_at = None, last_tick_duration_ms = None,
     last_run_snapshot_persisted_at = None, last_run_snapshot_error_at = None,
     last_fulfill_latency_ms = None\<rparr>"

section \<open>Event keys and counters\<close>

definition buildEventKey :: "oracle_event \<Rightarrow> string" where
  "buildEventKey event = js_join '':''
     [chain_name (ev_chain event), or_str (ev_requestId event) ''0'', ev_txHash event,
      (case ev_logIndex event of None \<Rightarrow> [] | Some i \<Rightarrow> show_int i),
      (case ev_blockNumber event of None \<Rightarrow> [] | Some i \<Rightarrow> show_int i)]"

definition incrementMetric :: "string \<Rightarrow> int \<Rightarrow> relayer_state \<Rightarrow> relayer_state" where
  "incrementMetric name delta s =
     s\<lparr>counters := obj_set name ((case obj_get (counters s) name of None \<Rightarrow> 0 | Some n \<Rightarrow> n) + delta) (counters s)\<rparr>"

definition LABELED_FAILURE_DELIMITER :: string where
  "LABELED_FAILURE_DELIMITER = ''|''"

definition incrementLabeledFailure :: "string \<Rightarrow> string \<Rightarrow> string \<Rightarrow> int \<Rightarrow> relayer_state \<Rightarrow> relayer_state" where
  "incrementLabeledFailure c m operation delta s =
     (let k = js_join LABELED_FAILURE_DELIMITER
                [or_str c ''unknown'', or_str m ''unknown'', or_str operation ''unknown'']
      in s\<lparr>labeled_failures :=
             obj_set k ((case obj_get (labeled_failures s) k of None \<Rightarrow> 0 | Some n \<Rightarrow> n) + delta)
               (labeled_failures s)\<rparr>)"

fun oldest :: "millis list \<Rightarrow> millis option" where
  "oldest [] = None"
| "oldest (t # ts) = (case oldest ts of None \<Rightarrow> Some t | Some u \<Rightarrow> Some (min t u))"

definition oldestAgeSeconds :: "millis list \<Rightarrow> millis \<Rightarrow> int option" where
  "oldestAgeSeconds stamps nowMs =
     (case oldest stamps of None \<Rightarrow> None | Some t \<Rightarrow> Some (max ((nowMs - t) div 1000) 0))"

section \<open>Pruning\<close>

fun pruneProcessedRecords ::
  "nat \<Rightarrow> string list \<Rightarrow> (string \<times> processed_record) list \<Rightarrow> string list \<times> (string \<times> processed_record) list" where
  "pruneProcessedRecords limit [] recs = ([], recs)"
| "pruneProcessedRecords limit (k # ks) recs =
     (if length (k # ks) > limit
      then pruneProcessedRecords limit ks (if k = [] then recs else obj_del k recs)
      else (k # ks, recs))"

definition pruneDeadLetters :: "nat \<Rightarrow> dead_letter list \<Rightarrow> dead_letter list" where
  "pruneDeadLetters limit letters =
     (if length letters > limit then js_slice_from (- int limit) letters else letters)"

section \<open>Membership and removal\<close>

definition hasProcessedEvent :: "chain \<Rightarrow> string \<Rightarrow> relayer_state \<Rightarrow> bool" where
  "hasProcessedEvent c k s = (obj_get (processed_records (chain_states s c)) k \<noteq> None)"

definition isEventQueuedForRetry :: "chain \<Rightarrow> string \<Rightarrow> relayer_state \<Rightarrow> bool" where
  "isEventQueuedForRetry c k s = list_ex (\<lambda>item. ri_key item = k) (retry_queue (chain_states s c))"

definition removeProcessedEvent :: "chain \<Rightarrow> string \<Rightarrow> relayer_state \<Rightarrow> relayer_state" where
  "removeProcessedEvent c k = upd_chain c (\<lambda>cs. cs
     \<lparr>processed_records := obj_del k (processed_records cs),
      processed_order := filter (\<lambda>entry. entry \<noteq> k) (processed_order cs)\<rparr>)"

definition removeDeadLetter :: "chain \<Rightarrow> string \<Rightarrow> relayer_state \<Rightarrow> relayer_state" where
  "removeDeadLetter c k = upd_chain c (\<lambda>cs. cs
     \<lparr>dead_letters := filter (\<lambda>entry. dl_key entry \<noteq> k) (dead_letters cs)\<rparr>)"

definition remove_item :: "string \<Rightarrow> retry_item list \<Rightarrow> retry_item list" where
  "remove_item k q = filter (\<lambda>item. ri_key item \<noteq> k) q"

definition clearRetryItem :: "chain \<Rightarrow> string \<Rightarrow> relayer_state \<Rightarrow> relayer_state" where
  "clearRetryItem c k = upd_chain c (\<lambda>cs. cs\<lparr>retry_queue := remove_item k (retry_queue cs)\<rparr>)"

section \<open>Shedding overflow\<close>

definition shed_letter :: "chain \<Rightarrow> millis \<Rightarrow> retry_item \<Rightarrow> dead_letter" where
  "shed_letter c now item =
     (let event = ri_event item; intent = intent_of (ev_requestType event) in
      \<lparr>dl_key = ri_key item, dl_request_id = or_str (ev_requestId event) ''0'',
       dl_request_type = ev_requestType event, dl_module_id = ki_moduleId intent,
       dl_operation = ki_operation intent, dl_chain = c, dl_event = event,
       dl_exhausted_at = now, dl_shed_reason = Some ''retry_queue_overflow'',
       dl_meta = no_meta\<lparr>pm_attempts := Some (ri_attempts item),
         pm_last_error := Some (case or_null (ri_last_error item) of
             None \<Rightarrow> ''retry_queue_overflow'' | Some e \<Rightarrow> e)\<rparr>\<rparr>)"

text \<open>Returns the number of items shed and the new state.\<close>

definition enforceRetryQueueLimit :: "chain \<Rightarrow> nat \<Rightarrow> nat \<Rightarrow> millis \<Rightarrow> relayer_state \<Rightarrow> nat \<times> relayer_state" where
  "enforceRetryQueueLimit c limit dlLimit now s =
     (let cs = chain_states s c in
      if limit = 0 then (0, s)
      else if length (retry_queue cs) \<le> limit then (0, s)
      else
        (let overflow = length (retry_queue cs) - limit;
             shed = take overflow (retry_queue cs);
             s' = upd_chain c (\<lambda>cs. cs
                    \<lparr>retry_queue := drop overflow (retry_queue cs),
                     dead_letters := pruneDeadLetters (or_nat dlLimit 200)
                       (dead_letters cs @ map (shed_letter c now) shed)\<rparr>) s
         in (length shed, incrementMetric ''retry_queue_overflow_total'' (int (length shed)) s')))"

section \<open>Queueing\<close>

record enqueue_options =
  eo_attempts :: int
  eo_next_retry_at :: "millis option"
  eo_first_failed_at :: "millis option"
  eo_last_error :: "string option"
  eo_manual_action :: "string option"
  eo_finalize_only :: bool
  eo_terminal_error :: "string option"
  eo_prepared :: "prepared_fulfillment option"
  eo_durable_claimed :: bool
  eo_retryQueueLimit :: nat
  eo_deadLetterLimit :: nat

definition enqueue_defaults :: enqueue_options where
  "enqueue_defaults = \<lparr>eo_attempts = 0, eo_next_retry_at = None, eo_first_failed_at = None,
     eo_last_error = None, eo_manual_action = None, eo_finalize_only = False,
     eo_terminal_error = None, eo_prepared = None, eo_durable_claimed = False,
     eo_retryQueueLimit = 0, eo_deadLetterLimit = 0\<rparr>"

text \<open>Replace the first item with the same key, else append (\<open>findIndex\<close> and assignment or \<open>push\<close>).\<close>

fun upsert_item :: "retry_item \<Rightarrow> retry_item list \<Rightarrow> retry_item list" where
  "upsert_item item [] = [item]"
| "upsert_item item (e # q) = (if ri_key e = ri_key item then item # q else e # upsert_item item q)"

definition build_retry_item :: "oracle_event \<Rightarrow> enqueue_options \<Rightarrow> millis \<Rightarrow> retry_item" where
  "build_retry_item event options now =
     \<lparr>ri_key = buildEventKey event, ri_event = event, ri_attempts = eo_attempts options,
      ri_next_retry_at = or_num (eo_next_retry_at options) now,
      ri_first_failed_at = (case eo_first_failed_at options of None \<Rightarrow> now | Some t \<Rightarrow> t),
      ri_updated_at = now, ri_last_error = or_null (eo_last_error options),
      ri_manual_action = or_null (eo_manual_action options),
      ri_finalize_only = eo_finalize_only options,
      ri_terminal_error = or_null (eo_terminal_error options),
      ri_prepared = eo_prepared options, ri_durable_claimed = eo_durable_claimed options\<rparr>"

text \<open>Returns the item and the new state.\<close>

definition enqueueRetryItem ::
  "chain \<Rightarrow> oracle_event \<Rightarrow> enqueue_options \<Rightarrow> millis \<Rightarrow> relayer_state \<Rightarrow> retry_item \<times> relayer_state" where
  "enqueueRetryItem c event options now s =
     (let item = build_retry_item event options now;
          s1 = upd_chain c (\<lambda>cs. cs\<lparr>retry_queue := upsert_item item (retry_queue cs)\<rparr>) s
      in (item, snd (enforceRetryQueueLimit c (eo_retryQueueLimit options)
                       (eo_deadLetterLimit options) now s1)))"

section \<open>Recording outcomes\<close>

definition build_processed_record ::
  "oracle_event \<Rightarrow> string \<Rightarrow> proc_meta \<Rightarrow> millis \<Rightarrow> processed_record" where
  "build_processed_record event status meta now =
     (let intent = intent_of (ev_requestType event) in
      \<lparr>pr_key = buildEventKey event, pr_status = status,
       pr_request_id = or_str (ev_requestId event) ''0'', pr_request_type = ev_requestType event,
       pr_module_id = (case pm_module_id meta of None \<Rightarrow> ki_moduleId intent | Some m \<Rightarrow> m),
       pr_operation = (case pm_operation meta of None \<Rightarrow> ki_operation intent | Some p \<Rightarrow> p),
       pr_tx_hash = ev_txHash event,
       pr_block_number = (case ev_blockNumber event of None \<Rightarrow> 0 | Some b \<Rightarrow> b),
       pr_completed_at = now, pr_meta = meta\<rparr>)"

definition exhausted_letter ::
  "chain \<Rightarrow> oracle_event \<Rightarrow> proc_meta \<Rightarrow> millis \<Rightarrow> dead_letter" where
  "exhausted_letter c event meta now =
     (let intent = intent_of (ev_requestType event) in
      \<lparr>dl_key = buildEventKey event, dl_request_id = or_str (ev_requestId event) ''0'',
       dl_request_type = ev_requestType event,
       dl_module_id = (case pm_module_id meta of None \<Rightarrow> ki_moduleId intent | Some m \<Rightarrow> m),
       dl_operation = (case pm_operation meta of None \<Rightarrow> ki_operation intent | Some p \<Rightarrow> p),
       dl_chain = c, dl_event = event, dl_exhausted_at = now, dl_shed_reason = None,
       dl_meta = meta\<rparr>)"

definition record_processed_chain ::
  "chain \<Rightarrow> oracle_event \<Rightarrow> string \<Rightarrow> proc_meta \<Rightarrow> nat \<Rightarrow> nat \<Rightarrow> millis \<Rightarrow> chain_state \<Rightarrow> chain_state" where
  "record_processed_chain c event status meta dlLimit cacheSize now cs =
     (let k = buildEventKey event;
          order = (if obj_get (processed_records cs) k = None then processed_order cs @ [k]
                   else processed_order cs);
          recs = obj_set k (build_processed_record event status meta now) (processed_records cs);
          queue = remove_item k (retry_queue cs);
          letters = (if status = ''exhausted''
                     then pruneDeadLetters (or_nat dlLimit 200)
                            (dead_letters cs @ [exhausted_letter c event meta now])
                     else dead_letters cs);
          (order', recs') = pruneProcessedRecords (or_nat cacheSize 5000) order recs
      in cs\<lparr>processed_records := recs', processed_order := order', retry_queue := queue,
            dead_letters := letters\<rparr>)"

definition recordProcessedEvent ::
  "('a relayer_config_scheme) \<Rightarrow> chain \<Rightarrow> oracle_event \<Rightarrow> string \<Rightarrow> proc_meta \<Rightarrow> millis \<Rightarrow> relayer_state \<Rightarrow> relayer_state" where
  "recordProcessedEvent limits c event status meta now =
     upd_chain c (record_processed_chain c event status meta (deadLetterLimit limits)
                    (processedCacheSize limits) now)"

datatype schedule_result =
    Exhausted string int string
  | Scheduled string retry_item

definition scheduleRetry ::
  "('a relayer_config_scheme) \<Rightarrow> chain \<Rightarrow> oracle_event \<Rightarrow> string \<Rightarrow> rat \<Rightarrow> millis \<Rightarrow> relayer_state \<Rightarrow> schedule_result \<times> relayer_state" where
  "scheduleRetry config c event errorMessage rng now s =
     (let k = buildEventKey event;
          existing = find (\<lambda>item. ri_key item = k) (retry_queue (chain_states s c));
          attempts = (case existing of None \<Rightarrow> 0 | Some e \<Rightarrow> ri_attempts e) + 1
      in if attempts > maxRetries config then
           (Exhausted k attempts errorMessage, clearRetryItem c k s)
         else
           (let item = \<lparr>ri_key = k, ri_event = event, ri_attempts = attempts,
                  ri_next_retry_at = now + computeRetryDelayMs config attempts rng,
                  ri_first_failed_at = (case existing of None \<Rightarrow> now | Some e \<Rightarrow> ri_first_failed_at e),
                  ri_updated_at = now, ri_last_error = Some errorMessage, ri_manual_action = None,
                  ri_finalize_only = False, ri_terminal_error = None, ri_prepared = None,
                  ri_durable_claimed = False\<rparr>;
                s1 = upd_chain c (\<lambda>cs. cs\<lparr>retry_queue := upsert_item item (retry_queue cs)\<rparr>) s;
                s2 = snd (enforceRetryQueueLimit c (retryQueueLimit config) (deadLetterLimit config) now s1)
            in (Scheduled k item, s2)))"

section \<open>Queries\<close>

definition getDueRetryItems :: "chain \<Rightarrow> millis \<Rightarrow> relayer_state \<Rightarrow> retry_item list" where
  "getDueRetryItems c now s =
     sort_key ri_next_retry_at
       (filter (\<lambda>item. ri_next_retry_at item \<le> now) (retry_queue (chain_states s c)))"

definition collectActiveRequestIds :: "chain \<Rightarrow> relayer_state \<Rightarrow> string set" where
  "collectActiveRequestIds c s =
     set (filter (\<lambda>x. x \<noteq> []) (map (\<lambda>item. ev_requestId (ri_event item)) (retry_queue (chain_states s c))))
     \<union> set (filter (\<lambda>x. x \<noteq> []) (map (\<lambda>p. pr_request_id (snd p)) (processed_records (chain_states s c))))"

end
