(* ===== verification/Relayer_State_Facts.thy ===== *)
theory Relayer_State_Facts
  imports Relayer_State "HOL-Library.Multiset"
begin

text \<open>
  What the relayer state promises: event keys identify events, the retry queue is a queue keyed by
  them, every operation keeps the per-chain invariant, the three lanes are bounded, retries run out
  after the configured number of attempts, and due items come back in order.
\<close>

section \<open>Event keys\<close>

definition key_parts :: "oracle_event \<Rightarrow> string list" where
  "key_parts event =
     [chain_name (ev_chain event), or_str (ev_requestId event) ''0'', ev_txHash event,
      (case ev_logIndex event of None \<Rightarrow> [] | Some i \<Rightarrow> show_int i),
      (case ev_blockNumber event of None \<Rightarrow> [] | Some i \<Rightarrow> show_int i)]"

lemma buildEventKey_parts: "buildEventKey e = js_join '':'' (key_parts e)"
  by (simp add: buildEventKey_def key_parts_def)

lemma chain_name_nonempty [simp]: "chain_name c \<noteq> []"
  by (cases c) auto

lemma buildEventKey_nonempty [simp]: "buildEventKey e \<noteq> []"
  by (simp add: buildEventKey_def)

lemma buildEventKey_nonempty2 [simp]: "[] \<noteq> buildEventKey e"
  using buildEventKey_nonempty [of e] by metis

lemma colon_notin_show_int: "CHR '':'' \<notin> set (show_int i)"
  using show_int_chars [of "CHR '':''" i] by auto

lemma option_index_inj:
  "(case x of None \<Rightarrow> [] | Some i \<Rightarrow> show_int i) = (case y of None \<Rightarrow> [] | Some i \<Rightarrow> show_int i) \<longleftrightarrow> x = y"
  by (auto simp: show_int_inj split: option.splits)

definition clean_event :: "oracle_event \<Rightarrow> bool" where
  "clean_event e \<longleftrightarrow> CHR '':'' \<notin> set (ev_requestId e) \<and> CHR '':'' \<notin> set (ev_txHash e)"

lemma clean_key_parts: "clean_event e \<Longrightarrow> \<forall>p \<in> set (key_parts e). CHR '':'' \<notin> set p"
  by (cases "ev_chain e")
    (auto simp: clean_event_def key_parts_def or_str_def colon_notin_show_int split: option.splits)

text \<open>
  Event keys identify events: for request ids and transaction hashes without a colon, two events
  have the same key exactly when they agree on chain, request id (empty counting as 0),
  transaction hash, log index and block number.
\<close>

theorem event_key_identifies:
  assumes "clean_event a" and "clean_event b"
  shows "buildEventKey a = buildEventKey b \<longleftrightarrow>
    ev_chain a = ev_chain b \<and> or_str (ev_requestId a) ''0'' = or_str (ev_requestId b) ''0''
    \<and> ev_txHash a = ev_txHash b \<and> ev_logIndex a = ev_logIndex b \<and> ev_blockNumber a = ev_blockNumber b"
proof -
  have "buildEventKey a = buildEventKey b \<longleftrightarrow> key_parts a = key_parts b"
  proof
    assume "buildEventKey a = buildEventKey b"
    then show "key_parts a = key_parts b"
      unfolding buildEventKey_parts
      by (intro js_join_inj [where c = "CHR '':''"])
        (use assms clean_key_parts in \<open>auto simp: key_parts_def\<close>)
  qed (simp add: buildEventKey_parts)
  also have "\<dots> \<longleftrightarrow> ev_chain a = ev_chain b \<and> or_str (ev_requestId a) ''0'' = or_str (ev_requestId b) ''0''
    \<and> ev_txHash a = ev_txHash b \<and> ev_logIndex a = ev_logIndex b \<and> ev_blockNumber a = ev_blockNumber b"
    by (auto simp: key_parts_def chain_name_inj option_index_inj)
  finally show ?thesis .
qed

definition sample_event :: "string \<Rightarrow> oracle_event" where
  "sample_event rid = \<lparr>ev_chain = Neo_N3, ev_requestId = rid, ev_requestType = ''compute'',
     ev_appId = [], ev_moduleId = [], ev_operation = [], ev_requester = [],
     ev_callbackContract = [], ev_callbackMethod = [], ev_payloadText = [], ev_messageId = [],
     ev_createdAtMs = 0, ev_txHash = ''0xab'', ev_logIndex = Some 0, ev_blockNumber = Some 12\<rparr>"

theorem event_key_identifies_witness:
  "clean_event (sample_event ''7'') \<and> clean_event (sample_event ''8'')
   \<and> buildEventKey (sample_event ''7'') \<noteq> buildEventKey (sample_event ''8'')"
proof -
  have "clean_event (sample_event ''7'')" "clean_event (sample_event ''8'')"
    by (simp_all add: clean_event_def sample_event_def)
  then show ?thesis
    using event_key_identifies [of "sample_event ''7''" "sample_event ''8''"]
    by (simp add: sample_event_def or_str_def)
qed

section \<open>The retry queue as a keyed queue\<close>

text \<open>
  The interface the lanes of the relayer rely on: an insertion that replaces an entry with the same
  key, and a removal by key.
\<close>

locale keyed_queue =
  fixes key :: "'i \<Rightarrow> 'k"
    and items :: "'q \<Rightarrow> 'i list"
    and upsert :: "'i \<Rightarrow> 'q \<Rightarrow> 'q"
    and remove :: "'k \<Rightarrow> 'q \<Rightarrow> 'q"
  assumes set_keys_upsert: "set (map key (items (upsert i q))) = insert (key i) (set (map key (items q)))"
    and upsert_has: "i \<in> set (items (upsert i q))"
    and upsert_frame: "key j \<noteq> key i \<Longrightarrow> j \<in> set (items (upsert i q)) \<longleftrightarrow> j \<in> set (items q)"
    and upsert_distinct: "distinct (map key (items q)) \<Longrightarrow> distinct (map key (items (upsert i q)))"
    and items_remove: "items (remove k q) = filter (\<lambda>i. key i \<noteq> k) (items q)"
begin

lemma remove_keys: "set (map key (items (remove k q))) = set (map key (items q)) - {k}"
  by (auto simp: items_remove)

lemma remove_distinct: "distinct (map key (items q)) \<Longrightarrow> distinct (map key (items (remove k q)))"
  by (simp add: items_remove distinct_map_filter)

lemma remove_upsert_gone: "key i \<notin> set (map key (items (remove (key i) (upsert i q))))"
  by (simp only: remove_keys) simp

lemma upsert_unique:
  assumes "distinct (map key (items q))" and "j \<in> set (items (upsert i q))" and "key j = key i"
  shows "j = i"
  using assms upsert_has [of i q] upsert_distinct [of q i]
  by (metis distinct_map inj_onD)

lemma fold_upsert_keys:
  "set (map key (items (fold upsert is q))) = set (map key is) \<union> set (map key (items q))"
proof (induction "is" arbitrary: q)
  case Nil
  then show ?case by simp
next
  case (Cons i js)
  have "set (map key (items (fold upsert (i # js) q)))
      = set (map key js) \<union> set (map key (items (upsert i q)))"
    using Cons.IH by simp
  then show ?case by (simp only: set_keys_upsert) auto
qed

lemma fold_upsert_distinct:
  "distinct (map key (items q)) \<Longrightarrow> distinct (map key (items (fold upsert is q)))"
  by (induction "is" arbitrary: q) (simp_all add: upsert_distinct)

end

lemma fst_upsert_item: "ri_key ` set (upsert_item i q) = insert (ri_key i) (ri_key ` set q)"
  by (induction i q rule: upsert_item.induct) auto

lemma upsert_item_has: "i \<in> set (upsert_item i q)"
  by (induction q) auto

lemma upsert_item_frame: "ri_key j \<noteq> ri_key i \<Longrightarrow> j \<in> set (upsert_item i q) \<longleftrightarrow> j \<in> set q"
  by (induction q) auto

lemma upsert_item_distinct: "distinct (map ri_key q) \<Longrightarrow> distinct (map ri_key (upsert_item i q))"
  by (induction i q rule: upsert_item.induct) (auto simp: fst_upsert_item)

lemma set_upsert_item: "set (upsert_item i q) \<subseteq> insert i (set q)"
  by (induction i q rule: upsert_item.induct) auto

lemma length_upsert_item:
  "length (upsert_item i q) = (if ri_key i \<in> ri_key ` set q then length q else Suc (length q))"
  by (induction i q rule: upsert_item.induct) auto

interpretation rq: keyed_queue ri_key "\<lambda>q. q" upsert_item remove_item
  by unfold_locales
    (simp_all add: fst_upsert_item upsert_item_has upsert_item_frame upsert_item_distinct remove_item_def)

section \<open>Pruning\<close>

lemma pruneProcessedRecords_order:
  "fst (pruneProcessedRecords limit ks recs) = drop (length ks - limit) ks"
  by (induction limit ks recs rule: pruneProcessedRecords.induct) (auto simp: Suc_diff_le)

lemma pruneProcessedRecords_records:
  "[] \<notin> set ks \<Longrightarrow>
   obj_get (snd (pruneProcessedRecords limit ks recs)) =
     (\<lambda>k. if k \<in> set (take (length ks - limit) ks) then None else obj_get recs k)"
proof (induction limit ks recs rule: pruneProcessedRecords.induct)
  case (1 limit recs)
  then show ?case by simp
next
  case (2 limit k ks recs)
  show ?case
  proof (cases "length (k # ks) > limit")
    case True
    with 2 have "obj_get (snd (pruneProcessedRecords limit ks (obj_del k recs))) =
      (\<lambda>j. if j \<in> set (take (length ks - limit) ks) then None else obj_get (obj_del k recs) j)"
      by auto
    moreover from True have "Suc (length ks) - limit = Suc (length ks - limit)" by simp
    ultimately show ?thesis using True "2.prems"
      by (auto simp: fun_eq_iff obj_get_del)
  next
    case False
    then show ?thesis by simp
  qed
qed

lemma pruneProcessedRecords_distinct:
  "distinct (obj_keys recs) \<Longrightarrow> distinct (obj_keys (snd (pruneProcessedRecords limit ks recs)))"
  by (induction limit ks recs rule: pruneProcessedRecords.induct) (simp_all add: distinct_obj_del)

lemma pruneProcessedRecords_length:
  "length (fst (pruneProcessedRecords limit ks recs)) = min limit (length ks)"
  by (simp add: pruneProcessedRecords_order)

lemma pruneDeadLetters_length: "0 < limit \<Longrightarrow> length (pruneDeadLetters limit ls) = min limit (length ls)"
  by (simp add: pruneDeadLetters_def length_js_slice_from_neg)

lemma pruneDeadLetters_subset: "set (pruneDeadLetters limit ls) \<subseteq> set ls"
  using set_js_slice_from [of "- int limit" ls] by (auto simp: pruneDeadLetters_def)

lemma pruneDeadLetters_last:
  "0 < limit \<Longrightarrow> pruneDeadLetters limit ls = drop (length ls - limit) ls"
  by (auto simp: pruneDeadLetters_def js_slice_from_def nat_diff_distrib')

lemma pruneDeadLetters_keeps_new:
  assumes "0 < limit" "length new \<le> limit"
  shows "set new \<subseteq> set (pruneDeadLetters limit (old @ new))"
proof -
  have "drop (length (old @ new) - limit) (old @ new) = drop (length old + length new - limit) old @ new"
    using assms by simp
  then show ?thesis using assms by (simp add: pruneDeadLetters_last)
qed

section \<open>The invariant\<close>

text \<open>
  Queue keys are unique and are the keys of the queued events; the processed log lists each
  processed key once and lists exactly the keys that have a record.
\<close>

definition chain_inv :: "chain_state \<Rightarrow> bool" where
  "chain_inv cs \<longleftrightarrow>
     distinct (map ri_key (retry_queue cs))
     \<and> (\<forall>item \<in> set (retry_queue cs). ri_key item = buildEventKey (ri_event item))
     \<and> distinct (processed_order cs) \<and> [] \<notin> set (processed_order cs)
     \<and> distinct (obj_keys (processed_records cs))
     \<and> set (processed_order cs) = set (obj_keys (processed_records cs))"

definition lanes_bounded :: "('a relayer_config_scheme) \<Rightarrow> chain_state \<Rightarrow> bool" where
  "lanes_bounded config cs \<longleftrightarrow>
     length (processed_order cs) \<le> or_nat (processedCacheSize config) 5000
     \<and> length (dead_letters cs) \<le> or_nat (deadLetterLimit config) 200"

definition state_inv :: "('a relayer_config_scheme) \<Rightarrow> relayer_state \<Rightarrow> bool" where
  "state_inv config s \<longleftrightarrow> (\<forall>c. chain_inv (chain_states s c) \<and> lanes_bounded config (chain_states s c))"

lemma chain_inv_queue:
  assumes "chain_inv cs" "distinct (map ri_key q)"
    and "\<And>i. i \<in> set q \<Longrightarrow> ri_key i = buildEventKey (ri_event i)"
  shows "chain_inv (cs\<lparr>retry_queue := q\<rparr>)"
  using assms by (auto simp: chain_inv_def)

lemma chain_inv_letters: "chain_inv (cs\<lparr>dead_letters := ls\<rparr>) = chain_inv cs"
  by (simp add: chain_inv_def)

lemma chain_inv_upsert:
  assumes "chain_inv cs" "ri_key i = buildEventKey (ri_event i)"
  shows "chain_inv (cs\<lparr>retry_queue := upsert_item i (retry_queue cs)\<rparr>)"
  by (rule chain_inv_queue)
    (use assms set_upsert_item in \<open>auto simp: chain_inv_def upsert_item_distinct dest!: subsetD\<close>)

lemma chain_inv_remove: "chain_inv cs \<Longrightarrow> chain_inv (cs\<lparr>retry_queue := remove_item k (retry_queue cs)\<rparr>)"
  by (rule chain_inv_queue) (auto simp: chain_inv_def rq.remove_distinct remove_item_def distinct_map_filter)

lemma chain_inv_drop: "chain_inv cs \<Longrightarrow> chain_inv (cs\<lparr>retry_queue := drop n (retry_queue cs)\<rparr>)"
  by (rule chain_inv_queue) (auto simp: chain_inv_def distinct_drop drop_map [symmetric] dest: in_set_dropD)

subsection \<open>Every operation keeps it\<close>

lemma state_inv_upd:
  assumes "state_inv config s"
    and "chain_inv (f (chain_states s c))" "lanes_bounded config (f (chain_states s c))"
  shows "state_inv config (upd_chain c f s)"
  using assms by (simp add: state_inv_def)

lemma chain_states_incrementMetric [simp]: "chain_states (incrementMetric n d s) = chain_states s"
  by (simp add: incrementMetric_def)

lemma chain_states_incrementLabeledFailure [simp]:
  "chain_states (incrementLabeledFailure a b p d s) = chain_states s"
  by (simp add: incrementLabeledFailure_def Let_def)

lemma state_inv_incrementMetric [inv_intros]:
  "state_inv config s \<Longrightarrow> state_inv config (incrementMetric n d s)"
  by (simp add: state_inv_def)

lemma state_inv_incrementLabeledFailure [inv_intros]:
  "state_inv config s \<Longrightarrow> state_inv config (incrementLabeledFailure a b p d s)"
  by (simp add: state_inv_def)

lemma state_inv_clearRetryItem [inv_intros]:
  "state_inv config s \<Longrightarrow> state_inv config (clearRetryItem c k s)"
  unfolding clearRetryItem_def
  by (rule state_inv_upd) (auto simp: state_inv_def chain_inv_remove lanes_bounded_def)

lemma state_inv_removeDeadLetter [inv_intros]:
  "state_inv config s \<Longrightarrow> state_inv config (removeDeadLetter c k s)"
  unfolding removeDeadLetter_def
  by (rule state_inv_upd)
    (auto simp: state_inv_def chain_inv_letters lanes_bounded_def intro: le_trans [OF length_filter_le])

lemma state_inv_removeProcessedEvent [inv_intros]:
  "state_inv config s \<Longrightarrow> state_inv config (removeProcessedEvent c k s)"
  unfolding removeProcessedEvent_def
  by (rule state_inv_upd)
    (auto simp: state_inv_def chain_inv_def lanes_bounded_def obj_del_def distinct_map_filter
      intro: le_trans [OF length_filter_le])

lemma enforceRetryQueueLimit_chain:
  "chain_states (snd (enforceRetryQueueLimit c limit dl now s)) c =
    (let cs = chain_states s c; n = (if limit = 0 then 0 else length (retry_queue cs) - limit) in
     if n = 0 then cs else cs
       \<lparr>retry_queue := drop n (retry_queue cs),
        dead_letters := pruneDeadLetters (or_nat dl 200)
          (dead_letters cs @ map (shed_letter c now) (take n (retry_queue cs)))\<rparr>)"
  by (auto simp: enforceRetryQueueLimit_def Let_def)

lemma enforceRetryQueueLimit_other:
  "c' \<noteq> c \<Longrightarrow> chain_states (snd (enforceRetryQueueLimit c limit dl now s)) c' = chain_states s c'"
  by (auto simp: enforceRetryQueueLimit_def Let_def)

lemma enforceRetryQueueLimit_zero [simp]: "snd (enforceRetryQueueLimit c 0 dl now s) = s"
  by (simp add: enforceRetryQueueLimit_def Let_def)

lemma state_inv_enforceRetryQueueLimit [inv_intros]:
  assumes "state_inv config s" and "limit = 0 \<or> dl = deadLetterLimit config"
  shows "state_inv config (snd (enforceRetryQueueLimit c limit dl now s))"
proof -
  let ?t = "snd (enforceRetryQueueLimit c limit dl now s)"
  have "chain_inv (chain_states ?t c') \<and> lanes_bounded config (chain_states ?t c')" for c'
  proof (cases "c' = c")
    case True
    have inv: "chain_inv (chain_states s c)" "lanes_bounded config (chain_states s c)"
      using assms(1) by (auto simp: state_inv_def)
    show ?thesis
      unfolding True enforceRetryQueueLimit_chain Let_def
      using inv assms(2)
      by (auto simp: chain_inv_letters chain_inv_drop lanes_bounded_def pruneDeadLetters_length)
  next
    case False
    with assms(1) show ?thesis by (simp add: state_inv_def enforceRetryQueueLimit_other)
  qed
  then show ?thesis by (simp add: state_inv_def)
qed

lemma build_retry_item_key [simp]: "ri_key (build_retry_item e opts now) = buildEventKey e"
  by (simp add: build_retry_item_def)

lemma build_retry_item_event [simp]: "ri_event (build_retry_item e opts now) = e"
  by (simp add: build_retry_item_def)

lemma state_inv_upsert:
  assumes "state_inv config s" "ri_key i = buildEventKey (ri_event i)"
  shows "state_inv config (upd_chain c (\<lambda>cs. cs\<lparr>retry_queue := upsert_item i (retry_queue cs)\<rparr>) s)"
  by (rule state_inv_upd) (use assms in \<open>auto simp: state_inv_def chain_inv_upsert lanes_bounded_def\<close>)

lemma state_inv_enqueueRetryItem [inv_intros]:
  assumes "state_inv config s"
    and "eo_retryQueueLimit opts = 0 \<or> eo_deadLetterLimit opts = deadLetterLimit config"
  shows "state_inv config (snd (enqueueRetryItem c e opts now s))"
  unfolding enqueueRetryItem_def Let_def snd_conv
  by (intro state_inv_enforceRetryQueueLimit state_inv_upsert) (use assms in auto)

lemma state_inv_scheduleRetry [inv_intros]:
  assumes "state_inv config s"
  shows "state_inv config (snd (scheduleRetry config c e msg r now s))"
  unfolding scheduleRetry_def Let_def
  by (auto intro!: state_inv_clearRetryItem state_inv_enforceRetryQueueLimit state_inv_upsert assms)

lemma record_processed_keys:
  assumes "chain_inv cs"
  shows "chain_inv (record_processed_chain c e st meta dl cache now cs)"
proof -
  let ?k = "buildEventKey e"
  define order where "order = (if obj_get (processed_records cs) ?k = None
    then processed_order cs @ [?k] else processed_order cs)"
  define recs where "recs = obj_set ?k (build_processed_record e st meta now) (processed_records cs)"
  let ?n = "length order - or_nat cache 5000"
  have set_order: "set order = set (obj_keys recs)" and dist: "distinct order" "[] \<notin> set order"
    using assms by (auto simp: order_def recs_def chain_inv_def fst_set_obj_set obj_get_None_iff)
  have dk: "distinct (obj_keys recs)"
    using assms by (simp add: recs_def chain_inv_def distinct_obj_set)
  let ?p = "pruneProcessedRecords (or_nat cache 5000) order recs"
  have "set (obj_keys (snd ?p)) = dom (obj_get (snd ?p))"
    by (simp add: dom_map_of_conv_image_fst)
  also have "\<dots> = dom (obj_get recs) - set (take ?n order)"
    using dist(2) by (auto simp: pruneProcessedRecords_records dom_def split: if_splits)
  also have "\<dots> = set order - set (take ?n order)"
    using set_order by (simp add: dom_map_of_conv_image_fst)
  also have "\<dots> = set (drop ?n order)"
    using dist(1) by (metis append_take_drop_id distinct_append Un_Diff_cancel2 Diff_triv set_append
        Un_Diff Diff_cancel Int_commute sup_bot_left)
  finally have eq: "set (fst ?p) = set (obj_keys (snd ?p))"
    by (simp add: pruneProcessedRecords_order)
  have "chain_inv (cs\<lparr>processed_records := snd ?p, processed_order := fst ?p,
      retry_queue := remove_item ?k (retry_queue cs), dead_letters := ls\<rparr>)" for ls
    using assms eq dist dk pruneProcessedRecords_distinct [OF dk]
    by (auto simp: chain_inv_def remove_item_def distinct_map_filter pruneProcessedRecords_order
        distinct_drop dest: in_set_dropD)
  moreover have "record_processed_chain c e st meta dl cache now cs = cs
     \<lparr>processed_records := snd ?p, processed_order := fst ?p,
      retry_queue := remove_item ?k (retry_queue cs),
      dead_letters := (if st = ''exhausted''
        then pruneDeadLetters (or_nat dl 200) (dead_letters cs @ [exhausted_letter c e meta now])
        else dead_letters cs)\<rparr>"
    by (simp only: record_processed_chain_def Let_def order_def recs_def case_prod_beta)
  ultimately show ?thesis by (simp only:)
qed

lemma record_processed_bounded:
  assumes "lanes_bounded config cs"
  shows "lanes_bounded config (record_processed_chain c e st meta (deadLetterLimit config)
    (processedCacheSize config) now cs)"
proof -
  have "length (fst (pruneProcessedRecords (or_nat (processedCacheSize config) 5000) ks recs))
      \<le> or_nat (processedCacheSize config) 5000" for ks recs
    by (simp add: pruneProcessedRecords_length)
  then show ?thesis using assms
    by (auto simp: record_processed_chain_def lanes_bounded_def Let_def pruneDeadLetters_length
        split: prod.splits) (metis fst_conv)+
qed

lemma state_inv_recordProcessedEvent [inv_intros]:
  "state_inv config s \<Longrightarrow> state_inv config (recordProcessedEvent config c e st meta now s)"
  unfolding recordProcessedEvent_def
  by (rule state_inv_upd) (auto simp: state_inv_def record_processed_keys record_processed_bounded)

lemma state_inv_empty [inv_intros]: "state_inv config createEmptyRelayerState"
  by (simp add: state_inv_def createEmptyRelayerState_def defaultChainState_def chain_inv_def lanes_bounded_def)

section \<open>Steps of the relayer state\<close>

text \<open>
  One atomic step of any lane on the shared state. The tasks of a tick run concurrently and give up
  the thread only between such steps, so a tick is some sequence of them. Callers pass either no
  queue ceiling or the configured one.
\<close>

inductive state_step :: "('a relayer_config_scheme) \<Rightarrow> relayer_state \<Rightarrow> relayer_state \<Rightarrow> bool"
  for config where
  step_enqueue: "eo_retryQueueLimit opts = 0 \<or> eo_deadLetterLimit opts = deadLetterLimit config \<Longrightarrow>
     state_step config s (snd (enqueueRetryItem c e opts now s))"
| step_schedule: "state_step config s (snd (scheduleRetry config c e msg r now s))"
| step_record: "state_step config s (recordProcessedEvent config c e status meta now s)"
| step_clear: "state_step config s (clearRetryItem c k s)"
| step_unprocess: "state_step config s (removeProcessedEvent c k s)"
| step_undead: "state_step config s (removeDeadLetter c k s)"
| step_metric: "state_step config s (incrementMetric name d s)"
| step_label: "state_step config s (incrementLabeledFailure a m p d s)"
| step_cursor: "chain_states t = (chain_states s)(c := (chain_states s c)
       \<lparr>last_block := b, last_request_id := q, last_discovery_at := d, idle_discovery_skips := n\<rparr>) \<Longrightarrow>
     state_step config s t"

lemma state_step_inv: "state_step config s t \<Longrightarrow> state_inv config s \<Longrightarrow> state_inv config t"
proof (induction rule: state_step.induct)
  case (step_cursor t s c b q d n)
  have "chain_inv (chain_states t x) = chain_inv (chain_states s x)"
    "lanes_bounded config (chain_states t x) = lanes_bounded config (chain_states s x)" for x
    using step_cursor.hyps by (simp_all add: chain_inv_def lanes_bounded_def)
  then show ?case using step_cursor.prems by (simp add: state_inv_def)
qed (blast intro: inv_intros)+

interpretation relayer_sys: invariant_system "\<lambda>s. s = createEmptyRelayerState"
  "state_step config" "state_inv config" for config :: "'a relayer_config_scheme"
  by unfold_locales (auto intro: state_inv_empty state_step_inv)

text \<open>
  C25: In every state the relayer can reach by any interleaving of its state operations, on every
  chain: the retry queue holds each key once and under the key of its event, the processed log lists
  exactly the recorded keys without repetition, and the processed log and the dead letters stay
  within their limits.
\<close>

theorem reachable_state_inv:
  assumes "rtranclp (state_step config) createEmptyRelayerState s"
  shows "state_inv config s"
  using assms by (rule relayer_sys.inv_reachable [OF refl])

definition sample_config :: relayer_config where
  "sample_config = \<lparr>retryBaseDelayMs = 1000, retryMaxDelayMs = 30000, maxRetries = 2,
     maxCallbackRetries = Fin 4, processedCacheSize = 100, deadLetterLimit = 10, retryQueueLimit = 1,
     maxBlocksPerTick = 10, maxFreshEventsPerTick = 1, maxRetryEventsPerTick = 4, deferDelayMs = 5000,
     discoveryIdleBackoffMs = 0, confirmations = (\<lambda>_. 1), startBlocks = (\<lambda>_. Some (Fin 5)),
     startRequestIds = (\<lambda>_. None), mode = ''combined'', durableQueueEnabled = False,
     durableQueueFailClosed = False, allowLocalClaimDuringBackoff = False,
     staleProcessingMs = 120000, durableSyncLimit = 200, enclaveFulfill = False,
     instanceId = ''relayer-a''\<rparr>"

theorem reachable_state_inv_witness:
  "state_inv sample_config
     (recordProcessedEvent sample_config Neo_N3 (sample_event ''7'') ''fulfilled'' no_meta 9
        createEmptyRelayerState)
   \<and> hasProcessedEvent Neo_N3 (buildEventKey (sample_event ''7''))
     (recordProcessedEvent sample_config Neo_N3 (sample_event ''7'') ''fulfilled'' no_meta 9
        createEmptyRelayerState)"
proof -
  let ?s = "recordProcessedEvent sample_config Neo_N3 (sample_event ''7'') ''fulfilled'' no_meta 9
    createEmptyRelayerState"
  have "rtranclp (state_step sample_config) createEmptyRelayerState ?s"
    by (rule r_into_rtranclp) (rule step_record)
  then have "state_inv sample_config ?s" by (rule reachable_state_inv)
  moreover have "hasProcessedEvent Neo_N3 (buildEventKey (sample_event ''7'')) ?s"
    by (simp add: hasProcessedEvent_def recordProcessedEvent_def record_processed_chain_def
        createEmptyRelayerState_def defaultChainState_def sample_config_def or_nat_def Let_def)
  ultimately show ?thesis by simp
qed

section \<open>Shedding\<close>

lemma shed_letter_key [simp]: "dl_key (shed_letter c now i) = ri_key i"
  by (simp add: shed_letter_def Let_def)

lemma shed_letter_event [simp]: "dl_event (shed_letter c now i) = ri_event i"
  by (simp add: shed_letter_def Let_def)

text \<open>
  C30: Enforcing a queue ceiling leaves at most that many items, keeps the newest ones in order, and
  loses no work: every item that leaves the queue is in the dead-letter lane with its event and key,
  as long as the overflow fits the dead-letter limit.
\<close>

theorem shed_keeps_work:
  assumes "0 < limit" and "length (retry_queue (chain_states s c)) - limit \<le> or_nat dl 200"
  shows "let t = snd (enforceRetryQueueLimit c limit dl now s) in
     length (retry_queue (chain_states t c)) \<le> limit
     \<and> (\<exists>shed. retry_queue (chain_states s c) = shed @ retry_queue (chain_states t c)
          \<and> (\<forall>i \<in> set shed. shed_letter c now i \<in> set (dead_letters (chain_states t c))))"
proof -
  define q where "q = retry_queue (chain_states s c)"
  define n where "n = length q - limit"
  let ?t = "snd (enforceRetryQueueLimit c limit dl now s)"
  have chain: "retry_queue (chain_states ?t c) = drop n q"
    "n \<noteq> 0 \<Longrightarrow> dead_letters (chain_states ?t c) = pruneDeadLetters (or_nat dl 200)
        (dead_letters (chain_states s c) @ map (shed_letter c now) (take n q))"
    using assms(1) by (simp_all add: enforceRetryQueueLimit_chain Let_def n_def q_def)
  have "shed_letter c now i \<in> set (dead_letters (chain_states ?t c))" if "i \<in> set (take n q)" for i
  proof -
    from that have n0: "n \<noteq> 0" by (cases "n = 0") auto
    have "set (map (shed_letter c now) (take n q)) \<subseteq> set (dead_letters (chain_states ?t c))"
      unfolding chain(2) [OF n0]
      by (rule pruneDeadLetters_keeps_new) (use assms in \<open>auto simp: n_def q_def\<close>)
    with that show ?thesis by auto
  qed
  moreover have "length (drop n q) \<le> limit" by (simp add: n_def)
  ultimately show ?thesis
    unfolding Let_def chain(1) q_def [symmetric]
    by (metis append_take_drop_id)
qed

definition sample_item :: "string \<Rightarrow> millis \<Rightarrow> retry_item" where
  "sample_item rid t = build_retry_item (sample_event rid)
     (enqueue_defaults\<lparr>eo_next_retry_at := Some t\<rparr>) 1"

definition sample_state :: "retry_item list \<Rightarrow> relayer_state" where
  "sample_state q = createEmptyRelayerState
     \<lparr>chain_states := (\<lambda>_. defaultChainState\<lparr>retry_queue := q\<rparr>)\<rparr>"

theorem shed_keeps_work_witness:
  "let t = snd (enforceRetryQueueLimit Neo_N3 1 10 50 (sample_state [sample_item ''1'' 5, sample_item ''2'' 6])) in
     length (retry_queue (chain_states t Neo_N3)) \<le> 1
     \<and> (\<exists>shed. [sample_item ''1'' 5, sample_item ''2'' 6] = shed @ retry_queue (chain_states t Neo_N3)
          \<and> (\<forall>i \<in> set shed. shed_letter Neo_N3 50 i \<in> set (dead_letters (chain_states t Neo_N3))))"
  using shed_keeps_work [of 1 "sample_state [sample_item ''1'' 5, sample_item ''2'' 6]" Neo_N3 10 50]
  by (simp add: sample_state_def or_nat_def)

lemma last_upsert_item:
  "ri_key i \<notin> ri_key ` set q \<Longrightarrow> upsert_item i q = q @ [i]"
  by (induction q) auto

lemma enqueueRetryItem_queue:
  "retry_queue (chain_states (snd (enqueueRetryItem c e opts now s)) c) =
     (let q = upsert_item (build_retry_item e opts now) (retry_queue (chain_states s c)) in
      drop (if eo_retryQueueLimit opts = 0 then 0 else length q - eo_retryQueueLimit opts) q)"
  by (auto simp: enqueueRetryItem_def enforceRetryQueueLimit_chain Let_def)

lemma enqueueRetryItem_unlimited:
  "eo_retryQueueLimit opts = 0 \<Longrightarrow>
   retry_queue (chain_states (snd (enqueueRetryItem c e opts now s)) c) =
     upsert_item (build_retry_item e opts now) (retry_queue (chain_states s c))"
  by (simp add: enqueueRetryItem_queue Let_def)

lemma enqueueRetryItem_processed [simp]:
  "processed_records (chain_states (snd (enqueueRetryItem c e opts now s)) c') =
     processed_records (chain_states s c')"
  by (cases "c' = c")
    (auto simp: enqueueRetryItem_def enforceRetryQueueLimit_chain enforceRetryQueueLimit_other Let_def)

lemma enqueueRetryItem_keeps:
  assumes "eo_retryQueueLimit opts = 0
    \<or> length (retry_queue (chain_states s c)) \<le> eo_retryQueueLimit opts"
  shows "build_retry_item e opts now
     \<in> set (retry_queue (chain_states (snd (enqueueRetryItem c e opts now s)) c))"
proof -
  define q where "q = retry_queue (chain_states s c)"
  define i where "i = build_retry_item e opts now"
  define L where "L = eo_retryQueueLimit opts"
  have res: "retry_queue (chain_states (snd (enqueueRetryItem c e opts now s)) c) =
      drop (if L = 0 then 0 else length (upsert_item i q) - L) (upsert_item i q)"
    by (simp add: enqueueRetryItem_queue q_def i_def L_def Let_def)
  show ?thesis
  proof (cases "L = 0 \<or> ri_key i \<in> ri_key ` set q")
    case True
    then have "(if L = 0 then 0 else length (upsert_item i q) - L) = 0"
      using assms by (auto simp: length_upsert_item q_def L_def)
    then show ?thesis unfolding res using upsert_item_has by (simp add: i_def)
  next
    case False
    then have "length (upsert_item i q) - L \<le> length q"
      by (auto simp: length_upsert_item)
    with False show ?thesis unfolding res
      by (simp add: last_upsert_item i_def)
  qed
qed

text \<open>
  An item enqueued into a queue that respects its ceiling (or has none) is in the queue
  afterwards: the overflow it may cause sheds an older item, never the new one.
\<close>

theorem enqueued_item_stays:
  assumes "eo_retryQueueLimit opts = 0
    \<or> length (retry_queue (chain_states s c)) \<le> eo_retryQueueLimit opts"
  shows "build_retry_item e opts now
     \<in> set (retry_queue (chain_states (snd (enqueueRetryItem c e opts now s)) c))"
  using assms by (rule enqueueRetryItem_keeps)

theorem enqueued_item_stays_witness:
  "length [sample_item ''1'' 5] \<le> (1::nat)
   \<and> build_retry_item (sample_event ''2'') (enqueue_defaults\<lparr>eo_retryQueueLimit := 1\<rparr>) 9
     \<in> set (retry_queue (chain_states (snd (enqueueRetryItem Neo_N3 (sample_event ''2'')
         (enqueue_defaults\<lparr>eo_retryQueueLimit := 1\<rparr>) 9 (sample_state [sample_item ''1'' 5]))) Neo_N3))"
  using enqueued_item_stays [of "enqueue_defaults\<lparr>eo_retryQueueLimit := 1\<rparr>"
      "sample_state [sample_item ''1'' 5]" Neo_N3 "sample_event ''2''" 9]
  by (simp add: sample_state_def)

text \<open>
  A queue that already exceeds its ceiling can shed the very item being enqueued: an item whose
  key is already queued is replaced in place, so when it sits at the head it goes straight to the
  dead letters although the caller has just refreshed it.
\<close>

theorem enqueue_can_shed_itself:
  "let opts = enqueue_defaults\<lparr>eo_attempts := 1, eo_retryQueueLimit := 1, eo_deadLetterLimit := 10\<rparr>;
       t = snd (enqueueRetryItem Neo_N3 (sample_event ''1'') opts 9
             (sample_state [sample_item ''1'' 5, sample_item ''2'' 6]))
   in \<not> isEventQueuedForRetry Neo_N3 (buildEventKey (sample_event ''1'')) t
      \<and> map dl_key (dead_letters (chain_states t Neo_N3)) = [buildEventKey (sample_event ''1'')]"
proof -
  have ne: "buildEventKey (sample_event ''2'') \<noteq> buildEventKey (sample_event ''1'')"
    by (simp add: buildEventKey_def sample_event_def or_str_def)
  then show ?thesis
    by (simp add: isEventQueuedForRetry_def enqueueRetryItem_def enforceRetryQueueLimit_chain
        sample_state_def sample_item_def or_nat_def pruneDeadLetters_def enqueue_defaults_def
        defaultChainState_def Let_def)
qed

section \<open>Retry budget\<close>

definition queued_attempts :: "chain \<Rightarrow> string \<Rightarrow> relayer_state \<Rightarrow> int" where
  "queued_attempts c k s =
     (case find (\<lambda>item. ri_key item = k) (retry_queue (chain_states s c)) of
        None \<Rightarrow> 0 | Some e \<Rightarrow> ri_attempts e)"

lemma find_upsert_item: "find (\<lambda>j. ri_key j = ri_key i) (upsert_item i q) = Some i"
  by (induction q) auto

lemma isEventQueuedForRetry_keys:
  "isEventQueuedForRetry c k s \<longleftrightarrow> k \<in> ri_key ` set (retry_queue (chain_states s c))"
  by (auto simp: isEventQueuedForRetry_def list_ex_iff)

lemma clearRetryItem_not_queued [simp]: "\<not> isEventQueuedForRetry c k (clearRetryItem c k s)"
  by (auto simp: isEventQueuedForRetry_keys clearRetryItem_def remove_item_def)

lemma scheduleRetry_exhausted:
  "maxRetries config < queued_attempts c (buildEventKey e) s + 1 \<Longrightarrow>
   scheduleRetry config c e msg r now s =
     (Exhausted (buildEventKey e) (queued_attempts c (buildEventKey e) s + 1) msg,
      clearRetryItem c (buildEventKey e) s)"
  by (simp add: scheduleRetry_def queued_attempts_def Let_def)

lemma scheduleRetry_scheduled:
  assumes "queued_attempts c (buildEventKey e) s + 1 \<le> maxRetries config"
  shows "\<exists>item. fst (scheduleRetry config c e msg r now s) = Scheduled (buildEventKey e) item
     \<and> ri_attempts item = queued_attempts c (buildEventKey e) s + 1
     \<and> ri_next_retry_at item = now + computeRetryDelayMs config (ri_attempts item) r
     \<and> (retryQueueLimit config = 0 \<longrightarrow>
          queued_attempts c (buildEventKey e) (snd (scheduleRetry config c e msg r now s))
            = queued_attempts c (buildEventKey e) s + 1)"
  using assms
  by (simp add: scheduleRetry_def queued_attempts_def Let_def enforceRetryQueueLimit_chain)
    (auto simp: find_upsert_item [of "\<lparr>ri_key = k, ri_event = e', ri_attempts = a, ri_next_retry_at = n,
        ri_first_failed_at = f, ri_updated_at = u, ri_last_error = l, ri_manual_action = m,
        ri_finalize_only = fo, ri_terminal_error = te, ri_prepared = p, ri_durable_claimed = d\<rparr>" for k e' a n f u l m fo te p d, simplified])

text \<open>The successive results of failing an event again and again, one failure per (random, clock) pair.\<close>

fun fail_repeatedly ::
  "('a relayer_config_scheme) \<Rightarrow> chain \<Rightarrow> oracle_event \<Rightarrow> string \<Rightarrow> (rat \<times> millis) list \<Rightarrow> relayer_state \<Rightarrow>
   schedule_result list \<times> relayer_state" where
  "fail_repeatedly config c e msg [] s = ([], s)"
| "fail_repeatedly config c e msg ((r, now) # rest) s =
     (let (res, s1) = scheduleRetry config c e msg r now s;
          (more, s2) = fail_repeatedly config c e msg rest s1
      in (res # more, s2))"

lemma fail_repeatedly_scheduled:
  assumes "retryQueueLimit config = 0"
    and "queued_attempts c (buildEventKey e) s + int (length rs) \<le> maxRetries config"
  shows "(\<forall>x \<in> set (fst (fail_repeatedly config c e msg rs s)). \<exists>item. x = Scheduled (buildEventKey e) item)
    \<and> queued_attempts c (buildEventKey e) (snd (fail_repeatedly config c e msg rs s))
        = queued_attempts c (buildEventKey e) s + int (length rs)"
  using assms(2)
proof (induction rs arbitrary: s)
  case Nil
  then show ?case by simp
next
  case (Cons p rs)
  obtain r now where p: "p = (r, now)" by (cases p)
  obtain item where 1: "fst (scheduleRetry config c e msg r now s) = Scheduled (buildEventKey e) item"
    and 2: "queued_attempts c (buildEventKey e) (snd (scheduleRetry config c e msg r now s))
        = queued_attempts c (buildEventKey e) s + 1"
    using scheduleRetry_scheduled [of c e s config msg r now] Cons.prems assms(1) by auto
  have "(\<forall>x \<in> set (fst (fail_repeatedly config c e msg rs (snd (scheduleRetry config c e msg r now s)))).
      \<exists>item. x = Scheduled (buildEventKey e) item)
    \<and> queued_attempts c (buildEventKey e)
        (snd (fail_repeatedly config c e msg rs (snd (scheduleRetry config c e msg r now s))))
      = queued_attempts c (buildEventKey e) s + 1 + int (length rs)"
    using Cons.IH [of "snd (scheduleRetry config c e msg r now s)"] Cons.prems 2 by simp
  then show ?case using 1 p by (auto simp: Let_def case_prod_beta)
qed

text \<open>
  The retry budget is exact: an event not yet queued is rescheduled on each of its first
  \<open>maxRetries\<close> failures and declared exhausted on the next one, when it leaves the queue.
\<close>

theorem retry_budget_exact:
  assumes "retryQueueLimit config = 0" and "\<not> isEventQueuedForRetry c (buildEventKey e) s"
    and "int (length rs) = maxRetries config"
  shows "let (results, s1) = fail_repeatedly config c e msg rs s;
             (last_result, s2) = scheduleRetry config c e msg r now s1
         in (\<forall>x \<in> set results. \<exists>item. x = Scheduled (buildEventKey e) item)
            \<and> last_result = Exhausted (buildEventKey e) (maxRetries config + 1) msg
            \<and> \<not> isEventQueuedForRetry c (buildEventKey e) s2"
proof -
  have 0: "queued_attempts c (buildEventKey e) s = 0"
    using assms(2) by (auto simp: queued_attempts_def isEventQueuedForRetry_def list_ex_iff find_None_iff
        split: option.split dest: find_Some_iff [THEN iffD1, rotated])
  have 1: "(\<forall>x \<in> set (fst (fail_repeatedly config c e msg rs s)). \<exists>item. x = Scheduled (buildEventKey e) item)
    \<and> queued_attempts c (buildEventKey e) (snd (fail_repeatedly config c e msg rs s)) = maxRetries config"
    using fail_repeatedly_scheduled [of config c e s rs msg] assms(1,3) 0 by simp
  then show ?thesis
    by (simp add: Let_def case_prod_beta scheduleRetry_exhausted)
qed

theorem retry_budget_exact_witness:
  "let config = sample_config\<lparr>retryQueueLimit := 0\<rparr>;
       (results, s1) = fail_repeatedly config Neo_N3 (sample_event ''7'') ''boom'' [(0, 1), (1 / 2, 2)]
          createEmptyRelayerState;
       (last_result, s2) = scheduleRetry config Neo_N3 (sample_event ''7'') ''boom'' 0 3 s1
   in (\<forall>x \<in> set results. \<exists>item. x = Scheduled (buildEventKey (sample_event ''7'')) item)
      \<and> last_result = Exhausted (buildEventKey (sample_event ''7'')) 3 ''boom''
      \<and> \<not> isEventQueuedForRetry Neo_N3 (buildEventKey (sample_event ''7'')) s2"
  using retry_budget_exact [of "sample_config\<lparr>retryQueueLimit := 0\<rparr>" Neo_N3 "sample_event ''7''"
      createEmptyRelayerState "[(0, 1), (1 / 2, 2)]" "''boom''" 0 3]
  by (simp add: sample_config_def isEventQueuedForRetry_def createEmptyRelayerState_def
      defaultChainState_def Let_def case_prod_beta)

section \<open>Due items\<close>

text \<open>
  The items due at an instant are exactly the queued items whose retry time has come, with the
  same multiplicity, in ascending order of that time.
\<close>

theorem due_items_sorted:
  "sorted (map ri_next_retry_at (getDueRetryItems c now s))
   \<and> mset (getDueRetryItems c now s)
     = filter_mset (\<lambda>i. ri_next_retry_at i \<le> now) (mset (retry_queue (chain_states s c)))"
  by (simp add: getDueRetryItems_def)

section \<open>Accounting for an event\<close>

text \<open>An event is accounted for when it is queued, recorded as processed, or dead-lettered.\<close>

definition dead_lettered :: "chain \<Rightarrow> string \<Rightarrow> relayer_state \<Rightarrow> bool" where
  "dead_lettered c k s \<longleftrightarrow> k \<in> dl_key ` set (dead_letters (chain_states s c))"

definition accounted :: "chain \<Rightarrow> string \<Rightarrow> relayer_state \<Rightarrow> bool" where
  "accounted c k s \<longleftrightarrow> isEventQueuedForRetry c k s \<or> hasProcessedEvent c k s \<or> dead_lettered c k s"

lemma enqueueRetryItem_queued:
  assumes "eo_retryQueueLimit opts = 0 \<or> length (retry_queue (chain_states s c)) \<le> eo_retryQueueLimit opts"
  shows "isEventQueuedForRetry c (buildEventKey e) (snd (enqueueRetryItem c e opts now s))"
  using enqueueRetryItem_keeps [OF assms, of e now]
  by (auto simp: isEventQueuedForRetry_def list_ex_iff intro: bexI [rotated])

lemma Suc_diff_le_pos: "0 < m \<Longrightarrow> Suc n - m \<le> n"
  by simp

lemma recordProcessedEvent_recorded:
  assumes "state_inv config s"
  shows "hasProcessedEvent c (buildEventKey e) (recordProcessedEvent config c e st meta now s)"
proof -
  let ?k = "buildEventKey e" and ?cs = "chain_states s c"
  let ?L = "or_nat (processedCacheSize config) 5000"
  define order where "order = (if obj_get (processed_records ?cs) ?k = None
    then processed_order ?cs @ [?k] else processed_order ?cs)"
  define recs where "recs = obj_set ?k (build_processed_record e st meta now) (processed_records ?cs)"
  have inv: "chain_inv ?cs" and bnd: "length (processed_order ?cs) \<le> ?L"
    using assms by (auto simp: state_inv_def lanes_bounded_def)
  have "?k \<notin> set (take (length order - ?L) order)"
  proof (cases "obj_get (processed_records ?cs) ?k = None")
    case True
    then have "?k \<notin> set (processed_order ?cs)"
      using inv by (auto simp: chain_inv_def obj_get_None_iff)
    moreover have "length order - ?L \<le> length (processed_order ?cs)"
      using True by (simp add: order_def Suc_diff_le_pos)
    ultimately show ?thesis using True by (auto simp: order_def dest: in_set_takeD)
  next
    case False
    then show ?thesis using bnd by (auto simp: order_def)
  qed
  moreover have "[] \<notin> set order" using inv by (auto simp: order_def chain_inv_def)
  ultimately have "obj_get (snd (pruneProcessedRecords ?L order recs)) ?k = obj_get recs ?k"
    by (subst pruneProcessedRecords_records) auto
  then have "obj_get (snd (pruneProcessedRecords ?L order recs)) ?k \<noteq> None"
    by (simp add: recs_def obj_get_set)
  then show ?thesis
    by (simp add: hasProcessedEvent_def recordProcessedEvent_def record_processed_chain_def Let_def
        order_def recs_def split_beta)
qed

lemma recordProcessedEvent_not_queued:
  "\<not> isEventQueuedForRetry c (buildEventKey e) (recordProcessedEvent config c e st meta now s)"
  by (auto simp: isEventQueuedForRetry_keys recordProcessedEvent_def record_processed_chain_def Let_def
      split_beta remove_item_def)

lemma recordProcessedEvent_exhausted_letter:
  "dead_lettered c (buildEventKey e) (recordProcessedEvent config c e ''exhausted'' meta now s)"
proof -
  let ?ls = "dead_letters (chain_states s c)"
  let ?x = "exhausted_letter c e meta now"
  have "?x \<in> set (pruneDeadLetters (or_nat (deadLetterLimit config) 200) (?ls @ [?x]))"
    using pruneDeadLetters_keeps_new [of "or_nat (deadLetterLimit config) 200" "[?x]" ?ls]
    by (simp add: Suc_le_eq)
  then show ?thesis
    by (auto simp: dead_lettered_def recordProcessedEvent_def record_processed_chain_def Let_def
        split_beta exhausted_letter_def intro!: image_eqI [where x = ?x])
qed

lemma clearRetryItem_processed [simp]:
  "hasProcessedEvent c k (clearRetryItem c' j s) = hasProcessedEvent c k s"
  "dead_lettered c k (clearRetryItem c' j s) = dead_lettered c k s"
  by (auto simp: hasProcessedEvent_def dead_lettered_def clearRetryItem_def)

lemma metric_frame [simp]:
  "hasProcessedEvent c k (incrementMetric n d s) = hasProcessedEvent c k s"
  "isEventQueuedForRetry c k (incrementMetric n d s) = isEventQueuedForRetry c k s"
  "dead_lettered c k (incrementMetric n d s) = dead_lettered c k s"
  "hasProcessedEvent c k (incrementLabeledFailure a b p d s) = hasProcessedEvent c k s"
  "isEventQueuedForRetry c k (incrementLabeledFailure a b p d s) = isEventQueuedForRetry c k s"
  "dead_lettered c k (incrementLabeledFailure a b p d s) = dead_lettered c k s"
  by (simp_all add: hasProcessedEvent_def isEventQueuedForRetry_def dead_lettered_def)

end
