(* ===== verification/Automation_Control.thy ===== *)
theory Automation_Control
  imports Automation_System Relayer_State_Facts
begin

text \<open>
  Cancellation requests and the guard that runs before a queued automation is executed.
\<close>

definition cancel_event :: "oracle_event \<Rightarrow> bool" where
  "cancel_event event \<longleftrightarrow> normalize (ev_requestType event) = ''automation_cancel''"

text \<open>
  Only the requester of a job can cancel it: a request from anyone else is answered 403 and
  patches nothing, whatever the store's patch would do.
\<close>

theorem cancel_needs_requester:
  assumes "cancel_event event"
    and "trimString (js_or (getp payload ''automation_id'') (js_or (getp payload ''id'') (JStr []))) = automationId"
    and "automationId \<noteq> []" "ce_fetchJob env automationId = Inr (Some job)"
    and "js_trim (aj_requester job) \<noteq> js_trim (ev_requester event)"
  shows "handleAutomationControlRequest (env\<lparr>ce_patchJob := patch\<rparr>) event payload =
    Inr (Some (cancel_error 403 ''automation cancel requester mismatch''))"
  using assms by (simp add: handleAutomationControlRequest_def cancel_event_def Let_def)

definition sample_control :: "automation_job \<Rightarrow> queued_run \<Rightarrow> control_env" where
  "sample_control job run = \<lparr>ce_now = 0, ce_uuid = ''u'', ce_parse = \<lambda>s. None, ce_parse_date = no_date,
     ce_upsert = \<lambda>j. Inr (), ce_persistEncrypted = \<lambda>j. Inr (),
     ce_fetchJob = \<lambda>k. Inr (if k = aj_automation_id job then Some job else None),
     ce_patchJob = \<lambda>k p. Inr (), ce_fetchRun = \<lambda>h. Inr (Some run)\<rparr>"

definition sample_run :: queued_run where
  "sample_run = \<lparr>qn_automation_id = ''a1'', qn_queued_request_id = ''automation:neo_n3:a1:1''\<rparr>"

definition sample_cancel :: oracle_event where
  "sample_cancel = (sample_event ''9'')\<lparr>ev_requestType := ''automation_cancel'', ev_requester := ''NX''\<rparr>"

theorem cancel_needs_requester_witness:
  "handleAutomationControlRequest ((sample_control timed_row sample_run)\<lparr>ce_patchJob := \<lambda>k p. Inr ()\<rparr>) sample_cancel
      (JObj [(''automation_id'', JStr ''a1'')]) = Inr (Some (cancel_error 403 ''automation cancel requester mismatch''))"
  by (rule cancel_needs_requester [where job = timed_row and automationId = "''a1''"]; code_simp)

text \<open>
  C31: After a cancellation the guard lets one run of the job through, the one whose request id the
  job pins, and blocks every other: in particular a job cancelled in flight reports exactly the
  request id that will still be executed.
\<close>

theorem cancelled_job_runs_only_pinned:
  assumes "ce_fetchRun env (js_trim (ev_txHash event)) = Inr (Some run)" "js_trim (ev_txHash event) \<noteq> []"
    and "js_trim (qn_automation_id run) = aj_automation_id job" "aj_automation_id job \<noteq> []"
    and "ce_fetchJob env (aj_automation_id job) = Inr (Some (apply_patch (cancellation_patch job) now job))"
  shows "\<exists>g. guardQueuedAutomationExecution env event = Inr g \<and>
    (gr_blocked g \<longleftrightarrow> \<not> (js_trim (aj_last_queued_request_id job) \<noteq> [] \<and>
        js_trim (qn_queued_request_id run) = js_trim (aj_last_queued_request_id job))) \<and>
    (\<forall>r. resolveInFlightExecutionForCancel job = Some r \<longrightarrow>
       (gr_blocked g \<longleftrightarrow> js_trim (qn_queued_request_id run) \<noteq> r))"
proof -
  have "aj_status (apply_patch (cancellation_patch job) now job) = ''cancelled''"
    "aj_last_queued_request_id (apply_patch (cancellation_patch job) now job) = aj_last_queued_request_id job"
    by (simp_all add: apply_patch_cols cancellation_patch_def Let_def no_patch_def)
  then show ?thesis
    using assms by (auto simp: guardQueuedAutomationExecution_def allowed_def resolveInFlightExecutionForCancel_def Let_def)
qed

definition inflight_row :: automation_job where
  "inflight_row = timed_row\<lparr>aj_status := ''processing'', aj_execution_count := 1,
     aj_last_queued_request_id := ''automation:neo_n3:a1:1''\<rparr>"

theorem cancelled_job_runs_only_pinned_witness:
  "\<exists>g. guardQueuedAutomationExecution
      (sample_control (apply_patch (cancellation_patch inflight_row) 9 inflight_row) sample_run) sample_cancel = Inr g
    \<and> \<not> gr_blocked g"
proof -
  let ?env = "sample_control (apply_patch (cancellation_patch inflight_row) 9 inflight_row) sample_run"
  have h: "ce_fetchRun ?env (js_trim (ev_txHash sample_cancel)) = Inr (Some sample_run)" "js_trim (ev_txHash sample_cancel) \<noteq> []"
    "js_trim (qn_automation_id sample_run) = aj_automation_id inflight_row" "aj_automation_id inflight_row \<noteq> []"
    "ce_fetchJob ?env (aj_automation_id inflight_row) = Inr (Some (apply_patch (cancellation_patch inflight_row) 9 inflight_row))"
    "js_trim (aj_last_queued_request_id inflight_row) \<noteq> []"
    "js_trim (qn_queued_request_id sample_run) = js_trim (aj_last_queued_request_id inflight_row)"
    by code_simp+
  from cancelled_job_runs_only_pinned [OF h(1-5)] h(6,7) show ?thesis by blast
qed

text \<open>
  A job cancelled after the broadcast of its execution was finalised is reported as cleanly
  \<open>cancelled\<close>, with no execution in flight, although the guard still lets that execution run.
\<close>

theorem clean_cancel_still_runs:
  "let job = inflight_row\<lparr>aj_status := ''active''\<rparr>;
       body = buildCancellationResult job ''a1''
   in getp body ''status'' = JStr ''cancelled'' \<and> getp body ''in_flight_execution'' = JUndef
      \<and> (case guardQueuedAutomationExecution
             (sample_control (apply_patch (cancellation_patch job) 9 job) sample_run) sample_cancel of
           Inl e \<Rightarrow> False | Inr g \<Rightarrow> \<not> gr_blocked g)"
  unfolding Let_def by code_simp

end
