(* ===== verification/Relayer_World.thy ===== *)
theory Relayer_World
  imports Relayer_State_Facts Supabase_Backoff
begin

text \<open>
  What a handler of the relayer acts on: the local state, the Supabase backoff of
  \<^verbatim>\<open>persistence.js\<close>, and the trace of effects it has caused. The Supabase service is not part of
  the program: its replies are the fields of \<open>services\<close>, and a reply may depend on everything
  written before. A handler reads the clock once (\<open>sv_now\<close>).
\<close>

section \<open>Job rows\<close>

text \<open>The row \<open>buildRelayerJobRecord\<close> writes to \<open>morpheus_relayer_jobs\<close>.\<close>

record job_record =
  jr_network :: string
  jr_event_key :: string
  jr_chain :: chain
  jr_request_id :: string
  jr_request_type :: string
  jr_tx_hash :: "string option"
  jr_block_number :: "int option"
  jr_route :: "string option"
  jr_status :: string
  jr_attempts :: int
  jr_last_error :: "string option"
  jr_next_retry_at :: "millis option"
  jr_worker_status :: "int option"
  jr_worker_response :: jsv
  jr_fulfill_tx :: jsv
  jr_event :: oracle_event
  jr_updated_at :: millis
  jr_completed_at :: "millis option"

text \<open>The \<open>details\<close> argument; absent strings are empty and absent values undefined.\<close>

record job_details =
  jd_event_key :: string
  jd_status :: string
  jd_attempts :: int
  jd_route :: string
  jd_last_error :: "string option"
  jd_next_retry_at :: "millis option"
  jd_worker_status :: "int option"
  jd_worker_response :: jsv
  jd_fulfill_tx :: jsv
  jd_completed_at :: "millis option"

definition job_details_of :: "string \<Rightarrow> string \<Rightarrow> int \<Rightarrow> job_details" where
  "job_details_of k status attempts = \<lparr>jd_event_key = k, jd_status = status, jd_attempts = attempts,
     jd_route = [], jd_last_error = None, jd_next_retry_at = None, jd_worker_status = None,
     jd_worker_response = JUndef, jd_fulfill_tx = JUndef, jd_completed_at = None\<rparr>"

definition with_kernel_intent :: "kernel_intent \<Rightarrow> jsv \<Rightarrow> jsv" where
  "with_kernel_intent intent v =
     (if is_objectlike v
      then JObj (spread (own_entries v)
        [(''kernel_intent'', JObj
            [(''module_id'', JStr (ki_moduleId intent)), (''operation'', JStr (ki_operation intent)),
             (''legacy_request_type'', JStr (ki_legacyRequestType intent))])])
      else js_nullish v JNull)"

definition buildRelayerJobRecord :: "string \<Rightarrow> oracle_event \<Rightarrow> job_details \<Rightarrow> millis \<Rightarrow> job_record" where
  "buildRelayerJobRecord network event details now =
     (let intent = intent_of (ev_requestType event) in
      \<lparr>jr_network = network, jr_event_key = jd_event_key details, jr_chain = ev_chain event,
       jr_request_id = or_str (ev_requestId event) ''0'', jr_request_type = ev_requestType event,
       jr_tx_hash = or_null (Some (ev_txHash event)), jr_block_number = ev_blockNumber event,
       jr_route = or_null (Some (jd_route details)), jr_status = or_str (jd_status details) ''queued'',
       jr_attempts = jd_attempts details, jr_last_error = or_null (jd_last_error details),
       jr_next_retry_at = jd_next_retry_at details, jr_worker_status = jd_worker_status details,
       jr_worker_response = with_kernel_intent intent (jd_worker_response details),
       jr_fulfill_tx = js_nullish (jd_fulfill_tx details) JNull, jr_event = event,
       jr_updated_at = now, jr_completed_at = jd_completed_at details\<rparr>)"

text \<open>A row read back from the table. A row whose event column is not an object has no event.\<close>

record durable_job =
  dj_event_key :: string
  dj_request_id :: string
  dj_status :: string
  dj_attempts :: int
  dj_last_error :: "string option"
  dj_next_retry_at :: "millis option"
  dj_updated_at :: "millis option"
  dj_created_at :: "millis option"
  dj_worker_response :: jsv
  dj_event :: "oracle_event option"

text \<open>\<open>parseTimestampMs\<close> on a stored stamp: 0 when it is absent.\<close>

definition parseTimestampMs :: "millis option \<Rightarrow> millis" where
  "parseTimestampMs t = (case t of None \<Rightarrow> 0 | Some n \<Rightarrow> n)"

section \<open>Services and effects\<close>

text \<open>The fields of a \<open>PATCH\<close>: \<open>None\<close> leaves a column as it is, \<open>Some None\<close> writes null.\<close>

record job_patch =
  jp_status :: string
  jp_attempts :: "int option"
  jp_last_error :: "string option option"
  jp_next_retry_at :: "millis option option"
  jp_completed_at :: "millis option option"

record claim_request =
  cq_event_key :: string
  cq_status :: string
  cq_attempts :: int
  cq_worker_response :: jsv
  cq_ready :: "string list"
  cq_stale :: "string list"
  cq_stale_before :: millis

datatype job_write =
    Upsert job_record
  | InsertIfAbsent job_record
  | Patch string job_patch
  | Claim claim_request
  | PatchMany "string list" job_patch

text \<open>
  A PostgREST reply: a network failure rejects, an error status carries the body, a success carries
  the number of affected rows the client asked back.
\<close>

datatype reply = NetError string | HttpError nat string | Rows nat

datatype effect =
    EPersist relayer_state
  | EWrite job_write
  | EDeliver oracle_event prepared_fulfillment
  | EFinalize oracle_event string

record services =
  sv_now :: millis
  sv_rng :: rat
  sv_configured :: bool
  sv_network :: string
  sv_supa_env :: supa_env
  sv_reply :: "effect list \<Rightarrow> job_write \<Rightarrow> reply"
  sv_fetch :: "effect list \<Rightarrow> string list \<Rightarrow> chain \<Rightarrow> int \<Rightarrow> reply + durable_job list"

record world =
  w_state :: relayer_state
  w_backoff :: supa_backoff
  w_trace :: "effect list"

definition on_state :: "(relayer_state \<Rightarrow> relayer_state) \<Rightarrow> world \<Rightarrow> world" where
  "on_state f w = w\<lparr>w_state := f (w_state w)\<rparr>"

definition emit :: "effect \<Rightarrow> world \<Rightarrow> world" where
  "emit e w = w\<lparr>w_trace := w_trace w @ [e]\<rparr>"

text \<open>\<open>persistState()\<close>: the snapshot handed to the writer.\<close>

definition persistState :: "world \<Rightarrow> world" where
  "persistState w = emit (EPersist (w_state w)) w"

lemma world_sel [simp]:
  "w_state (on_state f w) = f (w_state w)" "w_backoff (on_state f w) = w_backoff w"
  "w_trace (on_state f w) = w_trace w"
  "w_state (emit e w) = w_state w" "w_backoff (emit e w) = w_backoff w"
  "w_trace (emit e w) = w_trace w @ [e]"
  by (simp_all add: on_state_def emit_def)

lemma persistState_sel [simp]:
  "w_state (persistState w) = w_state w" "w_backoff (persistState w) = w_backoff w"
  "w_trace (persistState w) = w_trace w @ [EPersist (w_state w)]"
  by (simp_all add: persistState_def)

section \<open>Requests to Supabase\<close>

definition mark_unavailable :: "services \<Rightarrow> string \<Rightarrow> world \<Rightarrow> bool \<times> world" where
  "mark_unavailable sv message w =
     (let (marked, b) = markSupabasePersistenceUnavailable (sv_supa_env sv) message (sv_now sv) (w_backoff w)
      in (marked, w\<lparr>w_backoff := b\<rparr>))"

text \<open>
  \<open>supabaseRequest\<close>: without credentials it resolves to null and writes nothing; an error status
  arms the backoff before the error is thrown; a rejected \<open>fetch\<close> is thrown as it is.
\<close>

definition http_error_message :: "string \<Rightarrow> nat \<Rightarrow> string \<Rightarrow> string" where
  "http_error_message verb code body =
     js_trim (''supabase morpheus_relayer_jobs '' @ verb @ '' failed: '' @ show_nat code @ '' '' @ body)"

fun write_verb :: "job_write \<Rightarrow> string" where
  "write_verb (Upsert _) = ''POST''"
| "write_verb (InsertIfAbsent _) = ''POST''"
| "write_verb (Patch _ _) = ''PATCH''"
| "write_verb (Claim _) = ''PATCH''"
| "write_verb (PatchMany _ _) = ''PATCH''"

definition supabaseRequest :: "services \<Rightarrow> job_write \<Rightarrow> world \<Rightarrow> (nat option) result \<times> world" where
  "supabaseRequest sv write w =
     (if \<not> sv_configured sv then (Inr None, w)
      else case sv_reply sv (w_trace w) write of
          NetError message \<Rightarrow> (Inl message, w)
        | HttpError code body \<Rightarrow>
            (let message = http_error_message (write_verb write) code body
             in (Inl message, snd (mark_unavailable sv message w)))
        | Rows n \<Rightarrow> (Inr (Some n), emit (EWrite write) w))"

definition fetchRelayerJobsByStatuses ::
  "services \<Rightarrow> string list \<Rightarrow> chain \<Rightarrow> int \<Rightarrow> world \<Rightarrow> durable_job list result \<times> world" where
  "fetchRelayerJobsByStatuses sv statuses c limit w =
     (if statuses = [] then (Inr [], w)
      else if \<not> sv_configured sv then (Inr [], w)
      else case sv_fetch sv (w_trace w) statuses c limit of
          Inl (NetError message) \<Rightarrow> (Inl message, w)
        | Inl (HttpError code body) \<Rightarrow>
            (let message = http_error_message ''GET'' code body
             in (Inl message, snd (mark_unavailable sv message w)))
        | Inl (Rows n) \<Rightarrow> (Inr [], w)
        | Inr rows \<Rightarrow> (Inr rows, w))"

lemma mark_unavailable_sel [simp]:
  "w_state (snd (mark_unavailable sv m w)) = w_state w"
  "w_trace (snd (mark_unavailable sv m w)) = w_trace w"
  by (simp_all add: mark_unavailable_def split_beta)

lemma supabaseRequest_state [simp]: "w_state (snd (supabaseRequest sv write w)) = w_state w"
  by (simp add: supabaseRequest_def Let_def split: reply.split)

lemma fetchRelayerJobsByStatuses_state [simp]:
  "w_state (snd (fetchRelayerJobsByStatuses sv st c n w)) = w_state w"
  by (simp add: fetchRelayerJobsByStatuses_def Let_def split: reply.split sum.split)

lemma supabaseRequest_trace:
  "w_trace (snd (supabaseRequest sv write w)) =
     w_trace w @ (if fst (supabaseRequest sv write w) \<in> range (Inr \<circ> Some) then [EWrite write] else [])"
  by (auto simp: supabaseRequest_def Let_def image_iff split: reply.split)

end
