(* ===== verification/Chain_Cursor.thy ===== *)
theory Chain_Cursor
  imports Relayer_State_Facts
begin

text \<open>
  The discovery cursors of the relayer: \<^verbatim>\<open>chain-cursor.js\<close> (block cursor, request-id floor and the
  pruning below it) and \<open>resolveRequestCursor\<close> of \<^verbatim>\<open>request-processor.js\<close>. A cursor is a stored
  checkpoint; both lanes implement one interface (resume after the checkpoint, commit the end of the
  scanned window), and the lemma that successive windows cover a contiguous range is proved once for it.
\<close>

section \<open>chain-cursor.js\<close>

definition getRequestCursorFloor :: "('a relayer_config_scheme) \<Rightarrow> chain \<Rightarrow> int option" where
  "getRequestCursorFloor config c =
     (case startRequestIds config c of Some (Fin raw) \<Rightarrow> if raw > 0 then Some raw else None | _ \<Rightarrow> None)"

text \<open>Returns the number of items removed.\<close>

definition pruneRetryQueueBelowRequestFloor ::
  "chain \<Rightarrow> int option \<Rightarrow> relayer_state \<Rightarrow> nat \<times> relayer_state" where
  "pruneRetryQueueBelowRequestFloor c minRequestId s =
     (case minRequestId of
        None \<Rightarrow> (0, s)
      | Some m \<Rightarrow>
          (let keep = (\<lambda>item. case js_number (or_str (ev_requestId (ri_event item)) ''0'') of
                 Fin n \<Rightarrow> n \<ge> m | _ \<Rightarrow> True);
               before = length (retry_queue (chain_states s c));
               s1 = upd_chain c (\<lambda>cs. cs\<lparr>retry_queue := filter keep (retry_queue cs)\<rparr>) s
           in (before - length (retry_queue (chain_states s1 c)), s1)))"

definition resolveChainFromBlock ::
  "('a relayer_config_scheme) \<Rightarrow> chain \<Rightarrow> int \<Rightarrow> relayer_state \<Rightarrow> jsnum \<times> relayer_state" where
  "resolveChainFromBlock config c confirmedTip s =
     (let defaultStart = js_max (case startBlocks config c of None \<Rightarrow> Fin 0 | Some b \<Rightarrow> b) (Fin 0) in
      case last_block (chain_states s c) of
        None \<Rightarrow> (defaultStart, s)
      | Some lastBlock \<Rightarrow>
          if \<not> is_finite lastBlock \<or> js_lt lastBlock (Fin (-1)) then
            (defaultStart, upd_chain c (\<lambda>cs. cs\<lparr>last_block := None\<rparr>) s)
          else if js_lt (Fin confirmedTip) lastBlock then
            (defaultStart, upd_chain c (\<lambda>cs. cs\<lparr>last_block := None\<rparr>) s)
          else (js_add lastBlock (Fin 1), s))"

section \<open>resolveRequestCursor\<close>

definition resolveRequestCursor ::
  "('a relayer_config_scheme) \<Rightarrow> chain \<Rightarrow> int \<Rightarrow> relayer_state \<Rightarrow> jsnum \<times> relayer_state" where
  "resolveRequestCursor config c latestRequestId s =
     (let configuredStart = startRequestIds config c;
          defaultStart = js_max (case configuredStart of None \<Rightarrow> Fin 1 | Some b \<Rightarrow> b) (Fin 1);
          defaultTailStart = (case configuredStart of
              None \<Rightarrow> Fin (max (latestRequestId - max (maxBlocksPerTick config - 1) 0) 1)
            | Some _ \<Rightarrow> defaultStart)
      in case last_request_id (chain_states s c) of
           None \<Rightarrow> (defaultTailStart, s)
         | Some lastRequestId \<Rightarrow>
             if \<not> is_finite lastRequestId \<or> js_lt lastRequestId (Fin 0) then
               (defaultTailStart, upd_chain c (\<lambda>cs. cs\<lparr>last_request_id := None\<rparr>) s)
             else if js_lt (Fin latestRequestId) lastRequestId then
               (defaultTailStart, upd_chain c (\<lambda>cs. cs\<lparr>last_request_id := None\<rparr>) s)
             else (js_add lastRequestId (Fin 1), s))"

section \<open>The window of one tick\<close>

text \<open>
  The range a lane scans in one tick (\<open>toBlock = Math.min(tip, from + maxBlocksPerTick - 1)\<close>), or
  nothing when the cursor is past the tip.
\<close>

definition scan_to :: "int \<Rightarrow> jsnum \<Rightarrow> int \<Rightarrow> jsnum" where
  "scan_to tip from maxPerTick = js_min (Fin tip) (js_add from (Fin (maxPerTick - 1)))"

text \<open>Successive successful ticks of a lane, one per observed tip, and the windows they scan.\<close>

fun run_windows ::
  "(int \<Rightarrow> 's \<Rightarrow> jsnum \<times> 's) \<Rightarrow> (int \<Rightarrow> 's \<Rightarrow> 's) \<Rightarrow> int \<Rightarrow> int list \<Rightarrow> 's \<Rightarrow> (int \<times> int) list \<times> 's" where
  "run_windows resolve commit maxPerTick [] s = ([], s)"
| "run_windows resolve commit maxPerTick (tip # tips) s =
     (let (from, s1) = resolve tip s in
      case (from, scan_to tip from maxPerTick) of
        (Fin a, Fin b) \<Rightarrow>
          if a \<le> tip
          then (let (ws, s2) = run_windows resolve commit maxPerTick tips (commit b s1)
                in ((a, b) # ws, s2))
          else run_windows resolve commit maxPerTick tips s1
      | _ \<Rightarrow> run_windows resolve commit maxPerTick tips s1)"

definition window_range :: "(int \<times> int) list \<Rightarrow> int list" where
  "window_range ws = concat (map (\<lambda>(a, b). [a..b]) ws)"

section \<open>The cursor interface\<close>

locale scan_cursor =
  fixes checkpoint :: "'s \<Rightarrow> jsnum option"
    and resolve :: "int \<Rightarrow> 's \<Rightarrow> jsnum \<times> 's"
    and commit :: "int \<Rightarrow> 's \<Rightarrow> 's"
    and lowest :: int
  assumes resume: "checkpoint s = Some (Fin n) \<Longrightarrow> lowest \<le> n \<Longrightarrow> n \<le> tip \<Longrightarrow> resolve tip s = (Fin (n + 1), s)"
    and commit_checkpoint: "checkpoint (commit n s) = Some (Fin n)"
begin

lemma windows_contiguous:
  assumes "checkpoint s = Some (Fin n)" "lowest \<le> n" "0 < maxPerTick"
    and "sorted (n # tips)"
  shows "\<exists>m. checkpoint (snd (run_windows resolve commit maxPerTick tips s)) = Some (Fin m)
    \<and> n \<le> m \<and> m \<le> last (n # tips)
    \<and> window_range (fst (run_windows resolve commit maxPerTick tips s)) = [n + 1..m]
    \<and> (\<forall>(a, b) \<in> set (fst (run_windows resolve commit maxPerTick tips s)). a \<le> b \<and> b < a + maxPerTick)"
  using assms(1,2,4)
proof (induction tips arbitrary: s n)
  case Nil
  then show ?case by (simp add: window_range_def)
next
  case (Cons tip tips)
  have res: "resolve tip s = (Fin (n + 1), s)"
    using resume Cons.prems by simp
  let ?b = "min tip (n + maxPerTick)"
  have to: "scan_to tip (Fin (n + 1)) maxPerTick = Fin ?b"
    by (simp add: scan_to_def)
  show ?case
  proof (cases "n + 1 \<le> tip")
    case False
    then have eq: "run_windows resolve commit maxPerTick (tip # tips) s
        = run_windows resolve commit maxPerTick tips s"
      by (simp add: res to)
    have "sorted (n # tips)" using Cons.prems(3) by auto
    from Cons.IH [OF Cons.prems(1,2) this] False Cons.prems(3)
    show ?thesis unfolding eq by (cases tips) auto
  next
    case True
    let ?s1 = "commit ?b s"
    have cp: "checkpoint ?s1 = Some (Fin ?b)" by (rule commit_checkpoint)
    have b: "n + 1 \<le> ?b" "?b < n + 1 + maxPerTick" using True assms(3) by auto
    have "lowest \<le> ?b" using b Cons.prems(2) by linarith
    moreover have "sorted (?b # tips)" using Cons.prems(3) by (auto intro: min.coboundedI1)
    ultimately obtain m where m: "checkpoint (snd (run_windows resolve commit maxPerTick tips ?s1)) = Some (Fin m)"
      "?b \<le> m" "m \<le> last (?b # tips)"
      "window_range (fst (run_windows resolve commit maxPerTick tips ?s1)) = [?b + 1..m]"
      "\<forall>(a, b) \<in> set (fst (run_windows resolve commit maxPerTick tips ?s1)). a \<le> b \<and> b < a + maxPerTick"
      using Cons.IH [OF cp] by blast
    have eq: "run_windows resolve commit maxPerTick (tip # tips) s =
        (let (ws, s2) = run_windows resolve commit maxPerTick tips ?s1 in ((n + 1, ?b) # ws, s2))"
      using True by (simp add: res to)
    have range: "[n + 1..?b] @ [?b + 1..m] = [n + 1..m]"
      by (rule sorted_distinct_set_unique) (use b m(2) in \<open>auto simp: sorted_append\<close>)
    show ?thesis
      using m b range unfolding eq
      by (intro exI [of _ m]) (cases tips; auto simp: window_range_def case_prod_beta Let_def)
  qed
qed

end

definition set_last_block :: "chain \<Rightarrow> int \<Rightarrow> relayer_state \<Rightarrow> relayer_state" where
  "set_last_block c b = upd_chain c (\<lambda>cs. cs\<lparr>last_block := Some (Fin b)\<rparr>)"

definition set_last_request_id :: "chain \<Rightarrow> int \<Rightarrow> relayer_state \<Rightarrow> relayer_state" where
  "set_last_request_id c n = upd_chain c (\<lambda>cs. cs\<lparr>last_request_id := Some (Fin n)\<rparr>)"

interpretation block_lane: scan_cursor "\<lambda>s. last_block (chain_states s c)"
  "resolveChainFromBlock config c" "set_last_block c" "-1"
  for config :: "'a relayer_config_scheme" and c
  by unfold_locales (auto simp: resolveChainFromBlock_def set_last_block_def Let_def)

interpretation request_lane: scan_cursor "\<lambda>s. last_request_id (chain_states s c)"
  "resolveRequestCursor config c" "set_last_request_id c" 0
  for config :: "'a relayer_config_scheme" and c
  by unfold_locales (auto simp: resolveRequestCursor_def set_last_request_id_def Let_def)

section \<open>Properties\<close>

text \<open>
  C29: The block lane leaves no gap and rescans nothing: from a stored checkpoint, successive
  successful ticks with non-decreasing confirmed tips scan windows that together list every block
  after the checkpoint up to the new checkpoint exactly once and in order, never past the tip and
  never more than \<open>maxBlocksPerTick\<close> blocks per tick.
\<close>

theorem block_scan_contiguous:
  assumes "last_block (chain_states s c) = Some (Fin n)" "-1 \<le> n" "0 < maxBlocksPerTick config"
    and "sorted (n # tips)"
  shows "\<exists>m. let r = run_windows (resolveChainFromBlock config c) (set_last_block c) (maxBlocksPerTick config) tips s
     in last_block (chain_states (snd r) c) = Some (Fin m) \<and> n \<le> m \<and> m \<le> last (n # tips)
        \<and> window_range (fst r) = [n + 1..m]
        \<and> (\<forall>(a, b) \<in> set (fst r). a \<le> b \<and> b < a + maxBlocksPerTick config)"
  unfolding Let_def by (rule block_lane.windows_contiguous [OF assms])

theorem block_scan_contiguous_witness:
  "\<exists>m. let s = set_last_block Neo_N3 4 createEmptyRelayerState;
        r = run_windows (resolveChainFromBlock sample_config Neo_N3) (set_last_block Neo_N3) 10 [8, 30] s
     in last_block (chain_states (snd r) Neo_N3) = Some (Fin m) \<and> 4 \<le> m \<and> m \<le> 30
        \<and> window_range (fst r) = [5..m]
        \<and> (\<forall>(a, b) \<in> set (fst r). a \<le> b \<and> b < a + 10)"
  using block_scan_contiguous [of "set_last_block Neo_N3 4 createEmptyRelayerState" Neo_N3 4 sample_config "[8, 30]"]
  by (simp add: set_last_block_def sample_config_def)

text \<open>
  The request-cursor lane has the same guarantee for request ids.
\<close>

theorem request_scan_contiguous:
  assumes "last_request_id (chain_states s c) = Some (Fin n)" "0 \<le> n" "0 < maxBlocksPerTick config"
    and "sorted (n # tips)"
  shows "\<exists>m. let r = run_windows (resolveRequestCursor config c) (set_last_request_id c) (maxBlocksPerTick config) tips s
     in last_request_id (chain_states (snd r) c) = Some (Fin m) \<and> n \<le> m \<and> m \<le> last (n # tips)
        \<and> window_range (fst r) = [n + 1..m]
        \<and> (\<forall>(a, b) \<in> set (fst r). a \<le> b \<and> b < a + maxBlocksPerTick config)"
  unfolding Let_def by (rule request_lane.windows_contiguous [OF assms])

theorem request_scan_contiguous_witness:
  "\<exists>m. let s = set_last_request_id NeoX 0 createEmptyRelayerState;
        r = run_windows (resolveRequestCursor sample_config NeoX) (set_last_request_id NeoX) 10 [3, 3, 20] s
     in last_request_id (chain_states (snd r) NeoX) = Some (Fin m) \<and> 0 \<le> m \<and> m \<le> 20
        \<and> window_range (fst r) = [1..m]
        \<and> (\<forall>(a, b) \<in> set (fst r). a \<le> b \<and> b < a + 10)"
  using request_scan_contiguous [of "set_last_request_id NeoX 0 createEmptyRelayerState" NeoX 0 sample_config "[3, 3, 20]"]
  by (simp add: set_last_request_id_def sample_config_def)

section \<open>Malformed configuration and the request floor\<close>

text \<open>
  A start block that does not parse stalls the block lane: with a NaN start block and no stored
  checkpoint, no sequence of confirmed tips makes the lane scan anything or move its cursor.
\<close>

theorem nan_start_block_stalls:
  assumes "startBlocks config c = Some NaN" and "last_block (chain_states s c) = None"
  shows "run_windows (resolveChainFromBlock config c) (set_last_block c) (maxBlocksPerTick config) tips s = ([], s)"
proof (induction tips)
  case Nil
  then show ?case by simp
next
  case (Cons tip tips)
  have "resolveChainFromBlock config c tip s = (NaN, s)"
    using assms by (simp add: resolveChainFromBlock_def)
  with Cons show ?case by (simp add: scan_to_def)
qed

theorem nan_start_block_stalls_witness:
  "run_windows (resolveChainFromBlock (sample_config\<lparr>startBlocks := (\<lambda>_. Some NaN)\<rparr>) Neo_N3)
     (set_last_block Neo_N3) 10 [100, 200] createEmptyRelayerState = ([], createEmptyRelayerState)"
  using nan_start_block_stalls [of "sample_config\<lparr>startBlocks := (\<lambda>_. Some NaN)\<rparr>" Neo_N3
      createEmptyRelayerState "[100, 200]"]
  by (simp add: sample_config_def createEmptyRelayerState_def defaultChainState_def)

lemma pruneFloor_chain:
  "retry_queue (chain_states (snd (pruneRetryQueueBelowRequestFloor c (Some m) s)) c) =
     filter (\<lambda>item. case js_number (or_str (ev_requestId (ri_event item)) ''0'') of Fin n \<Rightarrow> n \<ge> m | _ \<Rightarrow> True)
       (retry_queue (chain_states s c))"
  by (simp add: pruneRetryQueueBelowRequestFloor_def Let_def)

lemma state_inv_pruneFloor [inv_intros]:
  assumes "state_inv config s"
  shows "state_inv config (snd (pruneRetryQueueBelowRequestFloor c m s))"
proof (cases m)
  case None
  with assms show ?thesis by (simp add: pruneRetryQueueBelowRequestFloor_def)
next
  case (Some n)
  have "state_inv config (upd_chain c (\<lambda>cs. cs\<lparr>retry_queue := filter P (retry_queue cs)\<rparr>) s)" for P
    by (rule state_inv_upd)
      (use assms in \<open>auto simp: state_inv_def lanes_bounded_def chain_inv_def distinct_map_filter\<close>)
  with Some show ?thesis by (simp add: pruneRetryQueueBelowRequestFloor_def Let_def)
qed

lemma state_inv_resolveChainFromBlock [inv_intros]:
  assumes "state_inv config s"
  shows "state_inv config (snd (resolveChainFromBlock config' c tip s))"
proof -
  have "state_inv config (upd_chain c (\<lambda>cs. cs\<lparr>last_block := None\<rparr>) s)"
    by (rule state_inv_upd) (use assms in \<open>auto simp: state_inv_def chain_inv_def lanes_bounded_def\<close>)
  with assms show ?thesis
    by (simp add: resolveChainFromBlock_def Let_def split: option.split)
qed

lemma state_inv_resolveRequestCursor [inv_intros]:
  assumes "state_inv config s"
  shows "state_inv config (snd (resolveRequestCursor config' c tip s))"
proof -
  have "state_inv config (upd_chain c (\<lambda>cs. cs\<lparr>last_request_id := None\<rparr>) s)"
    by (rule state_inv_upd) (use assms in \<open>auto simp: state_inv_def chain_inv_def lanes_bounded_def\<close>)
  with assms show ?thesis
    by (simp add: resolveRequestCursor_def Let_def split: option.split)
qed

end
