(* ===== verification/Durable_Queue.thy ===== *)
theory Durable_Queue
  imports Relayer_World Chain_Cursor
begin

text \<open>
  The durable queue of \<^verbatim>\<open>workers/morpheus-relayer/src/queue.js\<close>: mirroring work to Supabase,
  deferring fresh events under backpressure, loading manual actions, claiming a job across relayer
  instances, hydrating the local retry queue and quarantining rows below the request floor, together
  with the JSON form of a prepared fulfillment of \<^verbatim>\<open>fulfillment.js\<close>.
\<close>

section \<open>The prepared fulfillment as JSON\<close>

definition str_or_empty :: "jsv \<Rightarrow> string" where
  "str_or_empty v = (case str_of v of None \<Rightarrow> [] | Some s \<Rightarrow> s)"

definition TRUST_TIER_ENCLAVE_ATTESTED :: string where
  "TRUST_TIER_ENCLAVE_ATTESTED = ''enclave-attested''"

definition buildPreparedFulfillmentRetryMeta :: "jsv \<Rightarrow> prepared_fulfillment" where
  "buildPreparedFulfillmentRetryMeta v =
     \<lparr>pf_success = truthy (getp v ''success''),
      pf_result = str_or_empty (getp v ''result''),
      pf_result_bytes_base64 = str_or_empty (getp v ''result_bytes_base64''),
      pf_error = str_or_empty (getp v ''error''),
      pf_route = str_or_empty (getp v ''route''),
      pf_module_id = str_or_empty (getp v ''module_id''),
      pf_operation = str_or_empty (getp v ''operation''),
      pf_worker_status = (case js_to_number (getp v ''worker_status'') of Fin n \<Rightarrow> Some n | _ \<Rightarrow> None),
      pf_worker_response = (let r = getp v ''worker_response'' in if is_objectlike r then Some r else None),
      pf_verification_signature = str_or_empty (getp v ''verification_signature''),
      pf_trust_tier = or_str (str_or_empty (getp v ''trust_tier'')) TRUST_TIER_ENCLAVE_ATTESTED\<rparr>"

text \<open>The object a prepared fulfillment is stored as.\<close>

definition prepared_json :: "prepared_fulfillment \<Rightarrow> jsv" where
  "prepared_json p = JObj
     [(''success'', JBool (pf_success p)), (''result'', JStr (pf_result p)),
      (''result_bytes_base64'', JStr (pf_result_bytes_base64 p)), (''error'', JStr (pf_error p)),
      (''route'', JStr (pf_route p)), (''module_id'', JStr (pf_module_id p)),
      (''operation'', JStr (pf_operation p)),
      (''worker_status'', case pf_worker_status p of None \<Rightarrow> JNull | Some n \<Rightarrow> JNum (Fin n)),
      (''worker_response'', case pf_worker_response p of None \<Rightarrow> JNull | Some r \<Rightarrow> r),
      (''verification_signature'', JStr (pf_verification_signature p)),
      (''trust_tier'', JStr (pf_trust_tier p))]"

definition renormalised :: "prepared_fulfillment \<Rightarrow> prepared_fulfillment" where
  "renormalised p = buildPreparedFulfillmentRetryMeta (prepared_json p)"

definition buildCallbackPendingWorkerResponse :: "prepared_fulfillment \<Rightarrow> kernel_intent \<Rightarrow> jsv" where
  "buildCallbackPendingWorkerResponse p intent =
     (let retryMeta =
            [(''prepared_fulfillment'', prepared_json (renormalised p)),
             (''module_id'', JStr (or_str (pf_module_id p) (ki_moduleId intent))),
             (''operation'', JStr (or_str (pf_operation p) (ki_operation intent)))]
      in case pf_worker_response p of
          None \<Rightarrow> JObj [(''retry_meta'', JObj retryMeta)]
        | Some r \<Rightarrow>
            JObj (spread (own_entries r)
              [(''retry_meta'', JObj (spread
                 (let m = getp r ''retry_meta'' in if is_objectlike m then own_entries m else [])
                 retryMeta))]))"

record retry_meta =
  rm_finalize_only :: bool
  rm_terminal_error :: "string option"
  rm_durable_claimed :: bool
  rm_prepared :: "prepared_fulfillment option"

definition extractDurableRetryMeta :: "durable_job \<Rightarrow> retry_meta" where
  "extractDurableRetryMeta job =
     (let m = getp (dj_worker_response job) ''retry_meta'';
          retryMeta = (if is_objectlike m then m else JObj []);
          te = js_trim (str_or_empty (getp retryMeta ''terminal_error''));
          p = getp retryMeta ''prepared_fulfillment''
      in \<lparr>rm_finalize_only = truthy (getp retryMeta ''finalize_only''),
          rm_terminal_error = (if te = [] then None else Some te),
          rm_durable_claimed = truthy (getp retryMeta ''durable_claimed''),
          rm_prepared = (if is_objectlike p then Some (buildPreparedFulfillmentRetryMeta p) else None)\<rparr>)"

section \<open>Mirroring job state\<close>

definition maybeUpsertJob :: "services \<Rightarrow> oracle_event \<Rightarrow> job_details \<Rightarrow> world \<Rightarrow> world" where
  "maybeUpsertJob sv event details w =
     (if shouldSkipSupabasePersistence (sv_now sv) (w_backoff w) then w
      else snd (supabaseRequest sv
             (Upsert (buildRelayerJobRecord (sv_network sv) event details (sv_now sv))) w))"

definition upsertJobOrThrow :: "services \<Rightarrow> oracle_event \<Rightarrow> job_details \<Rightarrow> world \<Rightarrow> unit result \<times> world" where
  "upsertJobOrThrow sv event details w =
     (if shouldSkipSupabasePersistence (sv_now sv) (w_backoff w)
      then (Inl ''supabase persistence unavailable during quota backoff'', w)
      else let (r, w') = supabaseRequest sv
                 (Upsert (buildRelayerJobRecord (sv_network sv) event details (sv_now sv))) w
           in (map_sum id (\<lambda>_. ()) r, w'))"

section \<open>Backpressure\<close>

definition defer_event ::
  "('a relayer_config_scheme) \<Rightarrow> services \<Rightarrow> chain \<Rightarrow> millis \<Rightarrow> oracle_event \<Rightarrow> world \<Rightarrow> world" where
  "defer_event config sv c nextRetryAt event w =
     maybeUpsertJob sv event
       ((job_details_of (buildEventKey event) ''queued_backpressure'' 0)
          \<lparr>jd_last_error := Some ''backpressure_deferred'', jd_next_retry_at := Some nextRetryAt\<rparr>)
       (on_state (\<lambda>s. snd (enqueueRetryItem c event
          (enqueue_defaults\<lparr>eo_next_retry_at := Some nextRetryAt,
             eo_last_error := Some ''backpressure_deferred'',
             eo_retryQueueLimit := retryQueueLimit config,
             eo_deadLetterLimit := deadLetterLimit config\<rparr>) (sv_now sv) s)) w)"

definition deferEventsForBackpressure ::
  "('a relayer_config_scheme) \<Rightarrow> services \<Rightarrow> chain \<Rightarrow> oracle_event list \<Rightarrow> world
     \<Rightarrow> (oracle_event list \<times> oracle_event list) \<times> world" where
  "deferEventsForBackpressure config sv c events w =
     (let n = max (or_nat (maxFreshEventsPerTick config) (length events)) 1 in
      if length events \<le> n then ((events, []), w)
      else
        (let processable = take n events;
             deferred = drop n events;
             nextRetryAt = sv_now sv + max (or_num (Some (deferDelayMs config)) 5000) 250;
             w1 = fold (defer_event config sv c nextRetryAt) deferred w;
             w2 = on_state (incrementMetric ''backpressure_deferred_total'' (int (length deferred))) w1
         in ((processable, deferred), persistState w2)))"

section \<open>Manual actions\<close>

definition manual_failed_patch :: job_patch where
  "manual_failed_patch = \<lparr>jp_status = ''manual_action_failed'', jp_attempts = None,
     jp_last_error = Some (Some ''missing or invalid event payload for manual action''),
     jp_next_retry_at = Some None, jp_completed_at = None\<rparr>"

definition requeued_patch :: "millis \<Rightarrow> job_patch" where
  "requeued_patch now = \<lparr>jp_status = ''queued'', jp_attempts = Some 0, jp_last_error = Some None,
     jp_next_retry_at = Some (Some now), jp_completed_at = Some None\<rparr>"

definition job_key :: "durable_job \<Rightarrow> oracle_event \<Rightarrow> string" where
  "job_key job event = or_str (dj_event_key job) (buildEventKey event)"

definition apply_manual_action :: "chain \<Rightarrow> millis \<Rightarrow> durable_job \<Rightarrow> oracle_event \<Rightarrow> relayer_state \<Rightarrow> relayer_state" where
  "apply_manual_action c now job event s =
     (let k = job_key job event;
          s1 = (if dj_status job = ''manual_replay_requested'' then removeProcessedEvent c k s else s);
          s2 = clearRetryItem c k (removeDeadLetter c k s1);
          s3 = snd (enqueueRetryItem c event
                 (enqueue_defaults\<lparr>eo_next_retry_at := Some now,
                    eo_manual_action := Some (dj_status job)\<rparr>) now s2)
      in incrementMetric ''manual_actions_loaded_total'' 1 s3)"

text \<open>One row after the other; a rejected \<open>PATCH\<close> leaves the loop with its error.\<close>

fun sync_manual_rows ::
  "services \<Rightarrow> chain \<Rightarrow> durable_job list \<Rightarrow> (string \<times> string) list \<Rightarrow> world
     \<Rightarrow> ((string \<times> string) list) result \<times> world" where
  "sync_manual_rows sv c [] applied w = (Inr applied, w)"
| "sync_manual_rows sv c (job # jobs) applied w =
     (case dj_event job of
        None \<Rightarrow> (case supabaseRequest sv (Patch (dj_event_key job) manual_failed_patch) w of
            (Inl e, w') \<Rightarrow> (Inl e, w')
          | (Inr _, w') \<Rightarrow> sync_manual_rows sv c jobs applied w')
      | Some event \<Rightarrow>
          if ev_requestId event = [] then
            (case supabaseRequest sv (Patch (dj_event_key job) manual_failed_patch) w of
                (Inl e, w') \<Rightarrow> (Inl e, w')
              | (Inr _, w') \<Rightarrow> sync_manual_rows sv c jobs applied w')
          else
            (let w1 = on_state (apply_manual_action c (sv_now sv) job event) w in
             case supabaseRequest sv (Patch (job_key job event) (requeued_patch (sv_now sv))) w1 of
                (Inl e, w') \<Rightarrow> (Inl e, w')
              | (Inr _, w') \<Rightarrow>
                  sync_manual_rows sv c jobs (applied @ [(job_key job event, dj_status job)]) w'))"

definition syncManualActions ::
  "services \<Rightarrow> chain \<Rightarrow> world \<Rightarrow> ((string \<times> string) list) result \<times> world" where
  "syncManualActions sv c w =
     (if shouldSkipSupabasePersistence (sv_now sv) (w_backoff w) then (Inr [], w)
      else case fetchRelayerJobsByStatuses sv [''manual_retry_requested'', ''manual_replay_requested''] c 50 w of
          (Inl e, w1) \<Rightarrow> (Inr [], snd (mark_unavailable sv e w1))
        | (Inr jobs, w1) \<Rightarrow>
            (case sync_manual_rows sv c jobs [] w1 of
                (Inl e, w2) \<Rightarrow> (Inl e, w2)
              | (Inr applied, w2) \<Rightarrow> (Inr applied, if applied \<noteq> [] then persistState w2 else w2)))"

section \<open>Readiness\<close>

definition isDurableQueueReadyJob :: "durable_job \<Rightarrow> millis \<Rightarrow> int \<Rightarrow> bool" where
  "isDurableQueueReadyJob job nowMs staleMs =
     (let status = dj_status job in
      if status = ''queued'' \<or> status = ''queued_backpressure'' then True
      else if status = ''retry_scheduled'' \<or> status = ''failure_callback_retry_scheduled''
              \<or> status = ''callback_retry_scheduled'' then
        (let nextRetryAtMs = parseTimestampMs (dj_next_retry_at job)
         in nextRetryAtMs = 0 \<or> nextRetryAtMs \<le> nowMs)
      else if status = ''processing'' \<or> status = ''retrying'' \<or> status = ''callback_pending'' then
        (let updatedAtMs = parseTimestampMs (dj_updated_at job)
         in updatedAtMs > 0 \<and> nowMs - updatedAtMs \<ge> staleMs)
      else False)"

definition ensureDurableQueueAvailable ::
  "('a relayer_config_scheme) \<Rightarrow> services \<Rightarrow> string \<Rightarrow> bool result" where
  "ensureDurableQueueAvailable config sv context =
     (if \<not> durableQueueEnabled config then Inr False
      else if sv_configured sv then Inr True
      else if durableQueueFailClosed config
      then Inl (''durable queue enabled but Supabase persistence unavailable during '' @ context)
      else Inr False)"

definition isTransientDurableQueueError :: "services \<Rightarrow> string \<Rightarrow> world \<Rightarrow> bool \<times> world" where
  "isTransientDurableQueueError sv message w =
     (let (marked, w') = mark_unavailable sv message w in
      if marked then (True, w')
      else (includes_any
        [''exceed_db_size_quota'', ''database size quota'', ''quota exceeded'', ''402 payment required'',
         ''failed: 402'', ''pgrst002'', ''schema cache'', ''503'', ''502'', ''504'', ''timed out'',
         ''timeout'', ''econnreset'', ''econnrefused'', ''eauthquery'',
         ''connection to database not available'', ''network'', ''unavailable''] (to_lower message), w'))"

section \<open>Fresh events\<close>

fun insert_fresh :: "services \<Rightarrow> oracle_event list \<Rightarrow> world \<Rightarrow> unit result \<times> world" where
  "insert_fresh sv [] w = (Inr (), w)"
| "insert_fresh sv (event # events) w =
     (case supabaseRequest sv (InsertIfAbsent (buildRelayerJobRecord (sv_network sv) event
        ((job_details_of (buildEventKey event) ''queued'' 0)\<lparr>jd_next_retry_at := Some (sv_now sv)\<rparr>)
        (sv_now sv))) w of
        (Inl e, w') \<Rightarrow> (Inl e, w')
      | (Inr _, w') \<Rightarrow> insert_fresh sv events w')"

definition persistFreshEventsToDurableQueue ::
  "('a relayer_config_scheme) \<Rightarrow> services \<Rightarrow> chain \<Rightarrow> oracle_event list \<Rightarrow> world \<Rightarrow> unit result \<times> world" where
  "persistFreshEventsToDurableQueue config sv c events w =
     (if events = [] then (Inr (), w)
      else if shouldSkipSupabasePersistence (sv_now sv) (w_backoff w) then (Inr (), w)
      else case ensureDurableQueueAvailable config sv (chain_name c @ '':fresh-event-persist'') of
          Inl e \<Rightarrow> (Inl e, w)
        | Inr False \<Rightarrow> (Inr (), w)
        | Inr True \<Rightarrow>
            (case insert_fresh sv events w of
                (Inr _, w') \<Rightarrow> (Inr (), w')
              | (Inl e, w') \<Rightarrow>
                  (let (transient, w'') = isTransientDurableQueueError sv e w'
                   in (if transient then Inr () else Inl e, w''))))"

section \<open>Claiming\<close>

datatype claim_outcome = Granted | Conflict | BackoffSkip | Unavailable

definition claim_ready_statuses :: "retry_item option \<Rightarrow> string list" where
  "claim_ready_statuses item =
     (if item \<noteq> None
      then [''retry_scheduled'', ''failure_callback_retry_scheduled'', ''callback_retry_scheduled'',
            ''callback_pending'', ''queued'', ''queued_backpressure'']
      else [''queued'', ''queued_backpressure''])"

definition claim_request_for ::
  "('a relayer_config_scheme) \<Rightarrow> services \<Rightarrow> oracle_event \<Rightarrow> retry_item option \<Rightarrow> claim_request" where
  "claim_request_for config sv event item =
     \<lparr>cq_event_key = buildEventKey event,
      cq_status = (if item \<noteq> None then ''retrying'' else ''processing''),
      cq_attempts = (case item of None \<Rightarrow> 0 | Some i \<Rightarrow> ri_attempts i),
      cq_worker_response = JObj [(''retry_meta'', JObj
        [(''durable_claimed'', JBool True), (''claimed_by'', JStr (instanceId config)),
         (''claimed_at'', JNum (Fin (sv_now sv))),
         (''finalize_only'', JBool (case item of None \<Rightarrow> False | Some i \<Rightarrow> ri_finalize_only i)),
         (''terminal_error'', case item of None \<Rightarrow> JNull | Some i \<Rightarrow>
            (case or_null (ri_terminal_error i) of None \<Rightarrow> JNull | Some e \<Rightarrow> JStr e))])],
      cq_ready = claim_ready_statuses item,
      cq_stale = [''processing'', ''retrying'', ''callback_pending''],
      cq_stale_before = sv_now sv - max (or_num (Some (staleProcessingMs config)) 120000) 1000\<rparr>"

definition claimDurableJobForProcessing ::
  "('a relayer_config_scheme) \<Rightarrow> services \<Rightarrow> oracle_event \<Rightarrow> retry_item option \<Rightarrow> world
     \<Rightarrow> claim_outcome result \<times> world" where
  "claimDurableJobForProcessing config sv event item w =
     (if \<not> durableQueueEnabled config then (Inr Granted, w)
      else if (case item of None \<Rightarrow> False | Some i \<Rightarrow> ri_durable_claimed i) then (Inr Granted, w)
      else if shouldSkipSupabasePersistence (sv_now sv) (w_backoff w) then
        (let w1 = on_state (incrementMetric ''durable_claim_skipped_during_backoff_total'' 1) w
         in (Inr (if allowLocalClaimDuringBackoff config then Granted else BackoffSkip), w1))
      else case ensureDurableQueueAvailable config sv (chain_name (ev_chain event) @ '':durable-claim'') of
          Inl e \<Rightarrow> (Inl e, w)
        | Inr False \<Rightarrow> (Inr Unavailable, w)
        | Inr True \<Rightarrow>
            (case supabaseRequest sv (Claim (claim_request_for config sv event item)) w of
                (Inr (Some n), w1) \<Rightarrow> (Inr (if n > 0 then Granted else Conflict), w1)
              | (Inr None, w1) \<Rightarrow> (Inr Conflict, w1)
              | (Inl e, w1) \<Rightarrow>
                  (let (transient, w2) = isTransientDurableQueueError sv e w1
                   in (if transient then Inr Granted else Inl e, w2))))"

section \<open>Hydration\<close>

definition open_statuses :: "string list" where
  "open_statuses = [''queued'', ''queued_backpressure'', ''retry_scheduled'',
     ''failure_callback_retry_scheduled'', ''callback_retry_scheduled'', ''callback_pending'',
     ''processing'', ''retrying'']"

definition hydrate_job ::
  "('a relayer_config_scheme) \<Rightarrow> chain \<Rightarrow> millis \<Rightarrow> durable_job \<Rightarrow> string list \<times> relayer_state
     \<Rightarrow> string list \<times> relayer_state" where
  "hydrate_job config c nowMs job acc =
     (let (hydrated, s) = acc;
          below = (case getRequestCursorFloor config c of None \<Rightarrow> False
                   | Some minId \<Rightarrow> (case js_number (or_str (dj_request_id job) ''0'') of
                        Fin n \<Rightarrow> n < minId | _ \<Rightarrow> False))
      in if below then acc
         else if \<not> isDurableQueueReadyJob job nowMs (or_num (Some (staleProcessingMs config)) 120000) then acc
         else case dj_event job of
             None \<Rightarrow> acc
           | Some event \<Rightarrow>
               if ev_requestId event = [] then acc
               else
                 (let k = job_key job event in
                  if hasProcessedEvent c k s \<or> isEventQueuedForRetry c k s then acc
                  else
                    (let meta = extractDurableRetryMeta job;
                         s1 = (if dj_status job = ''processing'' \<or> dj_status job = ''retrying''
                               then incrementMetric ''stale_reclaims_total'' 1 s else s);
                         options = enqueue_defaults
                           \<lparr>eo_attempts := dj_attempts job,
                            eo_next_retry_at := Some (or_num (dj_next_retry_at job) nowMs),
                            eo_first_failed_at := Some (case dj_created_at job of None \<Rightarrow> nowMs | Some t \<Rightarrow> t),
                            eo_last_error := or_null (dj_last_error job),
                            eo_finalize_only := rm_finalize_only meta,
                            eo_terminal_error := rm_terminal_error meta,
                            eo_prepared := rm_prepared meta,
                            eo_durable_claimed := True\<rparr>
                     in (hydrated @ [k], snd (enqueueRetryItem c event options nowMs s1)))))"

definition hydrateDurableQueue ::
  "('a relayer_config_scheme) \<Rightarrow> services \<Rightarrow> chain \<Rightarrow> world \<Rightarrow> string list result \<times> world" where
  "hydrateDurableQueue config sv c w =
     (if mode config = ''feed_only'' then (Inr [], w)
      else if shouldSkipSupabasePersistence (sv_now sv) (w_backoff w) then (Inr [], w)
      else case ensureDurableQueueAvailable config sv (chain_name c @ '':durable-queue-hydration'') of
          Inl e \<Rightarrow> (Inl e, w)
        | Inr False \<Rightarrow> (Inr [], w)
        | Inr True \<Rightarrow>
            (case fetchRelayerJobsByStatuses sv open_statuses c
                    (max (or_num (Some (durableSyncLimit config)) 200) 1) w of
                (Inl e, w1) \<Rightarrow>
                  (let w2 = snd (mark_unavailable sv e w1);
                       (transient, w3) = isTransientDurableQueueError sv e w2
                   in (if transient then Inr [] else Inl e, w3))
              | (Inr jobs, w1) \<Rightarrow>
                  (let (hydrated, s) = fold (hydrate_job config c (sv_now sv)) jobs ([], w_state w1);
                       w2 = w1\<lparr>w_state := s\<rparr>
                   in (Inr hydrated, if hydrated \<noteq> [] then persistState w2 else w2))))"

section \<open>Quarantine\<close>

definition quarantine_error :: "string \<Rightarrow> durable_job \<Rightarrow> string" where
  "quarantine_error note row = note @ '' :: '' @
     js_trim (case or_null (dj_last_error row) of None \<Rightarrow> ''legacy open relayer job'' | Some e \<Rightarrow> e)"

fun group_rows :: "string \<Rightarrow> durable_job list \<Rightarrow> (string \<times> string list) list \<Rightarrow> (string \<times> string list) list" where
  "group_rows note [] groups = groups"
| "group_rows note (row # rows) groups =
     (let e = quarantine_error note row in
      group_rows note rows (obj_set e
        ((case obj_get groups e of None \<Rightarrow> [] | Some ks \<Rightarrow> ks) @ [dj_event_key row]) groups))"

definition QUARANTINE_PATCH_CHUNK_SIZE :: nat where
  "QUARANTINE_PATCH_CHUNK_SIZE = 40"

function chunks :: "'a list \<Rightarrow> 'a list list" where
  "chunks [] = []"
| "chunks (x # xs) = take QUARANTINE_PATCH_CHUNK_SIZE (x # xs) # chunks (drop QUARANTINE_PATCH_CHUNK_SIZE (x # xs))"
  by pat_completeness auto
termination
  by (relation "measure length") (auto simp: QUARANTINE_PATCH_CHUNK_SIZE_def)

definition quarantine_patch :: "millis \<Rightarrow> string \<Rightarrow> job_patch" where
  "quarantine_patch now e = \<lparr>jp_status = ''stale_quarantined'', jp_attempts = None,
     jp_last_error = Some (Some e), jp_next_retry_at = Some None, jp_completed_at = Some (Some now)\<rparr>"

fun patch_chunks :: "services \<Rightarrow> (string \<times> string list) list \<Rightarrow> nat \<Rightarrow> world \<Rightarrow> nat result \<times> world" where
  "patch_chunks sv [] patched w = (Inr patched, w)"
| "patch_chunks sv ((e, ks) # rest) patched w =
     (case supabaseRequest sv (PatchMany ks (quarantine_patch (sv_now sv) e)) w of
        (Inl err, w') \<Rightarrow> (Inl err, w')
      | (Inr _, w') \<Rightarrow> patch_chunks sv rest (patched + length ks) w')"

definition quarantineRelayerJobsBelowRequestId ::
  "services \<Rightarrow> chain \<Rightarrow> int \<Rightarrow> string list \<Rightarrow> string \<Rightarrow> world \<Rightarrow> nat result \<times> world" where
  "quarantineRelayerJobsBelowRequestId sv c threshold statuses note w =
     (case fetchRelayerJobsByStatuses sv statuses c 5000 w of
        (Inl e, w1) \<Rightarrow> (Inl e, w1)
      | (Inr rows, w1) \<Rightarrow>
          (let targets = filter (\<lambda>row. js_lt (js_number (or_str (dj_request_id row) ''0'')) (Fin threshold)) rows;
               groups = group_rows note targets []
           in patch_chunks sv (concat (map (\<lambda>(e, ks). map (Pair e) (chunks ks)) groups)) 0 w1))"

definition quarantineDurableBacklogBelowRequestFloor ::
  "('a relayer_config_scheme) \<Rightarrow> services \<Rightarrow> chain \<Rightarrow> world \<Rightarrow> nat result \<times> world" where
  "quarantineDurableBacklogBelowRequestFloor config sv c w =
     (case getRequestCursorFloor config c of
        None \<Rightarrow> (Inr 0, w)
      | Some minId \<Rightarrow>
          if shouldSkipSupabasePersistence (sv_now sv) (w_backoff w) then (Inr 0, w)
          else case ensureDurableQueueAvailable config sv (chain_name c @ '':durable-floor-quarantine'') of
              Inl e \<Rightarrow> (Inl e, w)
            | Inr False \<Rightarrow> (Inr 0, w)
            | Inr True \<Rightarrow>
                (case quarantineRelayerJobsBelowRequestId sv c minId open_statuses
                        (''auto-quarantined below request cursor floor '' @ show_int minId) w of
                    (Inr n, w1) \<Rightarrow> (Inr n, w1)
                  | (Inl e, w1) \<Rightarrow>
                      (let w2 = snd (mark_unavailable sv e w1);
                           (transient, w3) = isTransientDurableQueueError sv e w2
                       in (if transient then Inr 0 else Inl e, w3))))"

end
