(* ===== verification/Durable_Queue_Facts.thy ===== *)
theory Durable_Queue_Facts
  imports Durable_Queue "HOL-Library.Multiset"
begin

text \<open>
  What the durable queue promises: every operation keeps the state invariant, a checkpointed
  fulfillment is read back as it was written, backpressure splits a batch without losing an event,
  a claim is granted only for a listed reason, hydration adds each open job once and the
  quarantine patches exactly the rows below the floor.
\<close>

section \<open>The invariant\<close>

abbreviation world_inv :: "('a relayer_config_scheme) \<Rightarrow> world \<Rightarrow> bool" where
  "world_inv config w \<equiv> state_inv config (w_state w)"

lemma maybeUpsertJob_state [simp]: "w_state (maybeUpsertJob sv e d w) = w_state w"
  by (simp add: maybeUpsertJob_def)

lemma upsertJobOrThrow_state [simp]: "w_state (snd (upsertJobOrThrow sv e d w)) = w_state w"
  by (simp add: upsertJobOrThrow_def split_beta)

lemma isTransientDurableQueueError_state [simp]:
  "w_state (snd (isTransientDurableQueueError sv m w)) = w_state w"
  by (simp add: isTransientDurableQueueError_def split_beta)

lemma insert_fresh_state [simp]: "w_state (snd (insert_fresh sv es w)) = w_state w"
proof (induction es arbitrary: w)
  case (Cons e es)
  then show ?case
    by (auto split: prod.split sum.split) (metis snd_conv supabaseRequest_state)+
qed simp

lemma persistFresh_state [simp]:
  "w_state (snd (persistFreshEventsToDurableQueue config sv c es w)) = w_state w"
proof -
  obtain r w1 where i: "insert_fresh sv es w = (r, w1)" by force
  then have "w_state w1 = w_state w" by (metis insert_fresh_state snd_conv)
  then show ?thesis
    by (simp add: persistFreshEventsToDurableQueue_def i split_beta split: sum.split bool.split)
qed

lemma world_inv_defer_event:
  "world_inv config w \<Longrightarrow> world_inv config (defer_event config sv c t e w)"
  by (simp add: defer_event_def state_inv_enqueueRetryItem)

lemma world_inv_fold_defer:
  "world_inv config w \<Longrightarrow> world_inv config (fold (defer_event config sv c t) es w)"
  by (induction es arbitrary: w) (simp_all add: world_inv_defer_event)

lemma world_inv_deferEvents [inv_intros]:
  "world_inv config w \<Longrightarrow> world_inv config (snd (deferEventsForBackpressure config sv c es w))"
  by (simp add: deferEventsForBackpressure_def Let_def world_inv_fold_defer state_inv_incrementMetric)

lemma state_inv_apply_manual_action [inv_intros]:
  "state_inv config s \<Longrightarrow> state_inv config (apply_manual_action c now job e s)"
  by (auto simp: apply_manual_action_def Let_def enqueue_defaults_def intro!: inv_intros)

lemma world_inv_sync_manual_rows:
  "world_inv config w \<Longrightarrow> world_inv config (snd (sync_manual_rows sv c jobs applied w))"
proof (induction jobs arbitrary: applied w)
  case (Cons job jobs)
  have *: "world_inv config w'" if "supabaseRequest sv x v = (r, w')" "world_inv config v" for x v r w'
    using that supabaseRequest_state [of sv x v] by simp
  have **: "world_inv config (on_state (apply_manual_action c (sv_now sv) job e) w)" for e
    using Cons.prems by (simp add: state_inv_apply_manual_action)
  show ?case
    using Cons.IH Cons.prems * **
    by (auto simp: Let_def split: option.split prod.split sum.split)
qed simp

lemma world_inv_syncManualActions [inv_intros]:
  assumes "world_inv config w"
  shows "world_inv config (snd (syncManualActions sv c w))"
proof -
  obtain r w1 where f: "fetchRelayerJobsByStatuses sv [''manual_retry_requested'', ''manual_replay_requested''] c 50 w = (r, w1)"
    by force
  then have inv: "world_inv config w1"
    using assms fetchRelayerJobsByStatuses_state [of sv "[''manual_retry_requested'', ''manual_replay_requested'']" c 50 w]
    by simp
  have rows: "world_inv config (snd (sync_manual_rows sv c jobs [] w1))" for jobs
    using inv by (rule world_inv_sync_manual_rows)
  show ?thesis
    using assms inv rows
    by (auto simp: syncManualActions_def f split: sum.split prod.split) (metis snd_conv)+
qed

lemma world_inv_claim [inv_intros]:
  assumes "world_inv config w"
  shows "world_inv config (snd (claimDurableJobForProcessing config sv e item w))"
proof -
  obtain r w1 where q: "supabaseRequest sv (Claim (claim_request_for config sv e item)) w = (r, w1)"
    by force
  then have "w_state w1 = w_state w" by (metis snd_conv supabaseRequest_state)
  then show ?thesis using assms
    by (auto simp: claimDurableJobForProcessing_def q Let_def split_beta state_inv_incrementMetric
        split: sum.split option.split bool.split)
qed

lemma state_inv_hydrate_job:
  "state_inv config (snd acc) \<Longrightarrow> state_inv config (snd (hydrate_job config c now job acc))"
  by (auto simp: hydrate_job_def Let_def enqueue_defaults_def split_beta split: option.split jsnum.split
      intro!: state_inv_enqueueRetryItem state_inv_incrementMetric)

lemma state_inv_fold_hydrate:
  "state_inv config (snd acc) \<Longrightarrow> state_inv config (snd (fold (hydrate_job config c now) jobs acc))"
  by (induction jobs arbitrary: acc) (simp_all add: state_inv_hydrate_job)

lemma world_inv_hydrate [inv_intros]:
  assumes "world_inv config w"
  shows "world_inv config (snd (hydrateDurableQueue config sv c w))"
proof -
  let ?n = "max (or_num (Some (durableSyncLimit config)) 200) 1"
  obtain r w1 where f: "fetchRelayerJobsByStatuses sv open_statuses c ?n w = (r, w1)" by force
  then have inv: "world_inv config w1"
    using assms fetchRelayerJobsByStatuses_state [of sv open_statuses c ?n w] by simp
  then have "state_inv config (snd (fold (hydrate_job config c (sv_now sv)) jobs ([], w_state w1)))" for jobs
    by (simp add: state_inv_fold_hydrate)
  then show ?thesis using assms inv
    by (auto simp: hydrateDurableQueue_def f Let_def split_beta split: sum.split bool.split)
qed

section \<open>Checkpoint round trip\<close>

definition wf_prepared :: "prepared_fulfillment \<Rightarrow> bool" where
  "wf_prepared p \<longleftrightarrow> pf_trust_tier p \<noteq> [] \<and> pf_worker_status p \<noteq> None
     \<and> (case pf_worker_response p of None \<Rightarrow> True | Some r \<Rightarrow> is_objectlike r)"

lemma is_objectlike_JNull [simp]: "is_objectlike v \<Longrightarrow> \<not> is_nullish v"
  by (cases v) auto

lemma prepared_json_roundtrip:
  "wf_prepared p \<Longrightarrow> buildPreparedFulfillmentRetryMeta (prepared_json p) = p"
  by (cases p)
    (auto simp: wf_prepared_def buildPreparedFulfillmentRetryMeta_def prepared_json_def str_or_empty_def
      or_str_def Let_def split: option.split)

lemma renormalised_wf [simp]: "wf_prepared p \<Longrightarrow> renormalised p = p"
  by (simp add: renormalised_def prepared_json_roundtrip)

lemma getp_spread_new:
  "getp (JObj (spread base [(k, v)])) k = v"
  by (simp add: map_of_spread)

lemma getp_spread_other:
  "j \<noteq> k \<Longrightarrow> getp (JObj (spread base [(k, v)])) j = getp (JObj base) j"
  by (simp add: map_of_spread)

lemma checkpoint_retry_meta:
  "getp (getp (buildCallbackPendingWorkerResponse p intent) ''retry_meta'') ''prepared_fulfillment''
     = prepared_json (renormalised p)"
  by (simp add: buildCallbackPendingWorkerResponse_def Let_def map_of_spread split: option.split)

lemma checkpoint_is_object:
  "\<exists>ps. buildCallbackPendingWorkerResponse p intent = JObj ps"
  by (simp add: buildCallbackPendingWorkerResponse_def Let_def split: option.split)

lemma checkpoint_meta_is_object:
  "\<exists>ps. getp (buildCallbackPendingWorkerResponse p intent) ''retry_meta'' = JObj ps"
  by (simp add: buildCallbackPendingWorkerResponse_def Let_def map_of_spread split: option.split)


definition sample_prepared :: prepared_fulfillment where
  "sample_prepared = \<lparr>pf_success = True, pf_result = ''42'', pf_result_bytes_base64 = ''NDI='',
     pf_error = [], pf_route = ''/oracle/smart-fetch'', pf_module_id = ''oracle.fetch'',
     pf_operation = ''privacy_oracle'', pf_worker_status = Some 200,
     pf_worker_response = Some (JObj [(''value'', JNum (Fin 42))]),
     pf_verification_signature = ''sig'', pf_trust_tier = ''enclave-attested''\<rparr>"

definition sample_job :: "string \<Rightarrow> string \<Rightarrow> durable_job" where
  "sample_job rid status = \<lparr>dj_event_key = buildEventKey (sample_event rid), dj_request_id = rid,
     dj_status = status, dj_attempts = 1, dj_last_error = None, dj_next_retry_at = None,
     dj_updated_at = Some 10, dj_created_at = Some 5, dj_worker_response = JNull,
     dj_event = Some (sample_event rid)\<rparr>"


text \<open>
  A prepared fulfillment without a worker status does not survive the checkpoint as written:
  the stored null is read back as the number 0, because \<open>Number(null)\<close> is 0.
\<close>

theorem checkpoint_null_status:
  "pf_worker_status (buildPreparedFulfillmentRetryMeta
     (prepared_json (sample_prepared\<lparr>pf_worker_status := None\<rparr>))) = Some 0"
  by (simp add: buildPreparedFulfillmentRetryMeta_def prepared_json_def)

section \<open>Backpressure\<close>

lemma defer_event_queue:
  assumes "retryQueueLimit config = 0"
  shows "\<exists>i. ri_key i = buildEventKey e
    \<and> retry_queue (chain_states (w_state (defer_event config sv c t e w)) c)
        = upsert_item i (retry_queue (chain_states (w_state w) c))"
  using assms build_retry_item_key by (fastforce simp: defer_event_def enqueueRetryItem_unlimited)

lemma fold_defer_queued:
  assumes "retryQueueLimit config = 0"
  shows "ri_key ` set (retry_queue (chain_states (w_state (fold (defer_event config sv c t) es w)) c))
    = ri_key ` set (retry_queue (chain_states (w_state w) c)) \<union> buildEventKey ` set es"
proof (induction es arbitrary: w)
  case (Cons e es)
  obtain i where "ri_key i = buildEventKey e"
    "retry_queue (chain_states (w_state (defer_event config sv c t e w)) c)
       = upsert_item i (retry_queue (chain_states (w_state w) c))"
    using defer_event_queue [OF assms] by blast
  then show ?case using Cons.IH [of "defer_event config sv c t e w"]
    by (auto simp: fst_upsert_item)
qed simp

text \<open>
  Backpressure splits a batch of fresh events into a prefix that is processed now, never longer
  than the configured cap, and a rest that is deferred; no event is dropped, and when the retry
  queue has no ceiling every deferred event is queued for retry when the function returns and the
  state holding it has been handed to the persistor.
\<close>

theorem backpressure_keeps_events:
  assumes "retryQueueLimit config = 0"
  shows "let ((now, later), w') = deferEventsForBackpressure config sv c events w in
     now @ later = events
     \<and> (0 < maxFreshEventsPerTick config \<longrightarrow> length now \<le> maxFreshEventsPerTick config)
     \<and> (\<forall>e \<in> set later. isEventQueuedForRetry c (buildEventKey e) (w_state w'))
     \<and> (later \<noteq> [] \<longrightarrow> last (w_trace w') = EPersist (w_state w'))"
  using fold_defer_queued [OF assms]
  by (auto simp: deferEventsForBackpressure_def Let_def isEventQueuedForRetry_keys or_nat_def)

definition sample_services :: services where
  "sample_services = \<lparr>sv_now = 1000, sv_rng = 1 / 2, sv_configured = True, sv_network = ''testnet'',
     sv_supa_env = \<lparr>supabaseBackoffMs = 300000, supabaseTransientBackoffMs = 30000\<rparr>,
     sv_reply = (\<lambda>_ _. Rows 1), sv_fetch = (\<lambda>_ _ _ _. Inr [])\<rparr>"

definition sample_world :: "retry_item list \<Rightarrow> world" where
  "sample_world q = \<lparr>w_state = sample_state q, w_backoff = no_backoff, w_trace = []\<rparr>"

theorem backpressure_keeps_events_witness:
  "let ((now, later), w') = deferEventsForBackpressure (sample_config\<lparr>retryQueueLimit := 0\<rparr>)
         sample_services Neo_N3 [sample_event ''1'', sample_event ''2''] (sample_world []) in
     later = [sample_event ''2'']
     \<and> (\<forall>e \<in> set later. isEventQueuedForRetry Neo_N3 (buildEventKey e) (w_state w'))"
  using backpressure_keeps_events [of "sample_config\<lparr>retryQueueLimit := 0\<rparr>" sample_services Neo_N3
      "[sample_event ''1'', sample_event ''2'']" "sample_world []"]
  by (simp add: deferEventsForBackpressure_def Let_def sample_config_def or_nat_def)

section \<open>Claims\<close>

definition claim_write :: "('a relayer_config_scheme) \<Rightarrow> services \<Rightarrow> oracle_event \<Rightarrow> retry_item option \<Rightarrow> job_write" where
  "claim_write config sv e item = Claim (claim_request_for config sv e item)"

text \<open>
  A job is claimed for processing only for one of these reasons: the durable queue is off; the
  retry item already carries a durable claim; Supabase is in backoff and local claims are opted in;
  the claim updated a row, which is then in the trace; or the claim request failed with an error the
  relayer takes for transient.
\<close>

theorem claim_granted_reasons:
  assumes "claimDurableJobForProcessing config sv e item w = (Inr Granted, w')"
  shows "\<not> durableQueueEnabled config
    \<or> (\<exists>i. item = Some i \<and> ri_durable_claimed i)
    \<or> shouldSkipSupabasePersistence (sv_now sv) (w_backoff w) \<and> allowLocalClaimDuringBackoff config
    \<or> w_trace w' = w_trace w @ [EWrite (claim_write config sv e item)]
    \<or> (\<exists>m. fst (supabaseRequest sv (claim_write config sv e item) w) = Inl m
          \<and> fst (isTransientDurableQueueError sv m (snd (supabaseRequest sv (claim_write config sv e item) w))))"
  using assms
  by (auto simp: claimDurableJobForProcessing_def claim_write_def split_beta supabaseRequest_trace Let_def
      split: if_splits sum.splits option.splits bool.splits prod.splits)

theorem claim_granted_reasons_witness:
  "let w = sample_world []; cfg = sample_config\<lparr>durableQueueEnabled := True\<rparr>;
       w' = snd (claimDurableJobForProcessing cfg sample_services (sample_event ''1'') None w)
   in w_trace w' = w_trace w @ [EWrite (claim_write cfg sample_services (sample_event ''1'') None)]"
proof -
  let ?cfg = "sample_config\<lparr>durableQueueEnabled := True\<rparr>"
  let ?r = "claimDurableJobForProcessing ?cfg sample_services (sample_event ''1'') None (sample_world [])"
  have eval: "supabaseRequest sample_services x (sample_world []) =
      (Inr (Some 1), emit (EWrite x) (sample_world []))" for x
    by (simp add: supabaseRequest_def sample_services_def)
  have skip: "\<not> shouldSkipSupabasePersistence (sv_now sample_services) (w_backoff (sample_world []))"
    by (simp add: shouldSkip_iff sample_services_def sample_world_def no_backoff_def)
  have "?r = (Inr Granted, snd ?r)"
    by (simp add: claimDurableJobForProcessing_def skip eval ensureDurableQueueAvailable_def
        sample_config_def) (simp add: sample_services_def)
  from claim_granted_reasons [OF this] show ?thesis
    using skip by (simp add: eval sample_config_def Let_def)
qed

text \<open>
  While the Supabase backoff is open and local claims are not opted in, a request without a
  durable claim is never granted: the outcome is a skip that keeps the retry item, nothing is
  written, and the skip is counted.
\<close>

theorem claim_fails_closed_in_backoff:
  assumes "durableQueueEnabled config" "\<not> allowLocalClaimDuringBackoff config"
    and "shouldSkipSupabasePersistence (sv_now sv) (w_backoff w)"
    and "\<And>i. item = Some i \<Longrightarrow> \<not> ri_durable_claimed i"
  shows "claimDurableJobForProcessing config sv e item w =
    (Inr BackoffSkip, on_state (incrementMetric ''durable_claim_skipped_during_backoff_total'' 1) w)"
  using assms by (auto simp: claimDurableJobForProcessing_def Let_def split: option.splits)

theorem claim_fails_closed_in_backoff_witness:
  "fst (claimDurableJobForProcessing (sample_config\<lparr>durableQueueEnabled := True\<rparr>) sample_services
      (sample_event ''1'') None
      ((sample_world [])\<lparr>w_backoff := \<lparr>backoffUntilMs = 5000, backoffReason = ''connectivity''\<rparr>\<rparr>))
   = Inr BackoffSkip"
  by (subst claim_fails_closed_in_backoff)
    (simp_all add: sample_config_def shouldSkip_iff sample_services_def)

text \<open>
  The claim that first meets an outage is granted locally although local claims are not opted
  in: a connectivity error on the claim request itself counts as a grant, so two instances that fail
  to reach the store in the same moment both process the request.
\<close>

theorem claim_outage_grants_locally:
  "let sv = sample_services\<lparr>sv_reply := (\<lambda>_ _. NetError ''fetch failed'')\<rparr>;
       cfg = sample_config\<lparr>durableQueueEnabled := True\<rparr>
   in \<not> allowLocalClaimDuringBackoff cfg
      \<and> fst (claimDurableJobForProcessing cfg sv (sample_event ''1'') None (sample_world [])) = Inr Granted"
proof -
  have c: "isSupabaseConnectivityError ''fetch failed''" by code_simp
  have q: "\<not> isSupabaseQuotaRestrictedError ''fetch failed''" by code_simp
  show ?thesis
    by (simp add: claimDurableJobForProcessing_def sample_config_def shouldSkip_iff sample_services_def
        sample_world_def no_backoff_def ensureDurableQueueAvailable_def supabaseRequest_def
        isTransientDurableQueueError_def mark_unavailable_def markSupabasePersistenceUnavailable_def c q Let_def)
qed

section \<open>Hydration\<close>

text \<open>A row hydration may act on, and a key the local state already knows.\<close>

definition hydratable :: "('a relayer_config_scheme) \<Rightarrow> chain \<Rightarrow> millis \<Rightarrow> durable_job \<Rightarrow> bool" where
  "hydratable config c now job \<longleftrightarrow>
     \<not> (case getRequestCursorFloor config c of None \<Rightarrow> False
        | Some minId \<Rightarrow> (case js_number (or_str (dj_request_id job) ''0'') of Fin n \<Rightarrow> n < minId | _ \<Rightarrow> False))
     \<and> isDurableQueueReadyJob job now (or_num (Some (staleProcessingMs config)) 120000)
     \<and> (case dj_event job of None \<Rightarrow> False | Some e \<Rightarrow> ev_requestId e \<noteq> [])"

definition known :: "chain \<Rightarrow> string \<Rightarrow> relayer_state \<Rightarrow> bool" where
  "known c k s \<longleftrightarrow> hasProcessedEvent c k s \<or> isEventQueuedForRetry c k s"

text \<open>The key of a row whose stored key, if any, is that of its event.\<close>

definition row_key :: "durable_job \<Rightarrow> string" where
  "row_key job = (case dj_event job of None \<Rightarrow> [] | Some e \<Rightarrow> buildEventKey e)"

definition consistent_row :: "durable_job \<Rightarrow> bool" where
  "consistent_row job \<longleftrightarrow> dj_event_key job = [] \<or> dj_event_key job = row_key job"

lemma hydrate_job_skip:
  "\<not> hydratable config c now job \<Longrightarrow> hydrate_job config c now job acc = acc"
  by (cases acc) (auto simp: hydrate_job_def hydratable_def Let_def split: option.splits jsnum.splits)

lemma hydrate_job_known:
  assumes "consistent_row job" "known c (row_key job) (snd acc)"
  shows "hydrate_job config c now job acc = acc"
  using assms
  by (cases acc)
    (auto simp: hydrate_job_def Let_def known_def job_key_def row_key_def consistent_row_def or_str_def
      split: option.splits jsnum.splits)

lemma hydrate_job_item:
  assumes "consistent_row job" "hydratable config c now job" "\<not> known c (row_key job) s"
  obtains s' i where "hydrate_job config c now job (h, s) = (h @ [row_key job], s')"
    and "retry_queue (chain_states s' c) = upsert_item i (retry_queue (chain_states s c))"
    and "processed_records (chain_states s' c) = processed_records (chain_states s c)"
    and "ri_key i = row_key job" "dj_event job = Some (ri_event i)" "ri_durable_claimed i"
proof -
  obtain e where e: "dj_event job = Some e" using assms(2) by (auto simp: hydratable_def split: option.splits)
  have k: "job_key job e = row_key job"
    using assms(1) e by (auto simp: consistent_row_def job_key_def row_key_def or_str_def)
  define s1 where "s1 = (if dj_status job = ''processing'' \<or> dj_status job = ''retrying''
    then incrementMetric ''stale_reclaims_total'' 1 s else s)"
  have s1: "chain_states s1 = chain_states s" by (simp add: s1_def)
  obtain opts where opts: "eo_retryQueueLimit opts = 0" "eo_durable_claimed opts"
    and res: "hydrate_job config c now job (h, s) = (h @ [row_key job], snd (enqueueRetryItem c e opts now s1))"
    using assms(2,3) e k
    by (force simp: hydrate_job_def hydratable_def known_def Let_def s1_def enqueue_defaults_def
        split: option.splits jsnum.splits)
  show thesis
    by (rule that [OF res]) (use e opts in \<open>auto simp: enqueueRetryItem_unlimited s1 row_key_def build_retry_item_def\<close>)
qed

lemma hydrate_job_new:
  assumes "consistent_row job" "hydratable config c now job" "\<not> known c (row_key job) s"
  obtains s' where "hydrate_job config c now job (h, s) = (h @ [row_key job], s')"
    and "\<And>k. known c k s' \<longleftrightarrow> k = row_key job \<or> known c k s"
    and "isEventQueuedForRetry c (row_key job) s'"
    and "\<And>k. isEventQueuedForRetry c k s \<Longrightarrow> isEventQueuedForRetry c k s'"
proof -
  obtain s' i where s': "hydrate_job config c now job (h, s) = (h @ [row_key job], s')"
    "retry_queue (chain_states s' c) = upsert_item i (retry_queue (chain_states s c))"
    "processed_records (chain_states s' c) = processed_records (chain_states s c)"
    "ri_key i = row_key job" "dj_event job = Some (ri_event i)" "ri_durable_claimed i"
    using hydrate_job_item [OF assms] .
  show thesis
    by (rule that [OF s'(1)])
      (use s'(2,3,4) in \<open>auto simp: known_def isEventQueuedForRetry_keys fst_upsert_item hasProcessedEvent_def\<close>)
qed

lemma fold_hydrate:
  assumes "\<forall>job \<in> set jobs. consistent_row job"
    and "fold (hydrate_job config c now) jobs (h, s) = (h', s')"
  shows "\<exists>new. h' = h @ new \<and> distinct new
    \<and> (\<forall>k \<in> set new. \<not> known c k s \<and> isEventQueuedForRetry c k s')
    \<and> (\<forall>k. known c k s' \<longleftrightarrow> k \<in> set new \<or> known c k s)
    \<and> (\<forall>k. isEventQueuedForRetry c k s \<longrightarrow> isEventQueuedForRetry c k s')
    \<and> (\<forall>job \<in> set jobs. hydratable config c now job \<longrightarrow> known c (row_key job) s')"
  using assms
proof (induction jobs arbitrary: h s)
  case Nil
  then show ?case by simp
next
  case (Cons job jobs)
  show ?case
  proof (cases "hydratable config c now job \<and> \<not> known c (row_key job) s")
    case False
    then have "hydrate_job config c now job (h, s) = (h, s)"
      using Cons.prems(1) by (auto intro: hydrate_job_skip hydrate_job_known)
    with Cons.prems have "fold (hydrate_job config c now) jobs (h, s) = (h', s')" by simp
    from Cons.IH [OF _ this] Cons.prems(1) False show ?thesis by auto
  next
    case True
    then obtain s1 where s1: "hydrate_job config c now job (h, s) = (h @ [row_key job], s1)"
      "\<And>k. known c k s1 \<longleftrightarrow> k = row_key job \<or> known c k s"
      "isEventQueuedForRetry c (row_key job) s1"
      and mono: "\<And>k. isEventQueuedForRetry c k s \<Longrightarrow> isEventQueuedForRetry c k s1"
      using Cons.prems(1) hydrate_job_new [of job config c now s h] by auto
    from s1(1) Cons.prems(2) have "fold (hydrate_job config c now) jobs (h @ [row_key job], s1) = (h', s')" by simp
    from Cons.IH [OF _ this] Cons.prems(1) obtain new where
      new: "h' = h @ [row_key job] @ new" "distinct new"
        "\<forall>k \<in> set new. \<not> known c k s1 \<and> isEventQueuedForRetry c k s'"
        "\<forall>k. known c k s' \<longleftrightarrow> k \<in> set new \<or> known c k s1"
        "\<forall>k. isEventQueuedForRetry c k s1 \<longrightarrow> isEventQueuedForRetry c k s'"
        "\<forall>job \<in> set jobs. hydratable config c now job \<longrightarrow> known c (row_key job) s'"
      by auto
    have "row_key job \<notin> set new" using new(3) s1(2) by blast
    then show ?thesis
      using new s1 True mono by (intro exI [of _ "row_key job # new"]) auto
  qed
qed

lemma fold_hydrate_fixed:
  assumes "\<forall>job \<in> set jobs. consistent_row job \<and> (hydratable config c now job \<longrightarrow> known c (row_key job) s)"
  shows "fold (hydrate_job config c now) jobs (h, s) = (h, s)"
  using assms
proof (induction jobs)
  case (Cons job jobs)
  then have "hydrate_job config c now job (h, s) = (h, s)"
    by (cases "hydratable config c now job") (auto simp: hydrate_job_skip hydrate_job_known)
  with Cons show ?case by simp
qed simp

text \<open>
  Hydrating the retry queue from durable rows adds each open job once: the reported keys are
  distinct, were unknown locally before and are queued afterwards, every row that is ready and at or
  above the request floor ends up known locally, and hydrating the same rows again changes nothing.
\<close>

theorem hydrate_once:
  assumes "\<forall>job \<in> set jobs. consistent_row job"
    and "fold (hydrate_job config c now) jobs ([], s) = (hydrated, s')"
  shows "distinct hydrated
    \<and> (\<forall>k \<in> set hydrated. \<not> known c k s \<and> isEventQueuedForRetry c k s')
    \<and> (\<forall>job \<in> set jobs. hydratable config c now job \<longrightarrow> known c (row_key job) s')
    \<and> fold (hydrate_job config c now) jobs ([], s') = ([], s')"
proof -
  from fold_hydrate [OF assms] obtain new where
    new: "hydrated = new" "distinct new" "\<forall>k \<in> set new. \<not> known c k s \<and> isEventQueuedForRetry c k s'"
      "\<forall>job \<in> set jobs. hydratable config c now job \<longrightarrow> known c (row_key job) s'"
    by auto
  have "fold (hydrate_job config c now) jobs ([], s') = ([], s')"
    by (rule fold_hydrate_fixed) (use assms(1) new(4) in blast)
  with new show ?thesis by blast
qed

theorem hydrate_once_witness:
  "let r = fold (hydrate_job sample_config Neo_N3 1000) [sample_job ''7'' ''queued'', sample_job ''7'' ''queued'']
             ([], sample_state [])
   in fst r = [buildEventKey (sample_event ''7'')] \<and> distinct (fst r)
      \<and> (\<forall>k \<in> set (fst r). isEventQueuedForRetry Neo_N3 k (snd r))"
proof -
  let ?jobs = "[sample_job ''7'' ''queued'', sample_job ''7'' ''queued'']"
  let ?r = "fold (hydrate_job sample_config Neo_N3 1000) ?jobs ([], sample_state [])"
  have con: "consistent_row (sample_job ''7'' ''queued'')"
    by (simp add: consistent_row_def row_key_def sample_job_def)
  then have cons: "\<forall>job \<in> set ?jobs. consistent_row job" by simp
  have fstr: "fst ?r = [buildEventKey (sample_event ''7'')]"
  proof -
    have hyd: "hydratable sample_config Neo_N3 1000 (sample_job ''7'' ''queued'')"
      by (simp add: hydratable_def getRequestCursorFloor_def sample_config_def sample_job_def
          isDurableQueueReadyJob_def sample_event_def)
    have rk: "row_key (sample_job ''7'' ''queued'') = buildEventKey (sample_event ''7'')"
      by (simp add: row_key_def sample_job_def)
    have nk: "\<not> known Neo_N3 (row_key (sample_job ''7'' ''queued'')) (sample_state [])"
      by (simp add: known_def hasProcessedEvent_def isEventQueuedForRetry_def sample_state_def
          createEmptyRelayerState_def defaultChainState_def)
    obtain s1 where "hydrate_job sample_config Neo_N3 1000 (sample_job ''7'' ''queued'') ([], sample_state [])
        = ([] @ [row_key (sample_job ''7'' ''queued'')], s1)"
      "known Neo_N3 (row_key (sample_job ''7'' ''queued'')) s1"
      by (rule hydrate_job_new [OF con hyd nk, of "[]"]) auto
    then show ?thesis using rk cons by (simp add: hydrate_job_known)
  qed
  show ?thesis
    using hydrate_once [OF cons, of sample_config Neo_N3 1000 "sample_state []" "fst ?r" "snd ?r"] fstr
    by (simp add: Let_def)
qed

text \<open>
  A hydrated job is marked as already claimed whatever its status was, so the cross-instance
  claim is skipped for it: two relayer instances that hydrate the same queued row are both granted
  the request without contacting the store.
\<close>

theorem hydrated_job_skips_claim:
  "let cfg = sample_config\<lparr>durableQueueEnabled := True\<rparr>;
       s = snd (hydrate_job cfg Neo_N3 1000 (sample_job ''7'' ''queued'') ([], sample_state []));
       item = hd (retry_queue (chain_states s Neo_N3))
   in ri_event item = sample_event ''7''
      \<and> (\<forall>sv w. claimDurableJobForProcessing cfg sv (ri_event item) (Some item) w = (Inr Granted, w))"
proof -
  let ?cfg = "sample_config\<lparr>durableQueueEnabled := True\<rparr>" and ?job = "sample_job ''7'' ''queued''"
  have hyd: "hydratable ?cfg Neo_N3 1000 ?job"
    by (simp add: hydratable_def getRequestCursorFloor_def sample_config_def sample_job_def
        isDurableQueueReadyJob_def sample_event_def)
  have nk: "\<not> known Neo_N3 (row_key ?job) (sample_state [])"
    by (simp add: known_def hasProcessedEvent_def isEventQueuedForRetry_def sample_state_def
        createEmptyRelayerState_def defaultChainState_def)
  have cons: "consistent_row ?job" by (simp add: consistent_row_def row_key_def sample_job_def)
  obtain s' i where "hydrate_job ?cfg Neo_N3 1000 ?job ([], sample_state []) = ([] @ [row_key ?job], s')"
    "retry_queue (chain_states s' Neo_N3) = upsert_item i (retry_queue (chain_states (sample_state []) Neo_N3))"
    "processed_records (chain_states s' Neo_N3) = processed_records (chain_states (sample_state []) Neo_N3)"
    "ri_key i = row_key ?job" "dj_event ?job = Some (ri_event i)" "ri_durable_claimed i"
    using hydrate_job_item [OF cons hyd nk, of "[]"] .
  then show ?thesis
    by (simp add: Let_def claimDurableJobForProcessing_def sample_job_def sample_state_def)
qed

section \<open>Quarantine\<close>

lemma concat_chunks [simp]: "concat (chunks xs) = xs"
  by (induction xs rule: chunks.induct) simp_all

lemma chunks_bound: "\<forall>ch \<in> set (chunks xs). length ch \<le> QUARANTINE_PATCH_CHUNK_SIZE"
  by (induction xs rule: chunks.induct) auto

lemma group_rows_mset:
  "mset (concat (map snd (group_rows note rows groups))) =
     mset (concat (map snd groups)) + mset (map dj_event_key rows)"
proof (induction rows arbitrary: groups)
  case (Cons row rows)
  have "mset (concat (map snd (obj_set e ((case obj_get groups e of None \<Rightarrow> [] | Some ks \<Rightarrow> ks) @ [k]) groups)))
      = mset (concat (map snd groups)) + {#k#}" for e k
    by (induction groups) (auto split: option.splits)
  then show ?case using Cons.IH by (simp add: Let_def)
qed simp

definition quarantine_plan :: "string \<Rightarrow> durable_job list \<Rightarrow> (string \<times> string list) list" where
  "quarantine_plan note rows = concat (map (\<lambda>(e, ks). map (Pair e) (chunks ks)) (group_rows note rows []))"

lemma snd_quarantine_plan:
  "map snd (quarantine_plan note rows) = concat (map (\<lambda>p. chunks (snd p)) (group_rows note rows []))"
  by (simp add: quarantine_plan_def map_concat comp_def split_beta)

lemma concat_plan: "concat (map snd (quarantine_plan note rows)) = concat (map snd (group_rows note rows []))"
proof -
  have "concat (concat (map (\<lambda>p. chunks (snd p)) gs)) = concat (map snd gs)" for gs :: "(string \<times> string list) list"
    by (induction gs) auto
  then show ?thesis by (simp only: snd_quarantine_plan)
qed

lemma patch_chunks_ok:
  assumes "sv_configured sv" "\<And>t x. \<exists>n. sv_reply sv t x = Rows n"
  shows "fst (patch_chunks sv plan n w) = Inr (n + length (concat (map snd plan)))
    \<and> w_trace (snd (patch_chunks sv plan n w)) =
        w_trace w @ map (\<lambda>(e, ks). EWrite (PatchMany ks (quarantine_patch (sv_now sv) e))) plan"
proof (induction plan arbitrary: n w)
  case (Cons p plan)
  obtain e ks where p: "p = (e, ks)" by force
  obtain m where "supabaseRequest sv (PatchMany ks (quarantine_patch (sv_now sv) e)) w =
      (Inr (Some m), emit (EWrite (PatchMany ks (quarantine_patch (sv_now sv) e))) w)"
    using assms by (auto simp: supabaseRequest_def) (metis reply.simps(12))
  with Cons p show ?case by simp
qed simp

text \<open>
  When the store answers, the quarantine patches exactly the open rows whose request id is
  below the threshold, each once, in batches of at most forty keys, and reports their number.
\<close>

theorem quarantine_exact:
  assumes "sv_configured sv" "\<And>t x. \<exists>n. sv_reply sv t x = Rows n"
    and "statuses \<noteq> []" "sv_fetch sv (w_trace w) statuses c 5000 = Inr rows"
  shows "let targets = filter (\<lambda>row. js_lt (js_number (or_str (dj_request_id row) ''0'')) (Fin threshold)) rows;
             (r, w') = quarantineRelayerJobsBelowRequestId sv c threshold statuses note w
         in r = Inr (length targets)
          \<and> (\<exists>plan. w_trace w' = w_trace w @
                 map (\<lambda>(e, ks). EWrite (PatchMany ks (quarantine_patch (sv_now sv) e))) plan
              \<and> mset (concat (map snd plan)) = mset (map dj_event_key targets)
              \<and> (\<forall>(e, ks) \<in> set plan. length ks \<le> 40))"
proof -
  define targets where "targets = filter (\<lambda>row. js_lt (js_number (or_str (dj_request_id row) ''0'')) (Fin threshold)) rows"
  let ?plan = "quarantine_plan note targets"
  have fetch: "fetchRelayerJobsByStatuses sv statuses c 5000 w = (Inr rows, w)"
    using assms by (simp add: fetchRelayerJobsByStatuses_def)
  have q: "quarantineRelayerJobsBelowRequestId sv c threshold statuses note w = patch_chunks sv ?plan 0 w"
    by (simp add: quarantineRelayerJobsBelowRequestId_def fetch targets_def quarantine_plan_def Let_def)
  have ms: "mset (concat (map snd ?plan)) = mset (map dj_event_key targets)"
    by (simp only: concat_plan group_rows_mset) simp
  then have len: "length (concat (map snd ?plan)) = length targets"
    by (metis length_map size_mset)
  have "\<forall>ks \<in> set (map snd ?plan). length ks \<le> 40"
    using chunks_bound by (auto simp only: snd_quarantine_plan set_concat set_map QUARANTINE_PATCH_CHUNK_SIZE_def)
  then have bound: "\<forall>(e, ks) \<in> set ?plan. length ks \<le> 40" by auto
  from patch_chunks_ok [OF assms(1,2), of ?plan 0 w] len ms bound show ?thesis
    unfolding q targets_def [symmetric] by (auto simp: Let_def split_beta)
qed

theorem quarantine_exact_witness:
  "let sv = sample_services\<lparr>sv_fetch := (\<lambda>_ _ _ _. Inr [sample_job ''3'' ''queued'', sample_job ''12'' ''queued''])\<rparr>
   in fst (quarantineRelayerJobsBelowRequestId sv Neo_N3 10 [''queued''] ''note'' (sample_world [])) = Inr 1"
proof -
  let ?sv = "sample_services\<lparr>sv_fetch := (\<lambda>_ _ _ _. Inr [sample_job ''3'' ''queued'', sample_job ''12'' ''queued''])\<rparr>"
  have n: "js_number ''3'' = Fin 3" "js_number ''12'' = Fin 12" by code_simp+
  have "length (filter (\<lambda>row. js_lt (js_number (or_str (dj_request_id row) ''0'')) (Fin 10))
      [sample_job ''3'' ''queued'', sample_job ''12'' ''queued'']) = 1"
    by (simp add: sample_job_def or_str_def n)
  with quarantine_exact [of ?sv "[''queued'']" "sample_world []" Neo_N3
      "[sample_job ''3'' ''queued'', sample_job ''12'' ''queued'']" 10 "''note''"]
  show ?thesis by (simp add: sample_services_def Let_def split_beta)
qed

end
