(* ===== verification/Fulfillment_Policy.thy ===== *)
theory Fulfillment_Policy
  imports Relayer_State_Facts Supabase_Backoff
begin

text \<open>
  The policies of \<^verbatim>\<open>workers/morpheus-relayer/src/fulfillment.js\<close>: the error text that may reach the
  chain, the classification of errors, the retry ceiling of the delivery lanes, the identifiers a
  fulfillment is signed for and the identifier hygiene gate. A thrown error is its message, which is
  what \<open>normalizeErrorMessage\<close> reads.
\<close>

section \<open>Error text for the chain\<close>

text \<open>The pattern \<open>https?://[^\s\]]+\<close>, case-insensitive.\<close>

definition url_char :: "char \<Rightarrow> bool" where
  "url_char c \<longleftrightarrow> \<not> is_ws c \<and> c \<noteq> CHR '']''"

definition url_scheme :: "string \<Rightarrow> nat option" where
  "url_scheme s =
     (if js_starts_with (to_lower s) ''https://'' then Some 8
      else if js_starts_with (to_lower s) ''http://'' then Some 7 else None)"

definition url_at :: "string \<Rightarrow> nat option" where
  "url_at s = (case url_scheme s of None \<Rightarrow> None
     | Some n \<Rightarrow> (case drop n s of [] \<Rightarrow> None | c # _ \<Rightarrow> if url_char c then Some n else None))"

function redact_urls :: "string \<Rightarrow> string" where
  "redact_urls [] = []"
| "redact_urls (c # cs) =
     (case url_at (c # cs) of
        None \<Rightarrow> c # redact_urls cs
      | Some n \<Rightarrow> ''[redacted-url]'' @ redact_urls (dropWhile url_char (drop (n - 1) cs)))"
  by pat_completeness auto
termination
proof (relation "measure length")
  fix c :: char and cs :: string and n
  have "length (dropWhile url_char (drop (n - 1) cs)) \<le> length (drop (n - 1) cs)"
    by (rule length_dropWhile_le)
  then show "(dropWhile url_char (drop (n - 1) cs), c # cs) \<in> measure length"
    by simp
qed auto

definition trimOnchainErrorMessage :: "string \<Rightarrow> string" where
  "trimOnchainErrorMessage value =
     (let text = js_trim (redact_urls value) in
      if text = [] then ''request execution failed''
      else if length text > 240 then take 237 text @ ''...'' else text)"

section \<open>Classification\<close>

definition isAlreadyFulfilledError :: "string \<Rightarrow> bool" where
  "isAlreadyFulfilledError message = includes_any
     [''already fulfilled'', ''request already fulfilled'', ''reason: request already fulfilled'']
     (to_lower message)"

definition isTerminalConfigurationError :: "string \<Rightarrow> bool" where
  "isTerminalConfigurationError message =
     (let normalized = to_lower message in
      includes_any [''reason: unauthorized'', ''invalid signature'', ''verifier rejected signature'',
        ''oracle verifier'', ''oracle_verifier'', ''updater not set'', ''callback not allowed''] normalized
      \<or> js_includes normalized ''called contract'' \<and> js_includes normalized ''not found'')"

definition TRANSIENT_WORKER_HTTP_STATUSES :: "int list" where
  "TRANSIENT_WORKER_HTTP_STATUSES = [0, 408, 425, 429, 500, 502, 503, 504]"

definition isTransientWorkerStatus :: "jsv \<Rightarrow> bool" where
  "isTransientWorkerStatus status =
     (case status of
        JNum n \<Rightarrow> (case n of Fin i \<Rightarrow> i \<in> set TRANSIENT_WORKER_HTTP_STATUSES | _ \<Rightarrow> False)
      | JStr s \<Rightarrow> js_trim s \<noteq> [] \<and>
          (case js_number s of Fin i \<Rightarrow> i \<in> set TRANSIENT_WORKER_HTTP_STATUSES | _ \<Rightarrow> False)
      | _ \<Rightarrow> False)"

definition TRANSIENT_WORKER_ERROR_MARKER :: string where
  "TRANSIENT_WORKER_ERROR_MARKER = ''[transient-worker-status]''"

definition buildTransientWorkerError :: "jsnum \<Rightarrow> string \<Rightarrow> string" where
  "buildTransientWorkerError status detail =
     ''worker request failed with transient status ''
     @ (case status of Fin i \<Rightarrow> show_int i | _ \<Rightarrow> ''unknown'')
     @ (if detail = [] then [] else '': '' @ detail) @ '' '' @ TRANSIENT_WORKER_ERROR_MARKER"

text \<open>\<open>\b<token>\b\<close> and \<open>\b<token>\<close> for tokens made of word characters at their ends.\<close>

definition is_word :: "char \<Rightarrow> bool" where
  "is_word c = (let n = (of_char c :: nat) in
     (48 \<le> n \<and> n \<le> 57) \<or> (65 \<le> n \<and> n \<le> 90) \<or> (97 \<le> n \<and> n \<le> 122) \<or> n = 95)"

definition ends_at_boundary :: "string \<Rightarrow> bool" where
  "ends_at_boundary rest = (case rest of [] \<Rightarrow> True | c # _ \<Rightarrow> \<not> is_word c)"

fun re_token :: "bool \<Rightarrow> bool \<Rightarrow> string \<Rightarrow> string \<Rightarrow> bool" where
  "re_token close prev tok [] = False"
| "re_token close prev tok (c # cs) =
     (\<not> prev \<and> js_starts_with (c # cs) tok \<and> (close \<longrightarrow> ends_at_boundary (drop (length tok) (c # cs)))
      \<or> re_token close (is_word c) tok cs)"

abbreviation has_token :: "string \<Rightarrow> string \<Rightarrow> bool" where
  "has_token s tok \<equiv> re_token True False tok s"

abbreviation has_stem :: "string \<Rightarrow> string \<Rightarrow> bool" where
  "has_stem s tok \<equiv> re_token False False tok s"

datatype error_class = Settled | Permanent | Transient | Unknown

definition classifyError :: "string \<Rightarrow> error_class" where
  "classifyError err =
     (let msg = to_lower err in
      if isAlreadyFulfilledError msg then Settled
      else if isTerminalConfigurationError msg then Permanent
      else if js_includes msg TRANSIENT_WORKER_ERROR_MARKER
        \<or> includes_any [''etimedout'', ''econnrefused'', ''econnreset'', ''rate limit'', ''socket hang up''] msg
        \<or> list_ex (has_token msg) [''429'', ''408'', ''425'', ''500'', ''502'', ''503'', ''504'']
        \<or> includes_any [''network'', ''timed out'', ''unavailable''] msg then Transient
      else if has_token msg ''not found'' \<or> has_stem msg ''fault''
        \<or> has_stem msg ''unauthorised'' \<or> has_stem msg ''unauthorized''
        \<or> has_stem msg ''forbidden'' \<or> has_stem msg ''invalid'' then Permanent
      else Unknown)"

section \<open>Retry ceiling\<close>

text \<open>\<open>maxCallbackRetries\<close> when it is a positive finite number, else twice \<open>maxRetries\<close>, at least 1.\<close>

definition resolveCallbackRetryCeiling :: "('a relayer_config_scheme) \<Rightarrow> int" where
  "resolveCallbackRetryCeiling config =
     (case maxCallbackRetries config of
        Fin explicit \<Rightarrow> if explicit > 0 then explicit else max (maxRetries config * 2) 1
      | _ \<Rightarrow> max (maxRetries config * 2) 1)"

section \<open>Identifiers\<close>

record fulfillment_context =
  fc_appId :: string
  fc_moduleId :: string
  fc_operation :: string

record signing_context =
  sc_chain :: string
  sc_appId :: string
  sc_moduleId :: string
  sc_operation :: string

definition resolveFulfillmentSigningContext :: "string \<Rightarrow> fulfillment_context \<Rightarrow> signing_context" where
  "resolveFulfillmentSigningContext c f =
     (let normalizedChain = or_str (js_trim c) ''neo_n3'' in
      if normalizedChain = ''neo_n3'' \<and> fc_appId f = []
      then \<lparr>sc_chain = ''legacy'', sc_appId = [], sc_moduleId = [], sc_operation = []\<rparr>
      else \<lparr>sc_chain = normalizedChain, sc_appId = fc_appId f, sc_moduleId = fc_moduleId f,
            sc_operation = fc_operation f\<rparr>)"

definition resolveEventFulfillmentContext :: "oracle_event \<Rightarrow> kernel_intent \<Rightarrow> fulfillment_context" where
  "resolveEventFulfillmentContext event intent =
     \<lparr>fc_appId = ev_appId event, fc_moduleId = or_str (ev_moduleId event) (ki_moduleId intent),
      fc_operation = or_str (ev_operation event) (ki_operation intent)\<rparr>"

definition findWhitespaceIdentifier :: "oracle_event \<Rightarrow> (string \<times> string) option" where
  "findWhitespaceIdentifier event =
     find (\<lambda>(field, value). list_ex is_ws value)
       [(''appId'', ev_appId event), (''moduleId'', ev_moduleId event),
        (''operation'', ev_operation event), (''requestType'', ev_requestType event)]"

definition assertEventIdentifiersClean :: "oracle_event \<Rightarrow> unit result" where
  "assertEventIdentifiersClean event =
     (case findWhitespaceIdentifier event of
        None \<Rightarrow> Inr ()
      | Some (field, _) \<Rightarrow> Inl (''invalid identifier: request '' @ ev_requestId event @ '' field ''
                              @ field @ '' contains whitespace''))"

section \<open>No URL reaches the chain\<close>

definition has_url :: "string \<Rightarrow> bool" where
  "has_url s \<longleftrightarrow> (\<exists>l r. s = l @ r \<and> url_at r \<noteq> None)"

lemma redact_copies:
  assumes "redact_urls s = a # rest" "a \<noteq> CHR ''[''"
  shows "\<exists>s'. s = a # s' \<and> redact_urls s' = rest"
  using assms by (cases s) (auto split: option.splits)

lemma redact_copies_prefix:
  "redact_urls s = p @ rest \<Longrightarrow> CHR ''['' \<notin> set p \<Longrightarrow> \<exists>s'. s = p @ s' \<and> redact_urls s' = rest"
proof (induction p arbitrary: s)
  case (Cons a p)
  then obtain s' where "s = a # s'" "redact_urls s' = p @ rest" using redact_copies by fastforce
  with Cons show ?case by auto
qed simp

lemma redact_hd_url_char:
  assumes "redact_urls s = c # rest" "url_char c"
  shows "\<exists>d t. s = d # t \<and> url_char d"
proof (cases "c = CHR ''[''")
  case False
  with assms redact_copies show ?thesis by blast
next
  case True
  obtain d t where s: "s = d # t" using assms by (cases s) auto
  show ?thesis
  proof (cases "url_at s")
    case None
    with assms s show ?thesis by auto
  next
    case (Some n)
    have "lower_char CHR '']'' = CHR '']''" by code_simp
    moreover have "\<not> is_ws d"
    proof
      assume "is_ws d"
      then have "lower_char d = d" by (auto simp: is_ws_def lower_char_def Let_def)
      with Some s have "d = CHR ''h''"
        by (auto simp: url_at_def url_scheme_def js_starts_with_def to_lower_def split: option.splits if_splits)
      with \<open>is_ws d\<close> show False by (simp add: is_ws_def)
    qed
    moreover have "lower_char d = CHR ''h''" using Some s
      by (auto simp: url_at_def url_scheme_def js_starts_with_def to_lower_def split: option.splits if_splits)
    ultimately show ?thesis using s by (auto simp: url_char_def)
  qed
qed

lemma lower_char_bracket: "lower_char c = CHR ''['' \<longleftrightarrow> c = CHR ''[''"
proof -
  have "lower_char c = c \<or> (of_char (lower_char c) :: nat) = of_char c + 32 \<and>
      ((65::nat) \<le> of_char c \<and> (of_char c :: nat) \<le> 90 \<or> (192::nat) \<le> of_char c \<and> (of_char c :: nat) \<le> 222)"
    by (auto simp: lower_char_def Let_def of_char_of)
  then show ?thesis
  proof (elim disjE conjE)
    assume "(of_char (lower_char c) :: nat) = of_char c + 32" "(65::nat) \<le> of_char c"
    then have "(of_char (lower_char c) :: nat) \<ge> 97" by simp
    then have "lower_char c \<noteq> CHR ''[''" by auto
    moreover have "lower_char CHR ''['' = CHR ''[''" by code_simp
    ultimately show ?thesis by metis
  next
    assume "(of_char (lower_char c) :: nat) = of_char c + 32" "(192::nat) \<le> of_char c"
    then have "(of_char (lower_char c) :: nat) \<ge> 97" by simp
    then have "lower_char c \<noteq> CHR ''[''" by auto
    moreover have "lower_char CHR ''['' = CHR ''[''" by code_simp
    ultimately show ?thesis by metis
  qed metis
qed

lemma url_scheme_alt:
  "url_scheme s = (if map lower_char (take 8 s) = ''https://'' then Some 8
     else if map lower_char (take 7 s) = ''http://'' then Some 7 else None)"
proof -
  have "length ''https://'' = 8" "length ''http://'' = 7" by simp_all
  then show ?thesis by (simp only: url_scheme_def js_starts_with_def to_lower_def take_map)
qed

lemma url_scheme_cases:
  assumes "url_scheme s = Some n"
  shows "n = 8 \<and> map lower_char (take n s) = ''https://'' \<or> n = 7 \<and> map lower_char (take n s) = ''http://''"
  using assms unfolding url_scheme_alt by (metis option.distinct(1) option.inject)

lemma url_scheme_intro8: "map lower_char (take 8 s) = ''https://'' \<Longrightarrow> url_scheme s = Some 8"
  by (simp only: url_scheme_alt if_True refl)

lemma url_scheme_intro7:
  assumes "map lower_char (take 7 s) = ''http://''"
  shows "url_scheme s = Some 7"
proof -
  have "map lower_char (take 8 s) \<noteq> ''https://''"
  proof
    assume "map lower_char (take 8 s) = ''https://''"
    then have "take 7 (map lower_char (take 8 s)) = take 7 ''https://''" by (rule arg_cong)
    then have "map lower_char (take 7 s) = ''https:/''" by (simp add: take_map)
    with assms show False by simp
  qed
  with assms show ?thesis by (simp only: url_scheme_alt if_False if_True simp_thms)
qed

lemma url_scheme_take:
  assumes "url_scheme s = Some n"
  shows "CHR ''['' \<notin> set (take n s)" "n \<le> length s" "0 < n"
    and "take n t = take n s \<Longrightarrow> url_scheme t = Some n"
proof -
  note c = url_scheme_cases [OF assms]
  have "CHR ''['' \<in> set (map lower_char (take n s))" if b: "CHR ''['' \<in> set (take n s)"
  proof -
    have "lower_char CHR ''['' \<in> lower_char ` set (take n s)" using b by (rule imageI)
    then show ?thesis using lower_char_bracket [of "CHR ''[''"] by (simp only: set_map simp_thms)
  qed
  moreover have "CHR ''['' \<notin> set (map lower_char (take n s))"
    using c by (elim disjE conjE) (simp_all only: list.set insert_iff empty_iff char.inject simp_thms)
  ultimately show "CHR ''['' \<notin> set (take n s)" by blast
  have "length (map lower_char (take n s)) = n"
  proof -
    have "length ''https://'' = 8" "length ''http://'' = 7" by simp_all
    with c show ?thesis by metis
  qed
  then show "n \<le> length s" by simp
  show "0 < n" using c by auto
  show "url_scheme t = Some n" if "take n t = take n s"
    using c that url_scheme_intro7 [of t] url_scheme_intro8 [of t] by metis
qed

lemma redact_no_url_at: "url_at (redact_urls s) = None"
proof (rule ccontr)
  assume "url_at (redact_urls s) \<noteq> None"
  then obtain n c rest where sch: "url_scheme (redact_urls s) = Some n"
    and rest: "drop n (redact_urls s) = c # rest" and uc: "url_char c"
    by (auto simp: url_at_def split: option.splits list.splits if_splits)
  let ?p = "take n (redact_urls s)"
  have "redact_urls s = ?p @ c # rest" using rest by (metis append_take_drop_id)
  then obtain s' where s': "s = ?p @ s'" "redact_urls s' = c # rest"
    using redact_copies_prefix url_scheme_take(1) [OF sch] by blast
  obtain d t where dt: "s' = d # t" "url_char d" using redact_hd_url_char [OF s'(2) uc] by blast
  have len: "length ?p = n" using url_scheme_take(2) [OF sch] by simp
  have "take n s = take n (redact_urls s)" using s'(1) len by (metis append_eq_conv_conj)
  then have "url_scheme s = Some n" using url_scheme_take(4) [OF sch] by simp
  moreover have "drop n s = d # t" using s'(1) len dt(1) by (metis append_eq_conv_conj)
  ultimately have "url_at s = Some n" using dt(2) by (simp add: url_at_def)
  moreover obtain x xs where "s = x # xs" using s'(1) dt(1) by (cases s) auto
  ultimately have "hd (redact_urls s) = CHR ''[''" by simp
  moreover have "redact_urls s \<noteq> []" using rest by auto
  moreover have "CHR ''['' \<notin> set ?p" "?p \<noteq> []"
    using url_scheme_take(1,3) [OF sch] len by auto
  ultimately show False by (metis hd_take in_set_takeD list.set_sel(1) url_scheme_take(3) sch)
qed

lemma url_at_None_hd:
  assumes "lower_char (hd r) \<noteq> CHR ''h''"
  shows "url_at r = None"
proof (cases "url_scheme r")
  case (Some n)
  from url_scheme_cases [OF Some] have "hd (map lower_char (take n r)) = CHR ''h''" "take n r \<noteq> []"
    by (metis list.sel(1) map_is_Nil_conv list.distinct(1))+
  then have "lower_char (hd r) = CHR ''h''" by (metis hd_map hd_take take_eq_Nil not_gr_zero)
  with assms show ?thesis by simp
qed (simp add: url_at_def)

lemma redact_no_url: "\<not> has_url (redact_urls s)"
proof -
  have "url_at r = None" if "redact_urls s = l @ r" for l r
    using that
  proof (induction s arbitrary: l r rule: redact_urls.induct)
    case 1
    then show ?case by (simp add: url_at_def url_scheme_def js_starts_with_def to_lower_def)
  next
    case (2 c cs)
    show ?case
    proof (cases l)
      case Nil
      with "2.prems" redact_no_url_at show ?thesis by (metis append_Nil)
    next
      case (Cons a l')
      show ?thesis
      proof (cases "url_at (c # cs)")
        case None
        with "2.prems" Cons have "redact_urls cs = l' @ r" by simp
        with "2.IH"(1) [OF None] show ?thesis by blast
      next
        case (Some n)
        let ?rest = "redact_urls (dropWhile url_char (drop (n - 1) cs))"
        define m where "m = ''[redacted-url]''"
        have eq: "m @ ?rest = l @ r" using "2.prems" Some by (simp add: m_def)
        have r: "r = drop (length l) m @ drop (length l - length m) ?rest"
          using eq by (metis append_eq_conv_conj drop_append)
        show ?thesis
        proof (cases "length m \<le> length l")
          case True
          then have "?rest = take (length l - length m) ?rest @ r" using r by simp
          with "2.IH"(2) [OF Some] show ?thesis by blast
        next
          case False
          then have "hd r \<in> set m" using r by (metis drop_eq_Nil hd_append2 hd_in_set in_set_dropD nat_le_linear)
          then have "lower_char (hd r) \<noteq> CHR ''h''" by (auto simp: m_def lower_char_def Let_def)
          then show ?thesis by (rule url_at_None_hd)
        qed
      qed
    qed
  qed
  then show ?thesis by (auto simp: has_url_def)
qed

lemma has_url_sublist: "has_url u \<Longrightarrow> has_url (l @ u @ r)"
proof -
  assume "has_url u"
  then obtain a b n where u: "u = a @ b" and "url_at b = Some n" by (auto simp: has_url_def)
  then obtain c t where sch: "url_scheme b = Some n" and d: "drop n b = c # t" "url_char c"
    by (auto simp: url_at_def split: option.splits list.splits if_splits)
  have n: "n \<le> length b" using url_scheme_take(2) [OF sch] .
  then have "url_scheme (b @ r) = Some n" using url_scheme_take(4) [OF sch, of "b @ r"] by simp
  then have "url_at (b @ r) = Some n" using d n by (simp add: url_at_def)
  moreover have "l @ u @ r = (l @ a) @ (b @ r)" by (simp add: u)
  ultimately show ?thesis unfolding has_url_def by blast
qed

lemma js_trim_sublist: "\<exists>l r. s = l @ js_trim s @ r"
proof -
  let ?d = "dropWhile is_ws s"
  have "s = takeWhile is_ws s @ ?d" by simp
  moreover have "?d = rev (dropWhile is_ws (rev ?d)) @ rev (takeWhile is_ws (rev ?d))"
    by (metis rev_append rev_rev_ident takeWhile_dropWhile_id)
  ultimately show ?thesis unfolding js_trim_def by metis
qed

lemma default_error_redacted: "redact_urls ''request execution failed'' = ''request execution failed''"
  by code_simp

text \<open>
  The error text written to the chain has between 1 and 240 characters and names no URL: up to
  the ellipsis of a truncation, it contains no \<open>http://\<close> or \<open>https://\<close> (in any case) followed by a host.
\<close>

theorem onchain_error_redacted:
  "let t = trimOnchainErrorMessage s in
     t \<noteq> [] \<and> length t \<le> 240 \<and> (\<exists>u. \<not> has_url u \<and> (t = u \<or> t = u @ ''...''))"
proof -
  let ?x = "js_trim (redact_urls s)"
  have x: "\<not> has_url ?x"
    using js_trim_sublist [of "redact_urls s"] has_url_sublist redact_no_url by metis
  then have tk: "\<not> has_url (take n ?x)" for n
    using has_url_sublist [of "take n ?x" "[]" "drop n ?x"] by auto
  have d: "\<not> has_url ''request execution failed''"
    using redact_no_url [of "''request execution failed''"]
    by (metis (mono_tags) default_error_redacted)
  show ?thesis
    using x tk [of 237] d
    by (simp only: trimOnchainErrorMessage_def Let_def) (auto simp del: append_assoc)
qed

section \<open>Classes of errors\<close>

lemma to_lower_append [simp]: "to_lower (a @ b) = to_lower a @ to_lower b"
  by (simp add: to_lower_def)

lemma to_lower_idem: "to_lower (to_lower s) = to_lower s"
  by (simp add: to_lower_def comp_def)

lemma lower_marker: "to_lower TRANSIENT_WORKER_ERROR_MARKER = TRANSIENT_WORKER_ERROR_MARKER"
  by code_simp

text \<open>
  A retryable worker status (408, 425, 429, 5xx, no response) becomes an error that is retried
  whatever the worker's own text says, unless that text reads as an already fulfilled request or as
  a terminal configuration error; no other class is possible.
\<close>

theorem transient_worker_error_class:
  "classifyError (buildTransientWorkerError status detail) =
     (let m = buildTransientWorkerError status detail in
      if isAlreadyFulfilledError m then Settled
      else if isTerminalConfigurationError m then Permanent else Transient)"
proof -
  let ?m = "buildTransientWorkerError status detail"
  obtain p where "?m = p @ TRANSIENT_WORKER_ERROR_MARKER"
    unfolding buildTransientWorkerError_def by (metis append.assoc)
  then have "to_lower ?m = to_lower p @ TRANSIENT_WORKER_ERROR_MARKER @ []"
    by (simp only: to_lower_append lower_marker append_Nil2)
  then have "js_includes (to_lower ?m) TRANSIENT_WORKER_ERROR_MARKER"
    by (simp only: js_includes_append)
  then show ?thesis
    by (simp add: classifyError_def Let_def isAlreadyFulfilledError_def isTerminalConfigurationError_def
        to_lower_idem)
qed

text \<open>
  Retryable worker statuses are exactly the listed ones, whether they arrive as a number or as
  the decimal text of one; null, undefined and non-numeric text never count.
\<close>

theorem transient_statuses:
  "isTransientWorkerStatus (JNum (Fin i)) = (i \<in> {0, 408, 425, 429, 500, 502, 503, 504})
   \<and> isTransientWorkerStatus (JStr (show_nat n)) = (int n \<in> {0, 408, 425, 429, 500, 502, 503, 504})
   \<and> \<not> isTransientWorkerStatus JNull \<and> \<not> isTransientWorkerStatus JUndef
   \<and> \<not> isTransientWorkerStatus (JStr []) \<and> \<not> isTransientWorkerStatus (JNum NaN)"
proof -
  have "js_trim (show_nat n) = show_nat n"
    by (rule js_trim_no_ws) (auto dest: show_nat_digits simp: digit_not_ws)
  then show ?thesis
    by (simp add: isTransientWorkerStatus_def TRANSIENT_WORKER_HTTP_STATUSES_def)
qed

section \<open>Identifiers\<close>

text \<open>
  The identifiers a fulfillment is signed for are the event's own bytes: a non-empty on-chain
  application id is passed through unchanged on either chain, empty module and operation fields are
  filled from the kernel intent, and a Neo N3 request without application id signs in the legacy
  domain with no identifiers.
\<close>

theorem signing_identifiers_verbatim:
  "let ctx = resolveFulfillmentSigningContext (chain_name c)
               (resolveEventFulfillmentContext event (intent_of (ev_requestType event)))
   in (if c = Neo_N3 \<and> ev_appId event = []
       then ctx = \<lparr>sc_chain = ''legacy'', sc_appId = [], sc_moduleId = [], sc_operation = []\<rparr>
       else sc_chain ctx = chain_name c \<and> sc_appId ctx = ev_appId event
         \<and> sc_moduleId ctx = (if ev_moduleId event = [] then ki_moduleId (intent_of (ev_requestType event))
                              else ev_moduleId event)
         \<and> sc_operation ctx = (if ev_operation event = [] then ki_operation (intent_of (ev_requestType event))
                              else ev_operation event))"
proof -
  have "js_trim ''neo_n3'' = ''neo_n3''" "js_trim ''neox'' = ''neox''" by code_simp+
  then show ?thesis
    by (cases c)
      (simp_all add: resolveFulfillmentSigningContext_def resolveEventFulfillmentContext_def or_str_def Let_def)
qed

lemma resolveCallbackRetryCeiling_pos: "0 < resolveCallbackRetryCeiling config"
  by (simp add: resolveCallbackRetryCeiling_def max_def split: jsnum.split)

end
