(* ===== verification/Fulfillment_Policy_Cases.thy ===== *)
theory Fulfillment_Policy_Cases
  imports Fulfillment_Policy
begin

text \<open>
  Two concrete classifications of \<^verbatim>\<open>fulfillment.js\<close> that differ from what its comments say, evaluated
  on the model.
\<close>

text \<open>
  A retryable status is classified as permanent when the upstream body mentions a terminal
  phrase: a 503 whose text quotes an invalid signature is not retried.
\<close>

theorem transient_status_misread:
  "isTransientWorkerStatus (JNum (Fin 503))
   \<and> classifyError (buildTransientWorkerError (Fin 503) ''upstream: invalid signature'') = Permanent"
  by (simp add: isTransientWorkerStatus_def TRANSIENT_WORKER_HTTP_STATUSES_def classifyError_def
      buildTransientWorkerError_def show_int_def show_nat.simps digit_char_def
      TRANSIENT_WORKER_ERROR_MARKER_def to_lower_def lower_char_def
      isAlreadyFulfilledError_def isTerminalConfigurationError_def includes_any_def js_starts_with_def)

text \<open>
  The rejection of an identifier with whitespace is a permanent error for an ordinary request
  id, but the request id is part of the text: for request 429 the same rejection is classified as
  transient and retried.
\<close>

theorem whitespace_rejection_class:
  "map (\<lambda>rid. map_sum classifyError id (assertEventIdentifiersClean
      ((sample_event rid)\<lparr>ev_appId := ''my app''\<rparr>))) [''7'', ''429''] = [Inl Permanent, Inl Transient]"
  by (simp add: assertEventIdentifiersClean_def findWhitespaceIdentifier_def sample_event_def is_ws_def
      classifyError_def TRANSIENT_WORKER_ERROR_MARKER_def is_word_def ends_at_boundary_def
      to_lower_def lower_char_def
      isAlreadyFulfilledError_def isTerminalConfigurationError_def includes_any_def js_starts_with_def)

end
