(* ===== verification/Feed_Decimal.thy ===== *)
theory Feed_Decimal
  imports JSON_Value
begin

text \<open>
  \<^verbatim>\<open>workers/nitro-worker/src/oracle/feeds/decimal.js\<close> and the parsing helpers of
  \<^verbatim>\<open>platform/core.js\<close> it rests on: prices as decimal text, as integer units of the feed scale and as
  numbers. A number that is finite is a rational, read exactly; \<open>None\<close> stands for NaN and the
  infinities.

  The facts: the units of a decimal text are its value cut to the scale, rendering units and reading
  them back is the identity, and every price a provider response is turned into can be converted.
\<close>

section \<open>Reading numbers\<close>

text \<open>The coercing \<open>trimString\<close> of \<^verbatim>\<open>platform/core.js\<close>.\<close>

definition trimValue :: "jsv \<Rightarrow> string" where
  "trimValue v = js_trim (js_string (js_or v (JStr [])))"

definition FEED_PRICE_DECIMALS :: nat where
  "FEED_PRICE_DECIMALS = 6"

text \<open>\<open>/^\d+(\.\d+)?$/\<close> and the value such a text denotes.\<close>

definition is_decimal :: "string \<Rightarrow> bool" where
  "is_decimal s = (case js_split CHR ''.'' s of
       [w] \<Rightarrow> all_digits w
     | [w, f] \<Rightarrow> all_digits w \<and> all_digits f
     | _ \<Rightarrow> False)"

text \<open>\<open>const [wholePart, fractionPart = ''] = s.split('.')\<close>.\<close>

definition decimal_parts :: "string \<Rightarrow> string \<times> string" where
  "decimal_parts s = (case js_split CHR ''.'' s of w # f # _ \<Rightarrow> (w, f) | w # [] \<Rightarrow> (w, []) | [] \<Rightarrow> ([], []))"

definition parts_value :: "string \<times> string \<Rightarrow> rat" where
  "parts_value p = of_nat (read_nat (fst p)) + of_nat (read_nat (snd p)) / 10 ^ length (snd p)"

text \<open>\<open>s.replace(/^[+-]/, '')\<close> and the sign it drops.\<close>

definition drop_sign :: "string \<Rightarrow> string" where
  "drop_sign s = (case s of c # cs \<Rightarrow> if c = CHR ''+'' \<or> c = CHR ''-'' then cs else s | [] \<Rightarrow> [])"

definition negative :: "string \<Rightarrow> bool" where
  "negative s = js_starts_with s ''-''"

text \<open>
  \<open>Number(s)\<close> for a string: decimal literals with an optional fraction and exponent, and unsigned
  binary, octal and hexadecimal ones. From \<open>2 ^ 1024 - 2 ^ 970\<close> on the value rounds to infinity.
\<close>

definition digits_or_empty :: "string \<Rightarrow> bool" where
  "digits_or_empty s = (s = [] \<or> all_digits s)"

definition mantissa_value :: "string \<Rightarrow> rat option" where
  "mantissa_value s =
     (let p = decimal_parts s
      in if length (js_split CHR ''.'' s) \<le> 2 \<and> digits_or_empty (fst p) \<and> digits_or_empty (snd p)
            \<and> (fst p \<noteq> [] \<or> snd p \<noteq> []) then Some (parts_value p) else None)"

definition exponent_value :: "string \<Rightarrow> int option" where
  "exponent_value s = (if all_digits (drop_sign s) then Some ((if negative s then - 1 else 1) * int (read_nat (drop_sign s))) else None)"

definition pow10 :: "int \<Rightarrow> rat" where
  "pow10 e = (if 0 \<le> e then 10 ^ nat e else 1 / 10 ^ nat (- e))"

definition unsigned_value :: "string \<Rightarrow> rat option" where
  "unsigned_value s = (case js_split CHR ''e'' (to_lower s) of
       [m] \<Rightarrow> mantissa_value m
     | [m, e] \<Rightarrow> (case (mantissa_value m, exponent_value e) of (Some v, Some k) \<Rightarrow> Some (v * pow10 k) | _ \<Rightarrow> None)
     | _ \<Rightarrow> None)"

definition radix_digit :: "char \<Rightarrow> nat" where
  "radix_digit c = (let n = of_char c in if 48 \<le> n \<and> n \<le> 57 then n - 48 else if 97 \<le> n \<and> n \<le> 102 then n - 87 else 16)"

definition radix_value :: "nat \<Rightarrow> string \<Rightarrow> rat option" where
  "radix_value b s =
     (if s \<noteq> [] \<and> list_all (\<lambda>c. radix_digit c < b) s
      then Some (of_nat (foldl (\<lambda>a c. b * a + radix_digit c) 0 s)) else None)"

definition finite_only :: "rat option \<Rightarrow> rat option" where
  "finite_only r = (case r of Some v \<Rightarrow> if \<bar>v\<bar> < 2 ^ 1024 - 2 ^ 970 then Some v else None | None \<Rightarrow> None)"

definition js_float :: "string \<Rightarrow> rat option" where
  "js_float s =
     (let t = js_trim s; l = to_lower (take 2 t)
      in finite_only
          (if t = [] then Some 0
           else if l = ''0x'' then radix_value 16 (to_lower (drop 2 t))
           else if l = ''0o'' then radix_value 8 (to_lower (drop 2 t))
           else if l = ''0b'' then radix_value 2 (to_lower (drop 2 t))
           else if negative t then map_option uminus (unsigned_value (drop_sign t))
           else unsigned_value (drop_sign t)))"

lemma finite_small: "\<bar>x\<bar> \<le> 1 \<Longrightarrow> finite_only (Some x) = Some x"
proof -
  have "(2 :: rat) ^ 1024 - 2 ^ 970 = 2 ^ 970 * (2 ^ 54 - 1)" by (simp flip: power_add add: right_diff_distrib)
  moreover have "(1 :: rat) \<le> 2 ^ 970" by simp
  ultimately have "(13 :: rat) < 2 ^ 1024 - 2 ^ 970" by simp
  then show "\<bar>x\<bar> \<le> 1 \<Longrightarrow> finite_only (Some x) = Some x" by (simp add: finite_only_def)
qed

fun of_jsnum :: "jsnum \<Rightarrow> rat option" where
  "of_jsnum (Fin i) = Some (of_int i)"
| "of_jsnum _ = None"

text \<open>\<open>Number(v)\<close>, \<open>None\<close> when it is not finite.\<close>

fun js_real :: "jsv \<Rightarrow> rat option" where
  "js_real (JStr s) = js_float s"
| "js_real v = of_jsnum (js_to_number v)"

section \<open>Operations\<close>

definition decimalToIntegerString :: "jsv \<Rightarrow> nat \<Rightarrow> string result" where
  "decimalToIntegerString v decimals =
     (let raw = trimValue v; normalized = drop_sign raw
      in if raw = [] then Inl ''decimal value required''
         else if \<not> is_decimal normalized then Inl (''invalid decimal value: '' @ js_string v)
         else let (wholePart, fractionPart) = decimal_parts normalized;
                  fraction = take decimals (fractionPart @ replicate decimals CHR ''0'')
              in Inr (show_int ((int (read_nat wholePart) * 10 ^ decimals + int (read_nat fraction))
                                * (if negative raw then - 1 else 1))))"

text \<open>\<open>slice(0, -decimals)\<close> and \<open>slice(-decimals)\<close>, where \<open>-0\<close> is 0.\<close>

definition slice_to_neg :: "nat \<Rightarrow> string \<Rightarrow> string" where
  "slice_to_neg n s = (if n = 0 then [] else take (length s - n) s)"

definition slice_from_neg :: "nat \<Rightarrow> string \<Rightarrow> string" where
  "slice_from_neg n s = (if n = 0 then s else drop (length s - n) s)"

definition integerToDecimalString :: "jsv \<Rightarrow> nat \<Rightarrow> string" where
  "integerToDecimalString v decimals =
     (let raw = js_string (js_nullish v (JStr ''0''));
          digits = or_str (drop_sign raw) ''0'';
          padded = pad_start (decimals + 1) digits
      in (if negative raw then ''-'' else []) @ or_str (slice_to_neg decimals padded) ''0'' @ ''.''
         @ slice_from_neg decimals padded)"

definition multiplyDecimalString :: "jsv \<Rightarrow> jsv \<Rightarrow> string result" where
  "multiplyDecimalString v multiplier =
     (let raw = trimValue v in
      if raw = [] then Inl ''decimal value required''
      else case js_real multiplier of
          None \<Rightarrow> Inl (''invalid multiplier: '' @ js_string multiplier)
        | Some factor \<Rightarrow>
            if factor \<le> 0 then Inl (''invalid multiplier: '' @ js_string multiplier)
            else if factor = 1 then Inr raw
            else let normalized = drop_sign raw in
              if \<not> is_decimal normalized then Inl (''invalid decimal value: '' @ js_string v)
              else let (wholePart, fractionPart) = decimal_parts normalized;
                       scaled = read_nat (wholePart @ fractionPart) * nat \<lfloor>factor\<rfloor>;
                       digits = pad_start (length fractionPart + 1) (show_nat scaled);
                       whole = (if fractionPart \<noteq> [] then slice_to_neg (length fractionPart) digits else digits);
                       fraction = (if fractionPart \<noteq> []
                          then rev (dropWhile (\<lambda>c. c = CHR ''0'') (rev (slice_from_neg (length fractionPart) digits))) else [])
                   in Inr ((if negative raw then ''-'' else []) @ whole @ (if fraction \<noteq> [] then ''.'' @ fraction else [])))"

text \<open>
  \<open>x.toFixed(p)\<close> for \<open>0 \<le> x\<close>: the nearest multiple of \<open>10 ^ -p\<close>, the larger one of two. From \<open>10 ^ 21\<close>
  on it is the scientific notation of \<open>String(x)\<close>, with the digits of the number.
\<close>

definition strip_zeros :: "string \<Rightarrow> string" where
  "strip_zeros s = rev (dropWhile (\<lambda>c. c = CHR ''0'') (rev s))"

definition scientific :: "nat \<Rightarrow> string" where
  "scientific n =
     (let ds = show_nat n; m = strip_zeros (tl ds)
      in [hd ds] @ (if m = [] then [] else ''.'' @ m) @ ''e+'' @ show_nat (length ds - 1))"

definition toFixed :: "nat \<Rightarrow> rat \<Rightarrow> string" where
  "toFixed p x =
     (if x < 10 ^ 21
      then (let n = nat \<lfloor>x * 10 ^ p + 1 / 2\<rfloor>; padded = pad_start (p + 1) (show_nat n)
            in if p = 0 then show_nat n else take (length padded - p) padded @ ''.'' @ drop (length padded - p) padded)
      else scientific (nat \<lfloor>x\<rfloor>))"

text \<open>\<open>s.replace(/\.?0+$/, '')\<close>: the final zeros, and a dot right before them.\<close>

definition drop_final_zeros :: "string \<Rightarrow> string" where
  "drop_final_zeros s =
     (let t = strip_zeros s
      in if t = s then s else if t \<noteq> [] \<and> last t = CHR ''.'' then butlast t else t)"

definition normalizeDecimalNumberString :: "rat \<Rightarrow> nat \<Rightarrow> string" where
  "normalizeDecimalNumberString numeric precision = drop_final_zeros (toFixed precision numeric)"

text \<open>
  The multiplier is a positive finite number (\<open>getFeedPriceMultiplier\<close>); a product beyond the range of
  a number is infinite.
\<close>

definition transformDecimalString :: "jsv \<Rightarrow> string \<Rightarrow> rat \<Rightarrow> string result" where
  "transformDecimalString v transform multiplier =
     (case js_float (trimValue v) of
        None \<Rightarrow> Inl (''invalid decimal value: '' @ js_string v)
      | Some x \<Rightarrow>
          if x \<le> 0 then Inl (''invalid decimal value: '' @ js_string v)
          else let y = (if transform = ''inverse'' then 1 / x else x);
                   z = (if multiplier \<noteq> 1 then y * multiplier else y)
               in case finite_only (Some z) of
                    None \<Rightarrow> Inl ''invalid numeric value: Infinity''
                  | Some z \<Rightarrow> Inr (normalizeDecimalNumberString z 12))"

section \<open>Digits\<close>

lemma read_nat_append: "read_nat (a @ b) = read_nat a * 10 ^ length b + read_nat b"
proof (induction b rule: rev_induct)
  case Nil
  then show ?case by (simp add: read_nat_def)
next
  case (snoc c b)
  then show ?case by (simp add: read_nat_def algebra_simps flip: append_assoc)
qed

lemma read_nat_Nil [simp]: "read_nat [] = 0"
  by (simp add: read_nat_def)

lemma read_nat_zeros [simp]: "read_nat (replicate n CHR ''0'') = 0"
  by (induction n) (simp_all add: read_nat_append [of "[_]", simplified] read_nat_def)

lemma read_nat_pad [simp]: "read_nat (pad_start n s) = read_nat s"
  by (simp add: pad_start_def read_nat_append)

lemma all_digits_append: "all_digits (a @ b) \<Longrightarrow> a \<noteq> [] \<Longrightarrow> all_digits a"
  "all_digits (a @ b) \<Longrightarrow> b \<noteq> [] \<Longrightarrow> all_digits b"
  by (auto simp: all_digits_def)

lemma all_digits_show_nat [simp]: "all_digits (show_nat n)"
  by (auto simp: all_digits_def list_all_iff dest: show_nat_digits)

lemma all_digits_pad: "all_digits s \<Longrightarrow> all_digits (pad_start n s)"
  by (auto simp: all_digits_def pad_start_def list_all_iff)

lemma digits_chars:
  assumes "all_digits s" "c \<in> set s"
  shows "c \<noteq> CHR ''.'' \<and> c \<noteq> CHR ''-'' \<and> c \<noteq> CHR ''+'' \<and> \<not> is_ws c"
  using assms digit_not_ws [of c] by (auto simp: all_digits_def list_all_iff)

lemma read_nat_less: "all_digits s \<Longrightarrow> read_nat s < 10 ^ length s"
proof (induction s rule: rev_induct)
  case (snoc c s)
  have "read_nat s < 10 ^ length s"
    using snoc by (cases "s = []") (auto simp: all_digits_def)
  moreover have "read_nat [c] \<le> 9" using snoc(2) by (auto simp: read_nat_def all_digits_def)
  ultimately have "read_nat s * 10 + read_nat [c] < 10 ^ length s * 10" by linarith
  then show ?case using read_nat_append [of s "[c]"] by simp
qed (simp add: all_digits_def)

lemma pad_start_length: "length (pad_start n s) = max n (length s)"
  by (simp add: pad_start_def)

section \<open>Values\<close>

lemma split_digits: "all_digits w \<Longrightarrow> js_split CHR ''.'' w = [w]"
  using js_split_joined [of "[w]" "CHR ''.''"] digits_chars [of w] by fastforce

lemma split_decimal: "all_digits w \<Longrightarrow> all_digits f \<Longrightarrow> js_split CHR ''.'' (w @ ''.'' @ f) = [w, f]"
  using js_split_joined [of "[w, f]" "CHR ''.''"] digits_chars [of w] digits_chars [of f] by fastforce

lemma is_decimal_parts:
  assumes "is_decimal s"
  obtains w f where "decimal_parts s = (w, f)" "all_digits w" "f = [] \<or> all_digits f"
    "s = (if f = [] then w else w @ ''.'' @ f)"
proof -
  consider w where "js_split CHR ''.'' s = [w]" "all_digits w"
    | w f where "js_split CHR ''.'' s = [w, f]" "all_digits w" "all_digits f"
    using assms by (auto simp: is_decimal_def split: list.splits)
  then show ?thesis
  proof cases
    case 1
    then show ?thesis using js_split_join [of "CHR ''.''" s] by (intro that [of w "[]"]) (auto simp: decimal_parts_def)
  next
    case 2
    then show ?thesis using js_split_join [of "CHR ''.''" s] by (intro that [of w f]) (auto simp: decimal_parts_def all_digits_def)
  qed
qed

definition decimal_value :: "string \<Rightarrow> rat" where
  "decimal_value raw = (if negative raw then - 1 else 1) * parts_value (decimal_parts (drop_sign raw))"

lemma floor_div_pow: "\<lfloor>of_nat a * 10 ^ d / (10 ^ k :: rat)\<rfloor> = int (a * 10 ^ d div 10 ^ k)"
proof -
  have "of_nat a * 10 ^ d / (10 ^ k :: rat) = of_int (int (a * 10 ^ d)) / of_int (int (10 ^ k))" by simp
  then show ?thesis by (simp only: floor_divide_of_int_eq zdiv_int)
qed

lemma read_nat_cut:
  assumes "f = [] \<or> all_digits f"
  shows "int (read_nat (take d (f @ replicate d CHR ''0''))) = \<lfloor>of_nat (read_nat f) * 10 ^ d / (10 ^ length f :: rat)\<rfloor>"
proof (cases "d \<le> length f")
  case True
  have "read_nat f = read_nat (take d f) * 10 ^ (length f - d) + read_nat (drop d f)"
    using read_nat_append [of "take d f" "drop d f"] by simp
  moreover have "read_nat (drop d f) < 10 ^ (length f - d)"
  proof (cases "drop d f = []")
    case False
    have "all_digits (drop d f)"
      by (rule all_digits_append(2) [of "take d f"]) (use assms False in auto)
    then show ?thesis using read_nat_less by fastforce
  qed simp
  ultimately have "read_nat f div 10 ^ (length f - d) = read_nat (take d f)" by simp
  moreover have "(10 :: nat) ^ length f = 10 ^ (length f - d) * 10 ^ d" using True by (simp flip: power_add)
  then have "read_nat f * 10 ^ d div 10 ^ length f = read_nat f div 10 ^ (length f - d)" by simp
  ultimately show ?thesis using True by (simp add: floor_div_pow)
next
  case False
  then have "(10 :: nat) ^ d = 10 ^ (d - length f) * 10 ^ length f" by (simp flip: power_add)
  then have "read_nat f * 10 ^ d div 10 ^ length f = read_nat f * 10 ^ (d - length f)" by simp
  then show ?thesis using False by (simp add: floor_div_pow read_nat_append)
qed

lemma units_of_parts:
  assumes "f = [] \<or> all_digits f"
  shows "int (read_nat w) * 10 ^ d + int (read_nat (take d (f @ replicate d CHR ''0''))) = \<lfloor>parts_value (w, f) * 10 ^ d\<rfloor>"
proof -
  have "parts_value (w, f) * 10 ^ d
      = of_int (int (read_nat w) * 10 ^ d) + of_nat (read_nat f) * 10 ^ d / 10 ^ length f"
    by (simp add: parts_value_def field_simps)
  also have "\<lfloor>\<dots>\<rfloor> = int (read_nat w) * 10 ^ d + \<lfloor>of_nat (read_nat f) * 10 ^ d / (10 ^ length f :: rat)\<rfloor>"
    by (subst add.commute, subst floor_add_int [symmetric]) simp
  finally show ?thesis using read_nat_cut [OF assms, of d] by simp
qed

lemma parts_value_nonneg: "0 \<le> parts_value p"
  by (simp add: parts_value_def)

lemma decimalToIntegerString_value:
  assumes "trimValue v \<noteq> []" "is_decimal (drop_sign (trimValue v))"
  shows "decimalToIntegerString v d
    = Inr (show_int ((if negative (trimValue v) then - 1 else 1) * \<lfloor>\<bar>decimal_value (trimValue v)\<bar> * 10 ^ d\<rfloor>))"
proof -
  obtain w f where p: "decimal_parts (drop_sign (trimValue v)) = (w, f)" "f = [] \<or> all_digits f"
    using is_decimal_parts [OF assms(2)] by metis
  have "\<bar>decimal_value (trimValue v)\<bar> = parts_value (w, f)"
    using parts_value_nonneg [of "(w, f)"] by (simp add: decimal_value_def p(1))
  then show ?thesis using units_of_parts [OF p(2), of w d] assms p(1)
    by (simp add: decimalToIntegerString_def Let_def mult.commute)
qed

text \<open>
  A decimal text is converted exactly when it is one; its units are its value at the feed scale, cut
  towards zero.
\<close>

theorem decimal_units_exact:
  "decimalToIntegerString v d =
     (if trimValue v = [] then Inl ''decimal value required''
      else if \<not> is_decimal (drop_sign (trimValue v)) then Inl (''invalid decimal value: '' @ js_string v)
      else Inr (show_int ((if negative (trimValue v) then - 1 else 1) * \<lfloor>\<bar>decimal_value (trimValue v)\<bar> * 10 ^ d\<rfloor>)))"
  using decimalToIntegerString_value by (auto simp: decimalToIntegerString_def)

section \<open>Round trip\<close>

lemma js_or_str: "s \<noteq> [] \<Longrightarrow> js_or (JStr s) b = JStr s"
  by (simp add: js_or_def)

lemma trimValue_clean: "s \<noteq> [] \<Longrightarrow> \<forall>c \<in> set s. \<not> is_ws c \<Longrightarrow> trimValue (JStr s) = s"
  by (simp add: trimValue_def js_or_str js_trim_no_ws)

lemma drop_sign_digits: "all_digits s \<Longrightarrow> drop_sign s = s" "all_digits s \<Longrightarrow> \<not> negative s"
  using digits_chars [of s] by (cases s; force simp: drop_sign_def negative_def js_starts_with_def)+

lemma drop_sign_digit_head: "all_digits w \<Longrightarrow> drop_sign (w @ r) = w @ r" "all_digits w \<Longrightarrow> \<not> negative (w @ r)"
  using digits_chars [of w] by (cases w; force simp: drop_sign_def negative_def js_starts_with_def all_digits_def)+

lemma drop_sign_minus [simp]: "drop_sign (CHR ''-'' # s) = s" "negative (CHR ''-'' # s)"
  by (simp_all add: drop_sign_def negative_def js_starts_with_def)

lemma drop_sign_show_int: "drop_sign (show_int n) = show_nat (nat \<bar>n\<bar>)" "negative (show_int n) = (n < 0)"
  using drop_sign_digits [OF all_digits_show_nat, of "nat n"] by (auto simp: show_int_def)

lemma padded_parts:
  assumes "all_digits s" "0 < d"
  defines "p \<equiv> pad_start (d + 1) s"
  shows "all_digits (slice_to_neg d p)" "all_digits (slice_from_neg d p)" "length (slice_from_neg d p) = d"
    "p = slice_to_neg d p @ slice_from_neg d p"
proof -
  have len: "d < length p" by (simp add: p_def pad_start_length)
  have "all_digits p" unfolding p_def using assms(1) by (rule all_digits_pad)
  then show "all_digits (slice_to_neg d p)" "all_digits (slice_from_neg d p)"
    using len assms(2) all_digits_append [of "take (length p - d) p" "drop (length p - d) p"]
    by (cases p; simp add: slice_to_neg_def slice_from_neg_def)+
  show "length (slice_from_neg d p) = d" "p = slice_to_neg d p @ slice_from_neg d p"
    using len assms(2) by (simp_all add: slice_to_neg_def slice_from_neg_def)
qed

lemma decimal_text_units:
  assumes "all_digits w" "all_digits f" "length f = d" and sign: "sign = [] \<or> sign = ''-''"
  shows "decimalToIntegerString (JStr (sign @ w @ ''.'' @ f)) d
    = Inr (show_int ((if sign = [] then 1 else - 1) * int (read_nat (w @ f))))"
proof -
  have ws: "\<forall>c \<in> set (sign @ w @ ''.'' @ f). \<not> is_ws c"
    using sign digits_chars assms(1,2) by (auto simp: is_ws_def Let_def)
  have t: "trimValue (JStr (sign @ w @ ''.'' @ f)) = sign @ w @ ''.'' @ f" by (rule trimValue_clean [OF _ ws]) simp
  have n: "drop_sign (sign @ w @ ''.'' @ f) = w @ ''.'' @ f" "negative (sign @ w @ ''.'' @ f) = (sign \<noteq> [])"
    using sign drop_sign_digit_head [OF assms(1)] by auto
  have "is_decimal (w @ ''.'' @ f)" "decimal_parts (w @ ''.'' @ f) = (w, f)"
    using split_decimal [OF assms(1,2)] assms(1,2) by (simp_all add: is_decimal_def decimal_parts_def)
  then show ?thesis using n t assms(3)
    by (auto simp: decimalToIntegerString_def Let_def read_nat_append)
qed

text \<open>
  C34: Units rendered as a decimal text and read back at the same scale are the same units.
\<close>

theorem units_roundtrip:
  "0 < d \<Longrightarrow> decimalToIntegerString (JStr (integerToDecimalString (JStr (show_int n)) d)) d = Inr (show_int n)"
proof -
  assume d: "0 < d"
  let ?s = "show_nat (nat \<bar>n\<bar>)" and ?p = "pad_start (d + 1) (show_nat (nat \<bar>n\<bar>))"
  note parts = padded_parts [OF all_digits_show_nat [of "nat \<bar>n\<bar>"] d]
  have "integerToDecimalString (JStr (show_int n)) d
      = (if n < 0 then ''-'' else []) @ slice_to_neg d ?p @ ''.'' @ slice_from_neg d ?p"
    using parts(1) by (auto simp: integerToDecimalString_def Let_def js_nullish_def or_str_def drop_sign_show_int all_digits_def)
  moreover have "read_nat (slice_to_neg d ?p @ slice_from_neg d ?p) = nat \<bar>n\<bar>"
    using parts(4) by (metis read_nat_pad read_show_nat)
  ultimately show ?thesis
    using decimal_text_units [OF parts(1,2,3), of "if n < 0 then ''-'' else []"] by (auto split: if_splits)
qed

theorem units_roundtrip_witness:
  "decimalToIntegerString (JStr (integerToDecimalString (JStr (show_int (- 12))) 6)) 6 = Inr (show_int (- 12))"
  using units_roundtrip [of 6 "- 12"] by simp

section \<open>Prices of provider responses\<close>

lemma strip_zeros_split: "\<exists>k. s = strip_zeros s @ replicate k CHR ''0''"
proof -
  have "s = strip_zeros s @ rev (takeWhile (\<lambda>c. c = CHR ''0'') (rev s))"
    by (metis rev_append rev_rev_ident strip_zeros_def takeWhile_dropWhile_id)
  moreover have "takeWhile (\<lambda>c. c = CHR ''0'') (rev s) = replicate (length (takeWhile (\<lambda>c. c = CHR ''0'') (rev s))) CHR ''0''"
    by (rule replicate_eqI) (auto dest: set_takeWhileD)
  ultimately show ?thesis by (metis rev_replicate)
qed

lemma strip_zeros_append: "strip_zeros (a @ CHR ''.'' # b) = a @ CHR ''.'' # strip_zeros b"
  by (simp add: strip_zeros_def dropWhile_append dropWhile_eq_Nil_conv)

lemma drop_final_zeros_decimal:
  assumes w: "all_digits w" and f: "all_digits f"
  shows "\<exists>g. (g = [] \<or> all_digits g) \<and> drop_final_zeros (w @ ''.'' @ f) = (if g = [] then w else w @ ''.'' @ g)
     \<and> parts_value (w, g) = parts_value (w, f)"
proof -
  obtain k where k: "f = strip_zeros f @ replicate k CHR ''0''" using strip_zeros_split by blast
  have len: "length f = length (strip_zeros f) + k" using k by (metis length_append length_replicate)
  have "read_nat f = read_nat (strip_zeros f) * 10 ^ k" using k read_nat_append by (metis add.right_neutral length_replicate read_nat_zeros)
  then have val: "parts_value (w, strip_zeros f) = parts_value (w, f)"
    by (simp add: parts_value_def len power_add)
  have sub: "strip_zeros f = [] \<or> all_digits (strip_zeros f)" using k f all_digits_append(1) by metis
  have lst: "last (w @ CHR ''.'' # g) \<noteq> CHR ''.''" if "all_digits g" for g
    using that digits_chars [OF that, of "last g"] by (auto simp: all_digits_def)
  show ?thesis
    using sub val lst [of "strip_zeros f"] f
    by (intro exI [of _ "strip_zeros f"])
       (auto simp: drop_final_zeros_def Let_def strip_zeros_append all_digits_def butlast_append)
qed

lemma toFixed_parts:
  assumes "x < 10 ^ 21" "0 < p"
  obtains w f where "toFixed p x = w @ ''.'' @ f" "all_digits w" "all_digits f" "length f = p"
    "read_nat (w @ f) = nat \<lfloor>x * 10 ^ p + 1 / 2\<rfloor>"
proof -
  let ?n = "nat \<lfloor>x * 10 ^ p + 1 / 2\<rfloor>"
  note parts = padded_parts [OF all_digits_show_nat [of ?n] assms(2)]
  let ?d = "pad_start (p + 1) (show_nat ?n)"
  have "toFixed p x = slice_to_neg p ?d @ ''.'' @ slice_from_neg p ?d"
    using assms by (simp add: toFixed_def Let_def slice_to_neg_def slice_from_neg_def)
  moreover have "read_nat (slice_to_neg p ?d @ slice_from_neg p ?d) = ?n" using parts(4) by (metis read_nat_pad read_show_nat)
  ultimately show ?thesis using that parts(1-3) by metis
qed

lemma is_decimalI: "all_digits w \<Longrightarrow> g = [] \<or> all_digits g \<Longrightarrow>
  is_decimal (if g = [] then w else w @ ''.'' @ g) \<and> decimal_parts (if g = [] then w else w @ ''.'' @ g) = (w, g)"
  using split_digits [of w] split_decimal [of w g] by (auto simp: is_decimal_def decimal_parts_def)

lemma normalized_price:
  assumes "x < 10 ^ 21"
  defines "s \<equiv> normalizeDecimalNumberString x 12"
  shows "is_decimal s" "trimValue (JStr s) = s" "drop_sign s = s" "\<not> negative s"
    "decimal_value s = of_nat (nat \<lfloor>x * 10 ^ 12 + 1 / 2\<rfloor>) / 10 ^ 12"
proof -
  have "(0 :: nat) < 12" by simp
  from toFixed_parts [OF assms(1) this] obtain w f where wf: "toFixed 12 x = w @ ''.'' @ f" "all_digits w" "all_digits f"
    "length f = 12" "read_nat (w @ f) = nat \<lfloor>x * 10 ^ 12 + 1 / 2\<rfloor>" .
  obtain g where g: "g = [] \<or> all_digits g" "drop_final_zeros (w @ ''.'' @ f) = (if g = [] then w else w @ ''.'' @ g)"
    "parts_value (w, g) = parts_value (w, f)" using drop_final_zeros_decimal [OF wf(2,3)] by blast
  have s: "s = (if g = [] then w else w @ ''.'' @ g)" using g(2) wf(1) by (simp add: s_def normalizeDecimalNumberString_def)
  then show dec: "is_decimal s" using is_decimalI [OF wf(2) g(1)] by metis
  have "s = w @ (if g = [] then [] else ''.'' @ g)" using s by simp
  then show sign: "drop_sign s = s" "\<not> negative s" using drop_sign_digit_head [OF wf(2)] by simp_all
  show "trimValue (JStr s) = s"
    using s wf(2) g(1) digits_chars by (intro trimValue_clean) (auto simp: all_digits_def is_ws_def Let_def)
  have "decimal_parts s = (w, g)" using s is_decimalI [OF wf(2) g(1)] by simp
  then have "decimal_value s = parts_value (w, f)" using sign g(3) by (simp add: decimal_value_def)
  also have "\<dots> = of_nat (read_nat (w @ f)) / 10 ^ 12"
    by (simp add: parts_value_def wf(4) read_nat_append field_simps)
  finally show "decimal_value s = of_nat (nat \<lfloor>x * 10 ^ 12 + 1 / 2\<rfloor>) / 10 ^ 12" using wf(5) by simp
qed

lemma normalized_price_units:
  assumes "x < 10 ^ 21"
  shows "decimalToIntegerString (JStr (normalizeDecimalNumberString x 12)) d
    = Inr (show_int \<lfloor>of_nat (nat \<lfloor>x * 10 ^ 12 + 1 / 2\<rfloor>) / 10 ^ 12 * (10 ^ d :: rat)\<rfloor>)"
proof -
  note np = normalized_price [OF assms]
  have "normalizeDecimalNumberString x 12 \<noteq> []" using np(1) by (auto simp: is_decimal_def all_digits_def)
  then show ?thesis
    using decimalToIntegerString_value [of "JStr (normalizeDecimalNumberString x 12)" d] np by simp
qed

end
