(* ===== verification/Feed_Registry.thy ===== *)
theory Feed_Registry
  imports Feed_Decimal
begin

text \<open>
  \<^verbatim>\<open>workers/nitro-worker/src/oracle/feed-registry.js\<close>, the provider ids of \<^verbatim>\<open>oracle/providers.js\<close>, and
  the environment and duration helpers of \<^verbatim>\<open>platform/core.js\<close> that the feed code reads its settings
  with. The process environment is a record of its variables and of the parsed runtime configuration;
  the pair registry is the default table merged with an override, which \<open>JSON.parse\<close> (a parameter)
  reads from the environment.
\<close>

section \<open>Upper case\<close>

text \<open>
  \<open>s.toUpperCase()\<close> on Latin-1 text: sharp s becomes two letters; the two letters whose upper case is
  outside Latin-1 (181 and 255) stay.
\<close>

definition upper_char :: "char \<Rightarrow> string" where
  "upper_char c = (let n = (of_char c :: nat) in
     if (97 \<le> n \<and> n \<le> 122) \<or> (224 \<le> n \<and> n \<le> 254 \<and> n \<noteq> 247) then [char_of (n - 32)]
     else if n = 223 then ''SS'' else [c])"

definition to_upper :: "string \<Rightarrow> string" where
  "to_upper s = concat (map upper_char s)"

section \<open>Environment\<close>

record process_env =
  pe_vars :: "string \<Rightarrow> string"
  pe_runtime :: "string \<Rightarrow> jsv"
  pe_scoped :: "string \<Rightarrow> string \<Rightarrow> jsv"

text \<open>The first operand of \<open>a || b || ... || ''\<close> that is truthy, as trimmed text.\<close>

fun first_truthy :: "jsv list \<Rightarrow> jsv" where
  "first_truthy [] = JStr []"
| "first_truthy (v # vs) = js_or v (first_truthy vs)"

fun first_nonempty :: "string list \<Rightarrow> string" where
  "first_nonempty [] = []"
| "first_nonempty (s # ss) = (if s = [] then first_nonempty ss else s)"

definition env :: "process_env \<Rightarrow> string list \<Rightarrow> string" where
  "env pe names = first_nonempty
     (map (\<lambda>name. js_trim (js_string (first_truthy [JStr (pe_vars pe name), pe_runtime pe name]))) names)"

definition normalizeMorpheusNetwork :: "jsv \<Rightarrow> string \<Rightarrow> string" where
  "normalizeMorpheusNetwork v fallback =
     (let normalized = to_lower (trimValue v)
      in if normalized = ''mainnet'' \<or> normalized = ''testnet'' then normalized
         else if fallback = ''mainnet'' then ''mainnet'' else ''testnet'')"

definition resolvePayloadNetwork :: "jsv \<Rightarrow> string \<Rightarrow> string" where
  "resolvePayloadNetwork payload fallback =
     normalizeMorpheusNetwork
       (js_or (getp payload ''network'') (js_or (getp payload ''morpheus_network'')
         (js_or (getp payload ''runtime_network'') (getp payload ''environment'')))) fallback"

definition envForNetwork :: "process_env \<Rightarrow> string \<Rightarrow> string list \<Rightarrow> string" where
  "envForNetwork pe networkInput names =
     (let network = normalizeMorpheusNetwork (JStr networkInput) ''testnet''
      in first_nonempty (map (\<lambda>name. js_trim (js_string (first_truthy
           [JStr (pe_vars pe (name @ ''_'' @ to_upper network)), pe_scoped pe network name,
            JStr (pe_vars pe name), pe_runtime pe name]))) names))"

definition ends_with :: "string \<Rightarrow> string \<Rightarrow> bool" where
  "ends_with s t = (t = drop (length s - length t) s \<and> length t \<le> length s)"

text \<open>\<open>raw.match(/^(\d+(?:\.\d+)?)(ms|s|m)$/)\<close>: the amount and the scale of the unit.\<close>

definition duration_match :: "string \<Rightarrow> (string \<times> rat) option" where
  "duration_match raw =
     (let number = \<lambda>unit. take (length raw - length unit) raw
      in if ends_with raw ''ms'' \<and> is_decimal (number ''ms'') then Some (number ''ms'', 1)
         else if ends_with raw ''s'' \<and> is_decimal (number ''s'') then Some (number ''s'', 1000)
         else if ends_with raw ''m'' \<and> is_decimal (number ''m'') then Some (number ''m'', 60000)
         else None)"

definition parseDurationMs :: "jsv \<Rightarrow> int \<Rightarrow> int" where
  "parseDurationMs v fallbackMs =
     (if v = JUndef \<or> v = JNull \<or> v = JStr [] then fallbackMs
      else case v of JNum (Fin i) \<Rightarrow> max i 0
      | _ \<Rightarrow> let raw = to_lower (trimValue v)
            in if raw = [] then fallbackMs
               else if all_digits raw then int (read_nat raw)
               else case duration_match raw of
                   None \<Rightarrow> fallbackMs
                 | Some (amount, scale) \<Rightarrow> max \<lfloor>parts_value (decimal_parts amount) * scale + 1 / 2\<rfloor> 0)"

section \<open>Providers and pairs\<close>

definition normalizeProviderId :: "jsv \<Rightarrow> string" where
  "normalizeProviderId v = to_lower (trimValue (js_or v (JStr [])))"

definition FEED_PROVIDER_PREFIXES :: "(string \<times> string) list" where
  "FEED_PROVIDER_PREFIXES =
     [(''TWELVEDATA:'', ''twelvedata''), (''BINANCE-SPOT:'', ''binance-spot''), (''COINBASE-SPOT:'', ''coinbase-spot'')]"

definition inferProviderIdFromPairSymbol :: "jsv \<Rightarrow> string" where
  "inferProviderIdFromPairSymbol v =
     (case find (\<lambda>p. js_starts_with (to_upper (trimValue v)) (fst p)) FEED_PROVIDER_PREFIXES of
        Some p \<Rightarrow> snd p | None \<Rightarrow> [])"

definition FEED_PAIR_ALIASES :: "(string \<times> string) list" where
  "FEED_PAIR_ALIASES = [(''OIL-USD'', ''WTI-USD'')]"

text \<open>\<open>s.slice(s.indexOf(':') + 1)\<close>.\<close>

definition after_colon :: "string \<Rightarrow> string" where
  "after_colon s = (case dropWhile (\<lambda>c. c \<noteq> CHR '':'') s of [] \<Rightarrow> s | _ # r \<Rightarrow> r)"

definition normalizeFeedPairSymbol :: "jsv \<Rightarrow> string" where
  "normalizeFeedPairSymbol pair =
     (let normalized = to_upper (trimValue pair);
          stripped = (if \<exists>p \<in> set FEED_PROVIDER_PREFIXES. js_starts_with normalized (fst p)
                      then after_colon normalized else normalized)
      in case map_of FEED_PAIR_ALIASES stripped of Some a \<Rightarrow> a | None \<Rightarrow> stripped)"

definition feed_pair :: "string \<Rightarrow> (string \<times> jsv) list \<Rightarrow> (string \<times> string) list \<Rightarrow> string \<times> jsv" where
  "feed_pair pair extra providers =
     (pair, JObj (extra @ [(''providers'', JObj (map (\<lambda>(p, s). (p, JObj [(''symbol'', JStr s)])) providers))]))"

definition DEFAULT_FEED_PAIRS :: jsv where
  "DEFAULT_FEED_PAIRS = JObj
     [feed_pair ''NEO-USD'' [] [(''twelvedata'', ''NEO/USD''), (''binance-spot'', ''NEOUSDT'')],
      feed_pair ''GAS-USD'' [] [(''twelvedata'', ''GAS/USD''), (''binance-spot'', ''GASUSDT'')],
      feed_pair ''BTC-USD'' [] [(''twelvedata'', ''BTC-USD'')],
      feed_pair ''ETH-USD'' [] [(''twelvedata'', ''ETH-USD'')],
      feed_pair ''SOL-USD'' [] [(''twelvedata'', ''SOL-USD'')],
      feed_pair ''TRX-USD'' [] [(''twelvedata'', ''TRX-USD'')],
      feed_pair ''PAXG-USD'' [] [(''twelvedata'', ''PAXG-USD'')],
      feed_pair ''WTI-USD'' [] [(''twelvedata'', ''WTI-USD'')],
      feed_pair ''BRENT-USD'' [] [(''twelvedata'', ''XBR/USD'')],
      feed_pair ''NATGAS-USD'' [] [(''twelvedata'', ''NG/USD'')],
      feed_pair ''COPPER-USD'' [] [(''twelvedata'', ''HG1'')],
      feed_pair ''WHEAT-USD'' [] [(''twelvedata'', ''W_1'')],
      feed_pair ''CORN-USD'' [] [(''twelvedata'', ''C_1'')],
      feed_pair ''SOY-USD'' [] [(''twelvedata'', ''S_1'')],
      feed_pair ''USDT-USD'' [] [(''twelvedata'', ''USDT-USD'')],
      feed_pair ''USDC-USD'' [] [(''twelvedata'', ''USDC-USD'')],
      feed_pair ''BNB-USD'' [] [(''twelvedata'', ''BNB-USD'')],
      feed_pair ''XRP-USD'' [] [(''twelvedata'', ''XRP-USD'')],
      feed_pair ''DOGE-USD'' [] [(''twelvedata'', ''DOGE-USD'')],
      feed_pair ''AAPL-USD'' [] [(''twelvedata'', ''AAPL'')],
      feed_pair ''GOOGL-USD'' [] [(''twelvedata'', ''GOOGL'')],
      feed_pair ''MSFT-USD'' [] [(''twelvedata'', ''MSFT'')],
      feed_pair ''AMZN-USD'' [] [(''twelvedata'', ''AMZN'')],
      feed_pair ''TSLA-USD'' [] [(''twelvedata'', ''TSLA'')],
      feed_pair ''META-USD'' [] [(''twelvedata'', ''META'')],
      feed_pair ''NVDA-USD'' [] [(''twelvedata'', ''NVDA'')],
      feed_pair ''SPY-USD'' [] [(''twelvedata'', ''SPY'')],
      feed_pair ''QQQ-USD'' [] [(''twelvedata'', ''QQQ'')],
      feed_pair ''GLD-USD'' [] [(''twelvedata'', ''GLD'')],
      feed_pair ''EUR-USD'' [] [(''twelvedata'', ''EUR/USD'')],
      feed_pair ''GBP-USD'' [] [(''twelvedata'', ''GBP/USD'')],
      feed_pair ''JPY-USD'' [(''price_transform'', JStr ''inverse'')] [(''twelvedata'', ''USD/JPY'')],
      feed_pair ''CNY-USD'' [(''price_transform'', JStr ''inverse'')] [(''twelvedata'', ''USD/CNY'')]]"

text \<open>
  Objects are merged member by member, an override replacing everything that is not an object on both
  sides; an override that is not an object leaves the base as it is.
\<close>

lemma member_size: "(k, v) \<in> set ps \<Longrightarrow> size v < Suc (size_list (size_prod (\<lambda>x. 0) size) (ps :: (string \<times> jsv) list))"
  by (induction ps) auto

function deepMerge :: "jsv \<Rightarrow> jsv \<Rightarrow> jsv" where
  "deepMerge base override = (case override of
       JObj os \<Rightarrow> JObj (fold (\<lambda>(k, v) acc.
         obj_set k (if is_plain_object v \<and> is_plain_object (getp (JObj acc) k)
                    then deepMerge (getp (JObj acc) k) v else v) acc) os (own_entries base))
     | _ \<Rightarrow> base)"
  by pat_completeness auto
termination
  by (relation "measure (\<lambda>(_, v). size v)") (auto dest: member_size)

definition parseRegistryOverride :: "(string \<Rightarrow> jsv option) \<Rightarrow> string \<Rightarrow> jsv" where
  "parseRegistryOverride parse raw =
     (if raw = [] then JObj []
      else case parse raw of Some v \<Rightarrow> if is_plain_object v then v else JObj [] | None \<Rightarrow> JObj [])"

definition getFeedPairRegistry :: "(string \<Rightarrow> jsv option) \<Rightarrow> process_env \<Rightarrow> jsv" where
  "getFeedPairRegistry parse pe =
     deepMerge DEFAULT_FEED_PAIRS (parseRegistryOverride parse (js_trim (env pe [''MORPHEUS_FEED_PAIR_REGISTRY_JSON''])))"

section \<open>Reading the registry\<close>

text \<open>The first argument of the readers is the merged registry.\<close>

definition getFeedPairConfig :: "jsv \<Rightarrow> jsv \<Rightarrow> jsv" where
  "getFeedPairConfig registry pair = js_or (getp registry (normalizeFeedPairSymbol pair)) JNull"

definition getFeedStoragePair :: "jsv \<Rightarrow> jsv \<Rightarrow> string" where
  "getFeedStoragePair providerId pair = to_upper (normalizeProviderId providerId) @ '':'' @ normalizeFeedPairSymbol pair"

definition getFeedDisplaySymbol :: "jsv \<Rightarrow> jsv \<Rightarrow> string" where
  "getFeedDisplaySymbol registry pair =
     or_str (trimValue (js_or (getp (getFeedPairConfig registry pair) ''display_symbol'') (JStr [])))
            (getFeedStoragePair (JStr ''twelvedata'') pair)"

definition getFeedUnitLabel :: "jsv \<Rightarrow> jsv \<Rightarrow> string" where
  "getFeedUnitLabel registry pair = trimValue (js_or (getp (getFeedPairConfig registry pair) ''unit_label'') (JStr []))"

definition getFeedPriceMultiplier :: "jsv \<Rightarrow> jsv \<Rightarrow> rat" where
  "getFeedPriceMultiplier registry pair =
     (case js_real (js_nullish (getp (getFeedPairConfig registry pair) ''price_multiplier'') (JNum (Fin 1))) of
        Some raw \<Rightarrow> if 0 < raw then raw else 1
      | None \<Rightarrow> 1)"

definition getFeedPriceTransform :: "jsv \<Rightarrow> jsv \<Rightarrow> string" where
  "getFeedPriceTransform registry pair =
     to_lower (trimValue (js_or (getp (getFeedPairConfig registry pair) ''price_transform'') (JStr [])))"

definition getFeedProvidersForPair :: "jsv \<Rightarrow> jsv \<Rightarrow> string list" where
  "getFeedProvidersForPair registry pair =
     (let providers = getp (getFeedPairConfig registry pair) ''providers''
      in if is_objectlike providers
         then filter (\<lambda>p. p \<noteq> []) (map (\<lambda>(k, _). normalizeProviderId (JStr k)) (own_entries providers)) else [])"

definition getDefaultFeedSymbols :: "jsv \<Rightarrow> string list" where
  "getDefaultFeedSymbols registry =
     map (\<lambda>(pair, _). getFeedStoragePair (JStr ''twelvedata'') (JStr pair)) (own_entries registry)"

definition DEFAULT_SOURCE_SET_IDS :: "(string \<times> int) list" where
  "DEFAULT_SOURCE_SET_IDS = [(''twelvedata'', 1), (''binance-spot'', 2), (''coinbase-spot'', 3)]"

definition getSourceSetIdForProvider :: "jsv \<Rightarrow> int \<Rightarrow> int" where
  "getSourceSetIdForProvider providerId fallback =
     (case map_of DEFAULT_SOURCE_SET_IDS (normalizeProviderId providerId) of Some n \<Rightarrow> n | None \<Rightarrow> fallback)"

text \<open>\<open>normalizePairSymbol\<close> of \<^verbatim>\<open>feeds.js\<close>: the texts two symbol characters classes and a separator match.\<close>

definition symbol_chars :: "string \<Rightarrow> bool" where
  "symbol_chars s = (s \<noteq> [] \<and> list_all (\<lambda>c. let n = (of_char c :: nat) in 48 \<le> n \<and> n \<le> 57 \<or> 65 \<le> n \<and> n \<le> 90) s)"

definition is_separator :: "char \<Rightarrow> bool" where
  "is_separator c = (c = CHR ''-'' \<or> c = CHR ''/'' \<or> c = CHR ''_'')"

definition base_and_quote :: "string \<Rightarrow> (string \<times> string) option" where
  "base_and_quote raw =
     (let base = takeWhile (\<lambda>c. \<not> is_separator c) raw
      in case drop (length base) raw of
           [] \<Rightarrow> None
         | _ # quote \<Rightarrow> if symbol_chars base \<and> symbol_chars quote then Some (base, quote) else None)"

definition normalizePairSymbol :: "jsv \<Rightarrow> string" where
  "normalizePairSymbol rawSymbol =
     (let raw = to_upper (trimValue rawSymbol)
      in if raw = [] then ''NEO-USD''
         else if CHR '':'' \<in> set raw then normalizeFeedPairSymbol (JStr raw)
         else case base_and_quote raw of
             Some (base, quote) \<Rightarrow>
               normalizeFeedPairSymbol (JStr (base @ ''-'' @ (if quote = ''USDT'' then ''USD'' else quote)))
           | None \<Rightarrow>
               if ends_with raw ''USDT'' then normalizeFeedPairSymbol (JStr (take (length raw - 4) raw @ ''-USD''))
               else if ends_with raw ''USD'' then normalizeFeedPairSymbol (JStr (take (length raw - 3) raw @ ''-USD''))
               else normalizeFeedPairSymbol (JStr (raw @ ''-USD'')))"

end
