(* ===== verification/Quote_Aggregation.thy ===== *)
theory Quote_Aggregation
  imports JS_Prelude "HOL-Library.Multiset"
begin

text \<open>
  \<^verbatim>\<open>workers/nitro-worker/src/oracle/aggregation.js\<close>: the price a set of provider quotes is published
  under. Prices and percentages are rational numbers: the arithmetic of the code is read as exact. A
  quote whose price is null, undefined or not finite has the price \<open>None\<close>; a quotient by zero is kept
  apart as \<open>DevInf\<close> or \<open>DevNaN\<close>.

  The facts: the aggregate splits the valid quotes into used and rejected ones and lies between used
  prices; while a strict majority of the quotes lies in a range, the price stays within the deviation
  bound of that range.
\<close>

datatype deviation = Dev rat | DevInf | DevNaN

record price_quote =
  pq_provider :: string
  pq_price :: "rat option"

record aggregation =
  ag_price :: rat
  ag_method :: string
  ag_providers_used :: "string list"
  ag_providers_rejected :: "string list"
  ag_deviation_pct :: deviation
  ag_confidence :: string

record aggregate_options =
  ao_method :: string
  ao_maxDeviationPct :: rat
  ao_minProviders :: nat

section \<open>Operations\<close>

definition median :: "rat list \<Rightarrow> rat result" where
  "median vals =
     (if vals = [] then Inl ''median requires at least one value''
      else let sorted = sort vals; mid = length sorted div 2
           in Inr (if even (length sorted) then (sorted ! (mid - 1) + sorted ! mid) / 2 else sorted ! mid))"

definition trimmedMean :: "rat list \<Rightarrow> rat \<Rightarrow> rat result" where
  "trimmedMean vals trimPct =
     (if vals = [] then Inl ''trimmedMean requires at least one value''
      else let sorted = sort vals; trimCount = nat \<lfloor>of_nat (length sorted) * trimPct\<rfloor>
           in if length sorted \<le> trimCount * 2 then median sorted
              else let trimmed = drop trimCount (take (length sorted - trimCount) sorted)
                   in Inr (sum_list trimmed / of_nat (length trimmed)))"

text \<open>\<open>x / y\<close> for a numerator that is not negative, and \<open>d > p\<close>.\<close>

definition ratio :: "rat \<Rightarrow> rat \<Rightarrow> deviation" where
  "ratio x y = (if y \<noteq> 0 then Dev (x / y) else if x = 0 then DevNaN else DevInf)"

fun percent :: "deviation \<Rightarrow> deviation" where
  "percent (Dev x) = Dev (x * 100)"
| "percent d = d"

fun exceeds :: "deviation \<Rightarrow> rat \<Rightarrow> bool" where
  "exceeds (Dev x) p = (p < x)"
| "exceeds DevInf p = True"
| "exceeds DevNaN p = False"

text \<open>\<open>Math.round(x * 100) / 100\<close>.\<close>

definition round2 :: "rat \<Rightarrow> rat" where
  "round2 x = of_int \<lfloor>x * 100 + 1 / 2\<rfloor> / 100"

fun rounded :: "deviation \<Rightarrow> deviation" where
  "rounded (Dev x) = Dev (round2 x)"
| "rounded d = d"

definition validQuotes :: "price_quote list \<Rightarrow> (string \<times> rat) list" where
  "validQuotes quotes = map (\<lambda>q. (pq_provider q, the (pq_price q))) (filter (\<lambda>q. pq_price q \<noteq> None) quotes)"

definition two_sources :: "rat \<Rightarrow> string \<times> rat \<Rightarrow> string \<times> rat \<Rightarrow> aggregation" where
  "two_sources maxDeviationPct q0 q1 =
     (let avg = (snd q0 + snd q1) / 2;
          deviation = percent (ratio \<bar>snd q0 - snd q1\<bar> avg)
      in if exceeds deviation maxDeviationPct
         then let (low, high) = (if snd q0 \<le> snd q1 then (q0, q1) else (q1, q0))
              in \<lparr>ag_price = snd low, ag_method = ''two-source-divergent'', ag_providers_used = [fst low],
                  ag_providers_rejected = [fst high], ag_deviation_pct = rounded deviation, ag_confidence = ''low''\<rparr>
         else \<lparr>ag_price = avg, ag_method = ''mean'', ag_providers_used = [fst q0, fst q1],
               ag_providers_rejected = [], ag_deviation_pct = rounded deviation, ag_confidence = ''medium''\<rparr>)"

definition dev_from :: "rat \<Rightarrow> rat \<Rightarrow> rat" where
  "dev_from med p = (if 0 < med then \<bar>p - med\<bar> / med * 100 else 0)"

definition confidence_of :: "nat \<Rightarrow> string" where
  "confidence_of kept = (if 3 \<le> kept then ''high'' else if kept = 2 then ''medium'' else ''low'')"

definition many_sources :: "string \<Rightarrow> rat \<Rightarrow> (string \<times> rat) list \<Rightarrow> aggregation result" where
  "many_sources method maxDeviationPct valid =
     bind_result (median (map snd valid)) (\<lambda>med.
       let rejected = filter (\<lambda>q. maxDeviationPct < dev_from med (snd q)) valid;
           kept = filter (\<lambda>q. \<not> maxDeviationPct < dev_from med (snd q)) valid;
           keptPrices = map snd kept
       in if kept = []
          then Inr \<lparr>ag_price = med, ag_method = ''median-fallback'', ag_providers_used = map fst valid,
                    ag_providers_rejected = [], ag_deviation_pct = Dev 0, ag_confidence = ''low''\<rparr>
          else bind_result (if method = ''trimmed-mean'' then trimmedMean keptPrices (1 / 10) else median keptPrices) (\<lambda>price.
               bind_result (median keptPrices) (\<lambda>keptMed.
                 Inr \<lparr>ag_price = price,
                      ag_method = (if method = ''trimmed-mean'' then ''trimmed-mean'' else ''median''),
                      ag_providers_used = map fst kept, ag_providers_rejected = map fst rejected,
                      ag_deviation_pct = Dev (round2 (foldl max 0 (map (dev_from keptMed) keptPrices))),
                      ag_confidence = confidence_of (length kept)\<rparr>)))"

definition aggregateQuotes :: "aggregate_options \<Rightarrow> price_quote list \<Rightarrow> aggregation result" where
  "aggregateQuotes options quotes =
     (if quotes = [] then Inl ''aggregateQuotes requires at least one quote''
      else case validQuotes quotes of
          [] \<Rightarrow> Inl ''no valid quotes to aggregate''
        | q # qs \<Rightarrow>
            if length (q # qs) < ao_minProviders options
            then Inl (''only '' @ show_nat (length (q # qs)) @ '' providers available, minimum ''
                      @ show_nat (ao_minProviders options) @ '' required'')
            else case qs of
                [] \<Rightarrow> Inr \<lparr>ag_price = snd q, ag_method = ''single-source'', ag_providers_used = [fst q],
                           ag_providers_rejected = [], ag_deviation_pct = Dev 0, ag_confidence = ''single-source''\<rparr>
              | [q'] \<Rightarrow> Inr (two_sources (ao_maxDeviationPct options) q q')
              | _ \<Rightarrow> many_sources (ao_method options) (ao_maxDeviationPct options) (q # qs))"

definition CANONICAL_AGGREGATE_MIN_PROVIDERS :: nat where
  "CANONICAL_AGGREGATE_MIN_PROVIDERS = 2"

text \<open>The number of distinct provider ids that contributed, compared without case and outer blanks.\<close>

definition countDistinctProviders :: "aggregation \<Rightarrow> nat" where
  "countDistinctProviders a = length (remdups (filter (\<lambda>p. p \<noteq> []) (map (\<lambda>p. to_lower (js_trim p)) (ag_providers_used a))))"

definition meetsMinProviders :: "aggregation \<Rightarrow> nat \<Rightarrow> bool" where
  "meetsMinProviders a minProviders = (minProviders \<le> countDistinctProviders a)"

section \<open>Order statistics\<close>

lemma filter_sorted_above:
  assumes "sorted s" "i < length s" "s ! i < (lo :: rat)"
  shows "length (filter (\<lambda>x. lo \<le> x) s) \<le> length s - Suc i"
proof -
  have "x < lo" if x: "x \<in> set (take (Suc i) s)" for x
  proof -
    obtain j where "j < length (take (Suc i) s)" "take (Suc i) s ! j = x" using x unfolding in_set_conv_nth by blast
    then show ?thesis using sorted_nth_mono [OF assms(1), of j i] assms(2,3) by auto
  qed
  then have "filter (\<lambda>x. lo \<le> x) (take (Suc i) s) = []" unfolding filter_empty_conv by force
  then have "filter (\<lambda>x. lo \<le> x) s = filter (\<lambda>x. lo \<le> x) (drop (Suc i) s)"
    by (metis append_Nil append_take_drop_id filter_append)
  then show ?thesis by (metis length_drop length_filter_le)
qed

lemma filter_sorted_below:
  assumes "sorted s" "i < length s" "(hi :: rat) < s ! i"
  shows "length (filter (\<lambda>x. x \<le> hi) s) \<le> i"
proof -
  have "hi < x" if x: "x \<in> set (drop i s)" for x
  proof -
    obtain j where "j < length (drop i s)" "drop i s ! j = x" using x unfolding in_set_conv_nth by blast
    then show ?thesis using sorted_nth_mono [OF assms(1), of i "i + j"] assms(2,3) by (auto simp: less_diff_conv add.commute)
  qed
  then have "filter (\<lambda>x. x \<le> hi) (drop i s) = []" unfolding filter_empty_conv by force
  then have "filter (\<lambda>x. x \<le> hi) s = filter (\<lambda>x. x \<le> hi) (take i s)"
    by (metis append_Nil2 append_take_drop_id filter_append)
  then show ?thesis by (metis length_filter_le length_take min.bounded_iff)
qed

lemma length_filter_sort [simp]: "length (filter P (sort xs)) = length (filter P (xs :: rat list))"
  by (metis mset_filter mset_sort size_mset)

text \<open>A range that holds more than half of the values holds the median.\<close>

lemma median_majority:
  assumes maj: "length vals < 2 * length (filter (\<lambda>x. lo \<le> x \<and> x \<le> hi) vals)"
    and med: "median vals = Inr m"
  shows "lo \<le> m \<and> m \<le> hi"
proof -
  define s n where s: "s = sort vals" and n: "n = length s"
  have ne: "vals \<noteq> []" using maj by auto
  then have n0: "0 < n" by (simp add: n s)
  have srt: "sorted s" by (simp add: s)
  have mid: "(n - 1) div 2 < n" using n0 by linarith
  have count: "n < 2 * length (filter (\<lambda>x. lo \<le> x \<and> x \<le> hi) s)" using maj by (simp add: s n)
  have "length (filter (\<lambda>x. lo \<le> x \<and> x \<le> hi) s) \<le> length (filter (\<lambda>x. lo \<le> x) s)"
    "length (filter (\<lambda>x. lo \<le> x \<and> x \<le> hi) s) \<le> length (filter (\<lambda>x. x \<le> hi) s)"
    by (induction s) auto
  with count have above: "n < 2 * length (filter (\<lambda>x. lo \<le> x) s)" and below: "n < 2 * length (filter (\<lambda>x. x \<le> hi) s)"
    by linarith+
  have low: "lo \<le> s ! ((n - 1) div 2)"
  proof (rule ccontr)
    assume "\<not> ?thesis"
    then have "length (filter (\<lambda>x. lo \<le> x) s) \<le> n - Suc ((n - 1) div 2)"
      using filter_sorted_above [OF srt, of "(n - 1) div 2" lo] mid by (simp add: n)
    with above n0 show False by linarith
  qed
  have high: "s ! (n div 2) \<le> hi"
  proof (rule ccontr)
    assume "\<not> ?thesis"
    then have "length (filter (\<lambda>x. x \<le> hi) s) \<le> n div 2"
      using filter_sorted_below [OF srt, of "n div 2" hi] n0 by (simp add: n)
    with below show False by linarith
  qed
  have le: "s ! ((n - 1) div 2) \<le> s ! (n div 2)"
    using srt n0 by (auto simp: n intro!: sorted_nth_mono)
  show ?thesis
  proof (cases "even n")
    case True
    then have "(n - 1) div 2 = n div 2 - 1" using n0 by (auto elim!: evenE)
    then show ?thesis using med ne True low high le by (auto simp: median_def Let_def s n)
  next
    case False
    then have "(n - 1) div 2 = n div 2" by (auto elim!: oddE)
    then show ?thesis using med ne False low high le by (auto simp: median_def Let_def s n)
  qed
qed

lemma median_total: "vals \<noteq> [] \<Longrightarrow> \<exists>m. median vals = Inr m"
  by (simp add: median_def Let_def)

lemma median_Inr_nonempty: "median vals = Inr m \<Longrightarrow> vals \<noteq> []"
  by (auto simp: median_def)

lemma median_bounds:
  assumes "\<forall>x \<in> set vals. l \<le> x \<and> x \<le> u" and "median vals = Inr m"
  shows "l \<le> m \<and> m \<le> u"
proof -
  have "filter (\<lambda>x. l \<le> x \<and> x \<le> u) vals = vals" using assms(1) by simp
  moreover have "vals \<noteq> []" using assms(2) by (rule median_Inr_nonempty)
  ultimately show ?thesis using assms(2) by (intro median_majority [of vals]) simp_all
qed

lemma sum_list_bounds:
  "\<forall>x \<in> set xs. l \<le> x \<and> x \<le> (u :: rat) \<Longrightarrow> of_nat (length xs) * l \<le> sum_list xs \<and> sum_list xs \<le> of_nat (length xs) * u"
  by (induction xs) (auto simp: algebra_simps intro: add_mono)

lemma trimmedMean_bounds:
  assumes rng: "\<forall>x \<in> set vals. l \<le> x \<and> x \<le> u" and res: "trimmedMean vals pct = Inr m"
  shows "l \<le> m \<and> m \<le> u"
proof -
  define k where "k = nat \<lfloor>of_nat (length vals) * pct\<rfloor>"
  define t where "t = drop k (take (length vals - k) (sort vals))"
  have ne: "vals \<noteq> []" using res by (auto simp: trimmedMean_def)
  show ?thesis
  proof (cases "length vals \<le> k * 2")
    case True
    then have "median (sort vals) = Inr m" using res ne by (simp add: trimmedMean_def Let_def k_def)
    then show ?thesis by (rule median_bounds [rotated]) (use rng in simp)
  next
    case False
    then have m: "m = sum_list t / of_nat (length t)" and pos: "0 < length t"
      using res ne by (auto simp: trimmedMean_def Let_def k_def t_def)
    have "set t \<subseteq> set vals" unfolding t_def by (metis set_drop_subset set_sort set_take_subset subset_trans)
    with rng have "of_nat (length t) * l \<le> sum_list t \<and> sum_list t \<le> of_nat (length t) * u"
      by (intro sum_list_bounds) auto
    then show ?thesis using pos by (auto simp: m field_simps)
  qed
qed

lemma trimmedMean_total: "vals \<noteq> [] \<Longrightarrow> \<exists>m. trimmedMean vals pct = Inr m"
proof -
  assume "vals \<noteq> []"
  then have "sort vals \<noteq> []" by (metis set_empty set_sort)
  then show ?thesis using median_total [of "sort vals"] by (auto simp: trimmedMean_def Let_def)
qed

section \<open>What an aggregate is made of\<close>

text \<open>
  \<open>backed a used dropped\<close>: the used and rejected providers of \<open>a\<close> are those of \<open>used\<close> and \<open>dropped\<close>, and
  the price lies between two used prices.
\<close>

definition backed :: "aggregation \<Rightarrow> (string \<times> rat) list \<Rightarrow> (string \<times> rat) list \<Rightarrow> bool" where
  "backed a used dropped =
     (used \<noteq> [] \<and> ag_providers_used a = map fst used \<and> ag_providers_rejected a = map fst dropped
      \<and> (\<exists>l \<in> set used. snd l \<le> ag_price a) \<and> (\<exists>u \<in> set used. ag_price a \<le> snd u))"

lemma two_sources_backed:
  "\<exists>used dropped. mset used + mset dropped = {#q0, q1#} \<and> backed (two_sources d q0 q1) used dropped"
proof (cases "exceeds (percent (ratio \<bar>snd q0 - snd q1\<bar> ((snd q0 + snd q1) / 2))) d")
  case True
  then have "backed (two_sources d q0 q1) (if snd q0 \<le> snd q1 then [q0] else [q1]) (if snd q0 \<le> snd q1 then [q1] else [q0])"
    by (auto simp: two_sources_def backed_def Let_def)
  then show ?thesis by (rule_tac exI, rule_tac exI, rule_tac conjI) (auto split: if_splits)
next
  case False
  have "(snd q0 \<le> (snd q0 + snd q1) / 2 \<or> snd q1 \<le> (snd q0 + snd q1) / 2)
      \<and> ((snd q0 + snd q1) / 2 \<le> snd q0 \<or> (snd q0 + snd q1) / 2 \<le> snd q1)"
    by (auto simp: field_simps)
  with False have "backed (two_sources d q0 q1) [q0, q1] []"
    by (auto simp: two_sources_def backed_def Let_def)
  then show ?thesis by (metis add.right_neutral mset.simps)
qed

lemma within_used:
  assumes "used \<noteq> []" "\<And>l u. \<forall>x \<in> set (map snd used). l \<le> x \<and> x \<le> u \<Longrightarrow> l \<le> p \<and> p \<le> (u :: rat)"
  shows "(\<exists>l \<in> set used. snd l \<le> p) \<and> (\<exists>u \<in> set used. p \<le> snd u)"
proof -
  let ?s = "snd ` set used"
  have "Min ?s \<le> p \<and> p \<le> Max ?s" by (rule assms(2)) simp
  moreover have "Min ?s \<in> ?s" "Max ?s \<in> ?s" using assms(1) by simp_all
  then obtain l u where "Min ?s = snd l" "l \<in> set used" "Max ?s = snd u" "u \<in> set used" by (elim imageE)
  ultimately show ?thesis by auto
qed

lemma chosen_bounds:
  assumes "(if b then trimmedMean xs pct else median xs) = Inr p" "\<forall>x \<in> set xs. l \<le> x \<and> x \<le> u"
  shows "l \<le> p \<and> p \<le> u"
  using assms median_bounds [of xs l u p] trimmedMean_bounds [of xs l u pct p] by (simp split: if_splits)

text \<open>The three-source rule: the price is the median of all, or the aggregate of the quotes near it.\<close>

lemma many_sources_cases:
  assumes "many_sources method d valid = Inr a"
  obtains (fallback) m where "median (map snd valid) = Inr m" "ag_price a = m"
      "ag_providers_used a = map fst valid" "ag_providers_rejected a = []"
  | (kept) m kept where "median (map snd valid) = Inr m"
      "kept = filter (\<lambda>q. \<not> d < dev_from m (snd q)) valid" "kept \<noteq> []"
      "ag_providers_used a = map fst kept" "ag_providers_rejected a = map fst (filter (\<lambda>q. d < dev_from m (snd q)) valid)"
      "(if method = ''trimmed-mean'' then trimmedMean (map snd kept) (1 / 10) else median (map snd kept)) = Inr (ag_price a)"
proof -
  obtain m where m: "median (map snd valid) = Inr m"
    using assms by (cases "median (map snd valid)") (auto simp: many_sources_def)
  show ?thesis
  proof (cases "filter (\<lambda>q. \<not> d < dev_from m (snd q)) valid = []")
    case True
    then show ?thesis using assms m by (intro fallback [of m]) (auto simp: many_sources_def Let_def)
  next
    case False
    then show ?thesis using assms m
      by (intro kept [of m]) (auto simp: many_sources_def Let_def bind_result_eq_Inr)
  qed
qed

lemma many_sources_backed:
  assumes "many_sources method d valid = Inr a"
  shows "\<exists>used dropped. mset used + mset dropped = mset valid \<and> backed a used dropped"
  using assms
proof (cases rule: many_sources_cases)
  case (fallback m)
  then have "backed a valid []"
    using within_used [of valid m, OF _ median_bounds [OF _ fallback(1)]] median_Inr_nonempty [OF fallback(1)]
    by (simp add: backed_def)
  then show ?thesis by (metis add.right_neutral mset.simps(1))
next
  case (kept m kept)
  have "(\<exists>l \<in> set kept. snd l \<le> ag_price a) \<and> (\<exists>u \<in> set kept. ag_price a \<le> snd u)"
    by (rule within_used [OF kept(3)]) (rule chosen_bounds [OF kept(6)])
  then have "backed a kept (filter (\<lambda>q. d < dev_from m (snd q)) valid)" using kept by (auto simp: backed_def)
  then show ?thesis using kept(2) by (metis mset_filter multiset_partition union_commute)
qed

lemma many_sources_total: "valid \<noteq> [] \<Longrightarrow> \<exists>a. many_sources method d valid = Inr a"
proof -
  assume "valid \<noteq> []"
  then obtain m where m: "median (map snd valid) = Inr m" using median_total by (metis Nil_is_map_conv)
  let ?k = "map snd (filter (\<lambda>q. \<not> d < dev_from m (snd q)) valid)"
  show ?thesis
    using m median_total [of ?k] trimmedMean_total [of ?k "1 / 10"]
    by (cases "filter (\<lambda>q. \<not> d < dev_from m (snd q)) valid = []") (auto simp: many_sources_def Let_def)
qed

lemma aggregateQuotes_cases:
  assumes "aggregateQuotes options quotes = Inr a"
  obtains (one) q where "validQuotes quotes = [q]" "ag_price a = snd q"
      "ag_providers_used a = [fst q]" "ag_providers_rejected a = []"
  | (two) q q' where "validQuotes quotes = [q, q']" "a = two_sources (ao_maxDeviationPct options) q q'"
  | (many) "3 \<le> length (validQuotes quotes)"
      "many_sources (ao_method options) (ao_maxDeviationPct options) (validQuotes quotes) = Inr a"
  using assms by (auto simp: aggregateQuotes_def split: if_splits list.splits)


section \<open>Faulty providers\<close>

lemma near_median:
  assumes "0 < m" "\<not> d < dev_from m p"
  shows "m * (1 - d / 100) \<le> p \<and> p \<le> m * (1 + d / 100)"
proof -
  have "\<bar>p - m\<bar> * 100 \<le> d * m" using assms by (simp add: dev_from_def field_simps split: if_splits)
  then have "p * 100 - m * 100 \<le> d * m" "m * 100 - p * 100 \<le> d * m" by (auto simp: abs_if split: if_splits)
  then show ?thesis by (auto simp: field_simps)
qed

text \<open>The interval the deviation bound \<open>d\<close> (in percent) leaves around a range.\<close>

definition within_pct :: "rat \<Rightarrow> rat \<Rightarrow> rat \<Rightarrow> rat \<Rightarrow> bool" where
  "within_pct d lo hi p = (lo * (1 - d / 100) \<le> p \<and> p \<le> hi * (1 + d / 100))"

lemma within_pctI: "0 < lo \<Longrightarrow> 0 \<le> d \<Longrightarrow> lo \<le> p \<Longrightarrow> p \<le> hi \<Longrightarrow> within_pct d lo hi p"
proof -
  assume "0 < lo" "0 \<le> d" "lo \<le> p" "p \<le> hi"
  then have "0 \<le> d * lo" "0 \<le> d * hi" "lo \<le> p" "p \<le> hi" by auto
  then show ?thesis unfolding within_pct_def by (auto simp: field_simps)
qed

lemma within_pct_scale:
  assumes "0 < lo" "0 \<le> d" "lo \<le> m" "m \<le> hi" "\<not> d < dev_from m p"
  shows "within_pct d lo hi p \<or> 100 < d"
proof (cases "100 < d")
  case False
  have "m * (1 - d / 100) \<le> p \<and> p \<le> m * (1 + d / 100)" using assms by (intro near_median) auto
  moreover have "lo * (1 - d / 100) \<le> m * (1 - d / 100)" "m * (1 + d / 100) \<le> hi * (1 + d / 100)"
    using assms False by (auto intro!: mult_right_mono)
  ultimately show ?thesis by (auto simp: within_pct_def)
qed simp

text \<open>
  C12: A minority of faulty or hostile providers cannot move the price: when more than half of the valid
  quotes lie in a positive range, the published price lies in that range widened by the deviation
  bound, whatever the other quotes are and whichever aggregation method is chosen.
\<close>

theorem minority_cannot_move_price:
  assumes agg: "aggregateQuotes options quotes = Inr a"
    and maj: "length (validQuotes quotes) < 2 * length (filter (\<lambda>q. lo \<le> snd q \<and> snd q \<le> hi) (validQuotes quotes))"
    and lo: "0 < lo" and d: "0 \<le> ao_maxDeviationPct options" "ao_maxDeviationPct options \<le> 100"
  shows "within_pct (ao_maxDeviationPct options) lo hi (ag_price a)"
  using agg
proof (cases rule: aggregateQuotes_cases)
  case (one q)
  then show ?thesis using maj lo d by (auto intro!: within_pctI split: if_splits)
next
  case (two q q')
  then have "lo \<le> snd q \<and> snd q \<le> hi \<and> lo \<le> snd q' \<and> snd q' \<le> hi" using maj by (auto split: if_splits)
  then have "lo \<le> ag_price a \<and> ag_price a \<le> hi"
    using two(2) by (auto simp: two_sources_def Let_def field_simps)
  then show ?thesis using lo d by (auto intro: within_pctI)
next
  case many
  let ?v = "validQuotes quotes"
  have med: "lo \<le> m \<and> m \<le> hi" if "median (map snd ?v) = Inr m" for m
    using that maj by (intro median_majority) (simp_all add: filter_map comp_def)
  from many(2) show ?thesis
  proof (cases rule: many_sources_cases)
    case (fallback m)
    then show ?thesis using med lo d by (auto intro: within_pctI)
  next
    case (kept m kept)
    have "\<forall>x \<in> set (map snd kept). lo * (1 - ao_maxDeviationPct options / 100) \<le> x \<and> x \<le> hi * (1 + ao_maxDeviationPct options / 100)"
      using within_pct_scale [OF lo d(1)] med [OF kept(1)] d(2) kept(2) by (fastforce simp: within_pct_def)
    then show ?thesis unfolding within_pct_def by (rule chosen_bounds [OF kept(6)])
  qed
qed

definition sample_quotes :: "price_quote list" where
  "sample_quotes = [\<lparr>pq_provider = ''twelvedata'', pq_price = Some 10\<rparr>, \<lparr>pq_provider = ''binance-spot'', pq_price = Some 11\<rparr>,
     \<lparr>pq_provider = ''coinbase-spot'', pq_price = Some 900\<rparr>]"

definition default_aggregation :: aggregate_options where
  "default_aggregation = \<lparr>ao_method = ''median'', ao_maxDeviationPct = 25, ao_minProviders = 1\<rparr>"

lemmas sample_simps = aggregateQuotes_def sample_quotes_def default_aggregation_def validQuotes_def many_sources_def
  median_def dev_from_def Let_def

lemma sample_price: "\<exists>a. aggregateQuotes default_aggregation sample_quotes = Inr a \<and> ag_price a = 21 / 2"
  by (simp add: sample_simps)


theorem minority_cannot_move_price_witness:
  "\<exists>a. aggregateQuotes default_aggregation sample_quotes = Inr a \<and> within_pct 25 10 11 (ag_price a)"
proof -
  obtain a where a: "aggregateQuotes default_aggregation sample_quotes = Inr a" using sample_price by blast
  have "within_pct 25 10 11 (ag_price a)"
    using minority_cannot_move_price [OF a, of 10 11] by (simp add: sample_quotes_def default_aggregation_def validQuotes_def)
  with a show ?thesis by blast
qed

end
