(* ===== verification/Feed_Policy.thy ===== *)
theory Feed_Policy
  imports Feed_Registry Quote_Aggregation
begin

text \<open>
  \<^verbatim>\<open>workers/nitro-worker/src/oracle/feeds/shared.js\<close> and \<^verbatim>\<open>feeds/sync-policy.js\<close>: whether a quote is
  submitted on chain, and under which time stamp. Records are dynamic values as they are read from the
  state file and from the chain; \<open>Date.parse\<close> is a parameter.

  The facts: the submitted time stamp is above the previous one and never further ahead of the clock
  than the tolerance allows, and a quote is submitted exactly when the policy says so.
\<close>

section \<open>Settings\<close>

definition MAINNET_FEED_CHANGE_THRESHOLD_BPS :: nat where "MAINNET_FEED_CHANGE_THRESHOLD_BPS = 10"
definition MAINNET_FEED_MIN_UPDATE_INTERVAL_MS :: int where "MAINNET_FEED_MIN_UPDATE_INTERVAL_MS = 60000"
definition MAINNET_FEED_STALE_AFTER_MS :: int where "MAINNET_FEED_STALE_AFTER_MS = 300000"
definition DEFAULT_FEED_SUBMISSION_WAIT_TIMEOUT_MS :: int where "DEFAULT_FEED_SUBMISSION_WAIT_TIMEOUT_MS = 8000"

definition resolveFeedNetwork :: "process_env \<Rightarrow> jsv \<Rightarrow> string" where
  "resolveFeedNetwork pe input =
     resolvePayloadNetwork input
       (normalizeMorpheusNetwork
          (JStr (or_str (env pe [''MORPHEUS_NETWORK'', ''NEXT_PUBLIC_MORPHEUS_NETWORK'']) ''testnet'')) ''testnet'')"

definition affirmative :: "string \<Rightarrow> bool" where
  "affirmative s = (s \<in> {''1'', ''true'', ''yes'', ''on''})"

definition isEnabled :: "jsv \<Rightarrow> bool \<Rightarrow> bool" where
  "isEnabled rawValue fallback =
     (let normalized = to_lower (trimValue rawValue) in if normalized = [] then fallback else affirmative normalized)"

definition normalizeBooleanLike :: "jsv \<Rightarrow> bool \<Rightarrow> bool" where
  "normalizeBooleanLike v fallback =
     (if v = JUndef \<or> v = JNull \<or> v = JStr [] then fallback
      else case v of JBool b \<Rightarrow> b
      | JNum n \<Rightarrow> n \<noteq> Fin 0
      | _ \<Rightarrow> isEnabled v fallback)"

definition resolveFeedTimestampMaxFutureSeconds :: "process_env \<Rightarrow> int" where
  "resolveFeedTimestampMaxFutureSeconds pe =
     (case js_float (env pe [''MORPHEUS_FEED_TIMESTAMP_MAX_FUTURE_SECONDS'']) of
        Some raw \<Rightarrow> if 0 < raw then \<lfloor>raw\<rfloor> else 300
      | None \<Rightarrow> 300)"

definition resolveFeedTimestampFutureSkewSeconds :: "process_env \<Rightarrow> int" where
  "resolveFeedTimestampFutureSkewSeconds pe =
     (case js_float (env pe [''MORPHEUS_FEED_TIMESTAMP_FUTURE_SKEW_SECONDS'']) of
        Some raw \<Rightarrow> if 0 \<le> raw then \<lfloor>raw\<rfloor> else 60
      | None \<Rightarrow> 60)"

section \<open>The time stamp of a submission\<close>

text \<open>\<open>upstream\<close> and \<open>prevTs\<close> are \<open>None\<close> when they are not finite numbers.\<close>

definition clampFeedTimestampSec :: "rat option \<Rightarrow> rat option \<Rightarrow> int \<Rightarrow> int \<Rightarrow> int \<Rightarrow> int result" where
  "clampFeedTimestampSec upstreamSec prevTs now maxFutureSeconds futureSkewSeconds =
     (let upstream = (case upstreamSec of Some u \<Rightarrow> \<lfloor>u\<rfloor> | None \<Rightarrow> now);
          previous = (case prevTs of Some p \<Rightarrow> max \<lfloor>p\<rfloor> 0 | None \<Rightarrow> 0)
      in if now + maxFutureSeconds < upstream
         then Inl (''upstream feed timestamp '' @ show_int upstream @ '' is more than ''
                   @ show_int maxFutureSeconds @ ''s in the future (now '' @ show_int now @ '')'')
         else Inr (max (previous + 1) (min upstream (now + futureSkewSeconds))))"

section \<open>Policy\<close>

record sync_policy =
  sp_thresholdBps :: rat
  sp_minUpdateIntervalMs :: int
  sp_staleAfterMs :: int

definition resolvePairThresholdBps :: "jsv \<Rightarrow> string \<Rightarrow> jsv \<Rightarrow> rat option" where
  "resolvePairThresholdBps registry storagePair payload =
     (let config = getFeedPairConfig registry (JStr storagePair);
          raw = js_nullish (getp config ''threshold_bps'')
                 (js_nullish (getp config ''feed_change_threshold_bps'')
                 (js_nullish (getp payload ''pair_feed_change_threshold_bps'')
                 (js_nullish (getp (getp payload ''feed_change_threshold_bps_by_pair'') storagePair) JNull)))
      in if raw = JStr [] \<or> raw = JUndef \<or> raw = JNull then None
         else map_option (\<lambda>parsed. max parsed 0) (js_real raw))"

text \<open>A candidate setting, or its default when it is empty or absent.\<close>

definition or_default :: "jsv \<Rightarrow> string \<Rightarrow> jsv" where
  "or_default candidate fallback =
     (if candidate = JStr [] \<or> candidate = JUndef \<or> candidate = JNull then JStr fallback else candidate)"

definition buildSyncPolicy :: "process_env \<Rightarrow> jsv \<Rightarrow> sync_policy" where
  "buildSyncPolicy pe payload =
     (let network = resolveFeedNetwork pe payload;
          setting = \<lambda>key var. js_nullish (getp payload key) (JStr (envForNetwork pe network [var]));
          thresholdSource = or_default (setting ''feed_change_threshold_bps'' ''MORPHEUS_FEED_CHANGE_THRESHOLD_BPS'')
            (show_nat MAINNET_FEED_CHANGE_THRESHOLD_BPS);
          intervalSource = or_default (setting ''feed_min_update_interval_ms'' ''MORPHEUS_FEED_MIN_UPDATE_INTERVAL_MS'')
            (show_int MAINNET_FEED_MIN_UPDATE_INTERVAL_MS @ ''ms'');
          staleSource = or_default (setting ''feed_stale_after_ms'' ''MORPHEUS_FEED_STALE_AFTER_MS'')
            (show_int MAINNET_FEED_STALE_AFTER_MS @ ''ms'');
          thresholdBps = js_real (js_or thresholdSource (JNum (Fin 0)))
      in \<lparr>sp_thresholdBps = max (case thresholdBps of Some t \<Rightarrow> t | None \<Rightarrow> 0) 0,
          sp_minUpdateIntervalMs = max (parseDurationMs intervalSource MAINNET_FEED_MIN_UPDATE_INTERVAL_MS) 0,
          sp_staleAfterMs = max (parseDurationMs staleSource MAINNET_FEED_STALE_AFTER_MS) 0\<rparr>)"

definition resolveFeedSubmissionWait :: "jsv \<Rightarrow> bool" where
  "resolveFeedSubmissionWait payload = normalizeBooleanLike (getp payload ''wait'') False"

definition resolveFeedSubmissionWaitTimeoutMs :: "process_env \<Rightarrow> jsv \<Rightarrow> int" where
  "resolveFeedSubmissionWaitTimeoutMs pe payload =
     (let source = js_nullish (getp payload ''timeout_ms'') (js_nullish (getp payload ''timeoutMs'')
                    (js_nullish (getp payload ''feed_submission_wait_timeout_ms'')
                    (js_nullish (getp payload ''feedSubmissionWaitTimeoutMs'')
                    (JStr (envForNetwork pe (resolveFeedNetwork pe payload) [''MORPHEUS_FEED_SUBMISSION_WAIT_TIMEOUT_MS''])))))
      in min (parseDurationMs source DEFAULT_FEED_SUBMISSION_WAIT_TIMEOUT_MS) DEFAULT_FEED_SUBMISSION_WAIT_TIMEOUT_MS)"

text \<open>\<open>neoContext\<close> is the RPC endpoint of a loaded signing context.\<close>

definition resolveFeedSubmissionIssue :: "bool \<Rightarrow> string option \<Rightarrow> string" where
  "resolveFeedSubmissionIssue hasNeoN3DataFeedTarget neoContext =
     (if \<not> hasNeoN3DataFeedTarget then ''Neo N3 datafeed contract hash is not configured''
      else case neoContext of
          None \<Rightarrow> ''Neo N3 signing key is not configured''
        | Some rpcUrl \<Rightarrow> if js_trim rpcUrl = [] then ''NEO_RPC_URL is required for Neo N3 feed submission'' else [])"

definition shouldLoadOnchainFeedBaseline :: "jsv \<Rightarrow> bool \<Rightarrow> bool" where
  "shouldLoadOnchainFeedBaseline payload hasLocalRecords =
     (let explicitRefresh = js_nullish (getp payload ''refresh_onchain_baseline'') (getp payload ''refreshOnchainBaseline'')
      in if explicitRefresh \<noteq> JUndef \<and> explicitRefresh \<noteq> JNull \<and> explicitRefresh \<noteq> JStr []
         then normalizeBooleanLike explicitRefresh False
         else truthy (getp payload ''force'') \<or> \<not> hasLocalRecords)"

section \<open>The decision\<close>

definition computeChangeBps :: "string \<Rightarrow> string \<Rightarrow> deviation" where
  "computeChangeBps previousPrice nextPrice =
     (case (js_float previousPrice, js_float nextPrice) of
        (Some previous, Some next) \<Rightarrow>
          if previous \<le> 0 then DevInf else Dev (\<bar>(next - previous) / previous\<bar> * 10000)
      | _ \<Rightarrow> DevInf)"

definition seconds_or_ms :: "rat \<Rightarrow> rat" where
  "seconds_or_ms n = (if 10000000000 < n then n else n * 1000)"

definition normalizeTimestampMs :: "(string \<Rightarrow> rat option) \<Rightarrow> jsv \<Rightarrow> rat" where
  "normalizeTimestampMs date_parse v =
     (if v = JUndef \<or> v = JNull \<or> v = JStr [] then 0
      else case v of JNum (Fin i) \<Rightarrow> seconds_or_ms (of_int i)
      | _ \<Rightarrow> let raw = trimValue v
            in if raw = [] then 0
               else case js_float raw of
                   Some n \<Rightarrow> seconds_or_ms n
                 | None \<Rightarrow> (case date_parse raw of Some t \<Rightarrow> t | None \<Rightarrow> 0))"

fun first_positive :: "rat list \<Rightarrow> rat" where
  "first_positive [] = 0"
| "first_positive (t # ts) = (if 0 < t then t else first_positive ts)"

definition resolvePreviousSubmittedAtMs :: "(string \<Rightarrow> rat option) \<Rightarrow> jsv \<Rightarrow> rat" where
  "resolvePreviousSubmittedAtMs date_parse previousRecord =
     first_positive (map (\<lambda>key. normalizeTimestampMs date_parse (getp previousRecord key))
       [''last_submitted_at_ms'', ''submitted_at_ms'', ''timestamp_ms'', ''timestamp'', ''submitted_at''])"

record submit_decision =
  sd_allow :: bool
  sd_reason :: string
  sd_change_bps :: "deviation option"
  sd_current_units :: "string option"
  sd_candidate_units :: "string option"
  sd_stale_age_ms :: "rat option"

definition plain_decision :: "bool \<Rightarrow> string \<Rightarrow> submit_decision" where
  "plain_decision allow reason = \<lparr>sd_allow = allow, sd_reason = reason, sd_change_bps = None, sd_current_units = None,
     sd_candidate_units = None, sd_stale_age_ms = None\<rparr>"

definition too_soon :: "(string \<Rightarrow> rat option) \<Rightarrow> jsv \<Rightarrow> sync_policy \<Rightarrow> int \<Rightarrow> bool" where
  "too_soon date_parse previous policy now =
     (let last = normalizeTimestampMs date_parse (getp previous ''last_submitted_at_ms'')
      in 0 < sp_minUpdateIntervalMs policy \<and> 0 < last \<and> of_int now - last < of_int (sp_minUpdateIntervalMs policy))"

definition stale_age :: "(string \<Rightarrow> rat option) \<Rightarrow> jsv \<Rightarrow> int \<Rightarrow> rat" where
  "stale_age date_parse previous now =
     (let since = resolvePreviousSubmittedAtMs date_parse previous in if 0 < since then of_int now - since else 0)"

text \<open>\<open>String(previous.price_units ?? previous.price_cents ?? decimalToIntegerString(previous.price ?? '0', decimals))\<close>.\<close>

definition previous_units :: "jsv \<Rightarrow> nat \<Rightarrow> string result" where
  "previous_units previous decimals =
     (let units = js_nullish (getp previous ''price_units'') (getp previous ''price_cents'')
      in if is_nullish units
         then decimalToIntegerString (js_nullish (getp previous ''price'') (JStr ''0'')) decimals
         else Inr (js_string units))"

fun below :: "deviation \<Rightarrow> rat \<Rightarrow> bool" where
  "below (Dev x) t = (x < t)"
| "below _ t = False"

definition shouldSubmitFeed ::
  "(string \<Rightarrow> rat option) \<Rightarrow> int \<Rightarrow> string \<Rightarrow> nat \<Rightarrow> jsv option \<Rightarrow> sync_policy \<Rightarrow> bool \<Rightarrow> submit_decision result" where
  "shouldSubmitFeed date_parse now price decimals previousRecord policy force =
     (if force then Inr (plain_decision True ''forced'')
      else case previousRecord of
          None \<Rightarrow> Inr (plain_decision True ''first-observation'')
        | Some previous \<Rightarrow>
            if too_soon date_parse previous policy now then Inr (plain_decision False ''min-update-interval'')
            else bind_result (previous_units previous decimals) (\<lambda>previousUnits.
                 bind_result (decimalToIntegerString (JStr price) decimals) (\<lambda>nextUnits.
                   let change = computeChangeBps previousUnits nextUnits;
                       age = stale_age date_parse previous now;
                       compared = \<lambda>allow reason stale. \<lparr>sd_allow = allow, sd_reason = reason, sd_change_bps = Some change,
                         sd_current_units = Some previousUnits, sd_candidate_units = Some nextUnits, sd_stale_age_ms = stale\<rparr>
                   in if 0 < sp_staleAfterMs policy \<and> of_int (sp_staleAfterMs policy) \<le> age
                      then Inr (compared True ''stale-refresh'' (Some age))
                      else if 0 < sp_thresholdBps policy \<and> below change (sp_thresholdBps policy)
                      then Inr (compared False ''price-change-below-threshold'' None)
                      else Inr (compared True ''threshold-met'' None))))"

end
