(* ===== verification/Oracle_Feeds.thy ===== *)
theory Oracle_Feeds
  imports Feed_Policy
begin

text \<open>
  \<^verbatim>\<open>workers/nitro-worker/src/oracle/feeds.js\<close> and \<^verbatim>\<open>feeds/feed-submit.js\<close>: one run of the price feed. For
  every symbol the quotes of its providers are fetched and aggregated, each quote is compared with the
  record of its pair, and the ones that pass the policy are submitted to the feed contract in one
  batch, or one by one when the batch cannot be used.

  The state is the object of records by storage key, which the handler mutates in place: an exception
  leaves the mutations done so far. Parameters (\<open>feed_env\<close>) are the provider calls behind
  \<open>fetchProviderJSON\<close> with the pair of the request, the signers, the relay of an invocation to the
  chain (which may answer depending on the invocations before), \<open>Date.parse\<close> and the clock, read once.
  A number with a fraction enters a record through \<open>fe_fraction\<close>, since the numbers of a dynamic value
  are integers.
\<close>

section \<open>Data\<close>

record provider_response =
  po_ok :: bool
  po_error_message :: string
  po_data :: jsv
  po_date_header :: string
  po_pair :: string

record signed_result =
  sg_signature :: string
  sg_public_key :: string
  sg_attestation_hash :: string

record feed_quote =
  fq_feed_id :: string
  fq_pair :: string
  fq_provider_pair :: string
  fq_display_symbol :: string
  fq_unit_label :: string
  fq_provider :: string
  fq_raw_price :: string
  fq_price_transform :: string
  fq_price_multiplier :: rat
  fq_price :: string
  fq_decimals :: nat
  fq_timestamp :: int
  fq_signature :: string
  fq_public_key :: string
  fq_attestation_hash :: string
  fq_feed_signature :: string
  fq_feed_signer :: string

datatype neo_param = PString string | PInteger string | PByteArray string | PArray "neo_param list"

record invocation =
  iv_request_id :: string
  iv_contract :: string
  iv_method :: string
  iv_params :: "neo_param list"
  iv_wait :: bool
  iv_timeout_ms :: int
  iv_rpc_url :: string
  iv_signing :: "(string \<times> string) list"

record relay_answer =
  ra_status :: int
  ra_body :: jsv

record feed_env =
  fe_pe :: process_env
  fe_registry :: jsv
  fe_date_parse :: "string \<Rightarrow> rat option"
  fe_now :: int
  fe_fetch :: "string \<Rightarrow> string \<Rightarrow> provider_response result"
  fe_sign_result :: "feed_quote \<Rightarrow> signed_result result"
  fe_sign_bytes :: "string \<Rightarrow> (string \<times> string) option"
  fe_relay :: "invocation list \<Rightarrow> invocation \<Rightarrow> relay_answer result"
  fe_fraction :: "deviation \<Rightarrow> jsv"
  fe_dataFeedHash :: string
  fe_hasTarget :: bool
  fe_neoContext :: "string option"

section \<open>Quotes\<close>

text \<open>The first of every id, in order.\<close>

fun dedupeProviderIds :: "string list \<Rightarrow> string list \<Rightarrow> string list" where
  "dedupeProviderIds seen [] = []"
| "dedupeProviderIds seen (p # ps) =
     (if p \<in> set seen then dedupeProviderIds seen ps else p # dedupeProviderIds (p # seen) ps)"

definition parseProviderList :: "jsv \<Rightarrow> string list \<Rightarrow> string list" where
  "parseProviderList v fallback = (case v of
       JArr vs \<Rightarrow> dedupeProviderIds [] (filter (\<lambda>s. s \<noteq> []) (map (\<lambda>e. to_lower (trimValue e)) vs))
     | _ \<Rightarrow> let raw = trimValue v
           in if raw = [] then fallback
              else dedupeProviderIds [] (filter (\<lambda>s. s \<noteq> []) (map (\<lambda>e. to_lower (trimValue (JStr e))) (js_split CHR '','' raw))))"

definition resolveRequestedProviders :: "feed_env \<Rightarrow> jsv \<Rightarrow> string \<Rightarrow> string list" where
  "resolveRequestedProviders fe options symbol =
     (let inferred = to_lower (js_trim (inferProviderIdFromPairSymbol (JStr symbol)));
          explicitProviders = parseProviderList (js_or (getp options ''providers'') (getp options ''provider_list'')) [];
          explicitProvider = to_lower (trimValue (js_or (getp options ''provider'') (js_or (getp options ''source'') (JStr []))));
          configured = parseProviderList
            (JStr (envForNetwork (fe_pe fe) (resolveFeedNetwork (fe_pe fe) options) [''MORPHEUS_FEED_PROVIDERS''])) [];
          available = getFeedProvidersForPair (fe_registry fe) (JStr symbol)
      in if inferred \<noteq> [] then [inferred]
         else if explicitProviders \<noteq> [] then explicitProviders
         else if explicitProvider \<noteq> [] \<and> explicitProvider \<noteq> ''all'' then [explicitProvider]
         else if configured \<noteq> [] then filter (\<lambda>p. available = [] \<or> p \<in> set available) configured
         else if available \<noteq> [] then available else [''twelvedata''])"

definition extractQuotePrice :: "jsv \<Rightarrow> jsv" where
  "extractQuotePrice data =
     js_nullish (getp data ''price'') (js_nullish (getp data ''value'') (js_nullish (getp data ''close'')
       (js_nullish (getp (getp data ''data'') ''amount'') JNull)))"

text \<open>\<open>new Date(t).toISOString()\<close> as the instant it denotes; an instant out of range throws.\<close>

definition iso_instant :: "rat \<Rightarrow> int result" where
  "iso_instant t =
     (if \<bar>t\<bar> \<le> 8640000000000000 then Inr (if 0 \<le> t then \<lfloor>t\<rfloor> else \<lceil>t\<rceil>) else Inl ''Invalid time value'')"

definition upstream_number :: "jsv \<Rightarrow> rat option" where
  "upstream_number v = (case js_real v of Some ts \<Rightarrow> if truthy v \<and> 0 < ts then Some (if ts < 4102444800 then ts * 1000 else ts) else None | None \<Rightarrow> None)"

definition upstream_date :: "feed_env \<Rightarrow> jsv \<Rightarrow> rat option" where
  "upstream_date fe v = (if truthy v then fe_date_parse fe (js_string v) else None)"

definition extractUpstreamTimestamp :: "feed_env \<Rightarrow> provider_response \<Rightarrow> int result" where
  "extractUpstreamTimestamp fe response =
     (case upstream_date fe (getp (po_data response) ''datetime'') of Some t \<Rightarrow> iso_instant t
      | None \<Rightarrow> (case upstream_number (getp (po_data response) ''timestamp'') of Some t \<Rightarrow> iso_instant t
      | None \<Rightarrow> (case upstream_number (getp (po_data response) ''time'') of Some t \<Rightarrow> iso_instant t
      | None \<Rightarrow> (case upstream_date fe (JStr (po_date_header response)) of Some t \<Rightarrow> iso_instant t
      | None \<Rightarrow> Inr (fe_now fe)))))"

definition resolveQuoteForProvider :: "feed_env \<Rightarrow> string \<Rightarrow> string \<Rightarrow> feed_quote result" where
  "resolveQuoteForProvider fe symbol provider =
     bind_result (fe_fetch fe symbol provider) (\<lambda>response.
       if \<not> po_ok response then Inl (or_str (po_error_message response) (provider @ '' fetch failed''))
       else
         let pair = or_str (po_pair response) (normalizePairSymbol (JStr symbol));
             storagePair = getFeedStoragePair (JStr provider) (JStr pair);
             rawPrice = extractQuotePrice (po_data response);
             multiplier = getFeedPriceMultiplier (fe_registry fe) (JStr storagePair);
             transform = getFeedPriceTransform (fe_registry fe) (JStr storagePair)
         in if rawPrice = JNull \<or> rawPrice = JUndef \<or> rawPrice = JStr [] then Inl (provider @ '' response missing price'')
            else bind_result (transformDecimalString (JStr (js_string rawPrice)) transform multiplier) (\<lambda>price.
              bind_result (extractUpstreamTimestamp fe response) (\<lambda>timestamp.
                let quote = \<lparr>fq_feed_id = provider @ '':'' @ pair, fq_pair = storagePair, fq_provider_pair = pair,
                      fq_display_symbol = getFeedDisplaySymbol (fe_registry fe) (JStr storagePair),
                      fq_unit_label = getFeedUnitLabel (fe_registry fe) (JStr storagePair), fq_provider = provider,
                      fq_raw_price = js_string rawPrice, fq_price_transform = transform, fq_price_multiplier = multiplier,
                      fq_price = price, fq_decimals = FEED_PRICE_DECIMALS, fq_timestamp = timestamp, fq_signature = [],
                      fq_public_key = [], fq_attestation_hash = [], fq_feed_signature = [], fq_feed_signer = []\<rparr>
                in bind_result (fe_sign_result fe quote) (\<lambda>sig.
                     Inr (quote\<lparr>fq_signature := sg_signature sig, fq_public_key := sg_public_key sig,
                                fq_attestation_hash := sg_attestation_hash sig\<rparr>)))))"

record quote_set =
  qs_pair :: string
  qs_providers :: "string list"
  qs_quotes :: "feed_quote list"
  qs_errors :: "(string \<times> string) list"
  qs_aggregation :: "aggregation option"

text \<open>The fulfilled and the rejected calls of \<open>Promise.allSettled\<close>, both in the order of the providers.\<close>

fun settled_quotes :: "(string \<times> feed_quote result) list \<Rightarrow> feed_quote list \<times> (string \<times> string) list" where
  "settled_quotes [] = ([], [])"
| "settled_quotes ((p, Inr q) # rs) = (q # fst (settled_quotes rs), snd (settled_quotes rs))"
| "settled_quotes ((p, Inl e) # rs) = (fst (settled_quotes rs), (p, e) # snd (settled_quotes rs))"

definition aggregation_options :: "feed_env \<Rightarrow> jsv \<Rightarrow> aggregate_options" where
  "aggregation_options fe options =
     \<lparr>ao_method = (if to_lower (trimValue (js_or (getp options ''aggregation_method'')
            (js_or (JStr (env (fe_pe fe) [''MORPHEUS_AGGREGATION_METHOD''])) (JStr ''median'')))) = ''trimmed-mean''
          then ''trimmed-mean'' else ''median''),
      ao_maxDeviationPct = 25, ao_minProviders = 1\<rparr>"

definition fetchPriceQuotes :: "feed_env \<Rightarrow> jsv \<Rightarrow> string \<Rightarrow> quote_set result" where
  "fetchPriceQuotes fe options symbol =
     (let providers = resolveRequestedProviders fe options symbol;
          normalizedPair = normalizePairSymbol (JStr symbol);
          (quotes, errors) = settled_quotes (map (\<lambda>p. (p, resolveQuoteForProvider fe symbol p)) providers)
      in if providers = [] then Inl (''no providers configured for '' @ symbol)
         else bind_result
           (if 2 \<le> length quotes
            then map_sum id Some (aggregateQuotes (aggregation_options fe options)
                   (map (\<lambda>q. \<lparr>pq_provider = fq_provider q, pq_price = js_float (fq_price q)\<rparr>) quotes))
            else Inr None)
           (\<lambda>aggregation. Inr \<lparr>
              qs_pair = (case providers of [p] \<Rightarrow> getFeedStoragePair (JStr p) (JStr normalizedPair) | _ \<Rightarrow> normalizedPair),
              qs_providers = providers, qs_quotes = quotes, qs_errors = errors, qs_aggregation = aggregation\<rparr>))"

section \<open>Records\<close>

definition buildRoundId :: "int \<Rightarrow> jsv option \<Rightarrow> string" where
  "buildRoundId now previousRecord =
     (case previousRecord of
        None \<Rightarrow> show_int (now div 1000)
      | Some r \<Rightarrow> if truthy (getp r ''round_id'') then js_string (JNum (js_add (js_to_number (getp r ''round_id'')) (Fin 1)))
                 else show_int (now div 1000))"

definition buildCanonicalAggregateStorageKey :: "string \<Rightarrow> string" where
  "buildCanonicalAggregateStorageKey pair = ''AGG:'' @ normalizeFeedPairSymbol (JStr pair)"

definition strings :: "string list \<Rightarrow> jsv" where
  "strings ss = JArr (map JStr ss)"

definition canonical_price :: "rat \<Rightarrow> string result" where
  "canonical_price price =
     map_sum id (\<lambda>units. integerToDecimalString (JStr units) FEED_PRICE_DECIMALS)
       (decimalToIntegerString (JStr (toFixed FEED_PRICE_DECIMALS price)) FEED_PRICE_DECIMALS)"

definition buildCanonicalAggregateRecord ::
  "feed_env \<Rightarrow> string \<Rightarrow> aggregation \<Rightarrow> jsv option \<Rightarrow> (string \<times> jsv) option result" where
  "buildCanonicalAggregateRecord fe pair aggregation previousRecord =
     (if \<not> meetsMinProviders aggregation CANONICAL_AGGREGATE_MIN_PROVIDERS then Inr None
      else
        let storageKey = buildCanonicalAggregateStorageKey pair
        in bind_result (canonical_price (ag_price aggregation)) (\<lambda>price.
           bind_result (decimalToIntegerString (JStr price) FEED_PRICE_DECIMALS) (\<lambda>units.
             Inr (Some (storageKey, JObj (spread
               (case previousRecord of Some r \<Rightarrow> own_entries r | None \<Rightarrow> [])
               [(''storage_pair'', JStr storageKey), (''pair'', JStr (normalizeFeedPairSymbol (JStr pair))),
                (''aggregate'', JBool True), (''aggregation_method'', JStr (ag_method aggregation)),
                (''providers_used'', strings (ag_providers_used aggregation)),
                (''providers_rejected'', strings (ag_providers_rejected aggregation)),
                (''provider_count'', JNum (Fin (int (countDistinctProviders aggregation)))),
                (''deviation_pct'', fe_fraction fe (ag_deviation_pct aggregation)),
                (''confidence'', JStr (ag_confidence aggregation)),
                (''price'', JStr price), (''price_units'', JStr units),
                (''round_id'', JStr (buildRoundId (fe_now fe) previousRecord)),
                (''last_observed_price'', JStr price), (''last_observed_price_units'', JStr units),
                (''last_observed_at_ms'', JNum (Fin (fe_now fe))),
                (''price_scale_decimals'', JNum (Fin (int FEED_PRICE_DECIMALS)))]))))))"

type_synonym records = "(string \<times> jsv) list"

text \<open>\<open>{ ...(state.records[key] || {}), ...(onchain[key] || {}) }\<close>, absent when it has no members.\<close>

definition record_of :: "records \<Rightarrow> string \<Rightarrow> (string \<times> jsv) list" where
  "record_of rs key = (case obj_get rs key of Some r \<Rightarrow> own_entries r | None \<Rightarrow> [])"

definition previous_record :: "records \<Rightarrow> records \<Rightarrow> string \<Rightarrow> jsv option" where
  "previous_record recs onchain key =
     (let r = spread (record_of recs key) (record_of onchain key) in if r = [] then None else Some (JObj r))"

text \<open>The members every branch of the handler writes for an observed quote.\<close>

definition observed_members :: "feed_quote \<Rightarrow> string \<Rightarrow> string \<Rightarrow> (string \<times> jsv) list" where
  "observed_members quote storagePair units =
     [(''provider'', JStr (fq_provider quote)), (''pair'', JStr (fq_pair quote)), (''storage_pair'', JStr storagePair),
      (''last_observed_price'', JStr (fq_price quote)), (''last_observed_price_units'', JStr units),
      (''last_observed_at_ms'', JNum (Fin (fq_timestamp quote))),
      (''price_scale_decimals'', JNum (Fin (int FEED_PRICE_DECIMALS)))]"

definition observed_record :: "jsv option \<Rightarrow> feed_quote \<Rightarrow> string \<Rightarrow> jsv result" where
  "observed_record previous quote storagePair =
     bind_result (decimalToIntegerString (JStr (fq_price quote)) (fq_decimals quote)) (\<lambda>units.
       Inr (JObj (spread (case previous of Some r \<Rightarrow> own_entries r | None \<Rightarrow> []) (observed_members quote storagePair units))))"

section \<open>Submission\<close>

record feed_update =
  fu_quote :: feed_quote
  fu_storagePair :: string
  fu_roundId :: string
  fu_sourceSetId :: jsnum
  fu_timestampSec :: int
  fu_previousRecord :: "jsv option"

definition buildCanonicalFeedMessage :: "string \<Rightarrow> string \<Rightarrow> string \<Rightarrow> string \<Rightarrow> string" where
  "buildCanonicalFeedMessage storagePair priceUnits timestampSec roundId =
     storagePair @ ''|'' @ priceUnits @ ''|'' @ timestampSec @ ''|'' @ roundId"

definition signFeedUpdate :: "feed_env \<Rightarrow> string \<Rightarrow> string \<Rightarrow> string \<Rightarrow> string \<Rightarrow> (string \<times> string) option" where
  "signFeedUpdate fe storagePair priceUnits timestampSec roundId =
     (case fe_sign_bytes fe (buildCanonicalFeedMessage storagePair priceUnits timestampSec roundId) of
        None \<Rightarrow> None
      | Some (signature, key) \<Rightarrow> if js_trim signature = [] then None else Some (js_trim signature, js_trim key))"

definition buildFeedUpdateInvocation :: "neo_param list \<Rightarrow> (string \<times> string) option \<Rightarrow> string \<times> neo_param list" where
  "buildFeedUpdateInvocation baseParams sig =
     (case sig of
        Some (signature, _) \<Rightarrow>
          if js_trim signature \<noteq> [] then (''updateFeedSigned'', baseParams @ [PByteArray signature]) else (''updateFeed'', baseParams)
      | None \<Rightarrow> (''updateFeed'', baseParams))"

definition buildNeoN3RelaySigningPayload :: "jsv \<Rightarrow> (string \<times> string) list" where
  "buildNeoN3RelaySigningPayload payload =
     (let signingKey = trimValue (js_or (getp payload ''private_key'') (getp payload ''signing_key''));
          wif = trimValue (getp payload ''wif'')
      in (if signingKey = [] then [] else [(''private_key'', signingKey)]) @ (if wif = [] then [] else [(''wif'', wif)]))"

definition feed_invocation :: "feed_env \<Rightarrow> jsv \<Rightarrow> string \<Rightarrow> string \<Rightarrow> neo_param list \<Rightarrow> invocation" where
  "feed_invocation fe payload label method params =
     \<lparr>iv_request_id = or_str (trimValue (getp payload ''request_id'')) (''pricefeed:'' @ label @ '':'' @ show_int (fe_now fe)),
      iv_contract = fe_dataFeedHash fe, iv_method = method, iv_params = params,
      iv_wait = resolveFeedSubmissionWait payload,
      iv_timeout_ms = resolveFeedSubmissionWaitTimeoutMs (fe_pe fe) payload,
      iv_rpc_url = (case fe_neoContext fe of Some url \<Rightarrow> url | None \<Rightarrow> []),
      iv_signing = buildNeoN3RelaySigningPayload payload\<rparr>"

text \<open>A status of 400 or more throws the error of the body, or the given text.\<close>

definition checked :: "string \<Rightarrow> relay_answer result \<Rightarrow> jsv result" where
  "checked text answer = bind_result answer (\<lambda>a.
     if 400 \<le> ra_status a then Inl (js_string (js_or (getp (ra_body a) ''error'') (JStr text))) else Inr (ra_body a))"

text \<open>The trace is the list of relayed invocations; a relay is the only effect.\<close>

type_synonym 'a relayed = "'a result \<times> invocation list"

definition relay :: "feed_env \<Rightarrow> string \<Rightarrow> invocation \<Rightarrow> invocation list \<Rightarrow> jsv relayed" where
  "relay fe text iv tr = (checked text (fe_relay fe tr iv), tr @ [iv])"

definition submitQuoteToN3 :: "feed_env \<Rightarrow> jsv \<Rightarrow> feed_update \<Rightarrow> invocation list \<Rightarrow> (jsv \<times> feed_update) relayed" where
  "submitQuoteToN3 fe payload u tr =
     (case decimalToIntegerString (JStr (fq_price (fu_quote u))) (fq_decimals (fu_quote u)) of
        Inl e \<Rightarrow> (Inl e, tr)
      | Inr priceUnits \<Rightarrow>
          let timestamp = show_int (fu_timestampSec u);
              sig = signFeedUpdate fe (fu_storagePair u) priceUnits timestamp (fu_roundId u);
              (method, params) = buildFeedUpdateInvocation
                [PString (fu_storagePair u), PInteger (fu_roundId u), PInteger priceUnits, PInteger timestamp,
                 PByteArray (fq_attestation_hash (fu_quote u)), PInteger (js_string (JNum (fu_sourceSetId u)))] sig
          in case relay fe ''Neo N3 feed submit failed'' (feed_invocation fe payload (fu_storagePair u) method params) tr of
               (Inl e, tr') \<Rightarrow> (Inl e, tr')
             | (Inr body, tr') \<Rightarrow>
                 (Inr (body, case sig of None \<Rightarrow> u
                    | Some (signature, key) \<Rightarrow>
                        u\<lparr>fu_quote := (fu_quote u)\<lparr>fq_feed_signature := signature, fq_feed_signer := key\<rparr>\<rparr>), tr'))"

definition SIGNED_FEED_REQUIRES_PER_FEED_PATH :: string where
  "SIGNED_FEED_REQUIRES_PER_FEED_PATH = ''neo_n3_updatefeeds_requires_signed_path''"

fun all_units :: "feed_update list \<Rightarrow> string list result" where
  "all_units [] = Inr []"
| "all_units (u # us) =
     bind_result (decimalToIntegerString (JStr (fq_price (fu_quote u))) (fq_decimals (fu_quote u))) (\<lambda>x.
       bind_result (all_units us) (\<lambda>xs. Inr (x # xs)))"

definition batch_params :: "feed_update list \<Rightarrow> string list \<Rightarrow> neo_param list" where
  "batch_params updates units =
     [PArray (map (\<lambda>u. PString (fu_storagePair u)) updates), PArray (map (\<lambda>u. PInteger (fu_roundId u)) updates),
      PArray (map PInteger units), PArray (map (\<lambda>u. PInteger (show_int (fu_timestampSec u))) updates),
      PArray (map (\<lambda>u. PByteArray (fq_attestation_hash (fu_quote u))) updates),
      PArray (map (\<lambda>u. PInteger (js_string (JNum (fu_sourceSetId u)))) updates)]"

text \<open>The probe signs the first update; a signature means that the batch entry point cannot be used.\<close>

definition probe :: "feed_env \<Rightarrow> feed_update list \<Rightarrow> bool result" where
  "probe fe updates = (case updates of
       [] \<Rightarrow> Inl ''decimal value required''
     | u # _ \<Rightarrow> bind_result (decimalToIntegerString (JStr (fq_price (fu_quote u))) (fq_decimals (fu_quote u))) (\<lambda>units.
         Inr (signFeedUpdate fe (fu_storagePair u) units (show_int (fu_timestampSec u)) (fu_roundId u) \<noteq> None)))"

definition submitQuotesToN3 :: "feed_env \<Rightarrow> jsv \<Rightarrow> feed_update list \<Rightarrow> invocation list \<Rightarrow> jsv relayed" where
  "submitQuotesToN3 fe payload updates tr =
     (case probe fe updates of
        Inl e \<Rightarrow> (Inl e, tr)
      | Inr True \<Rightarrow> (Inl SIGNED_FEED_REQUIRES_PER_FEED_PATH, tr)
      | Inr False \<Rightarrow> (case all_units updates of
            Inl e \<Rightarrow> (Inl e, tr)
          | Inr units \<Rightarrow> relay fe ''Neo N3 batch feed submit failed''
              (feed_invocation fe payload ''batch'' ''updateFeeds'' (batch_params updates units)) tr))"

text \<open>
  The pieces of the two regular expressions over an error message: a literal, one or more blanks, an
  optional character of a set, and the rest of a line. The typographic apostrophe is outside Latin-1.
\<close>

datatype piece = Lit string | Blanks | Maybe "char list" | Line

function (sequential) matches :: "piece list \<Rightarrow> string \<Rightarrow> bool" where
  "matches [] s = True"
| "matches (Lit l # ps) s = (js_starts_with s l \<and> matches ps (drop (length l) s))"
| "matches (Blanks # ps) [] = False"
| "matches (Blanks # ps) (c # s) = (is_ws c \<and> (matches ps s \<or> matches (Blanks # ps) s))"
| "matches (Maybe cs # ps) [] = matches ps []"
| "matches (Maybe cs # ps) (c # s) = (matches ps (c # s) \<or> c \<in> set cs \<and> matches ps s)"
| "matches (Line # ps) [] = matches ps []"
| "matches (Line # ps) (c # s) = (matches ps (c # s) \<or> c \<notin> {CHR 0x0A, CHR 0x0D} \<and> matches (Line # ps) s)"
  by pat_completeness auto
termination by (relation "measures [\<lambda>(ps, s). length ps, \<lambda>(ps, s). length s]") auto

definition search :: "piece list \<Rightarrow> string \<Rightarrow> bool" where
  "search ps s = (\<exists>i \<in> set [0..<length s + 1]. matches ps (drop i s))"

definition quote_marks :: "char list" where
  "quote_marks = [CHR 0x22, CHR 0x27]"

definition apostrophe :: "char list" where
  "apostrophe = [CHR 0x27]"

definition isMissingNeoN3BatchUpdateMethod :: "string \<Rightarrow> bool" where
  "isMissingNeoN3BatchUpdateMethod message =
     (js_includes message ''method not found: updatefeeds/6''
      \<or> search [Lit ''method'', Blanks, Maybe quote_marks, Lit ''updatefeeds'', Maybe quote_marks, Blanks, Lit ''with'', Blanks,
          Lit ''6'', Blanks, Lit ''parameter(s)'', Blanks, Lit ''doesn'', Maybe apostrophe, Lit ''t'', Blanks, Lit ''exist''] message
      \<or> search [Lit ''method'', Blanks, Maybe quote_marks, Lit ''updatefeeds'', Maybe quote_marks, Line, Lit ''doesn'',
          Maybe apostrophe, Lit ''t'', Blanks, Lit ''exist''] message)"

definition isUnauthorizedNeoN3BatchUpdate :: "string \<Rightarrow> bool" where
  "isUnauthorizedNeoN3BatchUpdate message =
     (js_includes message ''abortmsg is executed. reason: unauthorized'' \<or> message = ''unauthorized'')"

definition getRecoverableNeoN3BatchUpdateFailureReason :: "string \<Rightarrow> string option" where
  "getRecoverableNeoN3BatchUpdateFailureReason error =
     (let message = to_lower (js_trim error)
      in if message = SIGNED_FEED_REQUIRES_PER_FEED_PATH then Some SIGNED_FEED_REQUIRES_PER_FEED_PATH
         else if isMissingNeoN3BatchUpdateMethod message then Some ''neo_n3_updatefeeds_missing''
         else if isUnauthorizedNeoN3BatchUpdate message then Some ''neo_n3_updatefeeds_unauthorized''
         else None)"

fun submit_each :: "feed_env \<Rightarrow> jsv \<Rightarrow> feed_update list \<Rightarrow> invocation list \<Rightarrow> (jsv \<times> feed_update) list relayed" where
  "submit_each fe payload [] tr = (Inr [], tr)"
| "submit_each fe payload (u # us) tr =
     (case submitQuoteToN3 fe payload u tr of
        (Inl e, tr') \<Rightarrow> (Inl e, tr')
      | (Inr r, tr') \<Rightarrow> (case submit_each fe payload us tr' of
            (Inl e, tr'') \<Rightarrow> (Inl e, tr'')
          | (Inr rs, tr'') \<Rightarrow> (Inr (r # rs), tr'')))"

definition submitQuotesToN3WithFallback ::
  "feed_env \<Rightarrow> jsv \<Rightarrow> feed_update list \<Rightarrow> invocation list \<Rightarrow> (jsv \<times> feed_update list) relayed" where
  "submitQuotesToN3WithFallback fe payload updates tr =
     (case submitQuotesToN3 fe payload updates tr of
        (Inr body, tr') \<Rightarrow> (Inr (body, updates), tr')
      | (Inl e, tr') \<Rightarrow> (case getRecoverableNeoN3BatchUpdateFailureReason e of
            None \<Rightarrow> (Inl e, tr')
          | Some reason \<Rightarrow> (case submit_each fe payload updates tr' of
                (Inl e', tr'') \<Rightarrow> (Inl e', tr'')
              | (Inr rs, tr'') \<Rightarrow>
                  (Inr (JObj [(''mode'', JStr ''single_fallback''), (''reason'', JStr reason),
                     (''txs'', JArr (map (\<lambda>(tx, u). JObj [(''storage_pair'', JStr (fu_storagePair u)), (''tx'', tx)]) rs))],
                   map snd rs), tr''))))"

section \<open>One run\<close>

datatype feed_error =
    NoQuotes string "string list" "(string \<times> string) list"
  | TimestampRejected string string string
  | SubmissionFailed string

record sync_result =
  sr_provider :: string
  sr_pair :: string
  sr_storage_pair :: string
  sr_relay_status :: string
  sr_skip_reason :: "string option"
  sr_change_bps :: "deviation option"
  sr_comparison_basis :: "string option"
  sr_aggregate :: "(string \<times> nat \<times> string) option"
  sr_quote :: "feed_quote option"
  sr_anchored_tx :: jsv

record feed_run =
  fr_records :: records
  fr_results :: "sync_result list"
  fr_updates :: "feed_update list"
  fr_errors :: "feed_error list"
  fr_aggregations :: "(string \<times> aggregation) list"

definition quote_result :: "feed_quote \<Rightarrow> string \<Rightarrow> string \<Rightarrow> string option \<Rightarrow> submit_decision \<Rightarrow> sync_result" where
  "quote_result quote storagePair status skip decision =
     \<lparr>sr_provider = fq_provider quote, sr_pair = fq_pair quote, sr_storage_pair = storagePair, sr_relay_status = status,
      sr_skip_reason = skip, sr_change_bps = sd_change_bps decision,
      sr_comparison_basis = map_option (\<lambda>_. ''current-chain-price'') (sd_change_bps decision), sr_aggregate = None,
      sr_quote = Some quote, sr_anchored_tx = JUndef\<rparr>"

definition skip_quote ::
  "feed_quote \<Rightarrow> string \<Rightarrow> jsv option \<Rightarrow> string \<Rightarrow> submit_decision \<Rightarrow> feed_error list \<Rightarrow> feed_run \<Rightarrow> unit result \<times> feed_run" where
  "skip_quote quote storagePair previous reason decision errors run =
     (case observed_record previous quote storagePair of
        Inl e \<Rightarrow> (Inl e, run)
      | Inr r \<Rightarrow> (Inr (), run\<lparr>fr_records := obj_set storagePair r (fr_records run),
                             fr_results := fr_results run @ [quote_result quote storagePair ''skipped'' (Some reason) decision],
                             fr_errors := fr_errors run @ errors\<rparr>))"

definition pair_policy :: "feed_env \<Rightarrow> jsv \<Rightarrow> string \<Rightarrow> sync_policy \<Rightarrow> sync_policy" where
  "pair_policy fe payload storagePair policy =
     policy\<lparr>sp_thresholdBps := (case resolvePairThresholdBps (fe_registry fe) storagePair payload of
                                  Some t \<Rightarrow> t | None \<Rightarrow> sp_thresholdBps policy)\<rparr>"

text \<open>\<open>Number(previousRecord?.timestamp) || 0\<close>.\<close>

definition prevOnchainTs :: "jsv option \<Rightarrow> rat option" where
  "prevOnchainTs previous = (case previous of
       None \<Rightarrow> Some 0
     | Some r \<Rightarrow> (case js_real (getp r ''timestamp'') of Some t \<Rightarrow> Some t | None \<Rightarrow> Some 0))"

definition process_quote ::
  "feed_env \<Rightarrow> jsv \<Rightarrow> sync_policy \<Rightarrow> records \<Rightarrow> string \<Rightarrow> feed_quote \<Rightarrow> feed_run \<Rightarrow> unit result \<times> feed_run" where
  "process_quote fe payload policy onchain symbol quote run =
     (let storagePair = getFeedStoragePair (JStr (fq_provider quote)) (JStr (fq_pair quote));
          previous = previous_record (fr_records run) onchain storagePair
      in case shouldSubmitFeed (fe_date_parse fe) (fe_now fe) (fq_price quote) (fq_decimals quote) previous
                (pair_policy fe payload storagePair policy) (truthy (getp payload ''force'')) of
           Inl e \<Rightarrow> (Inl e, run)
         | Inr decision \<Rightarrow>
             let roundId = or_str (trimValue (getp payload ''round_id'')) (buildRoundId (fe_now fe) previous);
                 sourceSetId = js_to_number (js_nullish (getp payload ''source_set_id'')
                   (JNum (Fin (getSourceSetIdForProvider (JStr (fq_provider quote)) 0))));
                 nowSec = fe_now fe div 1000
             in case clampFeedTimestampSec (Some (of_int (fq_timestamp quote div 1000))) (prevOnchainTs previous) nowSec
                       (resolveFeedTimestampMaxFutureSeconds (fe_pe fe)) (resolveFeedTimestampFutureSkewSeconds (fe_pe fe)) of
                  Inl e \<Rightarrow> skip_quote quote storagePair previous ''upstream_timestamp_rejected'' decision
                    [TimestampRejected symbol storagePair e] run
                | Inr timestampSec \<Rightarrow>
                    if \<not> sd_allow decision then skip_quote quote storagePair previous (sd_reason decision) decision [] run
                    else (Inr (), run\<lparr>
                      fr_updates := fr_updates run @ [\<lparr>fu_quote = quote, fu_storagePair = storagePair, fu_roundId = roundId,
                        fu_sourceSetId = sourceSetId, fu_timestampSec = timestampSec, fu_previousRecord = previous\<rparr>],
                      fr_results := fr_results run @ [quote_result quote storagePair ''queued'' None decision]\<rparr>))"

text \<open>A loop that stops at the first exception, keeping what was done.\<close>

fun each :: "('a \<Rightarrow> 's \<Rightarrow> unit result \<times> 's) \<Rightarrow> 'a list \<Rightarrow> 's \<Rightarrow> unit result \<times> 's" where
  "each f [] s = (Inr (), s)"
| "each f (x # xs) s = (case f x s of (Inl e, s') \<Rightarrow> (Inl e, s') | (Inr _, s') \<Rightarrow> each f xs s')"

definition record_aggregate :: "feed_env \<Rightarrow> records \<Rightarrow> string \<Rightarrow> aggregation option \<Rightarrow> feed_run \<Rightarrow> unit result \<times> feed_run" where
  "record_aggregate fe onchain symbol aggregation run =
     (case aggregation of
        None \<Rightarrow> (Inr (), run)
      | Some a \<Rightarrow>
          let run' = run\<lparr>fr_aggregations := obj_set symbol a (fr_aggregations run)\<rparr>
          in case buildCanonicalAggregateRecord fe symbol a
                    (previous_record (fr_records run) onchain (buildCanonicalAggregateStorageKey symbol)) of
               Inl e \<Rightarrow> (Inl e, run')
             | Inr None \<Rightarrow> (Inr (), run')
             | Inr (Some (key, r)) \<Rightarrow>
                 (Inr (), run'\<lparr>fr_records := obj_set key r (fr_records run),
                    fr_results := fr_results run @ [\<lparr>sr_provider = ''aggregate'', sr_pair = normalizeFeedPairSymbol (JStr symbol),
                      sr_storage_pair = key, sr_relay_status = ''aggregated'', sr_skip_reason = None, sr_change_bps = None,
                      sr_comparison_basis = None,
                      sr_aggregate = Some (ag_method a, countDistinctProviders a, ag_confidence a), sr_quote = None, sr_anchored_tx = JUndef\<rparr>]\<rparr>))"

definition process_symbol ::
  "feed_env \<Rightarrow> jsv \<Rightarrow> sync_policy \<Rightarrow> records \<Rightarrow> string \<Rightarrow> feed_run \<Rightarrow> unit result \<times> feed_run" where
  "process_symbol fe payload policy onchain symbol run =
     (case fetchPriceQuotes fe payload symbol of
        Inl e \<Rightarrow> (Inl e, run)
      | Inr qs \<Rightarrow>
          if qs_quotes qs = [] then (Inr (), run\<lparr>fr_errors := fr_errors run @ [NoQuotes symbol (qs_providers qs) (qs_errors qs)]\<rparr>)
          else case record_aggregate fe onchain symbol (qs_aggregation qs) run of
              (Inl e, run') \<Rightarrow> (Inl e, run')
            | (Inr _, run') \<Rightarrow> each (process_quote fe payload policy onchain symbol) (qs_quotes qs) run')"

definition buildFeedSignatureFields :: "feed_quote \<Rightarrow> (string \<times> jsv) list" where
  "buildFeedSignatureFields quote =
     (let signature = js_trim (or_str (fq_feed_signature quote) (fq_signature quote));
          signer = js_trim (or_str (fq_feed_signer quote) (fq_public_key quote))
      in (if signature = [] then [] else [(''signature'', JStr signature)])
         @ (if signer = [] then [] else [(''signer_public_key'', JStr signer)]))"

definition submitted_record :: "feed_env \<Rightarrow> feed_update \<Rightarrow> jsv result" where
  "submitted_record fe u =
     (let quote = fu_quote u
      in bind_result (decimalToIntegerString (JStr (fq_price quote)) (fq_decimals quote)) (\<lambda>units.
           Inr (JObj ([(''provider'', JStr (fq_provider quote)), (''pair'', JStr (fq_pair quote)),
             (''storage_pair'', JStr (fu_storagePair u)), (''price'', JStr (fq_price quote)), (''price_units'', JStr units),
             (''round_id'', JStr (fu_roundId u)), (''source_set_id'', JNum (fu_sourceSetId u)),
             (''last_submitted_at_ms'', JNum (Fin (fe_now fe))), (''last_observed_price'', JStr (fq_price quote)),
             (''last_observed_price_units'', JStr units), (''last_observed_at_ms'', JNum (Fin (fq_timestamp quote))),
             (''attestation_hash'', JStr (fq_attestation_hash quote)),
             (''price_scale_decimals'', JNum (Fin (int FEED_PRICE_DECIMALS)))] @ buildFeedSignatureFields quote))))"

definition record_update :: "feed_env \<Rightarrow> bool \<Rightarrow> feed_update \<Rightarrow> records \<Rightarrow> unit result \<times> records" where
  "record_update fe anchored u recs =
     (case (if anchored then submitted_record fe u else observed_record (fu_previousRecord u) (fu_quote u) (fu_storagePair u)) of
        Inl e \<Rightarrow> (Inl e, recs)
      | Inr r \<Rightarrow> (Inr (), obj_set (fu_storagePair u) r recs))"

definition finish_result :: "jsv \<Rightarrow> string \<Rightarrow> sync_result \<Rightarrow> sync_result" where
  "finish_result batchTx submissionIssue r =
     (if sr_relay_status r = ''queued''
      then r\<lparr>sr_relay_status := (if truthy batchTx then ''submitted'' else ''skipped''),
             sr_skip_reason := (if truthy batchTx then sr_skip_reason r
                else Some (if submissionIssue \<noteq> [] then ''submission_unavailable'' else ''submission_missing_tx'')),
             sr_anchored_tx := batchTx\<rparr>
      else r)"

record feed_response =
  fp_status :: int
  fp_batch_tx :: jsv
  fp_batch_count :: nat
  fp_results :: "sync_result list"
  fp_errors :: "feed_error list"
  fp_symbols :: "string list"
  fp_aggregations :: "(string \<times> aggregation) list"

definition resolveRequestedSymbols :: "feed_env \<Rightarrow> jsv \<Rightarrow> string list" where
  "resolveRequestedSymbols fe payload =
     (let listed = (case getp payload ''symbols'' of
            JArr vs \<Rightarrow> vs
          | v \<Rightarrow> map JStr (parseProviderList (js_or v (js_or (getp payload ''symbol_list'') (JStr []))) []))
      in if listed \<noteq> [] then map normalizePairSymbol listed
         else if trimValue (getp payload ''symbol'') \<noteq> [] then [normalizePairSymbol (getp payload ''symbol'')]
         else map (\<lambda>p. normalizePairSymbol (JStr p)) (getDefaultFeedSymbols (fe_registry fe)))"

text \<open>The submission of the queued updates, the issue that prevents it, and the errors it adds.\<close>

definition submit_updates :: "feed_env \<Rightarrow> jsv \<Rightarrow> feed_update list \<Rightarrow> (jsv \<times> feed_update list) relayed" where
  "submit_updates fe payload updates =
     (if updates \<noteq> [] \<and> resolveFeedSubmissionIssue (fe_hasTarget fe) (fe_neoContext fe) = []
      then submitQuotesToN3WithFallback fe payload updates [] else (Inr (JNull, updates), []))"

definition submission_issue :: "feed_env \<Rightarrow> feed_update list \<Rightarrow> string" where
  "submission_issue fe updates =
     (if updates \<noteq> [] then resolveFeedSubmissionIssue (fe_hasTarget fe) (fe_neoContext fe) else [])"

definition submission_errors :: "jsv \<Rightarrow> string \<Rightarrow> feed_update list \<Rightarrow> jsv \<Rightarrow> feed_error list" where
  "submission_errors payload issue updates batchTx =
     (if issue \<noteq> [] then [SubmissionFailed issue] else [])
     @ (if normalizeBooleanLike (js_nullish (getp payload ''require_submission'') (getp payload ''requireSubmission'')) False
           \<and> updates \<noteq> [] \<and> \<not> truthy batchTx \<and> issue = []
        then [SubmissionFailed ''feed batch submission returned no transaction metadata''] else [])"

text \<open>
  The part after the loop over the symbols: the answer, the records and the relayed invocations.
\<close>

definition finish_run :: "feed_env \<Rightarrow> jsv \<Rightarrow> string list \<Rightarrow> feed_run \<Rightarrow> feed_response result \<times> records \<times> invocation list" where
  "finish_run fe payload symbols run =
     (let issue = submission_issue fe (fr_updates run)
      in case submit_updates fe payload (fr_updates run) of
           (Inl e, tr) \<Rightarrow> (Inl e, fr_records run, tr)
         | (Inr (batchTx, updates), tr) \<Rightarrow>
             (case each (record_update fe (truthy batchTx)) updates (fr_records run) of
                (Inl e, recs) \<Rightarrow> (Inl e, recs, tr)
              | (Inr _, recs) \<Rightarrow>
                  (Inr \<lparr>fp_status = 200, fp_batch_tx = batchTx, fp_batch_count = length updates,
                        fp_results = map (finish_result batchTx issue) (fr_results run),
                        fp_errors = fr_errors run @ submission_errors payload issue (fr_updates run) batchTx,
                        fp_symbols = symbols, fp_aggregations = fr_aggregations run\<rparr>, recs, tr)))"

definition scoped_payload :: "feed_env \<Rightarrow> jsv \<Rightarrow> jsv" where
  "scoped_payload fe payload =
     (if truthy (getp payload ''network'') then payload
      else JObj (spread (own_entries payload) [(''network'', JStr (resolveFeedNetwork (fe_pe fe) payload))]))"

text \<open>\<open>load_onchain\<close> is the answer of \<open>loadOnchainFeedRecords\<close>: its records and its error.\<close>

definition handleOracleFeed ::
  "feed_env \<Rightarrow> records \<times> string option \<Rightarrow> jsv \<Rightarrow> records \<Rightarrow> feed_response result \<times> records \<times> invocation list" where
  "handleOracleFeed fe load_onchain payload recs =
     (let scoped = scoped_payload fe payload;
          symbols = resolveRequestedSymbols fe scoped;
          policy = buildSyncPolicy (fe_pe fe) scoped;
          (onchain, failure) = (if shouldLoadOnchainFeedBaseline scoped (recs \<noteq> []) then load_onchain else ([], None))
      in case (failure, recs, truthy (getp scoped ''force'')) of
           (Some e, [], False) \<Rightarrow>
             (Inr \<lparr>fp_status = 503, fp_batch_tx = JUndef, fp_batch_count = 0, fp_results = [],
                   fp_errors = [SubmissionFailed (''on-chain baseline unavailable: '' @ e)], fp_symbols = symbols,
                   fp_aggregations = []\<rparr>, recs, [])
         | _ \<Rightarrow>
             (case each (process_symbol fe scoped policy onchain) symbols
                     \<lparr>fr_records = recs, fr_results = [], fr_updates = [], fr_errors = [], fr_aggregations = []\<rparr> of
                (Inl e, run) \<Rightarrow> (Inl e, fr_records run, [])
              | (Inr _, run) \<Rightarrow> finish_run fe scoped symbols run))"

end
