(* ===== verification/Oracle_Feeds_Facts.thy ===== *)
theory Oracle_Feeds_Facts
  imports Oracle_Feeds
begin

text \<open>
  What a feed run does. The locale \<open>feed_invariant\<close> is the interface of the loop over symbols and
  quotes: a predicate that survives its three updates (a quote skipped, a quote queued, an aggregate
  recorded) holds after the loop. Its instances give the accounting of the quotes, the bounds on the
  submitted time stamps and the spacing of submissions across runs. The trace lemmas say which
  invocations reach the chain and what a signature covers.
\<close>

section \<open>The loop\<close>

lemma each_rule: "(\<And>x s. x \<in> set xs \<Longrightarrow> P s \<Longrightarrow> P (snd (f x s))) \<Longrightarrow> P s \<Longrightarrow> P (snd (each f xs s))"
proof (induction xs arbitrary: s)
  case (Cons x xs)
  have "P (snd (f x s))" using Cons.prems by simp
  moreover have "snd (each f (x # xs) s) = (if isl (fst (f x s)) then snd (f x s) else snd (each f xs (snd (f x s))))"
    by (auto split: prod.splits sum.splits)
  ultimately show ?case using Cons by simp
qed simp

definition skipped_run :: "feed_quote \<Rightarrow> string \<Rightarrow> jsv \<Rightarrow> string \<Rightarrow> submit_decision \<Rightarrow> feed_run \<Rightarrow> feed_run" where
  "skipped_run quote key r reason decision run =
     run\<lparr>fr_records := obj_set key r (fr_records run),
         fr_results := fr_results run @ [quote_result quote key ''skipped'' (Some reason) decision]\<rparr>"

definition queued_run :: "feed_update \<Rightarrow> submit_decision \<Rightarrow> feed_run \<Rightarrow> feed_run" where
  "queued_run u decision run =
     run\<lparr>fr_updates := fr_updates run @ [u],
         fr_results := fr_results run @ [quote_result (fu_quote u) (fu_storagePair u) ''queued'' None decision]\<rparr>"

text \<open>When \<open>process_quote\<close> queues an update, and with which fields.\<close>

definition queues :: "feed_env \<Rightarrow> jsv \<Rightarrow> sync_policy \<Rightarrow> records \<Rightarrow> feed_run \<Rightarrow> feed_update \<Rightarrow> submit_decision \<Rightarrow> bool" where
  "queues fe payload policy onchain run u decision =
     (fu_storagePair u = getFeedStoragePair (JStr (fq_provider (fu_quote u))) (JStr (fq_pair (fu_quote u)))
      \<and> fu_previousRecord u = previous_record (fr_records run) onchain (fu_storagePair u)
      \<and> shouldSubmitFeed (fe_date_parse fe) (fe_now fe) (fq_price (fu_quote u)) (fq_decimals (fu_quote u)) (fu_previousRecord u)
           (pair_policy fe payload (fu_storagePair u) policy) (truthy (getp payload ''force'')) = Inr decision
      \<and> sd_allow decision
      \<and> clampFeedTimestampSec (Some (of_int (fq_timestamp (fu_quote u) div 1000))) (prevOnchainTs (fu_previousRecord u))
           (fe_now fe div 1000) (resolveFeedTimestampMaxFutureSeconds (fe_pe fe))
           (resolveFeedTimestampFutureSkewSeconds (fe_pe fe)) = Inr (fu_timestampSec u))"

lemma process_quote_cases:
  obtains (failed) e where "process_quote fe payload policy onchain symbol quote run = (Inl e, run)"
  | (skipped) key r reason decision es where
      "process_quote fe payload policy onchain symbol quote run
         = (Inr (), skipped_run quote key r reason decision run\<lparr>fr_errors := es\<rparr>)"
      "observed_record (previous_record (fr_records run) onchain key) quote key = Inr r"
  | (queued) u decision where
      "process_quote fe payload policy onchain symbol quote run = (Inr (), queued_run u decision run)"
      "queues fe payload policy onchain run u decision" "fu_quote u = quote"
proof -
  let ?k = "getFeedStoragePair (JStr (fq_provider quote)) (JStr (fq_pair quote))"
  let ?prev = "previous_record (fr_records run) onchain ?k"
  let ?d = "shouldSubmitFeed (fe_date_parse fe) (fe_now fe) (fq_price quote) (fq_decimals quote) ?prev
    (pair_policy fe payload ?k policy) (truthy (getp payload ''force''))"
  let ?c = "clampFeedTimestampSec (Some (of_int (fq_timestamp quote div 1000))) (prevOnchainTs ?prev) (fe_now fe div 1000)
    (resolveFeedTimestampMaxFutureSeconds (fe_pe fe)) (resolveFeedTimestampFutureSkewSeconds (fe_pe fe))"
  have skip: thesis if "process_quote fe payload policy onchain symbol quote run = skip_quote quote ?k ?prev reason d es run" for reason d es
    using that failed skipped
    by (cases "observed_record ?prev quote ?k") (auto simp: skip_quote_def skipped_run_def)
  show ?thesis
  proof (cases ?d)
    case (Inl e)
    then show ?thesis using failed by (simp add: process_quote_def Let_def)
  next
    case d: (Inr d)
    show ?thesis
    proof (cases ?c)
      case (Inl e)
      then show ?thesis using d skip by (simp add: process_quote_def Let_def)
    next
      case c: (Inr ts)
      show ?thesis
      proof (cases "sd_allow d")
        case True
        then show ?thesis using d c
          by (intro queued [of "\<lparr>fu_quote = quote, fu_storagePair = ?k,
               fu_roundId = or_str (trimValue (getp payload ''round_id'')) (buildRoundId (fe_now fe) ?prev),
               fu_sourceSetId = js_to_number (js_nullish (getp payload ''source_set_id'')
                   (JNum (Fin (getSourceSetIdForProvider (JStr (fq_provider quote)) 0)))),
               fu_timestampSec = ts, fu_previousRecord = ?prev\<rparr>" d])
             (simp_all add: process_quote_def Let_def queued_run_def queues_def)
      next
        case False
        then show ?thesis using d c skip by (simp add: process_quote_def Let_def)
      qed
    qed
  qed
qed

locale feed_invariant =
  fixes fe :: feed_env and payload :: jsv and policy :: sync_policy and onchain :: records
    and I :: "feed_run \<Rightarrow> bool"
  assumes plain: "I run \<Longrightarrow> I (run\<lparr>fr_errors := es, fr_aggregations := as\<rparr>)"
    and skip: "I run \<Longrightarrow> observed_record (previous_record (fr_records run) onchain key) quote key = Inr r
      \<Longrightarrow> I (skipped_run quote key r reason decision run)"
    and queue: "I run \<Longrightarrow> queues fe payload policy onchain run u decision \<Longrightarrow> I (queued_run u decision run)"
    and aggregate: "I run
      \<Longrightarrow> buildCanonicalAggregateRecord fe symbol a (previous_record (fr_records run) onchain key) = Inr (Some (key, r))
      \<Longrightarrow> sr_relay_status x = ''aggregated'' \<Longrightarrow> sr_quote x = None
      \<Longrightarrow> I (run\<lparr>fr_records := obj_set key r (fr_records run), fr_results := fr_results run @ [x]\<rparr>)"
begin

lemma errors: "I run \<Longrightarrow> I (run\<lparr>fr_errors := es\<rparr>)"
  using plain [where run = run and es = es and as = "fr_aggregations run"] by simp

lemma aggregations: "I run \<Longrightarrow> I (run\<lparr>fr_aggregations := as\<rparr>)"
  using plain [where run = run and es = "fr_errors run" and as = as] by simp

lemma quote_step: "I run \<Longrightarrow> I (snd (process_quote fe payload policy onchain symbol quote run))"
  by (cases rule: process_quote_cases [of fe payload policy onchain symbol quote run])
     (auto intro: skip queue errors)

lemma canonical_key: "buildCanonicalAggregateRecord fe symbol a prev = Inr (Some (key, r)) \<Longrightarrow> key = buildCanonicalAggregateStorageKey symbol"
  by (auto simp: buildCanonicalAggregateRecord_def Let_def bind_result_eq_Inr split: if_splits)

lemma aggregate_step: "I run \<Longrightarrow> I (snd (record_aggregate fe onchain symbol aggregation run))"
  using aggregations [of run]
  by (auto simp: record_aggregate_def Let_def split: option.splits sum.splits
      dest: canonical_key intro!: aggregate [of "run\<lparr>fr_aggregations := _\<rparr>", simplified])

lemma symbol_step: "I run \<Longrightarrow> I (snd (process_symbol fe payload policy onchain symbol run))"
proof -
  assume I: "I run"
  show ?thesis
  proof (cases "fetchPriceQuotes fe payload symbol")
    case (Inr qs)
    obtain r run' where agg: "record_aggregate fe onchain symbol (qs_aggregation qs) run = (r, run')" by fastforce
    with aggregate_step [OF I] have "I run'" by (metis snd_conv)
    then have "I (snd (each (process_quote fe payload policy onchain symbol) (qs_quotes qs) run'))"
      by (rule each_rule [rotated]) (rule quote_step)
    with \<open>I run'\<close> I Inr agg show ?thesis by (cases r) (auto simp: process_symbol_def intro: errors)
  qed (use I in \<open>simp add: process_symbol_def\<close>)
qed

lemma symbols: "I run \<Longrightarrow> I (snd (each (process_symbol fe payload policy onchain) symbols run))"
  by (rule each_rule) (auto intro: symbol_step)

end

section \<open>Accounting of the quotes\<close>

text \<open>The queued results are the updates, in order; a skipped one has its reason.\<close>

definition queue_matches :: "feed_run \<Rightarrow> bool" where
  "queue_matches run =
     (map (\<lambda>r. (sr_storage_pair r, sr_quote r)) (filter (\<lambda>r. sr_relay_status r = ''queued'') (fr_results run))
        = map (\<lambda>u. (fu_storagePair u, Some (fu_quote u))) (fr_updates run)
      \<and> (\<forall>r \<in> set (fr_results run). sr_relay_status r \<in> {''queued'', ''skipped'', ''aggregated''}
           \<and> (sr_relay_status r = ''skipped'' \<longrightarrow> sr_skip_reason r \<noteq> None)))"

lemma queue_matches_init: "queue_matches \<lparr>fr_records = recs, fr_results = [], fr_updates = [], fr_errors = es, fr_aggregations = as\<rparr>"
  by (simp add: queue_matches_def)

interpretation queue_inv: feed_invariant fe payload policy onchain queue_matches for fe payload policy onchain
  by unfold_locales (auto simp: queue_matches_def skipped_run_def queued_run_def quote_result_def)

text \<open>What the time stamp of an update promises: above the last known one, and not ahead of the clock.\<close>

definition floor_ts :: "jsv option \<Rightarrow> int" where
  "floor_ts previous = (case prevOnchainTs previous of Some p \<Rightarrow> max \<lfloor>p\<rfloor> 0 | None \<Rightarrow> 0)"

definition timely :: "feed_env \<Rightarrow> feed_update \<Rightarrow> bool" where
  "timely fe u =
     (floor_ts (fu_previousRecord u) < fu_timestampSec u
      \<and> fu_timestampSec u \<le> max (floor_ts (fu_previousRecord u) + 1)
           (fe_now fe div 1000 + resolveFeedTimestampFutureSkewSeconds (fe_pe fe))
      \<and> fq_timestamp (fu_quote u) div 1000 \<le> fe_now fe div 1000 + resolveFeedTimestampMaxFutureSeconds (fe_pe fe))"

lemma clamp_bounds:
  "clampFeedTimestampSec upstream prevTs now maxFuture skew = Inr t \<Longrightarrow>
     (case prevTs of Some p \<Rightarrow> max \<lfloor>p\<rfloor> 0 | None \<Rightarrow> 0) < t
     \<and> t \<le> max ((case prevTs of Some p \<Rightarrow> max \<lfloor>p\<rfloor> 0 | None \<Rightarrow> 0) + 1) (now + skew)
     \<and> (case upstream of Some u \<Rightarrow> \<lfloor>u\<rfloor> | None \<Rightarrow> now) \<le> now + maxFuture"
  by (auto simp: clampFeedTimestampSec_def Let_def split: if_splits)

lemma queued_timely: "queues fe payload policy onchain run u d \<Longrightarrow> timely fe u"
  using clamp_bounds [of "Some (of_int (fq_timestamp (fu_quote u) div 1000))" "prevOnchainTs (fu_previousRecord u)"]
  by (fastforce simp: queues_def timely_def floor_ts_def)

interpretation timely_inv: feed_invariant fe payload policy onchain "\<lambda>run. \<forall>u \<in> set (fr_updates run). timely fe u"
  for fe payload policy onchain
  by unfold_locales (auto simp: skipped_run_def queued_run_def dest: queued_timely)

section \<open>What reaches the chain\<close>

text \<open>The feed values an invocation writes: storage key, round, price units and time stamp.\<close>

type_synonym feed_write = "string \<times> string \<times> string \<times> string"

fun param_text :: "neo_param \<Rightarrow> string" where
  "param_text (PString s) = s"
| "param_text (PInteger s) = s"
| "param_text (PByteArray s) = s"
| "param_text (PArray _) = []"

fun writes_of_params :: "neo_param list \<Rightarrow> feed_write list" where
  "writes_of_params (PArray ks # PArray rs # PArray us # PArray ts # _) =
     zip (map param_text ks) (zip (map param_text rs) (zip (map param_text us) (map param_text ts)))"
| "writes_of_params (k # r # u # t # _) = [(param_text k, param_text r, param_text u, param_text t)]"
| "writes_of_params _ = []"

definition feed_writes :: "invocation list \<Rightarrow> feed_write set" where
  "feed_writes tr = (\<Union>iv \<in> set tr. set (writes_of_params (iv_params iv)))"

lemma feed_writes_simps [simp]:
  "feed_writes [] = {}" "feed_writes (tr @ tr') = feed_writes tr \<union> feed_writes tr'"
  "feed_writes [iv] = set (writes_of_params (iv_params iv))"
  by (auto simp: feed_writes_def)

text \<open>The value an update asks for.\<close>

definition units_of :: "feed_quote \<Rightarrow> string result" where
  "units_of quote = decimalToIntegerString (JStr (fq_price quote)) (fq_decimals quote)"

definition wanted :: "feed_update \<Rightarrow> feed_write set" where
  "wanted u = (case units_of (fu_quote u) of
       Inr units \<Rightarrow> {(fu_storagePair u, fu_roundId u, units, show_int (fu_timestampSec u))} | Inl e \<Rightarrow> {})"

lemma single_writes:
  "feed_writes (snd (submitQuoteToN3 fe payload u tr)) = feed_writes tr \<union> wanted u"
  by (auto simp: submitQuoteToN3_def Let_def relay_def wanted_def units_of_def buildFeedUpdateInvocation_def feed_invocation_def
      split: sum.splits option.splits prod.splits if_splits)

lemma submit_each_writes:
  "feed_writes (snd (submit_each fe payload us tr)) \<subseteq> feed_writes tr \<union> \<Union> (wanted ` set us)
   \<and> feed_writes tr \<subseteq> feed_writes (snd (submit_each fe payload us tr))
   \<and> (\<forall>rs. fst (submit_each fe payload us tr) = Inr rs \<longrightarrow> \<Union> (wanted ` set us) \<subseteq> feed_writes (snd (submit_each fe payload us tr)))"
proof (induction us arbitrary: tr)
  case (Cons u us)
  obtain r tr' where one: "submitQuoteToN3 fe payload u tr = (r, tr')" by fastforce
  obtain q tr'' where rest: "submit_each fe payload us tr' = (q, tr'')" by fastforce
  have "feed_writes tr' = feed_writes tr \<union> wanted u" using single_writes [of fe payload u tr] one by simp
  then show ?case using Cons.IH [of tr'] one rest by (cases r; cases q) auto
qed simp

lemma all_units_Inr: "all_units us = Inr xs \<Longrightarrow> list_all2 (\<lambda>u x. units_of (fu_quote u) = Inr x) us xs"
  by (induction us arbitrary: xs) (auto simp: bind_result_eq_Inr units_of_def)

lemma batch_writes:
  "list_all2 (\<lambda>u x. units_of (fu_quote u) = Inr x) us xs \<Longrightarrow> set (writes_of_params (batch_params us xs)) = \<Union> (wanted ` set us)"
proof (induction us xs rule: list_all2_induct)
  case (Cons u us x xs)
  then show ?case by (auto simp: batch_params_def wanted_def comp_def)
qed (simp add: batch_params_def)

lemma submit_batch_writes:
  "feed_writes (snd (submitQuotesToN3 fe payload us tr)) \<subseteq> feed_writes tr \<union> \<Union> (wanted ` set us)
   \<and> feed_writes tr \<subseteq> feed_writes (snd (submitQuotesToN3 fe payload us tr))
   \<and> (\<forall>b. fst (submitQuotesToN3 fe payload us tr) = Inr b
        \<longrightarrow> \<Union> (wanted ` set us) \<subseteq> feed_writes (snd (submitQuotesToN3 fe payload us tr)))"
  using batch_writes [OF all_units_Inr]
  by (auto simp: submitQuotesToN3_def relay_def feed_invocation_def split: sum.splits bool.splits)

text \<open>
  Only wanted values are written, and all of them when the submission succeeds.
\<close>

lemma submission_writes:
  assumes "submitQuotesToN3WithFallback fe payload us tr = (r, tr')"
  shows "feed_writes tr' \<subseteq> feed_writes tr \<union> \<Union> (wanted ` set us)"
    and "r = Inr x \<Longrightarrow> \<Union> (wanted ` set us) \<subseteq> feed_writes tr'"
proof -
  obtain b tb where batch: "submitQuotesToN3 fe payload us tr = (b, tb)" by fastforce
  obtain q tq where rest: "submit_each fe payload us tb = (q, tq)" by fastforce
  show "feed_writes tr' \<subseteq> feed_writes tr \<union> \<Union> (wanted ` set us)"
    using assms batch rest submit_batch_writes [of fe payload us tr] submit_each_writes [of fe payload us tb]
    by (auto simp: submitQuotesToN3WithFallback_def split: sum.splits option.splits)
  show "\<Union> (wanted ` set us) \<subseteq> feed_writes tr'" if "r = Inr x"
    using that assms batch rest submit_batch_writes [of fe payload us tr] submit_each_writes [of fe payload us tb]
    by (auto simp: submitQuotesToN3WithFallback_def split: sum.splits option.splits)
qed

text \<open>The updates come back with their signatures added, otherwise as they were.\<close>

lemma single_update:
  "submitQuoteToN3 fe payload u tr = (Inr (tx, u'), tr') \<Longrightarrow> fu_storagePair u' = fu_storagePair u"
  by (auto simp: submitQuoteToN3_def Let_def split: sum.splits prod.splits option.splits)

lemma each_updates:
  "submit_each fe payload us tr = (Inr rs, tr') \<Longrightarrow> map (fu_storagePair \<circ> snd) rs = map fu_storagePair us"
  by (induction us arbitrary: tr rs)
     (auto split: sum.splits prod.splits dest: single_update)

lemma fallback_updates:
  "submitQuotesToN3WithFallback fe payload us tr = (Inr (tx, us'), tr') \<Longrightarrow> map fu_storagePair us' = map fu_storagePair us"
  by (auto simp: submitQuotesToN3WithFallback_def split: sum.splits prod.splits option.splits dest: each_updates)

lemma submit_updates_writes:
  assumes "submit_updates fe payload us = (r, tr)"
  shows "feed_writes tr \<subseteq> \<Union> (wanted ` set us)"
    and "r = Inr (tx, us') \<Longrightarrow> map fu_storagePair us' = map fu_storagePair us \<and> (truthy tx \<longrightarrow> \<Union> (wanted ` set us) \<subseteq> feed_writes tr)"
  using assms submission_writes [of fe payload us "[]" r tr] fallback_updates [of fe payload us "[]"]
  by (auto simp: submit_updates_def split: if_splits)

section \<open>The handler\<close>

lemma handle_cases:
  assumes "handleOracleFeed fe load payload recs = (res, recs', tr)"
  obtains (unavailable) e where "recs' = recs" "tr = []" "res = Inr \<lparr>fp_status = 503, fp_batch_tx = JUndef, fp_batch_count = 0,
        fp_results = [], fp_errors = [SubmissionFailed (''on-chain baseline unavailable: '' @ e)],
        fp_symbols = resolveRequestedSymbols fe (scoped_payload fe payload), fp_aggregations = []\<rparr>"
  | (run) onchain r run where "onchain \<in> {fst load, []}"
      "each (process_symbol fe (scoped_payload fe payload) (buildSyncPolicy (fe_pe fe) (scoped_payload fe payload)) onchain)
         (resolveRequestedSymbols fe (scoped_payload fe payload))
         \<lparr>fr_records = recs, fr_results = [], fr_updates = [], fr_errors = [], fr_aggregations = []\<rparr> = (r, run)"
      "(\<exists>e. r = Inl e \<and> res = Inl e \<and> recs' = fr_records run \<and> tr = [])
       \<or> r = Inr () \<and> finish_run fe (scoped_payload fe payload) (resolveRequestedSymbols fe (scoped_payload fe payload)) run = (res, recs', tr)"
proof -
  let ?p = "scoped_payload fe payload"
  let ?load = "if shouldLoadOnchainFeedBaseline ?p (recs \<noteq> []) then load else ([], None)"
  let ?loop = "each (process_symbol fe ?p (buildSyncPolicy (fe_pe fe) ?p) (fst ?load)) (resolveRequestedSymbols fe ?p)
    \<lparr>fr_records = recs, fr_results = [], fr_updates = [], fr_errors = [], fr_aggregations = []\<rparr>"
  obtain r run where loop: "?loop = (r, run)" by fastforce
  show ?thesis
  proof (cases "snd ?load \<noteq> None \<and> recs = [] \<and> \<not> truthy (getp ?p ''force'')")
    case True
    then obtain e where e: "snd load = Some e" "shouldLoadOnchainFeedBaseline ?p False" by (auto split: if_splits)
    show ?thesis
      by (rule unavailable [of e]; use True e assms in \<open>cases load; simp add: handleOracleFeed_def Let_def\<close>)
  next
    case False
    then have "handleOracleFeed fe load payload recs = (case ?loop of
        (Inl e, run) \<Rightarrow> (Inl e, fr_records run, [])
      | (Inr _, run) \<Rightarrow> finish_run fe ?p (resolveRequestedSymbols fe ?p) run)"
      by (cases "snd ?load"; cases recs; cases "truthy (getp ?p ''force'')")
         (auto simp: handleOracleFeed_def Let_def split: prod.splits)
    then show ?thesis using assms loop by (intro run [of "fst ?load" r run]) (auto split: sum.splits)
  qed
qed

lemma finish_cases:
  assumes "finish_run fe payload symbols run = (res, recs', tr)"
  obtains (submit_failed) e where "submit_updates fe payload (fr_updates run) = (Inl e, tr)" "res = Inl e" "recs' = fr_records run"
  | (stored) tx us r where "submit_updates fe payload (fr_updates run) = (Inr (tx, us), tr)"
      "each (record_update fe (truthy tx)) us (fr_records run) = (r, recs')"
      "(\<exists>e. r = Inl e \<and> res = Inl e) \<or> r = Inr () \<and> res = Inr \<lparr>fp_status = 200, fp_batch_tx = tx, fp_batch_count = length us,
         fp_results = map (finish_result tx (submission_issue fe (fr_updates run))) (fr_results run),
         fp_errors = fr_errors run @ submission_errors payload (submission_issue fe (fr_updates run)) (fr_updates run) tx,
         fp_symbols = symbols, fp_aggregations = fr_aggregations run\<rparr>"
  using assms by (auto simp: finish_run_def Let_def split: sum.splits prod.splits)

lemma finished_status:
  "queue_matches run \<Longrightarrow> \<forall>r \<in> set (map (finish_result tx issue) (fr_results run)).
     sr_relay_status r \<in> {''submitted'', ''skipped'', ''aggregated''} \<and> (sr_relay_status r = ''skipped'' \<longrightarrow> sr_skip_reason r \<noteq> None)"
  by (auto simp: queue_matches_def finish_result_def)

lemma finished_submitted:
  assumes "queue_matches run"
  shows "map (\<lambda>r. (sr_storage_pair r, sr_quote r))
       (filter (\<lambda>r. sr_relay_status r = ''submitted'') (map (finish_result tx issue) (fr_results run)))
     = (if truthy tx then map (\<lambda>u. (fu_storagePair u, Some (fu_quote u))) (fr_updates run) else [])"
proof -
  have "map (\<lambda>r. (sr_storage_pair r, sr_quote r)) (filter (\<lambda>r. sr_relay_status r = ''submitted'') (map (finish_result tx issue) xs))
      = (if truthy tx then map (\<lambda>r. (sr_storage_pair r, sr_quote r)) (filter (\<lambda>r. sr_relay_status r = ''queued'') xs) else [])"
    if "\<forall>r \<in> set xs. sr_relay_status r \<in> {''queued'', ''skipped'', ''aggregated''}" for xs
    using that
  proof (induction xs)
    case (Cons r xs)
    have ih: "map (\<lambda>r. (sr_storage_pair r, sr_quote r)) (filter (\<lambda>r. sr_relay_status r = ''submitted'') (map (finish_result tx issue) xs))
      = (if truthy tx then map (\<lambda>r. (sr_storage_pair r, sr_quote r)) (filter (\<lambda>r. sr_relay_status r = ''queued'') xs) else [])"
      using Cons by simp
    show ?case
    proof (cases "sr_relay_status r = ''queued''")
      case True
      then have "sr_relay_status (finish_result tx issue r) = (if truthy tx then ''submitted'' else ''skipped'')"
        "sr_storage_pair (finish_result tx issue r) = sr_storage_pair r" "sr_quote (finish_result tx issue r) = sr_quote r"
        by (simp_all add: finish_result_def)
      then show ?thesis using ih True by (cases "truthy tx") simp_all
    next
      case False
      then have "finish_result tx issue r = r" "sr_relay_status r \<noteq> ''submitted''" using Cons.prems by (auto simp: finish_result_def)
      then show ?thesis using ih False by simp
    qed
  qed simp
  then show ?thesis using assms unfolding queue_matches_def by simp
qed


section \<open>Spacing of submissions\<close>

text \<open>The record of a key says when the worker submitted it.\<close>

definition stamped :: "records \<Rightarrow> string \<Rightarrow> int \<Rightarrow> bool" where
  "stamped recs k t = (map_of (record_of recs k) ''last_submitted_at_ms'' = Some (JNum (Fin t)))"

lemma map_of_spread_other: "x \<notin> fst ` set over \<Longrightarrow> map_of (spread base over) x = map_of base x"
  unfolding spread_def by (induction over arbitrary: base) (auto simp: obj_get_set)

lemma record_of_set: "record_of (obj_set k r recs) k' = (if k = k' then own_entries r else record_of recs k')"
  by (simp add: record_of_def obj_get_set)

text \<open>An unforced run less than the update interval after the submission of \<open>k\<close> at \<open>t\<close>.\<close>

definition recent :: "feed_env \<Rightarrow> jsv \<Rightarrow> sync_policy \<Rightarrow> records \<Rightarrow> string \<Rightarrow> int \<Rightarrow> bool" where
  "recent fe payload policy onchain k t =
     (\<not> truthy (getp payload ''force'') \<and> 10000000000 < t \<and> t \<le> fe_now fe \<and> fe_now fe - t < sp_minUpdateIntervalMs policy
      \<and> ''last_submitted_at_ms'' \<notin> fst ` set (record_of onchain k))"

definition held_back :: "feed_env \<Rightarrow> jsv \<Rightarrow> sync_policy \<Rightarrow> records \<Rightarrow> string \<Rightarrow> int \<Rightarrow> feed_run \<Rightarrow> bool" where
  "held_back fe payload policy onchain k t run =
     (recent fe payload policy onchain k t \<longrightarrow> stamped (fr_records run) k t \<and> k \<notin> fu_storagePair ` set (fr_updates run))"

lemma previous_stamp:
  assumes "stamped recs k t" "''last_submitted_at_ms'' \<notin> fst ` set (record_of onchain k)"
  shows "\<exists>ps. previous_record recs onchain k = Some (JObj ps) \<and> map_of ps ''last_submitted_at_ms'' = Some (JNum (Fin t))"
proof -
  have "map_of (spread (record_of recs k) (record_of onchain k)) ''last_submitted_at_ms'' = Some (JNum (Fin t))"
    using assms by (simp add: map_of_spread_other stamped_def)
  then show ?thesis by (auto simp: previous_record_def Let_def)
qed

lemma recent_not_queued:
  assumes "recent fe payload policy onchain k t" "stamped (fr_records run) k t" "queues fe payload policy onchain run u d"
  shows "fu_storagePair u \<noteq> k"
proof
  assume k: "fu_storagePair u = k"
  obtain ps where ps: "previous_record (fr_records run) onchain k = Some (JObj ps)"
    "map_of ps ''last_submitted_at_ms'' = Some (JNum (Fin t))"
    using previous_stamp [OF assms(2), of onchain] assms(1) by (auto simp: recent_def)
  have "of_int (fe_now fe) - of_int t < (of_int (sp_minUpdateIntervalMs policy) :: rat)"
    using assms(1) by (simp add: recent_def)
  then have "too_soon (fe_date_parse fe) (JObj ps) (pair_policy fe payload k policy) (fe_now fe)"
    using assms(1) ps(2)
    by (simp add: too_soon_def Let_def recent_def pair_policy_def normalizeTimestampMs_def seconds_or_ms_def)
  then show False using assms(1,3) k ps(1) by (auto simp: queues_def shouldSubmitFeed_def recent_def plain_decision_def)
qed

lemma observed_keeps_stamp:
  "stamped recs k t \<Longrightarrow> ''last_submitted_at_ms'' \<notin> fst ` set (record_of onchain k)
     \<Longrightarrow> observed_record (previous_record recs onchain k) quote k = Inr r \<Longrightarrow> stamped (obj_set k r recs) k t"
  using previous_stamp [of recs k t onchain]
  by (auto simp: observed_record_def bind_result_eq_Inr stamped_def record_of_set map_of_spread_other observed_members_def)

lemma canonical_keeps_stamp:
  "stamped recs k t \<Longrightarrow> ''last_submitted_at_ms'' \<notin> fst ` set (record_of onchain k)
     \<Longrightarrow> buildCanonicalAggregateRecord fe symbol a (previous_record recs onchain k) = Inr (Some (k, r)) \<Longrightarrow> stamped (obj_set k r recs) k t"
  using previous_stamp [of recs k t onchain]
  by (auto simp: buildCanonicalAggregateRecord_def Let_def bind_result_eq_Inr stamped_def record_of_set map_of_spread_other
      split: if_splits)

lemma stamped_other: "key \<noteq> k \<Longrightarrow> stamped (obj_set key r recs) k t = stamped recs k t"
  by (simp add: stamped_def record_of_set)

interpretation held_inv: feed_invariant fe payload policy onchain "held_back fe payload policy onchain k t"
  for fe payload policy onchain k t
proof unfold_locales
  fix run key quote r reason decision
  assume "held_back fe payload policy onchain k t run"
    "observed_record (previous_record (fr_records run) onchain key) quote key = Inr r"
  then show "held_back fe payload policy onchain k t (skipped_run quote key r reason decision run)"
    by (cases "key = k") (auto simp: held_back_def skipped_run_def recent_def stamped_other intro: observed_keeps_stamp)
next
  fix run u decision
  assume "held_back fe payload policy onchain k t run" "queues fe payload policy onchain run u decision"
  then show "held_back fe payload policy onchain k t (queued_run u decision run)"
    using recent_not_queued [of fe payload policy onchain k t run u decision] by (auto simp: held_back_def queued_run_def)
next
  fix run symbol a key r x
  assume "held_back fe payload policy onchain k t run"
    "buildCanonicalAggregateRecord fe symbol a (previous_record (fr_records run) onchain key) = Inr (Some (key, r))"
  then show "held_back fe payload policy onchain k t (run\<lparr>fr_records := obj_set key r (fr_records run), fr_results := fr_results run @ [x]\<rparr>)"
    by (cases "key = k") (auto simp: held_back_def recent_def stamped_other intro: canonical_keeps_stamp)
qed (simp add: held_back_def)

lemma submitted_record_stamp:
  "submitted_record fe u = Inr r \<Longrightarrow> map_of (own_entries r) ''last_submitted_at_ms'' = Some (JNum (Fin (fe_now fe)))"
  by (auto simp: submitted_record_def Let_def bind_result_eq_Inr)

lemma updates_stamped:
  "each (record_update fe True) us recs = (Inr x, recs') \<Longrightarrow> k \<in> fu_storagePair ` set us \<or> stamped recs k (fe_now fe)
     \<Longrightarrow> stamped recs' k (fe_now fe)"
proof (induction us arbitrary: recs)
  case (Cons u us)
  obtain r where r: "submitted_record fe u = Inr r" "each (record_update fe True) us (obj_set (fu_storagePair u) r recs) = (Inr x, recs')"
    using Cons.prems(1) by (cases "submitted_record fe u") (auto simp: record_update_def [of _ _ u])
  have "stamped (obj_set (fu_storagePair u) r recs) k (fe_now fe) \<or> k \<in> fu_storagePair ` set us"
    using Cons.prems(2) submitted_record_stamp [OF r(1)] by (auto simp: stamped_def record_of_set)
  then show ?case using Cons.IH [OF r(2)] by blast
qed simp

lemma no_writes: "k \<notin> fu_storagePair ` set us \<Longrightarrow> w \<in> \<Union> (wanted ` set us) \<Longrightarrow> fst w \<noteq> k"
proof -
  assume "k \<notin> fu_storagePair ` set us" "w \<in> \<Union> (wanted ` set us)"
  then obtain u where u: "u \<in> set us" "w \<in> wanted u" "fu_storagePair u \<noteq> k" by auto
  then show "fst w \<noteq> k" by (cases "units_of (fu_quote u)") (auto simp: wanted_def)
qed

text \<open>
  C13: Submissions of a pair are spaced by the update interval. When a run reports a pair as submitted,
  a later run that is not forced and starts before the interval has passed writes no value of that
  pair to the chain, whatever its quotes are. The on-chain baseline never carries the stamp of a
  submission.
\<close>

theorem feed_updates_spaced:
  assumes first: "handleOracleFeed fe load payload recs = (Inr resp, recs1, tr)"
    and submitted: "r \<in> set (fp_results resp)" "sr_relay_status r = ''submitted''"
    and second: "handleOracleFeed fe' load' payload' recs1 = (res', recs2, tr')"
    and interval: "fe_now fe' - fe_now fe < sp_minUpdateIntervalMs (buildSyncPolicy (fe_pe fe') (scoped_payload fe' payload'))"
    and clock: "10000000000 < fe_now fe" "fe_now fe \<le> fe_now fe'"
    and unforced: "\<not> truthy (getp (scoped_payload fe' payload') ''force'')"
    and baseline: "''last_submitted_at_ms'' \<notin> fst ` set (record_of (fst load') (sr_storage_pair r))"
  shows "\<forall>w \<in> feed_writes tr'. fst w \<noteq> sr_storage_pair r"
proof -
  have stamp: "stamped recs1 (sr_storage_pair r) (fe_now fe)"
    using first
  proof (cases rule: handle_cases)
    case (unavailable e)
    then show ?thesis using submitted by simp
  next
    case (run onchain x run)
    have "queue_matches (snd (x, run))" unfolding run(2) [symmetric] by (rule queue_inv.symbols) (rule queue_matches_init)
    then have queue: "queue_matches run" by simp
    from run(3) have "finish_run fe (scoped_payload fe payload) (resolveRequestedSymbols fe (scoped_payload fe payload)) run
      = (Inr resp, recs1, tr)" by auto
    then show ?thesis
    proof (cases rule: finish_cases)
      case (stored tx us x)
      let ?f = "finish_result tx (submission_issue fe (fr_updates run))"
      have res: "fp_results resp = map ?f (fr_results run)" and ok: "each (record_update fe (truthy tx)) us (fr_records run) = (Inr (), recs1)"
        using stored(2,3) by auto
      have "(sr_storage_pair r, sr_quote r) \<in> set (map (\<lambda>r. (sr_storage_pair r, sr_quote r))
          (filter (\<lambda>r. sr_relay_status r = ''submitted'') (map ?f (fr_results run))))"
        using submitted res by auto
      then have "truthy tx \<and> sr_storage_pair r \<in> fu_storagePair ` set (fr_updates run)"
        unfolding finished_submitted [OF queue] by (auto split: if_splits)
      moreover have "fu_storagePair ` set us = fu_storagePair ` set (fr_updates run)"
        using submit_updates_writes(2) [OF stored(1)] by (metis list.set_map)
      ultimately show ?thesis using updates_stamped ok by auto
    qed simp
  qed
  show ?thesis
    using second
  proof (cases rule: handle_cases)
    case (unavailable e)
    then show ?thesis by simp
  next
    case (run onchain x run)
    let ?p = "scoped_payload fe' payload'" and ?k = "sr_storage_pair r"
    let ?policy = "buildSyncPolicy (fe_pe fe') ?p"
    have recent: "recent fe' ?p ?policy onchain ?k (fe_now fe)"
      using run(1) interval clock unforced baseline by (auto simp: recent_def record_of_def)
    have "held_back fe' ?p ?policy onchain ?k (fe_now fe) (snd (x, run))"
      unfolding run(2) [symmetric] by (rule held_inv.symbols) (simp add: held_back_def stamp)
    then have free: "?k \<notin> fu_storagePair ` set (fr_updates run)" using recent by (simp add: held_back_def)
    from run(3) show ?thesis
    proof
      assume "x = Inr () \<and> finish_run fe' ?p (resolveRequestedSymbols fe' ?p) run = (res', recs2, tr')"
      then have "finish_run fe' ?p (resolveRequestedSymbols fe' ?p) run = (res', recs2, tr')" by simp
      then show ?thesis using submit_updates_writes(1) no_writes [OF free] by (cases rule: finish_cases) blast+
    qed auto
  qed
qed

section \<open>Signed updates\<close>

text \<open>
  A signed invocation carries the signature of the message made of its own key, units, time stamp and
  round; an unsigned one means that no signature could be made for that message.
\<close>

definition covered :: "feed_env \<Rightarrow> invocation \<Rightarrow> bool" where
  "covered fe iv =
     (case writes_of_params (iv_params iv) of
        [(key, rnd, units, stamp)] \<Rightarrow>
          (let sig = signFeedUpdate fe key units stamp rnd
           in (iv_method iv = ''updateFeedSigned'' \<longrightarrow> (\<exists>s public. sig = Some (s, public) \<and> last (iv_params iv) = PByteArray s))
              \<and> (iv_method iv = ''updateFeed'' \<longrightarrow> sig = None))
      | _ \<Rightarrow> iv_method iv = ''updateFeeds'')"

lemma signed_text: "signFeedUpdate fe k u t r = Some (s, public) \<Longrightarrow> js_trim s = s \<and> s \<noteq> []"
  by (auto simp: signFeedUpdate_def split: option.splits if_splits)

lemma single_covered: "\<forall>iv \<in> set tr. covered fe iv \<Longrightarrow> \<forall>iv \<in> set (snd (submitQuoteToN3 fe payload u tr)). covered fe iv"
  by (auto simp: submitQuoteToN3_def Let_def relay_def covered_def buildFeedUpdateInvocation_def feed_invocation_def
      split: sum.splits option.splits prod.splits if_splits dest: signed_text)

lemma each_covered: "\<forall>iv \<in> set tr. covered fe iv \<Longrightarrow> \<forall>iv \<in> set (snd (submit_each fe payload us tr)). covered fe iv"
proof (induction us arbitrary: tr)
  case (Cons u us)
  obtain r tr' where one: "submitQuoteToN3 fe payload u tr = (r, tr')" by fastforce
  obtain q tr'' where rest: "submit_each fe payload us tr' = (q, tr'')" by fastforce
  have "\<forall>iv \<in> set tr'. covered fe iv" using single_covered [OF Cons.prems, of payload u] one by simp
  then show ?case using Cons.IH [of tr'] one rest by (cases r; cases q) auto
qed simp

lemma batch_covered: "\<forall>iv \<in> set tr. covered fe iv \<Longrightarrow> \<forall>iv \<in> set (snd (submitQuotesToN3 fe payload us tr)). covered fe iv"
  by (auto simp: submitQuotesToN3_def relay_def covered_def feed_invocation_def split: sum.splits bool.splits list.splits prod.splits)

lemma submission_covered: "\<forall>iv \<in> set (snd (submitQuotesToN3WithFallback fe payload us [])). covered fe iv"
proof -
  obtain b tb where batch: "submitQuotesToN3 fe payload us [] = (b, tb)" by fastforce
  obtain q tq where rest: "submit_each fe payload us tb = (q, tq)" by fastforce
  have "\<forall>iv \<in> set tb. covered fe iv" using batch_covered [of "[]" fe payload us] batch by simp
  moreover from this have "\<forall>iv \<in> set tq. covered fe iv" using each_covered [of tb fe payload us] rest by simp
  ultimately show ?thesis using batch rest
    by (auto simp: submitQuotesToN3WithFallback_def split: sum.splits option.splits)
qed

lemma canonical_message_inj:
  assumes "buildCanonicalFeedMessage k u t r = buildCanonicalFeedMessage k' u' t' r'"
    and "\<forall>s \<in> {k, u, t, r, k', u', t', r'}. CHR ''|'' \<notin> set s"
  shows "k = k' \<and> u = u' \<and> t = t' \<and> r = r'"
  using js_join_inj [of "[k, u, t, r]" "[k', u', t', r']" "CHR ''|''"] assms by (simp add: buildCanonicalFeedMessage_def)

text \<open>
  C14: Every single-feed invocation of a run is signed whenever a signature can be made for its values,
  and the signature is over exactly the key, price, time stamp and round it submits. Two messages are
  the same only for the same values, as long as no part holds the separator.
\<close>

theorem feed_signature_covers_update:
  "(\<forall>iv \<in> set (snd (snd (handleOracleFeed fe load payload recs))). covered fe iv)
   \<and> (buildCanonicalFeedMessage k u t r = buildCanonicalFeedMessage k' u' t' r'
      \<longrightarrow> (\<forall>s \<in> {k, u, t, r, k', u', t', r'}. CHR ''|'' \<notin> set s) \<longrightarrow> k = k' \<and> u = u' \<and> t = t' \<and> r = r')"
proof
  obtain res recs' tr where run: "handleOracleFeed fe load payload recs = (res, recs', tr)" by (metis prod_cases3)
  have sub: "\<forall>iv \<in> set (snd (submit_updates fe p us)). covered fe iv" for p us
    using submission_covered [of fe p us] by (simp add: submit_updates_def)
  have "\<forall>iv \<in> set tr. covered fe iv"
    using run
  proof (cases rule: handle_cases)
    case (run onchain x run)
    from run(3) show ?thesis
    proof
      assume "x = Inr () \<and> finish_run fe (scoped_payload fe payload) (resolveRequestedSymbols fe (scoped_payload fe payload)) run
        = (res, recs', tr)"
      then show ?thesis
        using sub [of "scoped_payload fe payload" "fr_updates run"] by (auto elim!: finish_cases)
    qed auto
  qed simp
  then show "\<forall>iv \<in> set (snd (snd (handleOracleFeed fe load payload recs))). covered fe iv" by (simp add: run)
qed (use canonical_message_inj in blast)

end
