(* ===== verification/Oracle_Feeds_Cases.thy ===== *)
theory Oracle_Feeds_Cases
  imports Oracle_Feeds_Facts
begin

text \<open>
  Concrete feed runs: a worker whose only provider quotes a price of one unit, with a chain that
  accepts every invocation, and the runs in which the code departs from what it promises.
\<close>

section \<open>A run\<close>

definition sample_pe :: process_env where
  "sample_pe = \<lparr>pe_vars = (\<lambda>_. []), pe_runtime = (\<lambda>_. JUndef), pe_scoped = (\<lambda>_ _. JUndef)\<rparr>"

definition sample_registry :: jsv where
  "sample_registry = JObj [feed_pair ''NEO-USD'' [] [(''twelvedata'', ''NEO/USD'')]]"

definition sample_fe :: "int \<Rightarrow> feed_env" where
  "sample_fe now = \<lparr>fe_pe = sample_pe, fe_registry = sample_registry,
     fe_date_parse = (\<lambda>_. None), fe_now = now,
     fe_fetch = (\<lambda>symbol provider. Inr \<lparr>po_ok = True, po_error_message = [], po_data = JObj [(''price'', JStr ''0.000001'')],
        po_date_header = [], po_pair = symbol\<rparr>),
     fe_sign_result = (\<lambda>q. Inr \<lparr>sg_signature = ''s'', sg_public_key = ''k'', sg_attestation_hash = ''a''\<rparr>),
     fe_sign_bytes = (\<lambda>_. None),
     fe_relay = (\<lambda>_ _. Inr \<lparr>ra_status = 200, ra_body = JObj [(''tx_hash'', JStr ''0x1'')]\<rparr>),
     fe_fraction = (\<lambda>_. JNull), fe_dataFeedHash = ''0xfeed'', fe_hasTarget = True, fe_neoContext = Some ''http://node''\<rparr>"

definition neo_payload :: jsv where
  "neo_payload = JObj [(''symbol'', JStr ''NEO-USD''), (''feed_min_update_interval_ms'', JNum (Fin 60000))]"

lemma price_number: "js_float ''0.000001'' = Some (1 / 1000000)"
proof -
  have "js_trim ''0.000001'' = ''0.000001''" "to_lower (take 2 ''0.000001'') = ''0.''" "\<not> negative ''0.000001''"
    "unsigned_value (drop_sign ''0.000001'') = Some (1 / 1000000)"
    by code_simp+
  then show ?thesis unfolding js_float_def Let_def by (simp add: finite_small)
qed

lemma digit_chars: "digit_char 0 = CHR ''0''" "digit_char 1 = CHR ''1''" "digit_char (Suc 0) = CHR ''1''" by code_simp+

lemma price_fixed: "toFixed 12 (1 / 1000000) = ''0.000001000000''"
proof -
  have "nat \<lfloor>(1 / 1000000 :: rat) * 10 ^ 12 + 1 / 2\<rfloor> = 1000000"
    using floor_unique [of 1000000 "2000001 / 2 :: rat"] by simp
  moreover have "show_nat 1000000 = ''1000000''" by (simp add: show_nat.simps digit_chars)
  moreover have "replicate 5 CHR ''0'' = ''00000''" by code_simp
  ultimately show ?thesis by (simp add: toFixed_def pad_start_def)
qed

lemma price_text: "transformDecimalString (JStr ''0.000001'') [] 1 = Inr ''0.000001''"
proof -
  have "trimValue (JStr ''0.000001'') = ''0.000001''" "drop_final_zeros ''0.000001000000'' = ''0.000001''" by code_simp+
  then show ?thesis by (simp add: transformDecimalString_def price_number normalizeDecimalNumberString_def price_fixed finite_small)
qed

definition sample_quote :: "int \<Rightarrow> feed_quote" where
  "sample_quote now = \<lparr>fq_feed_id = ''twelvedata:NEO-USD'', fq_pair = ''TWELVEDATA:NEO-USD'', fq_provider_pair = ''NEO-USD'',
     fq_display_symbol = ''TWELVEDATA:NEO-USD'', fq_unit_label = [], fq_provider = ''twelvedata'', fq_raw_price = ''0.000001'',
     fq_price_transform = [], fq_price_multiplier = 1, fq_price = ''0.000001'', fq_decimals = 6, fq_timestamp = now,
     fq_signature = ''s'', fq_public_key = ''k'', fq_attestation_hash = ''a'', fq_feed_signature = [], fq_feed_signer = []\<rparr>"

lemma sample_lookup:
  "getFeedStoragePair (JStr ''twelvedata'') (JStr ''NEO-USD'') = ''TWELVEDATA:NEO-USD''"
  "getFeedPriceMultiplier sample_registry (JStr ''TWELVEDATA:NEO-USD'') = 1"
  "getFeedPriceTransform sample_registry (JStr ''TWELVEDATA:NEO-USD'') = []"
  "getFeedDisplaySymbol sample_registry (JStr ''TWELVEDATA:NEO-USD'') = ''TWELVEDATA:NEO-USD''"
  "getFeedUnitLabel sample_registry (JStr ''TWELVEDATA:NEO-USD'') = []"
  by code_simp+

lemma sample_quote: "resolveQuoteForProvider (sample_fe now) ''NEO-USD'' ''twelvedata'' = Inr (sample_quote now)"
proof -
  have "extractQuotePrice (JObj [(''price'', JStr ''0.000001'')]) = JStr ''0.000001''" by code_simp
  then show ?thesis using sample_lookup
    by (simp add: resolveQuoteForProvider_def sample_fe_def or_str_def price_text Let_def extractUpstreamTimestamp_def
        upstream_date_def upstream_number_def sample_quote_def FEED_PRICE_DECIMALS_def)
qed

lemma sample_fe_now: "fe_now (sample_fe now) = now" and sample_fe_pe: "fe_pe (sample_fe now) = sample_pe"
  by (simp_all add: sample_fe_def)

lemma sample_symbols: "resolveRequestedSymbols (sample_fe now) (scoped_payload (sample_fe now) neo_payload) = [''NEO-USD'']"
  by code_simp

lemma sample_providers:
  "resolveRequestedProviders (sample_fe now) (scoped_payload (sample_fe now) neo_payload) ''NEO-USD'' = [''twelvedata'']"
  by code_simp

lemma feed_limits: "resolveFeedTimestampMaxFutureSeconds sample_pe = 300" "resolveFeedTimestampFutureSkewSeconds sample_pe = 0"
proof -
  have "env sample_pe names = []" for names
    by (induction names) (simp_all add: env_def sample_pe_def js_or_def)
  moreover have "js_float [] = Some 0" by (simp add: js_float_def finite_small)
  ultimately show "resolveFeedTimestampMaxFutureSeconds sample_pe = 300" "resolveFeedTimestampFutureSkewSeconds sample_pe = 0"
    by (simp_all add: resolveFeedTimestampMaxFutureSeconds_def resolveFeedTimestampFutureSkewSeconds_def)
qed


abbreviation no_run :: feed_run where
  "no_run \<equiv> \<lparr>fr_records = [], fr_results = [], fr_updates = [], fr_errors = [], fr_aggregations = []\<rparr>"

definition sample_update :: "int \<Rightarrow> feed_update" where
  "sample_update now = \<lparr>fu_quote = sample_quote now, fu_storagePair = ''TWELVEDATA:NEO-USD'', fu_roundId = show_int (now div 1000),
     fu_sourceSetId = Fin 1, fu_timestampSec = now div 1000, fu_previousRecord = None\<rparr>"

lemma sample_process_quote:
  "1000 \<le> now \<Longrightarrow> process_quote (sample_fe now) (scoped_payload (sample_fe now) neo_payload) policy [] ''NEO-USD'' (sample_quote now) no_run
     = (Inr (), no_run\<lparr>fr_updates := [sample_update now],
         fr_results := [quote_result (sample_quote now) ''TWELVEDATA:NEO-USD'' ''queued'' None (plain_decision True ''first-observation'')]\<rparr>)"
proof -
  let ?p = "scoped_payload (sample_fe now) neo_payload"
  have "getFeedStoragePair (JStr ''twelvedata'') (JStr ''TWELVEDATA:NEO-USD'') = ''TWELVEDATA:NEO-USD''"
    "truthy (getp ?p ''force'') = False" "trimValue (getp ?p ''round_id'') = []"
    "js_nullish (getp ?p ''source_set_id'') (JNum (Fin (getSourceSetIdForProvider (JStr ''twelvedata'') 0))) = JNum (Fin 1)"
    by code_simp+
  moreover assume "1000 \<le> now"
  then have "max 1 (now div 1000) = now div 1000" by simp
  ultimately show ?thesis
    by (simp add: process_quote_def Let_def sample_quote_def previous_record_def record_of_def spread_def shouldSubmitFeed_def
        clampFeedTimestampSec_def prevOnchainTs_def feed_limits sample_update_def buildRoundId_def plain_decision_def or_str_def
        sample_fe_def)
qed

lemma sample_quotes:
  "fetchPriceQuotes (sample_fe now) (scoped_payload (sample_fe now) neo_payload) ''NEO-USD''
     = Inr \<lparr>qs_pair = ''TWELVEDATA:NEO-USD'', qs_providers = [''twelvedata''], qs_quotes = [sample_quote now], qs_errors = [],
            qs_aggregation = None\<rparr>"
proof -
  have "normalizePairSymbol (JStr ''NEO-USD'') = ''NEO-USD''" by code_simp
  then show ?thesis using sample_lookup(1) by (simp add: fetchPriceQuotes_def sample_providers sample_quote Let_def)
qed


lemma sample_units: "decimalToIntegerString (JStr ''0.000001'') 6 = Inr ''1''"
  by code_simp

lemma sample_submit:
  "\<exists>tr. submit_updates (sample_fe now) payload [sample_update now] = (Inr (JObj [(''tx_hash'', JStr ''0x1'')], [sample_update now]), tr)"
proof -
  have "resolveFeedSubmissionIssue True (Some ''http://node'') = []" by code_simp
  then show ?thesis
    by (simp add: submit_updates_def submitQuotesToN3WithFallback_def submitQuotesToN3_def probe_def signFeedUpdate_def
        relay_def checked_def sample_fe_def sample_update_def sample_quote_def sample_units)
qed

lemma sample_run:
  "1000 \<le> now \<Longrightarrow> \<exists>resp recs tr. handleOracleFeed (sample_fe now) ([], None) neo_payload [] = (Inr resp, recs, tr) \<and> fp_status resp = 200
     \<and> truthy (fp_batch_tx resp)
     \<and> map (\<lambda>r. (sr_storage_pair r, sr_relay_status r)) (fp_results resp) = [(''TWELVEDATA:NEO-USD'', ''submitted'')]"
proof -
  assume "1000 \<le> now"
  moreover obtain tr where "submit_updates (sample_fe now) (scoped_payload (sample_fe now) neo_payload) [sample_update now]
      = (Inr (JObj [(''tx_hash'', JStr ''0x1'')], [sample_update now]), tr)" using sample_submit by blast
  moreover obtain r where "submitted_record (sample_fe now) (sample_update now) = Inr r"
    by (simp add: submitted_record_def Let_def sample_update_def sample_quote_def sample_units)
  ultimately show ?thesis
    by (simp add: handleOracleFeed_def Let_def sample_symbols process_symbol_def sample_quotes record_aggregate_def
        sample_process_quote finish_run_def record_update_def finish_result_def quote_result_def)
qed


lemma explicit_interval:
  "getp payload ''feed_min_update_interval_ms'' = JNum (Fin i) \<Longrightarrow> sp_minUpdateIntervalMs (buildSyncPolicy pe payload) = max i 0"
  unfolding buildSyncPolicy_def Let_def sync_policy.select_convs by (simp add: js_nullish_def or_default_def parseDurationMs_def)

lemma sample_settings:
  "getp (scoped_payload (sample_fe now) neo_payload) ''feed_min_update_interval_ms'' = JNum (Fin 60000)"
  "truthy (getp (scoped_payload (sample_fe now) neo_payload) ''force'') = False"
  by code_simp+

theorem feed_updates_spaced_witness:
  "\<exists>resp recs tr res' recs' tr'.
     handleOracleFeed (sample_fe 20000000000) ([], None) neo_payload [] = (Inr resp, recs, tr)
     \<and> handleOracleFeed (sample_fe 20000030000) ([], None) neo_payload recs = (res', recs', tr')
     \<and> ''TWELVEDATA:NEO-USD'' \<notin> fst ` feed_writes tr'"
proof -
  obtain resp recs tr where run: "handleOracleFeed (sample_fe 20000000000) ([], None) neo_payload [] = (Inr resp, recs, tr)"
    and res: "map (\<lambda>r. (sr_storage_pair r, sr_relay_status r)) (fp_results resp) = [(''TWELVEDATA:NEO-USD'', ''submitted'')]"
    using sample_run [of 20000000000] by auto
  obtain res' recs' tr' where next_run: "handleOracleFeed (sample_fe 20000030000) ([], None) neo_payload recs = (res', recs', tr')"
    by (metis prod_cases3)
  obtain r where r: "r \<in> set (fp_results resp)" "sr_relay_status r = ''submitted''" "sr_storage_pair r = ''TWELVEDATA:NEO-USD''"
    using res by (cases "fp_results resp") auto
  note p = sample_settings [of 20000030000]
  have "sp_minUpdateIntervalMs (buildSyncPolicy sample_pe (scoped_payload (sample_fe 20000030000) neo_payload)) = 60000"
    using explicit_interval [OF p(1)] by simp
  then show ?thesis
    using feed_updates_spaced [OF run r(1,2) next_run] p(2) run next_run
    by (auto simp add: sample_fe_now sample_fe_pe record_of_def r(3))
qed

theorem feed_signature_covers_update_witness:
  "list_all (covered (sample_fe 5000)) (snd (snd (handleOracleFeed (sample_fe 5000) ([], None) neo_payload [])))
   \<and> buildCanonicalFeedMessage ''TWELVEDATA:NEO-USD'' ''1'' ''5'' ''5''
        \<noteq> buildCanonicalFeedMessage ''TWELVEDATA:NEO-USD'' ''15'' ''5'' ''5''"
  using feed_signature_covers_update [of "sample_fe 5000" "([], None)" neo_payload "[]"
      "''TWELVEDATA:NEO-USD''" "''1''" "''5''" "''5''" "''TWELVEDATA:NEO-USD''" "''15''" "''5''" "''5''"] by (simp add: list_all_iff)

section \<open>Where the code departs from its comments\<close>

text \<open>
  The default skew of 60 seconds is never used: an unset variable is the empty string, which is the
  number 0, and 0 is accepted as a setting.
\<close>

theorem default_skew_is_zero:
  "env pe [''MORPHEUS_FEED_TIMESTAMP_FUTURE_SKEW_SECONDS''] = [] \<Longrightarrow> resolveFeedTimestampFutureSkewSeconds pe = 0"
  by (simp add: resolveFeedTimestampFutureSkewSeconds_def js_float_def finite_small)

text \<open>
  The record of a submission has no time stamp of the chain. Until the on-chain baseline is read again
  (which needs a forced or explicit refresh once there are records) the floor of the next submission is
  0, not the stamp that was anchored.
\<close>

theorem anchored_timestamp_forgotten:
  assumes "submitted_record fe u = Inr r"
  shows "prevOnchainTs (previous_record (obj_set (fu_storagePair u) r recs) [] (fu_storagePair u)) = Some 0"
proof -
  have "map_of (own_entries r) ''timestamp'' = None"
    using assms by (auto simp: submitted_record_def Let_def bind_result_eq_Inr buildFeedSignatureFields_def)
  moreover have "record_of [] (fu_storagePair u) = []" by (simp add: record_of_def)
  ultimately show ?thesis by (simp add: previous_record_def Let_def record_of_set prevOnchainTs_def spread_def)
qed

text \<open>
  A price of \<open>10 ^ 21\<close> passes the checks of the quote as text in scientific notation, which cannot be
  converted to units.
\<close>

theorem huge_price_unconvertible:
  "transformDecimalString (JStr ''1e21'') [] 1 = Inr ''1e+21''
   \<and> decimalToIntegerString (JStr ''1e+21'') 6 = Inl ''invalid decimal value: 1e+21''"
proof
  have big: "(10 :: rat) ^ 21 < 2 ^ 1024 - 2 ^ 970"
  proof -
    have "(2 :: rat) ^ 1024 - 2 ^ 970 = 2 ^ 970 * (2 ^ 54 - 1)" by (simp flip: power_add add: right_diff_distrib)
    moreover have "(2 :: rat) ^ 100 \<le> 2 ^ 970" by (rule power_increasing) simp_all
    ultimately show ?thesis by (simp add: order_less_le_trans [OF _ mult_mono])
  qed
  have "js_trim ''1e21'' = ''1e21''" "to_lower (take 2 ''1e21'') = ''1e''" "\<not> negative ''1e21''"
    "unsigned_value (drop_sign ''1e21'') = Some (10 ^ 21)" "trimValue (JStr ''1e21'') = ''1e21''"
    by code_simp+
  then have "js_float (trimValue (JStr ''1e21'')) = Some (10 ^ 21)" using big by (simp add: js_float_def Let_def finite_only_def)
  moreover have "toFixed 12 (10 ^ 21) = ''1e+21''"
  proof -
    have "show_nat (10 ^ 21) = ''1000000000000000000000''" by (simp add: show_nat.simps digit_chars)
    moreover have "strip_zeros ''000000000000000000000'' = []"
      "show_nat (length ''1000000000000000000000'' - Suc 0) = ''21''" by code_simp+
    ultimately show ?thesis by (simp add: toFixed_def scientific_def Let_def del: list.size)
  qed
  moreover have "drop_final_zeros ''1e+21'' = ''1e+21''" by code_simp
  ultimately show "transformDecimalString (JStr ''1e21'') [] 1 = Inr ''1e+21''"
    using big by (simp add: transformDecimalString_def finite_only_def normalizeDecimalNumberString_def)
  show "decimalToIntegerString (JStr ''1e+21'') 6 = Inl ''invalid decimal value: 1e+21''" by code_simp
qed

text \<open>
  One such quote ends the whole run: the exception of the comparison is not caught, so the symbols after
  it are not looked at and nothing is submitted, not even the updates queued before.
\<close>

theorem unconvertible_quote_aborts_run:
  assumes "decimalToIntegerString (JStr (fq_price quote)) (fq_decimals quote) = Inl e"
    and "previous_record (fr_records run) onchain (getFeedStoragePair (JStr (fq_provider quote)) (JStr (fq_pair quote))) = Some previous"
    and "\<not> truthy (getp payload ''force'')"
    and "\<not> too_soon (fe_date_parse fe) previous
           (pair_policy fe payload (getFeedStoragePair (JStr (fq_provider quote)) (JStr (fq_pair quote))) policy) (fe_now fe)"
    and "fetchPriceQuotes fe payload symbol = Inr qs" "qs_quotes qs = [quote]" "qs_aggregation qs = None"
  shows "\<exists>e'. each (process_symbol fe payload policy onchain) (symbol # symbols) run = (Inl e', run)"
proof -
  have "\<exists>e'. process_quote fe payload policy onchain symbol quote run = (Inl e', run)"
    using assms(1-4) by (cases "previous_units previous (fq_decimals quote)") (auto simp: process_quote_def Let_def shouldSubmitFeed_def)
  then show ?thesis using assms(5-7) by (auto simp: process_symbol_def record_aggregate_def)
qed

text \<open>
  The fallback submits one feed at a time. When a later one fails the run throws, and the feeds that
  were accepted are not recorded: the next run does not know that they were submitted.
\<close>

definition flaky_fe :: feed_env where
  "flaky_fe = (sample_fe 5000)\<lparr>fe_relay := (\<lambda>tr iv.
     if tr = [] then Inr \<lparr>ra_status = 400, ra_body = JObj [(''error'', JStr ''unauthorized'')]\<rparr>
     else if length tr = 1 then Inr \<lparr>ra_status = 200, ra_body = JObj [(''tx_hash'', JStr ''0x1'')]\<rparr>
     else Inr \<lparr>ra_status = 500, ra_body = JNull\<rparr>)\<rparr>"

theorem accepted_update_unrecorded:
  assumes "fr_updates run = [sample_update 5000, (sample_update 5000)\<lparr>fu_storagePair := ''TWELVEDATA:GAS-USD''\<rparr>]"
  shows "\<exists>e tr. finish_run flaky_fe payload symbols run = (Inl e, fr_records run, tr)
     \<and> length tr = 3 \<and> wanted (sample_update 5000) \<subseteq> set (writes_of_params (iv_params (tr ! 1)))"
proof -
  have "resolveFeedSubmissionIssue True (Some ''http://node'') = []" "getRecoverableNeoN3BatchUpdateFailureReason ''unauthorized''
      = Some ''neo_n3_updatefeeds_unauthorized''" by code_simp+
  then show ?thesis using assms
    by (simp add: finish_run_def Let_def submit_updates_def submitQuotesToN3WithFallback_def submitQuotesToN3_def probe_def
        signFeedUpdate_def relay_def checked_def flaky_fe_def sample_fe_def sample_update_def sample_quote_def sample_units
        js_or_def submitQuoteToN3_def buildFeedUpdateInvocation_def feed_invocation_def wanted_def units_of_def)
qed

end
