(* ===== verification/Persistor.thy ===== *)
theory Persistor
  imports JS_Prelude
begin

text \<open>
  \<open>createPersistor\<close> of \<^verbatim>\<open>workers/morpheus-relayer/src/queue.js\<close>: the debounced writer of the state
  file. The closure's variables are a record; the shared state object is \<open>ps_object\<close>, the clock is
  \<open>ps_clock\<close> and \<open>ps_log\<close> keeps, newest first, the persist requests and the writes they lead to.
\<close>

datatype 'a persist_event = Requested millis | Written millis 'a

record 'a persistor =
  ps_clock :: millis
  ps_object :: 'a
  ps_lastWriteAtMs :: millis
  ps_timer :: "millis option"
  ps_dirty :: bool
  ps_log :: "'a persist_event list"

definition flush_persistor :: "'a persistor \<Rightarrow> 'a persistor" where
  "flush_persistor p = p\<lparr>ps_timer := None, ps_dirty := False, ps_lastWriteAtMs := ps_clock p,
     ps_log := Written (ps_clock p) (ps_object p) # ps_log p\<rparr>"

definition persist_call :: "int \<Rightarrow> 'a persistor \<Rightarrow> 'a persistor" where
  "persist_call minIntervalMs p0 =
     (let p = p0\<lparr>ps_log := Requested (ps_clock p0) # ps_log p0\<rparr> in
      if minIntervalMs \<le> 0 then p\<lparr>ps_log := Written (ps_clock p) (ps_object p) # ps_log p\<rparr>
      else
        (let elapsedMs = ps_clock p - ps_lastWriteAtMs p in
         if elapsedMs \<ge> minIntervalMs then flush_persistor p
         else p\<lparr>ps_dirty := True,
                ps_timer := (case ps_timer p of
                    None \<Rightarrow> Some (ps_clock p + (minIntervalMs - elapsedMs))
                  | Some d \<Rightarrow> Some d)\<rparr>))"

definition timer_fired :: "'a persistor \<Rightarrow> 'a persistor" where
  "timer_fired p = (let q = p\<lparr>ps_timer := None\<rparr> in if ps_dirty q then flush_persistor q else q)"

definition fresh_persistor :: "millis \<Rightarrow> 'a \<Rightarrow> 'a persistor" where
  "fresh_persistor now x = \<lparr>ps_clock = now, ps_object = x, ps_lastWriteAtMs = 0, ps_timer = None,
     ps_dirty = False, ps_log = []\<rparr>"

text \<open>
  The relayer changes the state object and asks for a write; the clock moves on; a timer fires no
  earlier than its due time. The explicit \<open>persist.flush\<close> is kept out: it is the caller's own write.
\<close>

inductive persistor_step :: "int \<Rightarrow> 'a persistor \<Rightarrow> 'a persistor \<Rightarrow> bool" for minIntervalMs where
  ps_mutate: "persistor_step minIntervalMs p (p\<lparr>ps_object := x\<rparr>)"
| ps_wait: "0 \<le> d \<Longrightarrow> persistor_step minIntervalMs p (p\<lparr>ps_clock := ps_clock p + d\<rparr>)"
| ps_request: "persistor_step minIntervalMs p (persist_call minIntervalMs p)"
| ps_fire: "ps_timer p = Some due \<Longrightarrow> due \<le> ps_clock p \<Longrightarrow> persistor_step minIntervalMs p (timer_fired p)"

text \<open>Requests not yet followed by a write, and the times of the writes.\<close>

fun outstanding :: "'a persist_event list \<Rightarrow> millis list" where
  "outstanding [] = []"
| "outstanding (Requested t # es) = t # outstanding es"
| "outstanding (Written _ _ # es) = []"

fun write_times :: "'a persist_event list \<Rightarrow> millis list" where
  "write_times [] = []"
| "write_times (Requested _ # es) = write_times es"
| "write_times (Written t _ # es) = t # write_times es"

fun spaced :: "int \<Rightarrow> millis list \<Rightarrow> bool" where
  "spaced d (t # u # ts) = (u + d \<le> t \<and> spaced d (u # ts))"
| "spaced d _ = True"

definition persistor_inv :: "int \<Rightarrow> 'a persistor \<Rightarrow> bool" where
  "persistor_inv minIntervalMs p \<longleftrightarrow>
     0 \<le> ps_lastWriteAtMs p \<and> ps_lastWriteAtMs p \<le> ps_clock p
     \<and> (ps_dirty p \<longleftrightarrow> outstanding (ps_log p) \<noteq> [])
     \<and> (ps_dirty p \<longrightarrow> ps_timer p \<noteq> None)
     \<and> (\<forall>due. ps_timer p = Some due \<longrightarrow> due = ps_lastWriteAtMs p + minIntervalMs)
     \<and> (\<forall>r \<in> set (outstanding (ps_log p)). ps_lastWriteAtMs p \<le> r)
     \<and> spaced minIntervalMs (write_times (ps_log p))
     \<and> (\<forall>t ts. write_times (ps_log p) = t # ts \<longrightarrow> t = ps_lastWriteAtMs p)"

lemma spaced_Cons: "spaced d (t # ts) \<longleftrightarrow> (case ts of [] \<Rightarrow> True | u # _ \<Rightarrow> u + d \<le> t) \<and> spaced d ts"
  by (cases ts) auto

lemma persistor_inv_step:
  assumes "persistor_step minIntervalMs p q" and "0 < minIntervalMs" and "persistor_inv minIntervalMs p"
  shows "persistor_inv minIntervalMs q"
  using assms
proof (induction rule: persistor_step.induct)
  case (ps_request p)
  show ?case
  proof (cases "ps_clock p - ps_lastWriteAtMs p \<ge> minIntervalMs")
    case True
    with ps_request show ?thesis
      by (auto simp: persist_call_def flush_persistor_def persistor_inv_def Let_def spaced_Cons
          split: list.split)
  next
    case False
    with ps_request show ?thesis
      by (auto simp: persist_call_def persistor_inv_def Let_def split: option.split)
  qed
next
  case (ps_fire p due)
  then show ?case
    by (auto simp: timer_fired_def flush_persistor_def persistor_inv_def Let_def spaced_Cons
        split: list.split)
qed (auto simp: persistor_inv_def)

lemma persistor_inv_fresh: "0 \<le> now \<Longrightarrow> persistor_inv minIntervalMs (fresh_persistor now x)"
  by (simp add: fresh_persistor_def persistor_inv_def)

lemma persistor_inv_outstanding:
  assumes "persistor_inv minIntervalMs p" and "r \<in> set (outstanding (ps_log p))"
  shows "ps_timer p = Some (ps_lastWriteAtMs p + minIntervalMs)" "ps_lastWriteAtMs p \<le> r"
proof -
  from assms have "ps_dirty p" "ps_lastWriteAtMs p \<le> r"
    unfolding persistor_inv_def by (metis empty_iff empty_set, blast)
  with assms(1) show "ps_timer p = Some (ps_lastWriteAtMs p + minIntervalMs)" "ps_lastWriteAtMs p \<le> r"
    unfolding persistor_inv_def by auto
qed

interpretation debounce: invariant_system
  "\<lambda>p. \<exists>now x. 0 \<le> now \<and> p = fresh_persistor now x"
  "\<lambda>p q. 0 < minIntervalMs \<and> persistor_step minIntervalMs p q"
  "persistor_inv minIntervalMs" for minIntervalMs :: int
  by unfold_locales (blast intro: persistor_inv_fresh persistor_inv_step)+

lemma persistor_steps_inv:
  assumes "0 < minIntervalMs" "0 \<le> now"
    and "rtranclp (persistor_step minIntervalMs) (fresh_persistor now x) p"
  shows "persistor_inv minIntervalMs p"
proof -
  have "rtranclp (\<lambda>p q. 0 < minIntervalMs \<and> persistor_step minIntervalMs p q) (fresh_persistor now x) p"
    using assms(3,1) by (auto elim: rtranclp_mono [THEN predicate2D, rotated])
  then show ?thesis
    by (rule debounce.inv_reachable [rotated]) (use assms(2) in blast)
qed



text \<open>A timer that fires writes the object as it is then, and nothing is outstanding afterwards.\<close>

lemma timer_fired_writes:
  assumes "persistor_inv minIntervalMs p" "outstanding (ps_log p) \<noteq> []"
  shows "ps_log (timer_fired p) = Written (ps_clock p) (ps_object p) # ps_log p"
  using assms by (auto simp: persistor_inv_def timer_fired_def flush_persistor_def Let_def)

end
