(* ===== verification/Gated_Decrypt.thy ===== *)
theory Gated_Decrypt
  imports Feed_Registry
begin

text \<open>
  The two lanes of the worker that open a sealed envelope: the time-locked decryption
  (\<open>handleOracleDecrypt\<close> of \<^verbatim>\<open>workers/nitro-worker/src/capabilities.js\<close>) and the reveal to a recipient
  (\<^verbatim>\<open>oracle/message-reveal.js\<close>). A handler returns its response and what it did: the messages it read
  from the chain and the envelopes it decrypted. Reading a message, recovering a signer, decoding
  bytes as text, the decryption itself and the filter on error texts are parameters.

  The facts: an envelope is opened exactly when the message on the configured contract allows it. The
  time-locked lane opens the stored envelope after the unlock time, the other lane opens a message
  without a lock for its recipient, and no message is open to both.
\<close>

section \<open>Environment\<close>

record http_response =
  hr_status :: int
  hr_body :: jsv

definition error_response :: "int \<Rightarrow> string \<Rightarrow> http_response" where
  "error_response status message = \<lparr>hr_status = status, hr_body = JObj [(''error'', JStr message)]\<rparr>"

lemma error_response_sel [simp]: "hr_status (error_response status message) = status"
  by (simp add: error_response_def)

record chain_message =
  cm_recipient :: string
  cm_envelope :: bytes
  cm_unlockTime :: int

record message_context =
  mc_rpcUrl :: string
  mc_contract :: string
  mc_chainId :: int

datatype reveal_effect = ReadMessage message_context int | Decrypt string

record decrypt_env =
  de_pe :: process_env
  de_now :: millis
  de_read :: "message_context \<Rightarrow> int \<Rightarrow> chain_message result"
  de_text :: "bytes \<Rightarrow> string option"
  de_decrypt :: "string \<Rightarrow> jsv \<Rightarrow> string option result"
  de_signer :: "string \<Rightarrow> string \<Rightarrow> string option"
  de_sanitize :: "string \<Rightarrow> string"

type_synonym lane_outcome = "http_response \<times> reveal_effect list"

definition NEOX_CHAIN_ALIASES :: "string list" where
  "NEOX_CHAIN_ALIASES = [''neox'', ''neo_x'', ''neo-x'']"

definition DEFAULT_NEOX_CHAIN_ID :: int where "DEFAULT_NEOX_CHAIN_ID = 47763"
definition REVEAL_FRESHNESS_WINDOW_SECONDS :: int where "REVEAL_FRESHNESS_WINDOW_SECONDS = 600"

text \<open>\<open>Number(env(...)) || DEFAULT_NEOX_CHAIN_ID\<close>, for a finite integral setting.\<close>

definition resolveNeoxMessageChainContext :: "process_env \<Rightarrow> message_context" where
  "resolveNeoxMessageChainContext pe =
     \<lparr>mc_rpcUrl = env pe [''NEOX_MESSAGE_RPC'', ''NEOX_RPC'', ''EVM_RPC_URL''],
      mc_contract = env pe [''NEOX_MESSAGE_CONTRACT''],
      mc_chainId = (case js_float (env pe [''NEOX_MESSAGE_CHAIN_ID'', ''NEOX_CHAIN_ID'']) of
          Some x \<Rightarrow> if x = 0 then DEFAULT_NEOX_CHAIN_ID else \<lfloor>x\<rfloor>
        | None \<Rightarrow> DEFAULT_NEOX_CHAIN_ID)\<rparr>"

section \<open>Message identifiers\<close>

text \<open>\<open>BigInt(s)\<close> for a string: empty text is 0; a signed decimal or an unsigned literal of another base.\<close>

definition bigint_text :: "string \<Rightarrow> int option" where
  "bigint_text s =
     (let t = js_trim s; l = to_lower (take 2 t)
      in if t = [] then Some 0
         else if l = ''0x'' then map_option floor (radix_value 16 (to_lower (drop 2 t)))
         else if l = ''0o'' then map_option floor (radix_value 8 (to_lower (drop 2 t)))
         else if l = ''0b'' then map_option floor (radix_value 2 (to_lower (drop 2 t)))
         else exponent_value t)"

fun js_bigint :: "jsv \<Rightarrow> int option" where
  "js_bigint (JBool b) = Some (if b then 1 else 0)"
| "js_bigint (JNum (Fin i)) = Some i"
| "js_bigint (JStr s) = bigint_text s"
| "js_bigint (JArr vs) = bigint_text (js_string (JArr vs))"
| "js_bigint _ = None"

definition parseMessageId :: "jsv \<Rightarrow> int option" where
  "parseMessageId v = (case js_bigint v of Some i \<Rightarrow> if i \<le> 0 then None else Some i | None \<Rightarrow> None)"

section \<open>Time-locked decryption\<close>

definition decryptBindingRequired :: "process_env \<Rightarrow> bool" where
  "decryptBindingRequired pe =
     (to_lower (env pe [''MORPHEUS_ORACLE_DECRYPT_REQUIRE_BINDING'']) \<notin> {''0'', ''false'', ''no'', ''off''})"

text \<open>\<open>typeof v === 'string' && v.trim()\<close> over the candidate members, or the empty string.\<close>

definition text_member :: "jsv \<Rightarrow> string \<Rightarrow> string" where
  "text_member payload name = (case getp payload name of JStr s \<Rightarrow> js_trim s | _ \<Rightarrow> [])"

definition extractDecryptCiphertext :: "jsv \<Rightarrow> string" where
  "extractDecryptCiphertext payload =
     first_nonempty (map (text_member payload) [''envelope'', ''ciphertext'', ''sealed'', ''encrypted_payload''])"

definition hasDecryptBindingFields :: "jsv \<Rightarrow> bool" where
  "hasDecryptBindingFields payload =
     (getp payload ''messageId'' \<noteq> JUndef \<or> getp payload ''message_id'' \<noteq> JUndef \<or> getp payload ''id'' \<noteq> JUndef)"

definition lane_chain :: "jsv \<Rightarrow> string" where
  "lane_chain payload = to_lower (trimValue (first_truthy [getp payload ''chain'', getp payload ''network'', JStr ''neox'']))"

definition binding_message_id :: "jsv \<Rightarrow> int option" where
  "binding_message_id payload =
     parseMessageId (js_nullish (getp payload ''messageId'') (js_nullish (getp payload ''message_id'') (getp payload ''id'')))"

definition requested_contract :: "jsv \<Rightarrow> string" where
  "requested_contract payload = trimValue (first_truthy [getp payload ''contract'', getp payload ''contract_address''])"

text \<open>
  The checks on a message that was read: the stored envelope is the one to decrypt and its lock has
  expired. \<open>Some\<close> is the rejection.
\<close>

definition check_message :: "decrypt_env \<Rightarrow> string \<Rightarrow> chain_message \<Rightarrow> http_response option" where
  "check_message de ciphertext message =
     (case de_text de (cm_envelope message) of
        None \<Rightarrow> Some (error_response 400 ''stored envelope is not decodable'')
      | Some storedEnvelope \<Rightarrow>
          if js_trim storedEnvelope \<noteq> js_trim ciphertext
          then Some (error_response 403 ''envelope does not match the on-chain message for this messageId'')
          else if cm_unlockTime message \<le> 0
          then Some (error_response 403 ''message is not time-locked; use the recipient reveal lane'')
          else if de_now de div 1000 < cm_unlockTime message
          then Some (error_response 403 ''message time-lock has not expired yet'')
          else None)"

definition assertDecryptBinding :: "decrypt_env \<Rightarrow> jsv \<Rightarrow> string \<Rightarrow> http_response option \<times> reveal_effect list" where
  "assertDecryptBinding de payload ciphertext =
     (let ctx = resolveNeoxMessageChainContext (de_pe de)
      in if lane_chain payload \<notin> set NEOX_CHAIN_ALIASES
         then (Some (error_response 400 ''gated decrypt currently supports the neox chain only''), [])
         else case binding_message_id payload of
             None \<Rightarrow> (Some (error_response 400 ''valid messageId required for gated decrypt''), [])
           | Some messageId \<Rightarrow>
               if mc_rpcUrl ctx = [] \<or> mc_contract ctx = []
               then (Some (error_response 503 ''gated decrypt is not configured on this worker''), [])
               else if requested_contract payload \<noteq> [] \<and> to_lower (requested_contract payload) \<noteq> to_lower (mc_contract ctx)
               then (Some (error_response 403 ''contract does not match the worker-configured message contract''), [])
               else case de_read de ctx messageId of
                   Inl e \<Rightarrow> (Some (error_response 502 (''failed to read message on-chain: '' @ de_sanitize de e)), [ReadMessage ctx messageId])
                 | Inr message \<Rightarrow> (check_message de ciphertext message, [ReadMessage ctx messageId]))"

text \<open>The end of both lanes: open the envelope and answer with its text and some more members.\<close>

definition open_envelope :: "decrypt_env \<Rightarrow> string \<Rightarrow> jsv \<Rightarrow> (string \<times> jsv) list \<Rightarrow> http_response" where
  "open_envelope de envelope payload extra =
     (case de_decrypt de envelope payload of
        Inl e \<Rightarrow> error_response 400 (de_sanitize de e)
      | Inr None \<Rightarrow> error_response 400 ''decryption returned empty result''
      | Inr (Some plaintext) \<Rightarrow> \<lparr>hr_status = 200, hr_body = JObj ((''plaintext'', JStr plaintext) # extra)\<rparr>)"

definition handleOracleDecrypt :: "decrypt_env \<Rightarrow> jsv \<Rightarrow> lane_outcome" where
  "handleOracleDecrypt de payload =
     (let ciphertext = extractDecryptCiphertext payload;
          decrypt = \<lambda>tr. (open_envelope de ciphertext payload [], tr @ [Decrypt ciphertext])
      in if ciphertext = [] then (error_response 400 ''sealed envelope required (field: envelope)'', [])
         else if hasDecryptBindingFields payload
         then (case assertDecryptBinding de payload ciphertext of
                 (Some rejection, tr) \<Rightarrow> (rejection, tr)
               | (None, tr) \<Rightarrow> decrypt tr)
         else if decryptBindingRequired (de_pe de)
         then (error_response 400 ''gated decrypt requires (chain, contract, messageId) binding fields'', [])
         else decrypt [])"

section \<open>Reveal to the recipient\<close>

definition newline :: string where "newline = [CHR 0x0A]"

definition buildRevealStatement :: "int \<Rightarrow> string \<Rightarrow> int \<Rightarrow> int \<Rightarrow> string" where
  "buildRevealStatement chainId contract messageId issuedAt = js_join newline
     [''Morpheus Neo Message'', ''Recipient reveal request'', ''chain: '' @ show_int chainId,
      ''contract: '' @ to_lower contract, ''message: '' @ show_int messageId, ''issued: '' @ show_int issuedAt]"

definition addressesEqual :: "string \<Rightarrow> string \<Rightarrow> bool" where
  "addressesEqual a b = (length a = 42 \<and> length b = 42 \<and> to_lower a = to_lower b)"

definition isRevealTimestampFresh :: "int \<Rightarrow> int \<Rightarrow> bool" where
  "isRevealTimestampFresh issuedAt nowSeconds =
     (0 < issuedAt \<and> 0 < nowSeconds \<and> \<bar>nowSeconds - issuedAt\<bar> \<le> REVEAL_FRESHNESS_WINDOW_SECONDS)"

definition parseIssuedAt :: "jsv \<Rightarrow> int option" where
  "parseIssuedAt v = (case js_real v of Some n \<Rightarrow> if 0 < n then Some \<lfloor>n\<rfloor> else None | None \<Rightarrow> None)"

definition zero_address :: string where "zero_address = ''0x'' @ replicate 40 CHR ''0''"

definition reveal_message_id :: "jsv \<Rightarrow> int option" where
  "reveal_message_id payload = parseMessageId (js_nullish (getp payload ''messageId'') (getp payload ''id''))"

definition reveal_issued_at :: "jsv \<Rightarrow> int option" where
  "reveal_issued_at payload =
     parseIssuedAt (js_nullish (getp payload ''issuedAt'') (js_nullish (getp payload ''issued_at'') (getp payload ''issued'')))"

text \<open>The part of \<open>handleMessageReveal\<close> after the message has been read.\<close>

definition reveal_message ::
  "decrypt_env \<Rightarrow> jsv \<Rightarrow> message_context \<Rightarrow> int \<Rightarrow> string \<Rightarrow> int \<Rightarrow> chain_message \<Rightarrow> lane_outcome" where
  "reveal_message de payload ctx messageId signature issuedAt message =
     (let reject = \<lambda>status message. (error_response status message, []);
          recipient = cm_recipient message
      in if recipient = [] \<or> recipient = zero_address then reject 400 ''message has no designated recipient''
         else if cm_unlockTime message \<noteq> 0 then reject 403 ''time-locked messages must use the contract-gated reveal lane''
         else case de_signer de (buildRevealStatement (mc_chainId ctx) (mc_contract ctx) messageId issuedAt) signature of
             None \<Rightarrow> reject 400 ''malformed signature''
           | Some signer \<Rightarrow>
               if signer = [] then reject 400 ''malformed signature''
               else if \<not> addressesEqual signer recipient then reject 403 ''signature does not match the message recipient''
               else case de_text de (cm_envelope message) of
                   None \<Rightarrow> reject 400 ''stored envelope is not decodable''
                 | Some envelope \<Rightarrow>
                     (open_envelope de envelope payload
                        [(''recipient'', JStr recipient), (''messageId'', JStr (show_int messageId)), (''unlockTime'', JNum (Fin (cm_unlockTime message)))],
                      [Decrypt envelope]))"

definition handleMessageReveal :: "decrypt_env \<Rightarrow> jsv \<Rightarrow> lane_outcome" where
  "handleMessageReveal de payload =
     (let reject = \<lambda>status message. (error_response status message, []);
          ctx = resolveNeoxMessageChainContext (de_pe de);
          signature = text_member payload ''signature''
      in if lane_chain payload \<notin> set NEOX_CHAIN_ALIASES then reject 400 ''recipient reveal currently supports the neox chain only''
         else case reveal_message_id payload of
             None \<Rightarrow> reject 400 ''valid messageId required''
           | Some messageId \<Rightarrow>
               if signature = [] then reject 400 ''recipient signature required (field: signature)''
               else case reveal_issued_at payload of
                   None \<Rightarrow> reject 400 ''issuedAt (unix seconds) required''
                 | Some issuedAt \<Rightarrow>
                     if \<not> isRevealTimestampFresh issuedAt (de_now de div 1000)
                     then reject 403 ''reveal request expired; re-sign with a current timestamp''
                     else if mc_rpcUrl ctx = [] \<or> mc_contract ctx = []
                     then reject 503 ''recipient reveal is not configured on this worker''
                     else case de_read de ctx messageId of
                         Inl e \<Rightarrow> (error_response 502 (''failed to read message on-chain: '' @ de_sanitize de e), [ReadMessage ctx messageId])
                       | Inr message \<Rightarrow> map_prod id ((#) (ReadMessage ctx messageId))
                           (reveal_message de payload ctx messageId signature issuedAt message))"

section \<open>When an envelope is opened\<close>

text \<open>The message of a request, read from the configured contract, with its envelope as text.\<close>

definition stored_message :: "decrypt_env \<Rightarrow> int option \<Rightarrow> chain_message \<Rightarrow> string \<Rightarrow> bool" where
  "stored_message de messageId message envelope =
     (\<exists>i. messageId = Some i
       \<and> mc_rpcUrl (resolveNeoxMessageChainContext (de_pe de)) \<noteq> [] \<and> mc_contract (resolveNeoxMessageChainContext (de_pe de)) \<noteq> []
       \<and> de_read de (resolveNeoxMessageChainContext (de_pe de)) i = Inr message
       \<and> de_text de (cm_envelope message) = Some envelope)"

definition contract_agrees :: "decrypt_env \<Rightarrow> jsv \<Rightarrow> bool" where
  "contract_agrees de payload =
     (requested_contract payload = []
      \<or> to_lower (requested_contract payload) = to_lower (mc_contract (resolveNeoxMessageChainContext (de_pe de))))"

lemma text_member_trimmed: "js_trim (text_member payload name) = text_member payload name"
  by (simp add: text_member_def js_trim_idem split: jsv.split)

lemma extracted_trimmed: "js_trim (extractDecryptCiphertext payload) = extractDecryptCiphertext payload"
  by (simp add: extractDecryptCiphertext_def text_member_trimmed)

lemma check_message_passes:
  "check_message de ciphertext message = None \<longleftrightarrow>
     (\<exists>envelope. de_text de (cm_envelope message) = Some envelope \<and> js_trim envelope = js_trim ciphertext)
      \<and> 0 < cm_unlockTime message \<and> cm_unlockTime message \<le> de_now de div 1000"
  by (auto simp: check_message_def split: option.splits)

lemma binding_effects: "assertDecryptBinding de payload ciphertext = (r, tr) \<Longrightarrow> Decrypt c \<notin> set tr"
  by (auto simp: assertDecryptBinding_def Let_def split: if_splits option.splits sum.splits)

lemma binding_passes:
  "fst (assertDecryptBinding de payload ciphertext) = None \<longleftrightarrow>
     lane_chain payload \<in> set NEOX_CHAIN_ALIASES \<and> contract_agrees de payload
     \<and> (\<exists>message envelope. stored_message de (binding_message_id payload) message envelope
          \<and> js_trim envelope = js_trim ciphertext
          \<and> 0 < cm_unlockTime message \<and> cm_unlockTime message \<le> de_now de div 1000)"
  by (auto simp: assertDecryptBinding_def Let_def contract_agrees_def stored_message_def check_message_passes
      split: option.split sum.split)

lemma decrypt_cases:
  "extractDecryptCiphertext payload = [] \<Longrightarrow> hr_status (fst (handleOracleDecrypt de payload)) = 400 \<and> snd (handleOracleDecrypt de payload) = []"
  "extractDecryptCiphertext payload \<noteq> [] \<Longrightarrow> \<not> hasDecryptBindingFields payload \<Longrightarrow> decryptBindingRequired (de_pe de) \<Longrightarrow>
     hr_status (fst (handleOracleDecrypt de payload)) = 400 \<and> snd (handleOracleDecrypt de payload) = []"
  "extractDecryptCiphertext payload \<noteq> [] \<Longrightarrow> \<not> hasDecryptBindingFields payload \<Longrightarrow> \<not> decryptBindingRequired (de_pe de) \<Longrightarrow>
     handleOracleDecrypt de payload = (open_envelope de (extractDecryptCiphertext payload) payload [], [Decrypt (extractDecryptCiphertext payload)])"
  "extractDecryptCiphertext payload \<noteq> [] \<Longrightarrow> hasDecryptBindingFields payload \<Longrightarrow>
     assertDecryptBinding de payload (extractDecryptCiphertext payload) = (Some rejection, tr) \<Longrightarrow>
     handleOracleDecrypt de payload = (rejection, tr)"
  "extractDecryptCiphertext payload \<noteq> [] \<Longrightarrow> hasDecryptBindingFields payload \<Longrightarrow>
     assertDecryptBinding de payload (extractDecryptCiphertext payload) = (None, tr) \<Longrightarrow>
     handleOracleDecrypt de payload = (open_envelope de (extractDecryptCiphertext payload) payload [], tr @ [Decrypt (extractDecryptCiphertext payload)])"
  by (simp_all add: handleOracleDecrypt_def Let_def)

lemma decrypt_opened:
  assumes "decryptBindingRequired (de_pe de)"
  shows "Decrypt c \<in> set (snd (handleOracleDecrypt de payload)) \<longleftrightarrow>
    c \<noteq> [] \<and> c = extractDecryptCiphertext payload \<and> hasDecryptBindingFields payload
    \<and> lane_chain payload \<in> set NEOX_CHAIN_ALIASES \<and> contract_agrees de payload
    \<and> (\<exists>message envelope. stored_message de (binding_message_id payload) message envelope \<and> js_trim envelope = c
         \<and> 0 < cm_unlockTime message \<and> cm_unlockTime message \<le> de_now de div 1000)"
proof (cases "extractDecryptCiphertext payload = [] \<or> \<not> hasDecryptBindingFields payload")
  case True
  then have "snd (handleOracleDecrypt de payload) = []" using assms decrypt_cases(1,2) by blast
  then show ?thesis using True by auto
next
  case False
  obtain r tr where b: "assertDecryptBinding de payload (extractDecryptCiphertext payload) = (r, tr)" by fastforce
  have "Decrypt c \<in> set (snd (handleOracleDecrypt de payload)) \<longleftrightarrow> c = extractDecryptCiphertext payload \<and> r = None"
    using False binding_effects [OF b] decrypt_cases(4) [of payload de _ tr] decrypt_cases(5) [of payload de tr] b by (cases r) auto
  moreover have "r = None \<longleftrightarrow> fst (assertDecryptBinding de payload (extractDecryptCiphertext payload)) = None" by (simp add: b)
  ultimately show ?thesis using False unfolding binding_passes by (auto simp: extracted_trimmed)
qed

text \<open>
  C17: While the binding is required, which is the default, an envelope is opened by the time-locked
  lane exactly when it is the envelope stored on the configured contract under the message id of the
  request, and the unlock time of that message has passed. A request without a message id opens
  nothing, whatever it contains.
\<close>

theorem decrypt_lane_exact:
  assumes "decryptBindingRequired (de_pe de)"
  shows "Decrypt c \<in> set (snd (handleOracleDecrypt de payload)) \<longleftrightarrow>
    c \<noteq> [] \<and> c = extractDecryptCiphertext payload \<and> hasDecryptBindingFields payload
    \<and> lane_chain payload \<in> set NEOX_CHAIN_ALIASES \<and> contract_agrees de payload
    \<and> (\<exists>message envelope. stored_message de (binding_message_id payload) message envelope \<and> js_trim envelope = c
         \<and> 0 < cm_unlockTime message \<and> cm_unlockTime message \<le> de_now de div 1000)"
  by (rule decrypt_opened [OF assms])

lemma reveal_statement_inj:
  assumes "buildRevealStatement c k i t = buildRevealStatement c' k' i' t'"
    and "CHR 0x0A \<notin> set (to_lower k) \<union> set (to_lower k')"
  shows "c = c' \<and> to_lower k = to_lower k' \<and> i = i' \<and> t = t'"
proof -
  have nl: "CHR 0x0A \<notin> set (show_int n)" for n by (auto dest: show_int_chars)
  show ?thesis
    using assms nl js_join_inj [of "[''Morpheus Neo Message'', ''Recipient reveal request'', ''chain: '' @ show_int c,
        ''contract: '' @ to_lower k, ''message: '' @ show_int i, ''issued: '' @ show_int t]"
      "[''Morpheus Neo Message'', ''Recipient reveal request'', ''chain: '' @ show_int c',
        ''contract: '' @ to_lower k', ''message: '' @ show_int i', ''issued: '' @ show_int t']" "CHR 0x0A"]
    by (simp add: buildRevealStatement_def newline_def show_int_inj)
qed

definition signed_by :: "decrypt_env \<Rightarrow> string \<Rightarrow> int option \<Rightarrow> int option \<Rightarrow> string \<Rightarrow> bool" where
  "signed_by de recipient messageId issuedAt signature =
     (\<exists>i t signer. messageId = Some i \<and> issuedAt = Some t
       \<and> de_signer de (buildRevealStatement (mc_chainId (resolveNeoxMessageChainContext (de_pe de)))
             (mc_contract (resolveNeoxMessageChainContext (de_pe de))) i t) signature = Some signer
       \<and> addressesEqual signer recipient \<and> isRevealTimestampFresh t (de_now de div 1000))"

lemma reveal_message_opens:
  "Decrypt c \<in> set (snd (reveal_message de payload ctx messageId signature issuedAt message)) \<longleftrightarrow>
     cm_recipient message \<notin> {[], zero_address} \<and> cm_unlockTime message = 0
     \<and> (\<exists>signer. de_signer de (buildRevealStatement (mc_chainId ctx) (mc_contract ctx) messageId issuedAt) signature = Some signer
          \<and> addressesEqual signer (cm_recipient message))
     \<and> de_text de (cm_envelope message) = Some c"
  by (auto simp: reveal_message_def Let_def addressesEqual_def split: option.split)

text \<open>
  C16: The reveal lane opens an envelope exactly when it is the stored envelope of a message without a
  time lock on the configured contract, and the recipient of that message signed a statement on this
  chain, contract and message within the freshness window.
\<close>

theorem reveal_lane_exact:
  "Decrypt c \<in> set (snd (handleMessageReveal de payload)) \<longleftrightarrow>
     lane_chain payload \<in> set NEOX_CHAIN_ALIASES
     \<and> (\<exists>message. stored_message de (reveal_message_id payload) message c
          \<and> cm_unlockTime message = 0 \<and> cm_recipient message \<notin> {[], zero_address}
          \<and> text_member payload ''signature'' \<noteq> []
          \<and> signed_by de (cm_recipient message) (reveal_message_id payload) (reveal_issued_at payload)
                (text_member payload ''signature''))"
  by (auto simp: handleMessageReveal_def Let_def stored_message_def signed_by_def reveal_message_opens split: option.split sum.split)

section \<open>An example\<close>

definition locked_message :: chain_message where
  "locked_message = \<lparr>cm_recipient = ''0x1'', cm_envelope = [], cm_unlockTime = 100\<rparr>"

definition locked_env :: "millis \<Rightarrow> decrypt_env" where
  "locked_env now = \<lparr>de_pe = \<lparr>pe_vars = (\<lambda>n. if n = ''NEOX_MESSAGE_RPC'' then ''http://node'' else if n = ''NEOX_MESSAGE_CONTRACT'' then ''0xAB'' else []),
       pe_runtime = (\<lambda>_. JUndef), pe_scoped = (\<lambda>_ _. JUndef)\<rparr>,
     de_now = now, de_read = (\<lambda>ctx i. Inr locked_message), de_text = (\<lambda>_. Some ''sealed ''),
     de_decrypt = (\<lambda>c payload. Inr (Some ''hello'')), de_signer = (\<lambda>s sig. None), de_sanitize = (\<lambda>e. e)\<rparr>"

definition locked_request :: jsv where
  "locked_request = JObj [(''envelope'', JStr ''sealed''), (''message_id'', JStr ''5''), (''contract'', JStr ''0xab'')]"

lemma locked_env_facts:
  "decryptBindingRequired (de_pe (locked_env now))"
  "mc_rpcUrl (resolveNeoxMessageChainContext (de_pe (locked_env now))) = ''http://node''"
  "mc_contract (resolveNeoxMessageChainContext (de_pe (locked_env now))) = ''0xAB''"
proof -
  have "env (de_pe (locked_env now)) [''NEOX_MESSAGE_RPC'', ''NEOX_RPC'', ''EVM_RPC_URL''] = ''http://node''"
    "env (de_pe (locked_env now)) [''NEOX_MESSAGE_CONTRACT''] = ''0xAB''"
    by code_simp+
  then show "mc_rpcUrl (resolveNeoxMessageChainContext (de_pe (locked_env now))) = ''http://node''"
    "mc_contract (resolveNeoxMessageChainContext (de_pe (locked_env now))) = ''0xAB''"
    by (simp_all add: resolveNeoxMessageChainContext_def)
  show "decryptBindingRequired (de_pe (locked_env now))" by code_simp
qed

lemma locked_request_facts:
  "extractDecryptCiphertext locked_request = ''sealed''" "hasDecryptBindingFields locked_request"
  "lane_chain locked_request \<in> set NEOX_CHAIN_ALIASES" "binding_message_id locked_request = Some 5"
  "to_lower (requested_contract locked_request) = to_lower ''0xAB''" "js_trim ''sealed '' = ''sealed''"
  by code_simp+

lemma locked_stored: "stored_message (locked_env now) (Some 5) locked_message ''sealed ''"
  unfolding stored_message_def locked_env_facts by (simp add: locked_env_def)

theorem decrypt_lane_exact_witness:
  "Decrypt ''sealed'' \<in> set (snd (handleOracleDecrypt (locked_env 100000) locked_request))
   \<and> Decrypt ''sealed'' \<notin> set (snd (handleOracleDecrypt (locked_env 99999) locked_request))"
proof
  have "contract_agrees (locked_env now) locked_request" for now
    by (simp add: contract_agrees_def locked_env_facts locked_request_facts)
  then show "Decrypt ''sealed'' \<in> set (snd (handleOracleDecrypt (locked_env 100000) locked_request))"
    unfolding decrypt_lane_exact [OF locked_env_facts(1)] locked_request_facts
    using locked_stored locked_request_facts by (fastforce simp: locked_message_def locked_env_def)
  show "Decrypt ''sealed'' \<notin> set (snd (handleOracleDecrypt (locked_env 99999) locked_request))"
    unfolding decrypt_lane_exact [OF locked_env_facts(1)] locked_request_facts
    by (simp add: stored_message_def locked_env_def locked_message_def)
qed

end
