(* ===== verification/Codecs.thy ===== *)
theory Codecs
  imports JSON_Value
begin

text \<open>
  The byte codecs of the Node runtime the router uses: hexadecimal and base64 text, and SHA-256 as
  FIPS 180-4 defines it on 32-bit words.
\<close>

unbundle bit_operations_syntax

section \<open>Hexadecimal\<close>

definition hex_val :: "char \<Rightarrow> nat option" where
  "hex_val c = (let n = (of_char c :: nat) in
     if 48 \<le> n \<and> n \<le> 57 then Some (n - 48)
     else if 97 \<le> n \<and> n \<le> 102 then Some (n - 87)
     else if 65 \<le> n \<and> n \<le> 70 then Some (n - 55) else None)"

definition is_hex :: "char \<Rightarrow> bool" where
  "is_hex c = (hex_val c \<noteq> None)"

text \<open>\<open>/^[0-9a-f]{n}$/i\<close>.\<close>

definition hex_text :: "nat \<Rightarrow> string \<Rightarrow> bool" where
  "hex_text n s = (length s = n \<and> list_all is_hex s)"

text \<open>\<open>Buffer.from(s, 'hex')\<close>: stops at the first pair that is not hexadecimal, drops an odd digit.\<close>

fun hex_decode :: "string \<Rightarrow> bytes" where
  "hex_decode (a # b # cs) = (case (hex_val a, hex_val b) of
      (Some x, Some y) \<Rightarrow> of_nat (16 * x + y) # hex_decode cs | _ \<Rightarrow> [])"
| "hex_decode _ = []"

definition hex_byte :: "byte \<Rightarrow> string" where
  "hex_byte b = [hex_digit (unat b div 16), hex_digit (unat b mod 16)]"

definition hex_encode :: "bytes \<Rightarrow> string" where
  "hex_encode bs = concat (map hex_byte bs)"

lemma hex_val_digit: "d < 16 \<Longrightarrow> hex_val (hex_digit d) = Some d"
  by (auto simp: hex_val_def hex_digit_def Let_def)

lemma unat_byte_lt [simp]: "unat (b :: byte) < 256"
  using unsigned_less [of b] by simp

lemma hex_decode_encode: "hex_decode (hex_encode bs) = bs"
proof (induction bs)
  case (Cons b bs)
  have "unat b div 16 < 16" using unat_byte_lt [of b] by (simp add: div_less_iff_less_mult)
  moreover have "unat b mod 16 < 16" by simp
  moreover have "16 * (unat b div 16) + unat b mod 16 = unat b" by simp
  ultimately show ?case using Cons
    by (simp add: hex_encode_def hex_byte_def hex_val_digit del: of_nat_add of_nat_mult)
qed (simp add: hex_encode_def)

lemma hex_val_lt: "hex_val c = Some n \<Longrightarrow> n < 16"
  by (auto simp: hex_val_def Let_def split: if_splits)

lemma length_hex_decode: "hex_text (2 * n) s \<Longrightarrow> length (hex_decode s) = n"
proof (induction s arbitrary: n rule: hex_decode.induct)
  case (1 a b cs)
  then obtain x y where "hex_val a = Some x" "hex_val b = Some y"
    by (auto simp: hex_text_def is_hex_def)
  moreover have "hex_text (2 * (n - 1)) cs" using "1.prems" by (auto simp: hex_text_def)
  moreover have "0 < n" using "1.prems" by (auto simp: hex_text_def)
  ultimately show ?case using "1.IH" [of "Some x" "Some y" x y "n - 1"] by simp
qed (auto simp: hex_text_def)

section \<open>Base64\<close>

definition b64_char :: "nat \<Rightarrow> char" where
  "b64_char n = (if n < 26 then char_of (65 + n) else if n < 52 then char_of (71 + n)
     else if n < 62 then char_of (n - 4) else if n = 62 then CHR ''+'' else CHR ''/'')"

text \<open>Both alphabets decode; every other character, padding included, is skipped.\<close>

definition b64_val :: "char \<Rightarrow> nat option" where
  "b64_val c = (let n = (of_char c :: nat) in
     if 65 \<le> n \<and> n \<le> 90 then Some (n - 65)
     else if 97 \<le> n \<and> n \<le> 122 then Some (n - 71)
     else if 48 \<le> n \<and> n \<le> 57 then Some (n + 4)
     else if n = 43 \<or> n = 45 then Some 62
     else if n = 47 \<or> n = 95 then Some 63 else None)"

fun b64_groups :: "nat list \<Rightarrow> string" where
  "b64_groups (a # b # c # bs) =
     [b64_char (a div 4), b64_char (a mod 4 * 16 + b div 16), b64_char (b mod 16 * 4 + c div 64),
      b64_char (c mod 64)] @ b64_groups bs"
| "b64_groups [a, b] =
     [b64_char (a div 4), b64_char (a mod 4 * 16 + b div 16), b64_char (b mod 16 * 4), CHR ''='']"
| "b64_groups [a] = [b64_char (a div 4), b64_char (a mod 4 * 16), CHR ''='', CHR ''='']"
| "b64_groups [] = []"

definition base64_encode :: "bytes \<Rightarrow> string" where
  "base64_encode bs = b64_groups (map unat bs)"

fun b64_bytes :: "nat list \<Rightarrow> nat list" where
  "b64_bytes (w # x # y # z # vs) =
     [w * 4 + x div 16, x mod 16 * 16 + y div 4, y mod 4 * 64 + z] @ b64_bytes vs"
| "b64_bytes [w, x, y] = [w * 4 + x div 16, x mod 16 * 16 + y div 4]"
| "b64_bytes [w, x] = [w * 4 + x div 16]"
| "b64_bytes _ = []"

definition base64_decode :: "string \<Rightarrow> bytes" where
  "base64_decode s = map of_nat (b64_bytes (List.map_filter b64_val s))"

lemma b64_val_char: "n < 64 \<Longrightarrow> b64_val (b64_char n) = Some n"
  by (auto simp: b64_val_def b64_char_def Let_def)

lemma b64_val_pad [simp]: "b64_val (CHR ''='') = None"
  by (simp add: b64_val_def)

lemma join_digits:
  fixes q r n :: nat
  assumes "r < n"
  shows "(q * n + r) div n = q" "(q * n + r) mod n = r"
  using assms by simp_all

lemma sextets:
  fixes a b c :: nat
  assumes "a < 256" "b < 256" "c < 256"
  shows "a div 4 < 64" "a mod 4 * 16 + b div 16 < 64" "b mod 16 * 4 + c div 64 < 64" "c mod 64 < 64"
    "a mod 4 * 16 < 64" "b mod 16 * 4 < 64"
    "(a mod 4 * 16 + b div 16) div 16 = a mod 4" "(a mod 4 * 16 + b div 16) mod 16 = b div 16"
    "(b mod 16 * 4 + c div 64) div 4 = b mod 16" "(b mod 16 * 4 + c div 64) mod 4 = c div 64"
proof -
  have b: "b div 16 < 16" and c: "c div 64 < 4" and a: "a div 4 < 64" using assms by auto
  have m: "a mod 4 < 4" "b mod 16 < 16" by simp_all
  show "a div 4 < 64" by (rule a)
  show "a mod 4 * 16 + b div 16 < 64" "b mod 16 * 4 + c div 64 < 64" "a mod 4 * 16 < 64" "b mod 16 * 4 < 64"
    using m b c by linarith+
  show "c mod 64 < 64" by simp
  show "(a mod 4 * 16 + b div 16) div 16 = a mod 4" "(a mod 4 * 16 + b div 16) mod 16 = b div 16"
    using join_digits [OF b] by blast+
  show "(b mod 16 * 4 + c div 64) div 4 = b mod 16" "(b mod 16 * 4 + c div 64) mod 4 = c div 64"
    using join_digits [OF c] by blast+
qed

lemma b64_bytes_groups:
  "\<forall>b \<in> set bs. b < 256 \<Longrightarrow> b64_bytes (List.map_filter b64_val (b64_groups bs)) = bs"
proof (induction bs rule: b64_groups.induct)
  case (1 a b c bs)
  then have lt: "a < 256" "b < 256" "c < 256" by auto
  have "b64_bytes (List.map_filter b64_val (b64_groups (a # b # c # bs))) =
      [a div 4 * 4 + a mod 4, b div 16 * 16 + b mod 16, c div 64 * 64 + c mod 64] @ bs"
    using 1 sextets [OF lt] by (simp add: map_filter_simps b64_val_char del: mod_mult_self1 div_mult_mod_eq)
  then show ?case by simp
next
  case (2 a b)
  then have lt: "a < 256" "b < 256" by auto
  have "b64_bytes (List.map_filter b64_val (b64_groups [a, b])) = [a div 4 * 4 + a mod 4, b div 16 * 16 + b mod 16]"
    using sextets [OF lt, of 0] by (simp add: map_filter_simps b64_val_char)
  then show ?case by simp
next
  case (3 a)
  then have lt: "a < 256" by auto
  have "b64_bytes (List.map_filter b64_val (b64_groups [a])) = [a div 4 * 4 + a mod 4]"
    using sextets [OF lt, of 0 0] by (simp add: map_filter_simps b64_val_char)
  then show ?case by simp
qed (simp add: map_filter_simps)

lemma base64_roundtrip: "base64_decode (base64_encode bs) = bs"
proof -
  have "b64_bytes (List.map_filter b64_val (b64_groups (map unat bs))) = map unat bs"
    by (rule b64_bytes_groups) auto
  then show ?thesis by (simp add: base64_decode_def base64_encode_def comp_def)
qed

section \<open>SHA-256\<close>

type_synonym word32 = "32 word"

definition rotr :: "nat \<Rightarrow> word32 \<Rightarrow> word32" where
  "rotr n w = (drop_bit n w) OR (push_bit (32 - n) w)"

definition sha_K :: "word32 list" where
  "sha_K = [
   1116352408, 1899447441, 3049323471, 3921009573, 961987163, 1508970993, 2453635748, 2870763221,
   3624381080, 310598401, 607225278, 1426881987, 1925078388, 2162078206, 2614888103, 3248222580,
   3835390401, 4022224774, 264347078, 604807628, 770255983, 1249150122, 1555081692, 1996064986,
   2554220882, 2821834349, 2952996808, 3210313671, 3336571891, 3584528711, 113926993, 338241895,
   666307205, 773529912, 1294757372, 1396182291, 1695183700, 1986661051, 2177026350, 2456956037,
   2730485921, 2820302411, 3259730800, 3345764771, 3516065817, 3600352804, 4094571909, 275423344,
   430227734, 506948616, 659060556, 883997877, 958139571, 1322822218, 1537002063, 1747873779,
   1955562222, 2024104815, 2227730452, 2361852424, 2428436474, 2756734187, 3204031479, 3329325298]"

definition sha_H0 :: "word32 list" where
  "sha_H0 = [1779033703, 3144134277, 1013904242, 2773480762, 1359893119, 2600822924, 528734635, 1541459225]"

definition be_bytes :: "nat \<Rightarrow> nat \<Rightarrow> bytes" where
  "be_bytes n v = map (\<lambda>i. of_nat (v div 256 ^ (n - 1 - i))) [0..<n]"

definition sha_pad :: "bytes \<Rightarrow> bytes" where
  "sha_pad m = m @ [0x80] @ replicate ((119 - length m mod 64) mod 64) 0 @ be_bytes 8 (8 * length m)"

fun be_words :: "bytes \<Rightarrow> word32 list" where
  "be_words (a # b # c # d # bs) =
     (push_bit 24 (ucast a) OR push_bit 16 (ucast b) OR push_bit 8 (ucast c) OR ucast d) # be_words bs"
| "be_words _ = []"

text \<open>The message schedule, kept with the newest word first.\<close>

fun sha_schedule :: "nat \<Rightarrow> word32 list \<Rightarrow> word32 list" where
  "sha_schedule 0 ws = rev ws"
| "sha_schedule (Suc k) ws =
     (let w2 = ws ! 1; w7 = ws ! 6; w15 = ws ! 14; w16 = ws ! 15;
          s0 = rotr 7 w15 XOR rotr 18 w15 XOR drop_bit 3 w15;
          s1 = rotr 17 w2 XOR rotr 19 w2 XOR drop_bit 10 w2
      in sha_schedule k ((w16 + s0 + w7 + s1) # ws))"

fun sha_round :: "word32 list \<Rightarrow> word32 \<times> word32 \<Rightarrow> word32 list" where
  "sha_round [a, b, c, d, e, f, g, h] (k, w) =
     (let s1 = rotr 6 e XOR rotr 11 e XOR rotr 25 e;
          ch = (e AND f) XOR (NOT e AND g);
          t1 = h + s1 + ch + k + w;
          s0 = rotr 2 a XOR rotr 13 a XOR rotr 22 a;
          maj = (a AND b) XOR (a AND c) XOR (b AND c)
      in [t1 + (s0 + maj), a, b, c, d + t1, e, f, g])"
| "sha_round hs _ = hs"

definition sha_block :: "word32 list \<Rightarrow> bytes \<Rightarrow> word32 list" where
  "sha_block hs bl = map2 (+) hs (foldl sha_round hs (zip sha_K (sha_schedule 48 (rev (be_words bl)))))"

function blocks64 :: "bytes \<Rightarrow> bytes list" where
  "blocks64 bs = (if length bs < 64 then [] else take 64 bs # blocks64 (drop 64 bs))"
  by pat_completeness auto
termination by (relation "measure length") auto

declare blocks64.simps [simp del]

definition word_bytes :: "word32 \<Rightarrow> bytes" where
  "word_bytes w = [ucast (drop_bit 24 w), ucast (drop_bit 16 w), ucast (drop_bit 8 w), ucast w]"

definition sha256 :: "bytes \<Rightarrow> bytes" where
  "sha256 m = concat (map word_bytes (foldl sha_block sha_H0 (blocks64 (sha_pad m))))"

lemma length_sha_round: "length (sha_round hs x) = length hs"
  by (cases "(hs, x)" rule: sha_round.cases) (simp_all add: Let_def)

lemma length_sha_rounds: "length (foldl sha_round hs xs) = length hs"
  by (induction xs arbitrary: hs) (simp_all add: length_sha_round)

lemma length_sha_blocks: "length (foldl sha_block hs bls) = length hs"
  by (induction bls arbitrary: hs) (simp_all add: sha_block_def length_sha_rounds)

lemma length_sha256 [simp]: "length (sha256 m) = 32"
proof -
  have "length (concat (map word_bytes ws)) = 4 * length ws" for ws
    by (induction ws) (simp_all add: word_bytes_def)
  then show ?thesis by (simp add: sha256_def length_sha_blocks sha_H0_def)
qed

definition sha256Hex :: "bytes \<Rightarrow> string" where
  "sha256Hex m = hex_encode (sha256 m)"

end
