(* ===== verification/Router_Digest.thy ===== *)
theory Router_Digest
  imports Codecs Relayer_Strings
begin

text \<open>
  The fulfillment digest of \<^verbatim>\<open>workers/morpheus-relayer/src/router.js\<close> that the Neo N3 kernel contract
  recomputes, with the encoders it is made of and the shared encoders of
  \<^verbatim>\<open>packages/shared/src/neo-encoding.js\<close>. Request ids are decimal text, as \<open>BigInt\<close> reads it.
\<close>

section \<open>Integers\<close>

fun show_hex :: "nat \<Rightarrow> string" where
  "show_hex n = (if n < 16 then [hex_digit n] else show_hex (n div 16) @ [hex_digit (n mod 16)])"

declare show_hex.simps [simp del]

definition encodeUint256Bytes :: "string \<Rightarrow> bytes result" where
  "encodeUint256Bytes value =
     (case js_number value of
        Fin numeric \<Rightarrow>
          if numeric < 0 then Inl ''uint256 value must be non-negative''
          else Inr (hex_decode (pad_start 64 (show_hex (nat numeric))))
      | _ \<Rightarrow> Inl (''Cannot convert '' @ value @ '' to a BigInt''))"

definition encodeUint256Word :: "string \<Rightarrow> string \<Rightarrow> bytes result" where
  "encodeUint256Word value fieldName =
     (case js_number value of
        Fin parsed \<Rightarrow>
          if parsed < 0 then Inl (fieldName @ '' must be >= 0'')
          else let hex = show_hex (nat parsed) in
            if length hex > 64 then Inl (fieldName @ '' overflows uint256'')
            else Inr (hex_decode (pad_start 64 hex))
      | _ \<Rightarrow> Inl (fieldName @ '' must be a uint256 string''))"

text \<open>The low 32 bits of the magic, least significant byte first.\<close>

definition neoNetworkMagicLe4 :: "int \<Rightarrow> bytes" where
  "neoNetworkMagicLe4 magic = (let w = (of_int magic :: 32 word) in
     [ucast w, ucast (drop_bit 8 w), ucast (drop_bit 16 w), ucast (drop_bit 24 w)])"

section \<open>The digest\<close>

definition FULFILLMENT_SIGNATURE_DOMAIN_N3 :: bytes where
  "FULFILLMENT_SIGNATURE_DOMAIN_N3 = utf8 ''miniapp-os-fulfillment-v1''"

definition FULFILLMENT_SIGNATURE_DOMAIN_LEGACY :: bytes where
  "FULFILLMENT_SIGNATURE_DOMAIN_LEGACY = utf8 ''morpheus-fulfillment-v2''"

record digest_input =
  di_requestId :: string
  di_requestType :: string
  di_success :: bool
  di_result :: string
  di_error :: string
  di_resultBytesBase64 :: string
  di_chain :: string
  di_appId :: string
  di_moduleId :: string
  di_operation :: string
  di_contractScriptHash :: string
  di_networkMagic :: jsnum

definition digest_result_bytes :: "digest_input \<Rightarrow> bytes" where
  "digest_result_bytes d =
     (if js_trim (di_resultBytesBase64 d) \<noteq> [] then base64_decode (js_trim (di_resultBytesBase64 d))
      else utf8 (di_result d))"

definition deploymentSuffix :: "digest_input \<Rightarrow> bytes" where
  "deploymentSuffix d =
     (let hashHex = strip0x (JStr (js_trim (di_contractScriptHash d))) in
      case di_networkMagic d of
        Fin magic \<Rightarrow> if hex_text 40 hashHex then rev (hex_decode hashHex) @ neoNetworkMagicLe4 magic else []
      | _ \<Rightarrow> [])"

definition successByte :: "bool \<Rightarrow> byte" where
  "successByte b = (if b then 1 else 0)"

definition fulfillment_preimage :: "digest_input \<Rightarrow> bytes result" where
  "fulfillment_preimage d =
     bind_result (encodeUint256Bytes (di_requestId d)) (\<lambda>rid. Inr (
       if di_chain d = ''legacy'' then
         FULFILLMENT_SIGNATURE_DOMAIN_LEGACY @ rid @ sha256 (utf8 (di_requestType d))
         @ [successByte (di_success d)] @ sha256 (digest_result_bytes d) @ sha256 (utf8 (di_error d))
       else
         FULFILLMENT_SIGNATURE_DOMAIN_N3 @ rid @ sha256 (utf8 (di_appId d)) @ sha256 (utf8 (di_moduleId d))
         @ sha256 (utf8 (di_operation d)) @ [successByte (di_success d)]
         @ sha256 (digest_result_bytes d) @ sha256 (utf8 (di_error d)) @ deploymentSuffix d))"

definition buildFulfillmentDigestBytes :: "digest_input \<Rightarrow> bytes result" where
  "buildFulfillmentDigestBytes d = map_sum id sha256 (fulfillment_preimage d)"

section \<open>Uint256 encoding\<close>

fun read_be :: "bytes \<Rightarrow> nat" where
  "read_be [] = 0"
| "read_be (b # bs) = unat b * 256 ^ length bs + read_be bs"

fun read_hex :: "nat \<Rightarrow> string \<Rightarrow> nat" where
  "read_hex a [] = a"
| "read_hex a (c # cs) = read_hex (16 * a + (case hex_val c of None \<Rightarrow> 0 | Some v \<Rightarrow> v)) cs"

lemma read_hex_append: "read_hex a (s @ t) = read_hex (read_hex a s) t"
  by (induction s arbitrary: a) auto

lemma read_hex_zeros: "read_hex 0 (replicate n (CHR ''0'')) = 0"
proof (induction n)
  case (Suc n)
  have "hex_val (CHR ''0'') = Some 0" by code_simp
  with Suc show ?case by simp
qed simp

lemma read_show_hex: "read_hex 0 (show_hex n) = n"
proof (induction n rule: show_hex.induct)
  case (1 n)
  show ?case
  proof (cases "n < 16")
    case True
    then show ?thesis by (subst show_hex.simps) (simp add: hex_val_digit)
  next
    case False
    with 1 show ?thesis by (subst show_hex.simps) (simp add: read_hex_append hex_val_digit)
  qed
qed

lemma is_hex_digit: "d < 16 \<Longrightarrow> is_hex (hex_digit d)"
  by (simp add: is_hex_def hex_val_digit)

lemma show_hex_hex: "list_all is_hex (show_hex n)"
proof (induction n rule: show_hex.induct)
  case (1 n)
  then show ?case
    by (subst show_hex.simps) (auto simp: is_hex_digit)
qed

lemma length_show_hex: "n < 16 ^ k \<Longrightarrow> 0 < k \<Longrightarrow> length (show_hex n) \<le> k"
proof (induction k arbitrary: n)
  case (Suc k)
  show ?case
  proof (cases "n < 16")
    case True
    then show ?thesis by (subst show_hex.simps) simp
  next
    case False
    then have "0 < k" using Suc.prems by (cases k) auto
    moreover have "n div 16 < 16 ^ k" using Suc.prems by (simp add: div_less_iff_less_mult)
    ultimately have "length (show_hex (n div 16)) \<le> k" using Suc.IH by blast
    then show ?thesis using False by (subst show_hex.simps) simp
  qed
qed simp

lemma read_hex_shift: "read_hex a s = a * 16 ^ length s + read_hex 0 s"
proof (induction s arbitrary: a)
  case (Cons c s)
  show ?case
    using Cons.IH [of "16 * a + (case hex_val c of None \<Rightarrow> 0 | Some v \<Rightarrow> v)"]
      Cons.IH [of "case hex_val c of None \<Rightarrow> 0 | Some v \<Rightarrow> v"]
    by (simp add: algebra_simps)
qed simp

lemma read_be_hex_decode: "hex_text (2 * n) s \<Longrightarrow> read_be (hex_decode s) = read_hex 0 s"
proof (induction s arbitrary: n rule: hex_decode.induct)
  case (1 a b cs)
  then obtain x y where xy: "hex_val a = Some x" "hex_val b = Some y"
    by (auto simp: hex_text_def is_hex_def)
  then have "x < 16" "y < 16" by (auto dest: hex_val_lt)
  then have u: "unat (of_nat (16 * x + y) :: byte) = 16 * x + y"
    by (intro unat_of_nat_byte) linarith
  have h: "hex_text (2 * (n - 1)) cs" using "1.prems" by (auto simp: hex_text_def)
  have len: "length (hex_decode cs) = n - 1" and lc: "length cs = 2 * (n - 1)"
    using length_hex_decode [OF h] h by (auto simp: hex_text_def)
  have "read_be (hex_decode cs) = read_hex 0 cs" using "1.IH" [of "Some x" "Some y" x y] xy h by simp
  moreover have "(256::nat) ^ (n - 1) = 16 ^ (2 * (n - 1))" by (simp add: power_mult)
  ultimately show ?case
    using xy u len lc read_hex_shift [of "16 * x + y" cs] by (simp del: of_nat_add of_nat_mult)
qed (auto simp: hex_text_def)

lemma encodeUint256Bytes_small:
  assumes "js_number v = Fin (int n)" "n < 2 ^ 256"
  shows "\<exists>bs. encodeUint256Bytes v = Inr bs \<and> length bs = 32 \<and> read_be bs = n"
proof -
  have "n < 16 ^ 64" using assms(2) by simp
  then have "length (show_hex n) \<le> 64" by (rule length_show_hex) simp
  then have t: "hex_text (2 * 32) (pad_start 64 (show_hex n))"
    using show_hex_hex [of n] by (auto simp: hex_text_def pad_start_def is_hex_def hex_val_def list_all_iff)
  have "read_hex 0 (pad_start 64 (show_hex n)) = n"
    by (simp add: pad_start_def read_hex_append read_hex_zeros read_show_hex)
  with read_be_hex_decode [OF t] length_hex_decode [OF t] assms(1) show ?thesis
    by (simp add: encodeUint256Bytes_def)
qed

text \<open>
  The request id of a digest is encoded as the 32-byte big-endian word of its value: every
  decimal value below \<open>2 ^ 256\<close> encodes to 32 bytes that read back as that value, and the local
  encoder agrees there with the shared one.
\<close>

theorem uint256_encoding:
  assumes "n < 2 ^ 256"
  shows "(\<exists>bs. encodeUint256Bytes (show_nat n) = Inr bs \<and> length bs = 32 \<and> read_be bs = n)
    \<and> encodeUint256Word (show_nat n) field = encodeUint256Bytes (show_nat n)"
proof -
  have "n < 16 ^ 64" using assms by simp
  then have "length (show_hex n) \<le> 64" by (rule length_show_hex) simp
  then have "encodeUint256Word (show_nat n) field = encodeUint256Bytes (show_nat n)"
    by (simp add: encodeUint256Word_def encodeUint256Bytes_def Let_def)
  with encodeUint256Bytes_small [OF js_number_show_nat assms] show ?thesis by blast
qed

theorem uint256_encoding_witness:
  "\<exists>bs. encodeUint256Bytes (show_nat 4711) = Inr bs \<and> length bs = 32 \<and> read_be bs = 4711"
  using uint256_encoding [of 4711] by simp

lemma show_hex_mult: "0 < n \<Longrightarrow> show_hex (n * 16 ^ k) = show_hex n @ replicate k (CHR ''0'')"
proof (induction k)
  case (Suc k)
  have "hex_digit 0 = CHR ''0''" by code_simp
  moreover have "\<not> n * 16 ^ Suc k < 16" using Suc.prems by (simp add: not_less)
  moreover have "n * 16 ^ Suc k div 16 = n * 16 ^ k" "n * 16 ^ Suc k mod 16 = 0" by simp_all
  ultimately show ?case using Suc
    by (subst show_hex.simps) (simp add: replicate_append_same)
qed simp

lemma show_hex_one: "show_hex 1 = ''1''"
  by code_simp

lemma hex_decode_append_odd:
  "hex_text (2 * n) s \<Longrightarrow> hex_decode (s @ [c]) = hex_decode s"
proof (induction s arbitrary: n rule: hex_decode.induct)
  case (1 a b cs)
  then obtain x y where "hex_val a = Some x" "hex_val b = Some y" by (auto simp: hex_text_def is_hex_def)
  moreover have "hex_text (2 * (n - 1)) cs" using "1.prems" by (auto simp: hex_text_def)
  ultimately show ?case using "1.IH" by simp
qed (auto simp: hex_text_def)

text \<open>
  The local encoder has no upper bound: \<open>2 ^ 256\<close> encodes to the same 32 bytes as \<open>2 ^ 252\<close>,
  because the odd 65th hexadecimal digit is dropped, where the shared encoder rejects the value.
\<close>

theorem uint256_overflow_aliases:
  "encodeUint256Bytes (show_nat (2 ^ 256)) = encodeUint256Bytes (show_nat (2 ^ 252))
   \<and> encodeUint256Word (show_nat (2 ^ 256)) field = Inl (field @ '' overflows uint256'')"
proof -
  have p: "(2::nat) ^ 256 = 1 * 16 ^ 64" "(2::nat) ^ 252 = 1 * 16 ^ 63" by simp_all
  have h: "show_hex (2 ^ 256) = ''1'' @ replicate 64 (CHR ''0'')"
    "show_hex (2 ^ 252) = ''1'' @ replicate 63 (CHR ''0'')"
    by (simp_all only: p show_hex_mult show_hex_one zero_less_one)
  have t: "hex_text (2 * 32) (''1'' @ replicate 63 (CHR ''0''))"
    by (auto simp: hex_text_def list_all_iff is_hex_def hex_val_def)
  have "replicate 64 (CHR ''0'') = replicate 63 (CHR ''0'') @ [CHR ''0'']"
    using replicate_add [of 63 1 "CHR ''0''"] by simp
  then have "hex_decode (''1'' @ replicate 64 (CHR ''0'')) = hex_decode (''1'' @ replicate 63 (CHR ''0''))"
    using hex_decode_append_odd [OF t, of "CHR ''0''"] by simp
  then have eq: "hex_decode (pad_start 64 (show_hex (2 ^ 256))) = hex_decode (pad_start 64 (show_hex (2 ^ 252)))"
    by (simp only: h pad_start_def length_append length_replicate list.size) simp
  have len: "length (show_hex (2 ^ 256)) = 65" by (simp only: h) simp
  show ?thesis
    unfolding encodeUint256Bytes_def encodeUint256Word_def js_number_show_nat
    using eq len by (simp add: Let_def)
qed

section \<open>What a digest binds\<close>

text \<open>The byte strings a digest hashes, position by position.\<close>

definition hashed_parts :: "digest_input \<Rightarrow> bytes list" where
  "hashed_parts d = (case fulfillment_preimage d of Inl _ \<Rightarrow> [] | Inr pre \<Rightarrow> [pre]) @
     [utf8 (di_requestType d), utf8 (di_appId d), utf8 (di_moduleId d), utf8 (di_operation d),
      digest_result_bytes d, utf8 (di_error d)]"

text \<open>Two inputs show a SHA-256 collision when corresponding parts differ and hash alike.\<close>

definition shows_collision :: "digest_input \<Rightarrow> digest_input \<Rightarrow> bool" where
  "shows_collision a b \<longleftrightarrow> list_ex (\<lambda>(x, y). x \<noteq> y \<and> sha256 x = sha256 y) (zip (hashed_parts a) (hashed_parts b))"

definition request_number :: "digest_input \<Rightarrow> jsnum" where
  "request_number d = js_number (di_requestId d)"

definition in_uint256 :: "digest_input \<Rightarrow> bool" where
  "in_uint256 d \<longleftrightarrow> (case request_number d of Fin i \<Rightarrow> 0 \<le> i \<and> i < 2 ^ 256 | _ \<Rightarrow> False)"

lemma encode_request:
  assumes "in_uint256 d"
  obtains bs where "encodeUint256Bytes (di_requestId d) = Inr bs" "length bs = 32"
    "request_number d = Fin (int (read_be bs))"
proof -
  obtain i where i: "js_number (di_requestId d) = Fin i" "0 \<le> i" "i < 2 ^ 256"
    using assms by (auto simp: in_uint256_def request_number_def split: jsnum.splits)
  then have "js_number (di_requestId d) = Fin (int (nat i))" "nat i < 2 ^ 256"
    by (simp_all add: nat_less_iff)
  from encodeUint256Bytes_small [OF this] that show thesis
    using i by (auto simp: request_number_def)
qed

lemma collision_or_eq:
  assumes "\<not> shows_collision a b" "(x, y) \<in> set (zip (hashed_parts a) (hashed_parts b))" "sha256 x = sha256 y"
  shows "x = y"
  using assms by (auto simp: shows_collision_def list_ex_iff)

lemma successByte_inj: "successByte a = successByte b \<longleftrightarrow> a = b"
  by (simp add: successByte_def)

text \<open>
  C27: A kernel fulfillment digest binds the whole envelope. When two inputs in the kernel domain
  have the same digest, they agree on the request id, application id, module id, operation, success
  flag, result bytes, error text and on the deployment and network they are bound to, unless the two
  inputs exhibit a SHA-256 collision at one of the hashed positions.
\<close>

theorem digest_binds_envelope:
  assumes "buildFulfillmentDigestBytes a = Inr h" "buildFulfillmentDigestBytes b = Inr h"
    and "di_chain a \<noteq> ''legacy''" "di_chain b \<noteq> ''legacy''" "in_uint256 a" "in_uint256 b"
  shows "shows_collision a b
    \<or> request_number a = request_number b \<and> di_appId a = di_appId b \<and> di_moduleId a = di_moduleId b
      \<and> di_operation a = di_operation b \<and> di_success a = di_success b
      \<and> digest_result_bytes a = digest_result_bytes b \<and> di_error a = di_error b
      \<and> deploymentSuffix a = deploymentSuffix b"
proof (cases "shows_collision a b")
  case False
  obtain ra where ra: "encodeUint256Bytes (di_requestId a) = Inr ra" "length ra = 32"
    "request_number a = Fin (int (read_be ra))" using assms(5) by (rule encode_request)
  obtain rb where rb: "encodeUint256Bytes (di_requestId b) = Inr rb" "length rb = 32"
    "request_number b = Fin (int (read_be rb))" using assms(6) by (rule encode_request)
  let ?pre = "\<lambda>d r. FULFILLMENT_SIGNATURE_DOMAIN_N3 @ r @ sha256 (utf8 (di_appId d))
     @ sha256 (utf8 (di_moduleId d)) @ sha256 (utf8 (di_operation d)) @ [successByte (di_success d)]
     @ sha256 (digest_result_bytes d) @ sha256 (utf8 (di_error d)) @ deploymentSuffix d"
  have pa: "fulfillment_preimage a = Inr (?pre a ra)" and pb: "fulfillment_preimage b = Inr (?pre b rb)"
    using assms(3,4) ra(1) rb(1) by (simp_all add: fulfillment_preimage_def)
  have "sha256 (?pre a ra) = sha256 (?pre b rb)"
    using assms(1,2) pa pb by (simp add: buildFulfillmentDigestBytes_def)
  then have "?pre a ra = ?pre b rb"
    using collision_or_eq [OF False, of "?pre a ra" "?pre b rb"] by (simp add: hashed_parts_def pa pb)
  then have eqs: "ra = rb" "sha256 (utf8 (di_appId a)) = sha256 (utf8 (di_appId b))"
    "sha256 (utf8 (di_moduleId a)) = sha256 (utf8 (di_moduleId b))"
    "sha256 (utf8 (di_operation a)) = sha256 (utf8 (di_operation b))"
    "successByte (di_success a) = successByte (di_success b)"
    "sha256 (digest_result_bytes a) = sha256 (digest_result_bytes b)"
    "sha256 (utf8 (di_error a)) = sha256 (utf8 (di_error b))" "deploymentSuffix a = deploymentSuffix b"
    using ra(2) rb(2) by (simp_all add: append_eq_append_conv)
  note same = collision_or_eq [OF False]
  have "utf8 (di_appId a) = utf8 (di_appId b)" "utf8 (di_moduleId a) = utf8 (di_moduleId b)"
    "utf8 (di_operation a) = utf8 (di_operation b)" "digest_result_bytes a = digest_result_bytes b"
    "utf8 (di_error a) = utf8 (di_error b)"
    by (rule same; simp add: hashed_parts_def pa pb eqs)+
  then show ?thesis using eqs ra(3) rb(3) by (simp add: utf8_inj successByte_inj)
qed simp

definition sample_digest_input :: digest_input where
  "sample_digest_input = \<lparr>di_requestId = show_nat 7, di_requestType = ''compute'', di_success = True,
     di_result = ''42'', di_error = [], di_resultBytesBase64 = [], di_chain = ''neo_n3'',
     di_appId = ''app'', di_moduleId = ''compute.run'', di_operation = ''compute'',
     di_contractScriptHash = [], di_networkMagic = NaN\<rparr>"

theorem digest_binds_envelope_witness:
  "\<exists>h. buildFulfillmentDigestBytes sample_digest_input = Inr h
   \<and> (shows_collision sample_digest_input (sample_digest_input\<lparr>di_requestType := ''other''\<rparr>)
      \<or> di_appId sample_digest_input = ''app'')"
proof -
  let ?b = "sample_digest_input\<lparr>di_requestType := ''other''\<rparr>"
  have r: "in_uint256 sample_digest_input" "in_uint256 ?b"
    by (simp_all add: in_uint256_def request_number_def sample_digest_input_def)
  obtain bs where e: "encodeUint256Bytes (di_requestId sample_digest_input) = Inr bs"
    using r(1) by (rule encode_request)
  then obtain h where h: "buildFulfillmentDigestBytes sample_digest_input = Inr h"
    by (simp add: buildFulfillmentDigestBytes_def fulfillment_preimage_def)
  have "buildFulfillmentDigestBytes ?b = buildFulfillmentDigestBytes sample_digest_input"
    by (simp add: buildFulfillmentDigestBytes_def fulfillment_preimage_def sample_digest_input_def
        digest_result_bytes_def deploymentSuffix_def)
  with h digest_binds_envelope [of sample_digest_input h ?b] r show ?thesis
    by (simp add: sample_digest_input_def)
qed

text \<open>
  The legacy and the kernel digest domains never overlap: no request id, result, error or
  identifiers make the bytes hashed for a legacy request equal to those hashed for a kernel request.
\<close>

theorem digest_domains_separate:
  assumes "di_chain a = ''legacy''" "di_chain b \<noteq> ''legacy''"
    and "fulfillment_preimage a = Inr x" "fulfillment_preimage b = Inr y"
  shows "x \<noteq> y"
proof -
  have "\<exists>r. x = FULFILLMENT_SIGNATURE_DOMAIN_LEGACY @ r"
    using assms(1,3) by (auto simp: fulfillment_preimage_def bind_result_eq_Inr)
  moreover have "\<exists>r. y = FULFILLMENT_SIGNATURE_DOMAIN_N3 @ r"
    using assms(2,4) by (auto simp: fulfillment_preimage_def bind_result_eq_Inr)
  moreover have "FULFILLMENT_SIGNATURE_DOMAIN_LEGACY ! 1 \<noteq> FULFILLMENT_SIGNATURE_DOMAIN_N3 ! 1"
    "1 < length FULFILLMENT_SIGNATURE_DOMAIN_LEGACY" "1 < length FULFILLMENT_SIGNATURE_DOMAIN_N3"
    by (simp_all add: FULFILLMENT_SIGNATURE_DOMAIN_LEGACY_def FULFILLMENT_SIGNATURE_DOMAIN_N3_def
        utf8_def utf8_char_def)
  ultimately show ?thesis by (metis nth_append)
qed

theorem digest_domains_separate_witness:
  "\<exists>x y. fulfillment_preimage (sample_digest_input\<lparr>di_chain := ''legacy''\<rparr>) = Inr x
     \<and> fulfillment_preimage sample_digest_input = Inr y \<and> x \<noteq> y"
proof -
  have "in_uint256 sample_digest_input" "in_uint256 (sample_digest_input\<lparr>di_chain := ''legacy''\<rparr>)"
    by (simp_all add: in_uint256_def request_number_def sample_digest_input_def)
  then obtain bs cs where "encodeUint256Bytes (di_requestId sample_digest_input) = Inr bs"
    "encodeUint256Bytes (di_requestId (sample_digest_input\<lparr>di_chain := ''legacy''\<rparr>)) = Inr cs"
    by (meson encode_request)
  then obtain x y where "fulfillment_preimage (sample_digest_input\<lparr>di_chain := ''legacy''\<rparr>) = Inr x"
    "fulfillment_preimage sample_digest_input = Inr y"
    by (auto simp: fulfillment_preimage_def)
  with digest_domains_separate [of "sample_digest_input\<lparr>di_chain := ''legacy''\<rparr>" sample_digest_input x y]
  show ?thesis by (auto simp: sample_digest_input_def)
qed

end
