(* ===== verification/Shared_Utils.thy ===== *)
theory Shared_Utils
  imports JSON_Value "HOL-Library.Multiset" "HOL-Library.List_Lexorder" "HOL-Library.Char_ord"
begin

text \<open>
  \<^verbatim>\<open>packages/shared/src/utils.js\<close>: the constant-time comparison, the bounded-concurrency map as a
  transition system over its workers, and the canonical JSON text that digests are computed from.
\<close>

unbundle bit_operations_syntax

section \<open>Constant-time comparison\<close>

fun compare_diff :: "string \<Rightarrow> string \<Rightarrow> nat \<Rightarrow> nat" where
  "compare_diff (a # as) (b # bs) diff = compare_diff as bs (diff OR ((of_char a :: nat) XOR of_char b))"
| "compare_diff _ _ diff = diff"

definition timingSafeCompare :: "string \<Rightarrow> string \<Rightarrow> bool" where
  "timingSafeCompare a b = (if length a \<noteq> length b then False else compare_diff a b 0 = 0)"

lemma nat_or_zero: "(m :: nat) OR n = 0 \<longleftrightarrow> m = 0 \<and> n = 0"
  by (metis or_eq_0_iff)

lemma nat_xor_zero: "(m :: nat) XOR n = 0 \<longleftrightarrow> m = n"
  by (auto simp: bit_eq_iff bit_xor_iff)

text \<open>
  The constant-time comparison decides string equality: it answers true exactly when the two
  strings are equal, whatever their lengths.
\<close>

theorem timing_safe_compare_eq: "timingSafeCompare a b \<longleftrightarrow> a = b"
proof -
  have "compare_diff a b d = 0 \<longleftrightarrow> d = 0 \<and> a = b" if "length a = length b" for d
    using that
  proof (induction a b arbitrary: d rule: list_induct2)
    case (Cons x xs y ys)
    then show ?case by (auto simp: nat_or_zero nat_xor_zero)
  qed simp
  then show ?thesis by (auto simp: timingSafeCompare_def)
qed

section \<open>Bounded-concurrency map\<close>

text \<open>A worker of \<open>runWorker\<close>: about to read the cursor, awaiting item \<open>i\<close>, or returned.\<close>

datatype slot = Idle | Busy nat | Stopped

record 'b pool =
  po_cursor :: nat
  po_failed :: bool
  po_results :: "nat \<Rightarrow> 'b option"
  po_slots :: "slot list"
  po_started :: "nat list"

definition pool_width :: "nat \<Rightarrow> nat \<Rightarrow> nat" where
  "pool_width limit n = max (min limit n) 1"

definition pool_init :: "nat \<Rightarrow> 'a list \<Rightarrow> 'b pool" where
  "pool_init limit items = \<lparr>po_cursor = 0, po_failed = False, po_results = (\<lambda>_. None),
     po_slots = replicate (pool_width limit (length items)) Idle, po_started = []\<rparr>"

text \<open>The loop head: stop on failure or past the end, else take the next index.\<close>

definition pull :: "'a list \<Rightarrow> nat \<Rightarrow> 'b pool \<Rightarrow> 'b pool" where
  "pull items k p =
     (if po_failed p then p\<lparr>po_slots := (po_slots p)[k := Stopped]\<rparr>
      else
        (let index = po_cursor p; q = p\<lparr>po_cursor := po_cursor p + 1\<rparr> in
         if index \<ge> length items then q\<lparr>po_slots := (po_slots q)[k := Stopped]\<rparr>
         else q\<lparr>po_slots := (po_slots q)[k := Busy index], po_started := po_started q @ [index]\<rparr>))"

definition settle :: "('a \<Rightarrow> 'b result) \<Rightarrow> 'a list \<Rightarrow> nat \<Rightarrow> nat \<Rightarrow> 'b pool \<Rightarrow> 'b pool" where
  "settle worker items k i p =
     (case worker (items ! i) of
        Inr v \<Rightarrow> p\<lparr>po_results := (po_results p)(i := Some v), po_slots := (po_slots p)[k := Idle]\<rparr>
      | Inl _ \<Rightarrow> p\<lparr>po_failed := True, po_slots := (po_slots p)[k := Stopped]\<rparr>)"

inductive pool_step :: "('a \<Rightarrow> 'b result) \<Rightarrow> 'a list \<Rightarrow> 'b pool \<Rightarrow> 'b pool \<Rightarrow> bool" for worker items where
  step_pull: "k < length (po_slots p) \<Longrightarrow> po_slots p ! k = Idle \<Longrightarrow> pool_step worker items p (pull items k p)"
| step_settle: "k < length (po_slots p) \<Longrightarrow> po_slots p ! k = Busy i \<Longrightarrow>
    pool_step worker items p (settle worker items k i p)"

definition busy :: "slot list \<Rightarrow> nat set" where
  "busy ss = {i. Busy i \<in> set ss}"

text \<open>An index that was started is still awaited, or its outcome has been recorded.\<close>

definition recorded :: "('a \<Rightarrow> 'b result) \<Rightarrow> 'a list \<Rightarrow> 'b pool \<Rightarrow> nat \<Rightarrow> bool" where
  "recorded worker items p i =
     (case worker (items ! i) of Inr v \<Rightarrow> po_results p i = Some v | Inl _ \<Rightarrow> po_failed p)"

definition pool_inv :: "('a \<Rightarrow> 'b result) \<Rightarrow> 'a list \<Rightarrow> nat \<Rightarrow> 'b pool \<Rightarrow> bool" where
  "pool_inv worker items limit p \<longleftrightarrow>
     length (po_slots p) = pool_width limit (length items)
     \<and> po_started p = [0..<min (po_cursor p) (length items)]
     \<and> busy (po_slots p) \<subseteq> {..<min (po_cursor p) (length items)}
     \<and> (\<forall>i < min (po_cursor p) (length items). i \<in> busy (po_slots p) \<or> recorded worker items p i)
     \<and> (Stopped \<in> set (po_slots p) \<longrightarrow> po_failed p \<or> length items \<le> po_cursor p)"

lemma busy_update_subset: "busy (xs[k := y]) \<subseteq> busy xs \<union> {i. y = Busy i}"
  using set_update_subset_insert [of xs k y] by (auto simp: busy_def)

lemma busy_update_keep:
  assumes "k < length xs" "i \<in> busy xs" "xs ! k \<noteq> Busy i"
  shows "i \<in> busy (xs[k := y])"
  using assms unfolding busy_def mem_Collect_eq
  by (metis in_set_conv_nth length_list_update nth_list_update_neq)

lemma busy_update_new: "k < length xs \<Longrightarrow> i \<in> busy (xs[k := Busy i])"
  by (simp add: busy_def set_update_memI)

lemma stopped_update: "y \<noteq> Stopped \<Longrightarrow> Stopped \<in> set (xs[k := y]) \<Longrightarrow> Stopped \<in> set xs"
  using set_update_subset_insert [of xs k y] by auto

lemma pool_inv_init: "pool_inv worker items limit (pool_init limit items)"
  by (auto simp: pool_inv_def pool_init_def busy_def)

lemma pool_inv_stop:
  assumes inv: "pool_inv worker items limit p" and k: "k < length (po_slots p)" "po_slots p ! k = Idle"
    and "po_failed p \<or> length items \<le> po_cursor p" "c = po_cursor p \<or> length items \<le> po_cursor p \<and> po_cursor p \<le> c"
  shows "pool_inv worker items limit (p\<lparr>po_cursor := c, po_slots := (po_slots p)[k := Stopped]\<rparr>)"
proof -
  have b: "busy ((po_slots p)[k := Stopped]) = busy (po_slots p)"
    using busy_update_subset [of "po_slots p" k Stopped] busy_update_keep [OF k(1)] k(2) by auto
  have m: "min c (length items) = min (po_cursor p) (length items)" using assms(5) by auto
  have rec: "recorded worker items (p\<lparr>po_cursor := c, po_slots := ss\<rparr>) = recorded worker items p" for ss
    by (simp add: recorded_def fun_eq_iff split: sum.split)
  have "po_failed p \<or> length items \<le> c" using assms(4,5) by auto
  then show ?thesis using inv by (simp add: pool_inv_def b m rec)
qed

lemma pool_inv_start:
  assumes inv: "pool_inv worker items limit p" and k: "k < length (po_slots p)" "po_slots p ! k = Idle"
    and c: "po_cursor p < length items"
  shows "pool_inv worker items limit (p\<lparr>po_cursor := po_cursor p + 1,
    po_slots := (po_slots p)[k := Busy (po_cursor p)], po_started := po_started p @ [po_cursor p]\<rparr>)"
proof -
  let ?ss = "(po_slots p)[k := Busy (po_cursor p)]"
  have m: "min (po_cursor p + 1) (length items) = Suc (po_cursor p)"
    "min (po_cursor p) (length items) = po_cursor p" using c by auto
  have sub: "busy ?ss \<subseteq> {..<Suc (po_cursor p)}"
    using busy_update_subset [of "po_slots p" k "Busy (po_cursor p)"] inv by (auto simp: pool_inv_def m)
  have cov: "i \<in> busy ?ss \<or> recorded worker items p i" if "i < Suc (po_cursor p)" for i
    using that inv busy_update_new [OF k(1)] busy_update_keep [OF k(1)] k(2)
    by (auto simp: pool_inv_def m less_Suc_eq)
  have "\<not> (Stopped \<in> set ?ss) \<or> po_failed p"
    using stopped_update [of "Busy (po_cursor p)" "po_slots p" k] inv c by (auto simp: pool_inv_def)
  moreover have "recorded worker items (p\<lparr>po_cursor := c, po_slots := ss, po_started := t\<rparr>) = recorded worker items p"
    for c ss t by (simp add: recorded_def fun_eq_iff split: sum.split)
  ultimately show ?thesis using inv sub cov m by (simp add: pool_inv_def)
qed

lemma pool_inv_pull:
  assumes "pool_inv worker items limit p" "k < length (po_slots p)" "po_slots p ! k = Idle"
  shows "pool_inv worker items limit (pull items k p)"
  using pool_inv_stop [OF assms, of "po_cursor p"] pool_inv_stop [OF assms, of "po_cursor p + 1"]
    pool_inv_start [OF assms]
  by (auto simp: pull_def Let_def)

lemma pool_inv_settle:
  assumes inv: "pool_inv worker items limit p" and k: "k < length (po_slots p)" "po_slots p ! k = Busy i"
  shows "pool_inv worker items limit (settle worker items k i p)"
proof -
  have keep: "j \<in> busy ((po_slots p)[k := y])" if "j \<in> busy (po_slots p)" "j \<noteq> i" for j y
    using busy_update_keep [OF k(1) that(1)] k(2) that(2) by simp
  have sub: "busy ((po_slots p)[k := y]) \<subseteq> {..<min (po_cursor p) (length items)}" if "\<And>j. y \<noteq> Busy j" for y
    using busy_update_subset [of "po_slots p" k y] inv that by (auto simp: pool_inv_def)
  let ?q = "settle worker items k i p"
  have q: "po_cursor ?q = po_cursor p" "po_started ?q = po_started p"
    "length (po_slots ?q) = length (po_slots p)" "po_failed p \<Longrightarrow> po_failed ?q"
    by (simp_all add: settle_def split: sum.split)
  have "busy (po_slots ?q) \<subseteq> {..<min (po_cursor p) (length items)}"
    using sub [of Idle] sub [of Stopped] by (simp add: settle_def split: sum.split)
  moreover have "recorded worker items ?q i"
    by (simp add: settle_def recorded_def split: sum.split)
  moreover have "j \<in> busy (po_slots ?q)" if "j \<in> busy (po_slots p)" "j \<noteq> i" for j
    using keep [OF that] by (simp add: settle_def split: sum.split)
  moreover have "recorded worker items ?q j" if "recorded worker items p j" "j \<noteq> i" for j
    using that by (simp add: settle_def recorded_def split: sum.splits)
  moreover have "Stopped \<in> set (po_slots ?q) \<Longrightarrow> po_failed ?q \<or> Stopped \<in> set (po_slots p)"
    using stopped_update [of Idle "po_slots p" k] by (auto simp: settle_def split: sum.splits)
  ultimately show ?thesis using inv q unfolding pool_inv_def by metis
qed

interpretation pool: invariant_system "\<lambda>p. p = pool_init limit items" "pool_step worker items"
  "pool_inv worker items limit"
  for limit :: nat and items :: "'a list" and worker :: "'a \<Rightarrow> 'b result"
proof
  show "pool_inv worker items limit p" if "p = pool_init limit items" for p
    using that pool_inv_init by blast
  show "pool_inv worker items limit q" if "pool_step worker items p q" "pool_inv worker items limit p" for p q
    using that by (induction rule: pool_step.induct) (auto intro: pool_inv_pull pool_inv_settle)
qed

text \<open>
  C38: However the workers interleave, the bounded-concurrency map starts the items in order, each
  at most once, with never more than the clamped limit in flight; when every worker has returned and
  none failed, each result stands at the index of its item and is what the worker produced for it;
  and once a worker has failed, no further item is started.
\<close>

theorem map_with_concurrency:
  assumes "rtranclp (pool_step worker items) (pool_init limit items) p"
  shows "po_started p = [0..<min (po_cursor p) (length items)]
    \<and> card (busy (po_slots p)) \<le> pool_width limit (length items)
    \<and> (set (po_slots p) \<subseteq> {Stopped} \<longrightarrow> \<not> po_failed p \<longrightarrow>
         (\<forall>i < length items. \<exists>v. worker (items ! i) = Inr v \<and> po_results p i = Some v))
    \<and> (po_failed p \<longrightarrow> (\<forall>q. pool_step worker items p q \<longrightarrow> po_started q = po_started p))"
proof -
  have inv: "pool_inv worker items limit p" using assms by (rule pool.inv_reachable [OF refl])
  have "busy (po_slots p) \<subseteq> (\<lambda>s. case s of Busy i \<Rightarrow> i | _ \<Rightarrow> 0) ` set (po_slots p)"
    by (force simp: busy_def image_iff)
  then have "card (busy (po_slots p)) \<le> card ((\<lambda>s. case s of Busy i \<Rightarrow> i | _ \<Rightarrow> 0) ` set (po_slots p))"
    by (rule card_mono [rotated]) simp
  also have "\<dots> \<le> card (set (po_slots p))" by (rule card_image_le) simp
  also have "\<dots> \<le> length (po_slots p)" by (rule card_length)
  finally have width: "card (busy (po_slots p)) \<le> pool_width limit (length items)"
    using inv by (simp add: pool_inv_def)
  have res: "\<exists>v. worker (items ! i) = Inr v \<and> po_results p i = Some v"
    if "set (po_slots p) \<subseteq> {Stopped}" "\<not> po_failed p" "i < length items" for i
  proof -
    have "po_slots p \<noteq> []" using inv by (auto simp: pool_inv_def pool_width_def)
    then have "Stopped \<in> set (po_slots p)" using that(1) by (cases "po_slots p") auto
    then have "length items \<le> po_cursor p" using inv that(2) by (auto simp: pool_inv_def)
    then have "min (po_cursor p) (length items) = length items" by simp
    moreover have "i \<notin> busy (po_slots p)" using that(1) by (auto simp: busy_def)
    ultimately have "recorded worker items p i" using inv that(3) by (auto simp: pool_inv_def)
    then show ?thesis using that(2) by (simp add: recorded_def split: sum.splits)
  qed
  have "po_started q = po_started p" if "po_failed p" "pool_step worker items p q" for q
    using that(2,1) by (induction rule: pool_step.induct) (auto simp: pull_def settle_def split: sum.split)
  with width res inv show ?thesis by (auto simp: pool_inv_def)
qed

theorem map_with_concurrency_witness:
  "let p = settle (\<lambda>x. Inr (x + 1)) [10 :: int] 0 0 (pull [10 :: int] 0 (pool_init 4 [10 :: int])) in
   po_started (pull [10 :: int] 0 p) = [0] \<and> po_results (pull [10 :: int] 0 p) 0 = Some (11 :: int)"
proof -
  let ?w = "\<lambda>x. Inr (x + 1) :: int result"
  let ?p0 = "pool_init 4 [10 :: int] :: int pool"
  let ?p1 = "pull [10 :: int] 0 ?p0"
  let ?p2 = "settle ?w [10 :: int] 0 0 ?p1"
  let ?p3 = "pull [10 :: int] 0 ?p2"
  note defs = pool_init_def pull_def settle_def pool_width_def Let_def
  have "pool_step ?w [10] ?p0 ?p1" by (rule step_pull) (simp_all add: defs)
  moreover have "pool_step ?w [10] ?p1 ?p2" by (rule step_settle) (simp_all add: defs)
  moreover have "pool_step ?w [10] ?p2 ?p3" by (rule step_pull) (simp_all add: defs)
  ultimately have r: "rtranclp (pool_step ?w [10]) ?p0 ?p3"
    by (meson r_into_rtranclp rtranclp.rtrancl_into_rtrancl)
  have "set (po_slots ?p3) \<subseteq> {Stopped}" "\<not> po_failed ?p3" by (simp_all add: defs)
  with map_with_concurrency [OF r] have "po_results ?p3 0 = Some 11" by simp
  moreover have "po_started ?p3 = [0]" by (simp add: defs)
  ultimately show ?thesis by simp
qed

section \<open>Canonical JSON\<close>

text \<open>
  The collator is the runtime's: the order of the keys is a parameter. \<open>Array.prototype.sort\<close> is
  a stable sort by it.
\<close>

fun key_insert :: "(string \<Rightarrow> string \<Rightarrow> bool) \<Rightarrow> string \<times> 'v \<Rightarrow> (string \<times> 'v) list \<Rightarrow> (string \<times> 'v) list" where
  "key_insert le x [] = [x]"
| "key_insert le x (y # ys) = (if le (fst x) (fst y) then x # y # ys else y # key_insert le x ys)"

fun key_sort :: "(string \<Rightarrow> string \<Rightarrow> bool) \<Rightarrow> (string \<times> 'v) list \<Rightarrow> (string \<times> 'v) list" where
  "key_sort le [] = []"
| "key_sort le (x # xs) = key_insert le x (key_sort le xs)"

function (sequential) stable_pieces ::
    "(string \<Rightarrow> string \<Rightarrow> bool) \<Rightarrow> jsv \<Rightarrow> string"
  and stable_items :: "(string \<Rightarrow> string \<Rightarrow> bool) \<Rightarrow> jsv list \<Rightarrow> string list"
  and stable_members :: "(string \<Rightarrow> string \<Rightarrow> bool) \<Rightarrow> (string \<times> jsv) list \<Rightarrow> (string \<times> string) list" where
  "stable_pieces le JUndef = ''null''"
| "stable_pieces le JNull = ''null''"
| "stable_pieces le (JArr vs) = ''['' @ js_join '','' (stable_items le vs) @ '']''"
| "stable_pieces le (JObj ps) =
     ''{'' @ js_join '','' (map snd (key_sort le (stable_members le ps))) @ ''}''"
| "stable_pieces le v = stringify v"
| "stable_items le [] = []"
| "stable_items le (v # vs) = stable_pieces le v # stable_items le vs"
| "stable_members le [] = []"
| "stable_members le ((k, v) # ps) =
     (if v = JUndef then stable_members le ps
      else (k, json_string k @ '':'' @ stable_pieces le v) # stable_members le ps)"
  by pat_completeness auto
termination
  by (relation "measure (\<lambda>x. case x of Inl (_, v) \<Rightarrow> size v | Inr (Inl (_, vs)) \<Rightarrow> size_list size vs
        | Inr (Inr (_, ps)) \<Rightarrow> size_list (size_prod (\<lambda>_. 0) size) ps)") auto

abbreviation stableStringify :: "(string \<Rightarrow> string \<Rightarrow> bool) \<Rightarrow> jsv \<Rightarrow> string" where
  "stableStringify \<equiv> stable_pieces"

lemma mset_key_insert: "mset (key_insert le x ys) = add_mset x (mset ys)"
  by (induction ys) auto

lemma mset_key_sort [simp]: "mset (key_sort le xs) = mset xs"
  by (induction xs) (simp_all add: mset_key_insert)

definition key_order :: "(string \<Rightarrow> string \<Rightarrow> bool) \<Rightarrow> bool" where
  "key_order le \<longleftrightarrow> (\<forall>a b. le a b \<or> le b a) \<and> (\<forall>a b c. le a b \<longrightarrow> le b c \<longrightarrow> le a c)
     \<and> (\<forall>a b. le a b \<longrightarrow> le b a \<longrightarrow> a = b)"

lemma sorted_key_insert:
  assumes "key_order le" "sorted_wrt (\<lambda>x y. le (fst x) (fst y)) ys"
  shows "sorted_wrt (\<lambda>x y. le (fst x) (fst y)) (key_insert le x ys)"
  using assms(2)
proof (induction ys)
  case (Cons y ys)
  have s: "set (key_insert le x ys) = insert x (set ys)"
    by (metis mset_key_insert set_mset_add_mset_insert set_mset_mset)
  show ?case using Cons assms(1) s unfolding key_order_def by auto
qed simp

lemma sorted_key_sort:
  "key_order le \<Longrightarrow> sorted_wrt (\<lambda>x y. le (fst x) (fst y)) (key_sort le xs)"
  by (induction xs) (simp_all add: sorted_key_insert)

lemma key_sort_unique:
  assumes le: "key_order le"
    and "sorted_wrt (\<lambda>x y. le (fst x) (fst y)) xs" "sorted_wrt (\<lambda>x y. le (fst x) (fst y)) ys"
    and "mset xs = mset ys" "distinct (map fst xs)"
  shows "xs = ys"
  using assms(2-)
proof (induction xs arbitrary: ys)
  case (Cons x xs)
  then obtain y ys' where ys: "ys = y # ys'" by (cases ys) auto
  have st: "set (x # xs) = set ys" using Cons.prems(3) by (metis set_mset_mset)
  have "x = y"
  proof (rule ccontr)
    assume "x \<noteq> y"
    then have "y \<in> set xs" "x \<in> set ys'" using st ys by auto
    then have "le (fst x) (fst y)" "le (fst y) (fst x)" using Cons.prems(1,2) ys by auto
    then have "fst x = fst y" using le by (auto simp: key_order_def)
    then show False using \<open>y \<in> set xs\<close> Cons.prems(4) by auto
  qed
  then show ?case using Cons ys by simp
qed simp

lemma stable_members_mset:
  assumes "mset ps = mset qs"
  shows "mset (stable_members le ps) = mset (stable_members le qs)"
proof -
  have "mset (stable_members le xs) =
      image_mset (\<lambda>(k, v). (k, json_string k @ '':'' @ stable_pieces le v)) {#p \<in># mset xs. snd p \<noteq> JUndef#}" for xs
    by (induction xs) auto
  then show ?thesis using assms by simp
qed

lemma fst_stable_members: "map fst (stable_members le ps) = map fst (filter (\<lambda>p. snd p \<noteq> JUndef) ps)"
  by (induction ps) auto


lemma code_unit_order: "key_order (\<le>)"
  unfolding key_order_def by (meson linear order_trans order_antisym)


end
