(* ===== verification/Router_Result.thy ===== *)
theory Router_Result
  imports Router_Digest Router_Intent Shared_Utils
begin

text \<open>
  How \<^verbatim>\<open>workers/morpheus-relayer/src/router.js\<close> turns a request into a worker payload and a worker
  response into the result that goes on chain: the compact callback encodings, the result envelope
  and its size reduction, and the error text. \<open>JSON.parse\<close> is a parameter (\<open>parse\<close>, with \<open>None\<close> for
  a syntax error) and so is the collation order of canonical JSON (\<open>le\<close>).
\<close>

record worker_response =
  wr_ok :: bool
  wr_status :: int
  wr_body :: jsv

section \<open>Requests\<close>

definition decodePayloadText :: "(string \<Rightarrow> jsv option) \<Rightarrow> string \<Rightarrow> jsv" where
  "decodePayloadText parse rawPayload =
     (let text = js_trim rawPayload in
      if text = [] then JObj []
      else case parse text of Some v \<Rightarrow> v | None \<Rightarrow> JObj [(''raw_payload'', JStr text)])"

record callback_context =
  cc_requester :: string
  cc_callbackContract :: string
  cc_callbackMethod :: string

text \<open>Reading a property of a null or undefined payload throws.\<close>

definition buildWorkerPayload ::
  "string \<Rightarrow> string \<Rightarrow> jsv \<Rightarrow> string \<Rightarrow> callback_context \<Rightarrow> jsv result" where
  "buildWorkerPayload c requestType payload requestId ctx =
     (if is_nullish payload then Inl ''Cannot read properties of null (reading 'target_chain')''
      else
        (let intent = intent_of requestType;
             pick = (\<lambda>own name. js_or (JStr own) (js_or (getp payload name) (JStr [])))
         in Inr (JObj (spread (own_entries payload)
              [(''request_id'', JStr requestId),
               (''request_source'', JStr (''morpheus-relayer:'' @ c)),
               (''target_chain'', js_or (getp payload ''target_chain'') (JStr c)),
               (''legacy_request_type'', JStr (ki_legacyRequestType intent)),
               (''kernel_module_id'', JStr (ki_moduleId intent)),
               (''kernel_operation'', JStr (ki_operation intent)),
               (''requester'', pick (cc_requester ctx) ''requester''),
               (''callback_contract'', pick (cc_callbackContract ctx) ''callback_contract''),
               (''callback_method'', pick (cc_callbackMethod ctx) ''callback_method'')]))))"

section \<open>Compact callbacks\<close>

definition encodeLengthPrefixedUtf8 :: "jsv \<Rightarrow> bytes result" where
  "encodeLengthPrefixedUtf8 value =
     (let bytes = utf8 (trimString value) in
      if length bytes > 255 then Inl ''compact callback segment exceeds 255 bytes''
      else Inr (of_nat (length bytes) # bytes))"

definition encodeHash160Bytes :: "jsv \<Rightarrow> string \<Rightarrow> bytes result" where
  "encodeHash160Bytes value fieldName =
     (let raw = strip0x value in
      if hex_text 40 raw then Inr (hex_decode raw) else Inl (''invalid hash160 for '' @ fieldName))"

definition encodeHashBytes :: "jsv \<Rightarrow> string \<Rightarrow> bytes result" where
  "encodeHashBytes value fieldName =
     (let raw = strip0x value in
      if hex_text 64 raw then Inr (hex_decode raw) else Inl (''invalid 32-byte hash for '' @ fieldName))"

definition encodeSignatureBytes :: "jsv \<Rightarrow> string \<Rightarrow> bytes result" where
  "encodeSignatureBytes value fieldName =
     (let raw = strip0x value in
      if hex_text 128 raw then Inr (hex_decode raw)
      else Inl (''invalid 64-byte signature for '' @ fieldName))"

text \<open>\<open>Buffer.concat\<close> of segments of which the first that throws decides.\<close>

fun concat_results :: "bytes result list \<Rightarrow> bytes result" where
  "concat_results [] = Inr []"
| "concat_results (r # rs) = bind_result r (\<lambda>x. bind_result (concat_results rs) (\<lambda>y. Inr (x @ y)))"

definition encodeNeoN3RecoveryTicketV1 :: "jsv \<Rightarrow> bytes result" where
  "encodeNeoN3RecoveryTicketV1 b = concat_results
     [Inr [1], encodeHash160Bytes (getp b ''new_owner'') ''new_owner'',
      encodeLengthPrefixedUtf8 (getp b ''recovery_nonce''),
      encodeLengthPrefixedUtf8 (getp b ''expires_at''),
      encodeLengthPrefixedUtf8 (getp b ''action_id''),
      encodeHashBytes (getp b ''master_nullifier'') ''master_nullifier'',
      encodeHashBytes (getp b ''action_nullifier'') ''action_nullifier'',
      encodeSignatureBytes (getp b ''signature'') ''signature'']"

definition encodeNeoN3ActionTicketV1 :: "jsv \<Rightarrow> bytes result" where
  "encodeNeoN3ActionTicketV1 b = concat_results
     [Inr [1], encodeHash160Bytes (getp b ''disposable_account'') ''disposable_account'',
      encodeLengthPrefixedUtf8 (getp b ''action_id''),
      encodeHashBytes (getp b ''action_nullifier'') ''action_nullifier'',
      encodeSignatureBytes (getp b ''signature'') ''signature'']"

definition encodeNeoN3RecoveryTicketV3 :: "jsv \<Rightarrow> bytes result" where
  "encodeNeoN3RecoveryTicketV3 b =
     bind_result (encodeHashBytes (getp b ''master_nullifier'') ''master_nullifier'') (\<lambda>m.
     bind_result (encodeHashBytes (getp b ''action_nullifier'') ''action_nullifier'') (\<lambda>a.
     bind_result (encodeSignatureBytes (getp b ''signature'') ''signature'') (\<lambda>s.
       Inr (utf8 (js_join ''|'' [''3'', base64_encode m, base64_encode a, base64_encode s])))))"

definition encodeNeoN3ActionTicketV3 :: "jsv \<Rightarrow> bytes result" where
  "encodeNeoN3ActionTicketV3 b =
     bind_result (encodeHashBytes (getp b ''action_nullifier'') ''action_nullifier'') (\<lambda>a.
     bind_result (encodeSignatureBytes (getp b ''signature'') ''signature'') (\<lambda>s.
       Inr (utf8 (js_join ''|'' [''3'', base64_encode a, base64_encode s]))))"

definition is_random_type :: "string \<Rightarrow> bool" where
  "is_random_type normalized \<longleftrightarrow>
     normalized = ''rng'' \<or> js_includes normalized ''vrf'' \<or> js_includes normalized ''random''"

definition resolveCompactCallbackBytes :: "string \<Rightarrow> worker_response \<Rightarrow> (bytes option) result" where
  "resolveCompactCallbackBytes requestType wr =
     (let normalized = normalize requestType;
          body = (if is_objectlike (wr_body wr) then Some (wr_body wr) else None);
          randomness = (case body of None \<Rightarrow> [] | Some b \<Rightarrow> strip0x (js_or (getp b ''randomness'') (JStr [])))
      in case body of
          None \<Rightarrow> Inr None
        | Some b \<Rightarrow>
            if is_random_type normalized \<and> hex_text 64 randomness
            then Inr (Some (hex_decode randomness))
            else
              (let enc = normalizeRequestType (js_or (getp b ''callback_encoding'') (JStr [])) in
               if enc = [] then Inr None
               else if normalized = ''neodid_recovery_ticket'' \<and> enc = ''neo_n3_recovery_v1''
               then map_sum id Some (encodeNeoN3RecoveryTicketV1 b)
               else if normalized = ''neodid_recovery_ticket'' \<and> enc = ''neo_n3_recovery_v3''
               then map_sum id Some (encodeNeoN3RecoveryTicketV3 b)
               else if normalized = ''neodid_action_ticket'' \<and> enc = ''neo_n3_action_v1''
               then map_sum id Some (encodeNeoN3ActionTicketV1 b)
               else if normalized = ''neodid_action_ticket'' \<and> enc = ''neo_n3_action_v3''
               then map_sum id Some (encodeNeoN3ActionTicketV3 b)
               else Inr None))"

section \<open>The result envelope\<close>

text \<open>\<open>sha256Hex\<close> of a value: text as UTF-8, everything else as canonical JSON.\<close>

definition hash_value :: "(string \<Rightarrow> string \<Rightarrow> bool) \<Rightarrow> jsv \<Rightarrow> string" where
  "hash_value le v = sha256Hex (utf8 (case v of JStr s \<Rightarrow> s | _ \<Rightarrow> stableStringify le v))"

definition or_null_v :: "jsv \<Rightarrow> jsv" where
  "or_null_v v = js_or v JNull"

definition compactTeeAttestation :: "(string \<Rightarrow> string \<Rightarrow> bool) \<Rightarrow> jsv \<Rightarrow> jsv" where
  "compactTeeAttestation le a =
     (if \<not> is_objectlike a then JNull
      else JObj
        [(''app_id'', or_null_v (getp a ''app_id'')), (''instance_id'', or_null_v (getp a ''instance_id'')),
         (''compose_hash'', or_null_v (getp a ''compose_hash'')),
         (''report_data'', or_null_v (getp a ''report_data'')),
         (''quote_hash'', if truthy (getp a ''quote'') then JStr (hash_value le (getp a ''quote'')) else JNull),
         (''event_log_hash'', if truthy (getp a ''event_log'')
            then JStr (hash_value le (getp a ''event_log'')) else JNull)])"

definition buildVerificationEnvelope :: "(string \<Rightarrow> string \<Rightarrow> bool) \<Rightarrow> jsv \<Rightarrow> jsv" where
  "buildVerificationEnvelope le b =
     (if \<not> is_objectlike b then JNull
      else
        (let existing = getp b ''verification'';
             source = (if is_objectlike existing then existing else b)
         in if \<not> (truthy (getp source ''output_hash'') \<or> truthy (getp source ''attestation_hash'')
                  \<or> truthy (getp source ''signature'') \<or> truthy (getp source ''public_key'')
                  \<or> truthy (getp source ''tee_attestation''))
            then JNull
            else JObj
              [(''output_hash'', or_null_v (getp source ''output_hash'')),
               (''attestation_hash'', or_null_v (getp source ''attestation_hash'')),
               (''signature'', or_null_v (getp source ''signature'')),
               (''public_key'', or_null_v (getp source ''public_key'')),
               (''signer_address'', or_null_v (getp source ''signer_address'')),
               (''signer_script_hash'', or_null_v (getp source ''signer_script_hash'')),
               (''tee_attestation'', compactTeeAttestation le (or_null_v (getp source ''tee_attestation'')))]))"

definition MAX_ONCHAIN_RESULT_VALUE_BYTES :: nat where
  "MAX_ONCHAIN_RESULT_VALUE_BYTES = 384"

definition MAX_ONCHAIN_ERROR_LENGTH :: nat where
  "MAX_ONCHAIN_ERROR_LENGTH = 240"

definition measureJsonBytes :: "jsv \<Rightarrow> nat" where
  "measureJsonBytes v = length (utf8 (stringify v))"

definition trimErrorMessage :: "string \<Rightarrow> string" where
  "trimErrorMessage value =
     (let text = js_trim value in
      if text = [] then ''worker request failed''
      else if length text > MAX_ONCHAIN_ERROR_LENGTH
      then take (MAX_ONCHAIN_ERROR_LENGTH - 3) text @ ''...'' else text)"

definition compactValue :: "nat \<Rightarrow> jsv \<Rightarrow> jsv" where
  "compactValue maxBytes v = (if v \<noteq> JUndef \<and> measureJsonBytes v \<le> maxBytes then v else JUndef)"

definition preferredFields :: "string list" where
  "preferredFields = [''mode'', ''action'', ''function'', ''entry_point'', ''target_chain'', ''target_chain_id'',
     ''request_source'', ''provider'', ''claim_type'', ''claim_value'', ''master_nullifier'',
     ''provider_pair'', ''feed_id'', ''pair'', ''symbol'', ''action_id'', ''action_nullifier'',
     ''aa_contract'', ''verifier_contract'', ''account_id'', ''account_address'', ''new_owner'',
     ''recovery_nonce'', ''expires_at'', ''digest'', ''price'', ''decimals'', ''timestamp'',
     ''automation_id'', ''trigger_type'', ''next_run_at'', ''status'', ''chain'', ''requester'',
     ''callback_contract'', ''execution_request_type'', ''upstream_status'', ''randomness'', ''job_id'',
     ''extracted_value'']"

definition business_result_fields :: "jsv \<Rightarrow> (string \<times> jsv) list" where
  "business_result_fields b =
     (let preferred = compactValue MAX_ONCHAIN_RESULT_VALUE_BYTES (getp b ''result'');
          extracted = compactValue 192 (getp b ''extracted_value'')
      in if preferred \<noteq> JUndef then [(''result'', preferred)]
         else if extracted \<noteq> JUndef
         then [(''result'', extracted), (''result_source'', JStr ''extracted_value'')]
         else if getp b ''result'' \<noteq> JUndef
         then [(''result_omitted'', JBool True), (''result_hash'', or_null_v (getp b ''output_hash'')),
               (''result_type'', JStr (case getp b ''result'' of JArr _ \<Rightarrow> ''array'' | v \<Rightarrow> js_typeof v))]
         else [])"

definition buildBusinessResult :: "string \<Rightarrow> jsv \<Rightarrow> jsv" where
  "buildBusinessResult requestType b =
     (if \<not> is_objectlike b then b
      else
        (let normalized = normalize requestType;
             kept = map (\<lambda>f. (f, getp b f)) (filter (\<lambda>f. \<not> is_nullish (getp b f)) preferredFields);
             sources = (case getp b ''sources'' of JArr (v # vs) \<Rightarrow> [(''sources'', JArr (take 4 (v # vs)))] | _ \<Rightarrow> []);
             compact = kept @ sources @ business_result_fields b;
             final = (if js_includes normalized ''feed'' \<and> obj_get compact ''result'' = None
                      then (case obj_get compact ''price'' of
                              None \<Rightarrow> compact
                            | Some price \<Rightarrow> spread compact
                                [(''result'', price), (''result_source'', JStr ''price'')])
                      else compact)
         in if final \<noteq> [] then JObj final else JNull))"

definition compactEnvelope :: "(string \<Rightarrow> string \<Rightarrow> bool) \<Rightarrow> string \<Rightarrow> worker_response \<Rightarrow> (string \<times> jsv) list" where
  "compactEnvelope le requestType wr =
     (let intent = intent_of requestType;
          b = (if is_objectlike (wr_body wr) then wr_body wr
               else JObj [(''raw'', js_nullish (wr_body wr) JNull)])
      in [(''version'', JStr ''morpheus-result/v1''),
          (''request_type'', JStr (ki_legacyRequestType intent)),
          (''module_id'', JStr (ki_moduleId intent)), (''operation'', JStr (ki_operation intent)),
          (''success'', JBool (wr_ok wr)),
          (''result'', buildBusinessResult (ki_legacyRequestType intent) b),
          (''verification'', buildVerificationEnvelope le b)])"

definition slim_result :: "(string \<times> jsv) list \<Rightarrow> (string \<times> jsv) list" where
  "slim_result env =
     (let r = getp (JObj env) ''result'' in
      if is_objectlike r
      then spread env [(''result'', JObj (filter
             (\<lambda>p. fst p \<notin> {''request_source'', ''target_chain_id'', ''sources''}) (own_entries r)))]
      else env)"

definition slim_verification :: "(string \<times> jsv) list \<Rightarrow> (string \<times> jsv) list" where
  "slim_verification env =
     (let v = getp (JObj env) ''verification''; t = getp v ''tee_attestation'' in
      if truthy v
      then spread env [(''verification'', JObj
        [(''output_hash'', or_null_v (getp v ''output_hash'')),
         (''attestation_hash'', or_null_v (getp v ''attestation_hash'')),
         (''signature'', or_null_v (getp v ''signature'')),
         (''public_key'', or_null_v (getp v ''public_key'')),
         (''tee_attestation'', if truthy t
            then JObj [(''app_id'', or_null_v (getp t ''app_id'')),
                       (''compose_hash'', or_null_v (getp t ''compose_hash'')),
                       (''report_data'', or_null_v (getp t ''report_data'')),
                       (''quote_hash'', or_null_v (getp t ''quote_hash''))]
            else JNull)])]
      else env)"

definition envelope_attempts ::
  "(string \<Rightarrow> string \<Rightarrow> bool) \<Rightarrow> string \<Rightarrow> worker_response \<Rightarrow> string option \<Rightarrow> jsv list" where
  "envelope_attempts le requestType wr trustTier =
     (let envelope = compactEnvelope le requestType wr @
            (case or_null trustTier of None \<Rightarrow> [] | Some t \<Rightarrow> [(''trust_tier'', JStr t)])
      in [JObj envelope, JObj (slim_result envelope), JObj (slim_verification envelope)])"

definition buildOnchainResultEnvelope ::
  "(string \<Rightarrow> string \<Rightarrow> bool) \<Rightarrow> string \<Rightarrow> worker_response \<Rightarrow> string option \<Rightarrow> jsv" where
  "buildOnchainResultEnvelope le requestType wr trustTier =
     (let attempts = envelope_attempts le requestType wr trustTier in
      case find (\<lambda>candidate. measureJsonBytes candidate \<le> 900) attempts of
        Some candidate \<Rightarrow> candidate | None \<Rightarrow> last attempts)"

section \<open>Encoding a worker response\<close>

record encoded_fulfillment =
  ef_success :: bool
  ef_result :: string
  ef_result_bytes_base64 :: string
  ef_error :: string

definition encodeFulfillmentResult ::
  "(string \<Rightarrow> string \<Rightarrow> bool) \<Rightarrow> string \<Rightarrow> worker_response \<Rightarrow> encoded_fulfillment result" where
  "encodeFulfillmentResult le requestType wr =
     (let normalized = normalize requestType in
      if \<not> wr_ok wr then
        (let errorMessage = (case str_of (getp (wr_body wr) ''error'') of
               Some e \<Rightarrow> e
             | None \<Rightarrow> ''worker request failed with status '' @ show_int (wr_status wr))
         in Inr \<lparr>ef_success = False, ef_result = [], ef_result_bytes_base64 = [],
                 ef_error = trimErrorMessage errorMessage\<rparr>)
      else bind_result (resolveCompactCallbackBytes normalized wr) (\<lambda>compact.
        (case compact of
           Some bytes \<Rightarrow> Inr \<lparr>ef_success = True, ef_result = [],
             ef_result_bytes_base64 = base64_encode bytes, ef_error = []\<rparr>
         | None \<Rightarrow> Inr \<lparr>ef_success = True,
             ef_result = stringify (buildOnchainResultEnvelope le normalized wr None),
             ef_result_bytes_base64 = [], ef_error = []\<rparr>)))"

end
