(* ===== verification/Fulfillment_Prepare.thy ===== *)
theory Fulfillment_Prepare
  imports Fulfillment_Policy Router_Result Router_Digest Durable_Queue Automation
begin

text \<open>
  The preparation of a fulfillment in \<^verbatim>\<open>workers/morpheus-relayer/src/fulfillment.js\<close>: routing an
  event to its lane (automation control, blocked automation run, operator-only, enclave, local
  randomness, confidential decrypt, worker), signing what will be delivered, and the delivery call.
  The worker and signer endpoints, the wallet and the enclave verifiers are the fields of
  \<open>prep_env\<close>; a call that throws is \<open>Inl\<close> of its message.
\<close>

definition TRUST_TIER_HOST_UNATTESTED :: string where
  "TRUST_TIER_HOST_UNATTESTED = ''host-unattested''"

text \<open>The coercing \<open>trimString\<close> of \<^verbatim>\<open>packages/shared/src/utils.js\<close>, which this file imports.\<close>

definition trimText :: "jsv \<Rightarrow> string" where
  "trimText v = js_trim (js_string (js_or v (JStr [])))"

definition normalizePublicKey :: "string \<Rightarrow> string" where
  "normalizePublicKey s = to_lower (strip0x (JStr s))"

record sign_input =
  si_requestId :: string
  si_requestType :: string
  si_appId :: string
  si_moduleId :: string
  si_operation :: string
  si_success :: bool
  si_result :: string
  si_result_bytes_base64 :: string
  si_error :: string

record prep_env =
  pe_parse :: "string \<Rightarrow> jsv option"
  pe_le :: "string \<Rightarrow> string \<Rightarrow> bool"
  pe_enclaveFulfill :: bool
  pe_oracleContract :: string
  pe_networkMagic :: jsnum
  pe_messageContract :: string
  pe_neoxOracleContract :: string
  pe_neoxChainId :: jsnum
  pe_localVerifier :: "(string \<Rightarrow> string) option"
  pe_signNeoX :: "sign_input \<Rightarrow> string result"
  pe_neoxDigest :: "sign_input \<Rightarrow> string result"
  pe_callNitro :: "string \<Rightarrow> jsv \<Rightarrow> bool \<Rightarrow> worker_response result"
  pe_verifySignature :: "(jsv \<Rightarrow> string \<Rightarrow> unit result) option"
  pe_verifyAttestation :: "jsv \<Rightarrow> string \<Rightarrow> string \<Rightarrow> bool result"
  pe_nonce :: string
  pe_randomness :: bytes
  pe_control :: control_env

section \<open>Signing\<close>

definition resolveDigestBinding :: "prep_env \<Rightarrow> chain \<Rightarrow> sign_input \<Rightarrow> digest_input" where
  "resolveDigestBinding env c f =
     (let sc = resolveFulfillmentSigningContext (chain_name c)
            \<lparr>fc_appId = si_appId f, fc_moduleId = si_moduleId f, fc_operation = si_operation f\<rparr>
      in \<lparr>di_requestId = si_requestId f, di_requestType = si_requestType f, di_success = si_success f,
          di_result = si_result f, di_error = si_error f, di_resultBytesBase64 = si_result_bytes_base64 f,
          di_chain = sc_chain sc, di_appId = sc_appId sc, di_moduleId = sc_moduleId sc, di_operation = sc_operation sc,
          di_contractScriptHash = (if c = Neo_N3 then pe_oracleContract env else []),
          di_networkMagic = (if c = Neo_N3 then pe_networkMagic env else NaN)\<rparr>)"

definition signFulfillmentPayload :: "prep_env \<Rightarrow> chain \<Rightarrow> sign_input \<Rightarrow> string result" where
  "signFulfillmentPayload env c f =
     (if c = NeoX then pe_signNeoX env f
      else bind_result (buildFulfillmentDigestBytes (resolveDigestBinding env c f)) (\<lambda>digest.
        (case pe_localVerifier env of
           Some sign \<Rightarrow> Inr (sign (hex_encode digest))
         | None \<Rightarrow>
             bind_result (pe_callNitro env ''/sign/payload'' (JObj [(''target_chain'', JStr (chain_name c)),
                 (''key_role'', JStr ''oracle_verifier''), (''data_hex'', JStr (hex_encode digest))]) True) (\<lambda>r.
               let s = str_or_empty (getp (wr_body r) ''signature'') in
               if \<not> wr_ok r \<or> s = []
               then Inl (case str_of (getp (wr_body r) ''error'') of Some e \<Rightarrow> e
                    | None \<Rightarrow> ''worker signing failed with status '' @ show_int (wr_status r))
               else Inr s))))"

definition sign_input_of :: "oracle_event \<Rightarrow> fulfillment_context \<Rightarrow> encoded_fulfillment \<Rightarrow> sign_input" where
  "sign_input_of event ctx f =
     \<lparr>si_requestId = ev_requestId event, si_requestType = ev_requestType event, si_appId = fc_appId ctx,
      si_moduleId = fc_moduleId ctx, si_operation = fc_operation ctx, si_success = ef_success f,
      si_result = ef_result f, si_result_bytes_base64 = ef_result_bytes_base64 f, si_error = ef_error f\<rparr>"

definition signEncodedFulfillment ::
  "prep_env \<Rightarrow> oracle_event \<Rightarrow> fulfillment_context \<Rightarrow> encoded_fulfillment \<Rightarrow> string result" where
  "signEncodedFulfillment env event ctx f = signFulfillmentPayload env (ev_chain event) (sign_input_of event ctx f)"

section \<open>The enclave lane\<close>

definition isHostUnattestedFetchLane :: "kernel_intent \<Rightarrow> jsv \<Rightarrow> bool" where
  "isHostUnattestedFetchLane intent payload \<longleftrightarrow>
     ki_workerRoute intent = ''/oracle/smart-fetch'' \<and> trimText (getp payload ''url'') \<noteq> []"

definition defaultHostWorkerTrustTier :: "prep_env \<Rightarrow> string" where
  "defaultHostWorkerTrustTier env =
     (if pe_enclaveFulfill env then TRUST_TIER_ENCLAVE_ATTESTED else TRUST_TIER_HOST_UNATTESTED)"

definition recomputeFulfillmentDigestHex :: "prep_env \<Rightarrow> chain \<Rightarrow> sign_input \<Rightarrow> string result" where
  "recomputeFulfillmentDigestHex env c f =
     (if c = NeoX then map_sum id normalizePublicKey (pe_neoxDigest env f)
      else map_sum id hex_encode (buildFulfillmentDigestBytes (resolveDigestBinding env c f)))"

definition buildEnclaveFulfillmentContext :: "prep_env \<Rightarrow> chain \<Rightarrow> fulfillment_context \<Rightarrow> jsv" where
  "buildEnclaveFulfillmentContext env c ctx =
     JObj ([(''app_id'', JStr (fc_appId ctx)), (''module_id'', JStr (fc_moduleId ctx)),
            (''operation'', JStr (fc_operation ctx))] @
           (if c = NeoX
            then [(''chain_id'', JNum (pe_neoxChainId env)), (''oracle_contract'', JStr (pe_neoxOracleContract env))]
            else [(''contract_script_hash'', JStr (pe_oracleContract env)), (''network_magic'', JNum (pe_networkMagic env))]))"

definition own_or_payload :: "string \<Rightarrow> jsv \<Rightarrow> string \<Rightarrow> jsv" where
  "own_or_payload own payload name = js_or (JStr own) (js_or (getp payload name) (JStr []))"

definition enclave_payload :: "prep_env \<Rightarrow> oracle_event \<Rightarrow> fulfillment_context \<Rightarrow> jsv \<Rightarrow> jsv" where
  "enclave_payload env event ctx payload = JObj
     [(''chain'', JStr (chain_name (ev_chain event))), (''request_type'', JStr (ev_requestType event)),
      (''request_id'', JStr (ev_requestId event)),
      (''payload'', JObj (spread (own_entries payload)
         [(''requester'', own_or_payload (ev_requester event) payload ''requester''),
          (''callback_contract'', own_or_payload (ev_callbackContract event) payload ''callback_contract''),
          (''callback_method'', own_or_payload (ev_callbackMethod event) payload ''callback_method'')])),
      (''payload_text'', JStr (ev_payloadText event)),
      (''fulfillment_context'', buildEnclaveFulfillmentContext env (ev_chain event) ctx),
      (''nonce'', JStr (pe_nonce env))]"

record enclave_result =
  er_fulfillment :: encoded_fulfillment
  er_signature :: string
  er_trust_tier :: string
  er_worker_response :: jsv

definition own_error :: "jsv \<Rightarrow> string \<Rightarrow> string" where
  "own_error body other = or_str (str_or_empty (getp body ''error'')) other"

text \<open>One atomic compute-and-sign call; the dash of the mismatch message is written in ASCII.\<close>

definition callEnclaveFulfill ::
  "prep_env \<Rightarrow> oracle_event \<Rightarrow> fulfillment_context \<Rightarrow> jsv \<Rightarrow> enclave_result result" where
  "callEnclaveFulfill env event ctx payload =
     (if is_nullish payload \<and> (ev_requester event = [] \<or> ev_callbackContract event = [] \<or> ev_callbackMethod event = [])
      then Inl ''Cannot read properties of null (reading 'requester')''
      else bind_result (pe_callNitro env ''/oracle/fulfill'' (enclave_payload env event ctx payload) True) (\<lambda>r.
        if \<not> wr_ok r \<and> isTransientWorkerStatus (JNum (Fin (wr_status r)))
        then Inl (buildTransientWorkerError (Fin (wr_status r))
               (case str_of (getp (wr_body r) ''error'') of Some e \<Rightarrow> e | None \<Rightarrow> ''enclave fulfill''))
        else
          (let body = (if is_objectlike (wr_body r) then wr_body r else JObj []) in
           if \<not> wr_ok r then Inl (own_error body (''enclave fulfill failed with status '' @ show_int (wr_status r)))
           else if str_or_empty (getp body ''signature'') = []
           then Inl (own_error body ''enclave fulfill returned no signature'')
           else
             (let f = \<lparr>ef_success = truthy (getp body ''success''), ef_result = str_or_empty (getp body ''result''),
                    ef_result_bytes_base64 = str_or_empty (getp body ''result_bytes_base64''),
                    ef_error = str_or_empty (getp body ''error'')\<rparr>;
                  returnedDigest = normalizePublicKey (trimText (getp body ''fulfillment_digest_hex''))
              in bind_result (recomputeFulfillmentDigestHex env (ev_chain event) (sign_input_of event ctx f)) (\<lambda>hex.
                 (let localDigest = normalizePublicKey hex in
                  if returnedDigest = [] \<or> returnedDigest \<noteq> localDigest
                  then Inl (''invalid signature: enclave fulfillment digest mismatch (enclave='' @
                         or_str returnedDigest ''missing'' @ '' relayer='' @ localDigest @ '') - refusing to submit'')
                  else bind_result (case pe_verifySignature env of None \<Rightarrow> Inr () | Some v \<Rightarrow> v body localDigest) (\<lambda>_.
                    bind_result (pe_verifyAttestation env body localDigest (pe_nonce env)) (\<lambda>attested.
                      Inr \<lparr>er_fulfillment = f, er_signature = str_or_empty (getp body ''signature''),
                           er_trust_tier = (if attested then TRUST_TIER_ENCLAVE_ATTESTED else TRUST_TIER_HOST_UNATTESTED),
                           er_worker_response = (let v = getp body ''verification'' in if is_objectlike v then v else body)\<rparr>))))))))"

section \<open>Prepared fulfillments\<close>

record prep_details =
  pd_route :: string
  pd_module_id :: string
  pd_operation :: string
  pd_worker_status :: jsv
  pd_worker_response :: jsv
  pd_verification_signature :: string
  pd_trust_tier :: string

definition buildPreparedFulfillment :: "encoded_fulfillment \<Rightarrow> prep_details \<Rightarrow> prepared_fulfillment" where
  "buildPreparedFulfillment f d = buildPreparedFulfillmentRetryMeta (JObj
     [(''success'', JBool (ef_success f)), (''result'', JStr (ef_result f)),
      (''result_bytes_base64'', JStr (ef_result_bytes_base64 f)), (''error'', JStr (ef_error f)),
      (''route'', JStr (pd_route d)), (''module_id'', JStr (pd_module_id d)), (''operation'', JStr (pd_operation d)),
      (''worker_status'', js_nullish (pd_worker_status d) JNull),
      (''worker_response'', js_or (pd_worker_response d) JNull),
      (''verification_signature'', JStr (pd_verification_signature d)),
      (''trust_tier'', JStr (or_str (pd_trust_tier d) TRUST_TIER_ENCLAVE_ATTESTED))])"

definition prep_details_of ::
  "string \<Rightarrow> fulfillment_context \<Rightarrow> jsv \<Rightarrow> jsv \<Rightarrow> string \<Rightarrow> string \<Rightarrow> prep_details" where
  "prep_details_of route ctx status response signature tier =
     \<lparr>pd_route = route, pd_module_id = fc_moduleId ctx, pd_operation = fc_operation ctx, pd_worker_status = status,
      pd_worker_response = response, pd_verification_signature = signature, pd_trust_tier = tier\<rparr>"

section \<open>Automation executions\<close>

definition enrichAutomationExecutionPayload :: "oracle_event \<Rightarrow> jsv \<Rightarrow> jsv result" where
  "enrichAutomationExecutionPayload event payload =
     (let automationId = trimText (getp payload ''automation_id'') in
      if \<not> js_starts_with (normalize (ev_requestType event)) ''automation_'' then Inr payload
      else if automationId = [] then Inr payload
      else bind_result (buildUpkeepDispatch
          \<lparr>us_automation_id = automationId,
           us_workflow_id = trimText (js_or (getp payload ''workflow_id'') (JStr ''automation.upkeep'')),
           us_workflow_version = NaN, us_execution_count = NaN, us_chain = chain_name (ev_chain event),
           us_execution_id = or_str (trimText (getp payload ''execution_id'')) (ev_requestId event),
           us_request_id = trimText (getp payload ''request_id''),
           us_idempotency_key = trimText (getp payload ''idempotency_key''),
           us_replay_window = [], us_delivery_mode = []\<rparr>) (\<lambda>d.
        Inr (JObj (spread (own_entries payload)
          [(''workflow_id'', js_or (getp payload ''workflow_id'') (JStr (ud_workflow_id d))),
           (''workflow_version'', js_or (getp payload ''workflow_version'') (JNum (Fin (ud_workflow_version d)))),
           (''execution_id'', js_or (getp payload ''execution_id'') (JStr (ud_execution_id d))),
           (''idempotency_key'', js_or (getp payload ''idempotency_key'') (JStr (ud_idempotency_key d))),
           (''replay_window'', js_or (getp payload ''replay_window'') (JStr (ud_replay_window d))),
           (''delivery_mode'', js_or (getp payload ''delivery_mode'') (JStr (ud_delivery_mode d)))]))))"

definition either_key :: "jsv \<Rightarrow> string \<Rightarrow> string \<Rightarrow> string" where
  "either_key payload a b = trimText (js_or (getp payload a) (getp payload b))"

definition isQueuedAutomationExecutionPayload :: "jsv \<Rightarrow> bool" where
  "isQueuedAutomationExecutionPayload payload \<longleftrightarrow>
     is_plain_object payload \<and> either_key payload ''automation_id'' ''automationId'' \<noteq> []
     \<and> (either_key payload ''workflow_id'' ''workflowId'' \<noteq> []
        \<or> either_key payload ''execution_id'' ''executionId'' \<noteq> []
        \<or> either_key payload ''idempotency_key'' ''idempotencyKey'' \<noteq> []
        \<or> either_key payload ''delivery_mode'' ''deliveryMode'' \<noteq> [])"

definition buildDecryptBindingRequest :: "prep_env \<Rightarrow> oracle_event \<Rightarrow> jsv \<Rightarrow> string \<Rightarrow> jsv" where
  "buildDecryptBindingRequest env event payload envelope =
     (let messageId = js_nullish (getp payload ''message_id'') (js_nullish (getp payload ''messageId'')
            (js_nullish (getp payload ''id'') (if ev_messageId event = [] then JNull else JStr (ev_messageId event))));
          normalized = (if is_nullish messageId then [] else js_trim (js_string messageId));
          contract = or_str (trimText (js_or (getp payload ''contract'') (getp payload ''contract_address'')))
            (js_trim (or_str (pe_messageContract env) (pe_neoxOracleContract env)))
      in JObj ((''envelope'', JStr envelope) #
           (if normalized = [] then []
            else [(''message_id'', JStr normalized), (''chain'', JStr ''neox'')] @
                 (if contract = [] then [] else [(''contract'', JStr contract)]))))"

section \<open>The lanes\<close>

definition bind_prep :: "'a result \<Rightarrow> ('a \<Rightarrow> prepared_fulfillment) \<Rightarrow> prepared_fulfillment result" where
  "bind_prep r f = bind_result r (\<lambda>a. Inr (f a))"

text \<open>Encode a worker-shaped response, sign it and build the prepared fulfillment.\<close>

definition encoded_lane ::
  "prep_env \<Rightarrow> oracle_event \<Rightarrow> fulfillment_context \<Rightarrow> worker_response \<Rightarrow> string \<Rightarrow> string \<Rightarrow> prepared_fulfillment result" where
  "encoded_lane env event ctx r route tier =
     bind_result (encodeFulfillmentResult (pe_le env) (ev_requestType event) r) (\<lambda>f.
       bind_prep (signEncodedFulfillment env event ctx f) (\<lambda>signature.
         buildPreparedFulfillment f (prep_details_of route ctx (JNum (Fin (wr_status r))) (wr_body r) signature tier)))"

definition automation_lane :: "prep_env \<Rightarrow> oracle_event \<Rightarrow> fulfillment_context \<Rightarrow> jsv \<Rightarrow> prepared_fulfillment result" where
  "automation_lane env event ctx payload =
     bind_result (handleAutomationControlRequest (pe_control env) event payload) (\<lambda>resp.
       (case resp of
          None \<Rightarrow> Inl ''Cannot read properties of null (reading 'ok')''
        | Some r \<Rightarrow> encoded_lane env event ctx
            \<lparr>wr_ok = cr_ok r, wr_status = cr_status r, wr_body = cr_body r\<rparr> (cr_route r) []))"

definition guard_response :: "oracle_event \<Rightarrow> guard_result \<Rightarrow> worker_response" where
  "guard_response event g = \<lparr>wr_ok = False, wr_status = 409, wr_body = JObj
     [(''mode'', JStr ''automation''), (''action'', JStr ''execute''),
      (''automation_id'', case gr_automation_id g of None \<Rightarrow> JNull | Some a \<Rightarrow> JStr a),
      (''status'', JStr (case gr_job_status g of None \<Rightarrow> ''cancelled'' | Some st \<Rightarrow> or_str st ''cancelled'')),
      (''chain'', JStr (chain_name (ev_chain event))), (''error'', JStr (gr_error g))]\<rparr>"

definition operator_only_error :: string where
  "operator_only_error = ''datafeed requests are operator-only; users should read synchronized on-chain feed data''"

definition operator_only_lane_result :: "prep_env \<Rightarrow> oracle_event \<Rightarrow> fulfillment_context \<Rightarrow> prepared_fulfillment result" where
  "operator_only_lane_result env event ctx =
     (let f = \<lparr>ef_success = False, ef_result = [], ef_result_bytes_base64 = [], ef_error = operator_only_error\<rparr>
      in bind_prep (signFulfillmentPayload env (ev_chain event) (sign_input_of event ctx f)) (\<lambda>signature.
           buildPreparedFulfillment f (prep_details_of ''operator-only:rejected'' ctx JNull JNull signature [])))"

definition enclave_lane ::
  "prep_env \<Rightarrow> oracle_event \<Rightarrow> fulfillment_context \<Rightarrow> kernel_intent \<Rightarrow> jsv \<Rightarrow> prepared_fulfillment result" where
  "enclave_lane env event ctx intent payload =
     bind_prep (callEnclaveFulfill env event ctx payload) (\<lambda>r.
       buildPreparedFulfillment (er_fulfillment r) (prep_details_of (''enclave:'' @ ki_moduleId intent) ctx
         (JNum (Fin 200)) (er_worker_response r) (er_signature r) (er_trust_tier r)))"

definition vrf_lane :: "prep_env \<Rightarrow> oracle_event \<Rightarrow> fulfillment_context \<Rightarrow> prepared_fulfillment result" where
  "vrf_lane env event ctx = encoded_lane env event ctx
     \<lparr>wr_ok = True, wr_status = 200, wr_body = JObj [(''randomness'', JStr (hex_encode (pe_randomness env)))]\<rparr>
     ''local:vrf'' (defaultHostWorkerTrustTier env)"

definition decrypt_fulfillment :: "worker_response \<Rightarrow> encoded_fulfillment" where
  "decrypt_fulfillment r =
     (case (if wr_ok r then str_of (getp (wr_body r) ''plaintext'') else None) of
        Some text \<Rightarrow> \<lparr>ef_success = True, ef_result = [], ef_result_bytes_base64 = base64_encode (utf8 text), ef_error = []\<rparr>
      | None \<Rightarrow> \<lparr>ef_success = False, ef_result = [], ef_result_bytes_base64 = [],
          ef_error = trimOnchainErrorMessage
            (js_string (js_or (getp (wr_body r) ''error'') (JStr ''confidential decrypt failed'')))\<rparr>)"

definition decrypt_lane :: "prep_env \<Rightarrow> oracle_event \<Rightarrow> fulfillment_context \<Rightarrow> jsv \<Rightarrow> prepared_fulfillment result" where
  "decrypt_lane env event ctx payload =
     bind_result (pe_callNitro env ''/oracle/decrypt''
         (buildDecryptBindingRequest env event payload (js_trim (ev_payloadText event))) False) (\<lambda>r.
       if \<not> wr_ok r \<and> isTransientWorkerStatus (JNum (Fin (wr_status r)))
       then Inl (buildTransientWorkerError (Fin (wr_status r))
              (case str_of (getp (wr_body r) ''error'') of Some e \<Rightarrow> e | None \<Rightarrow> ''confidential decrypt''))
       else let f = decrypt_fulfillment r in
         bind_prep (signFulfillmentPayload env (ev_chain event) (sign_input_of event ctx f)) (\<lambda>signature.
           buildPreparedFulfillment f (prep_details_of ''oracle:decrypt'' ctx (JNum (Fin (wr_status r))) (wr_body r) signature [])))"

definition worker_lane ::
  "prep_env \<Rightarrow> oracle_event \<Rightarrow> fulfillment_context \<Rightarrow> kernel_intent \<Rightarrow> jsv \<Rightarrow> prepared_fulfillment result" where
  "worker_lane env event ctx intent payload =
     (let route = resolveWorkerRoute (JStr (ev_requestType event)) in
      bind_result (buildWorkerPayload (chain_name (ev_chain event)) (ev_requestType event) payload (ev_requestId event)
          \<lparr>cc_requester = ev_requester event, cc_callbackContract = ev_callbackContract event,
           cc_callbackMethod = ev_callbackMethod event\<rparr>) (\<lambda>workerPayload.
        bind_result (pe_callNitro env route workerPayload True) (\<lambda>r.
          if \<not> wr_ok r \<and> isTransientWorkerStatus (JNum (Fin (wr_status r)))
          then Inl (buildTransientWorkerError (Fin (wr_status r))
                 (case str_of (getp (wr_body r) ''error'') of Some e \<Rightarrow> e | None \<Rightarrow> []))
          else encoded_lane env event ctx r route
                 (if isHostUnattestedFetchLane intent payload then TRUST_TIER_HOST_UNATTESTED
                  else defaultHostWorkerTrustTier env))))"

definition prepareOracleFulfillment :: "prep_env \<Rightarrow> oracle_event \<Rightarrow> prepared_fulfillment result" where
  "prepareOracleFulfillment env event =
     bind_result (assertEventIdentifiersClean event) (\<lambda>_.
     bind_result (enrichAutomationExecutionPayload event (decodePayloadText (pe_parse env) (ev_payloadText event))) (\<lambda>payload.
       let intent = intent_of (ev_requestType event);
           ctx = resolveEventFulfillmentContext event intent
       in if isAutomationControlRequestType (ev_requestType event) then automation_lane env event ctx payload
          else bind_result (if isQueuedAutomationExecutionPayload payload
                  then guardQueuedAutomationExecution (pe_control env) event else Inr (allowed None)) (\<lambda>g.
            if gr_blocked g then encoded_lane env event ctx (guard_response event g) (gr_route g) []
            else if isOperatorOnlyRequestType (JStr (ev_requestType event)) then operator_only_lane_result env event ctx
            else if pe_enclaveFulfill env \<and> \<not> isHostUnattestedFetchLane intent payload
            then enclave_lane env event ctx intent payload
            else if ki_moduleId intent = ''random.generate'' then vrf_lane env event ctx
            else if ki_moduleId intent = ''confidential.decrypt'' then decrypt_lane env event ctx payload
            else worker_lane env event ctx intent payload)))"

section \<open>Delivery\<close>

text \<open>
  The chain calls take the effects so far, since a submission may succeed on one attempt and fail on
  another. \<open>io_hook\<close> is the configured replacement of both.
\<close>

record chain_io =
  io_prep :: prep_env
  io_hook :: "(effect list \<Rightarrow> oracle_event \<Rightarrow> encoded_fulfillment \<Rightarrow> string \<Rightarrow> jsv result) option"
  io_neox :: "effect list \<Rightarrow> string \<Rightarrow> encoded_fulfillment \<Rightarrow> string \<Rightarrow> jsv result"
  io_neo_n3 :: "effect list \<Rightarrow> string \<Rightarrow> encoded_fulfillment \<Rightarrow> string \<Rightarrow> jsv result"

definition fulfillNeoRequest ::
  "chain_io \<Rightarrow> effect list \<Rightarrow> oracle_event \<Rightarrow> encoded_fulfillment \<Rightarrow> string \<Rightarrow> jsv result" where
  "fulfillNeoRequest io trace event f signature =
     (case io_hook io of
        Some hook \<Rightarrow> hook trace event f signature
      | None \<Rightarrow>
          if ev_chain event = NeoX then io_neox io trace (ev_requestId event) f signature
          else case io_neo_n3 io trace (ev_requestId event) f signature of
              Inr tx \<Rightarrow> Inr tx
            | Inl message \<Rightarrow>
                if js_includes (to_lower message) ''request not found''
                then Inl (message @ '' [chain='' @ chain_name (ev_chain event) @ '' request_id='' @ ev_requestId event @ '']'')
                else Inl message)"

definition prepared_encoding :: "prepared_fulfillment \<Rightarrow> encoded_fulfillment" where
  "prepared_encoding p = \<lparr>ef_success = pf_success p, ef_result = pf_result p,
     ef_result_bytes_base64 = pf_result_bytes_base64 p, ef_error = pf_error p\<rparr>"

text \<open>The submitted transaction, and the world in which the submission has been attempted.\<close>

definition deliverPreparedFulfillment ::
  "chain_io \<Rightarrow> oracle_event \<Rightarrow> prepared_fulfillment \<Rightarrow> world \<Rightarrow> jsv result \<times> world" where
  "deliverPreparedFulfillment io event p w =
     (fulfillNeoRequest io (w_trace w) event (prepared_encoding p) (pf_verification_signature p),
      emit (EDeliver event p) w)"

definition failure_encoding :: "string \<Rightarrow> encoded_fulfillment" where
  "failure_encoding safeError = \<lparr>ef_success = False, ef_result = [], ef_result_bytes_base64 = [], ef_error = safeError\<rparr>"

definition finalizeFailedRequest ::
  "chain_io \<Rightarrow> oracle_event \<Rightarrow> string \<Rightarrow> world \<Rightarrow> (string \<times> jsv) result \<times> world" where
  "finalizeFailedRequest io event errorMessage w =
     (let safeError = trimOnchainErrorMessage errorMessage;
          ctx = resolveEventFulfillmentContext event (intent_of (ev_requestType event));
          f = failure_encoding safeError
      in case signFulfillmentPayload (io_prep io) (ev_chain event) (sign_input_of event ctx f) of
          Inl e \<Rightarrow> (Inl e, w)
        | Inr signature \<Rightarrow>
            (map_sum id (\<lambda>tx. (safeError, tx)) (fulfillNeoRequest io (w_trace w) event f signature),
             emit (EFinalize event safeError) w))"

end
