(* ===== verification/Fulfillment_Prepare_Facts.thy ===== *)
theory Fulfillment_Prepare_Facts
  imports Fulfillment_Prepare Relayer_State_Facts
begin

text \<open>
  What a prepared fulfillment guarantees: its signature covers exactly the fields that will be
  delivered, whichever lane produced it, and its trust label.
\<close>

section \<open>Building\<close>

lemma prepared_of_encoded [simp]:
  "prepared_encoding (buildPreparedFulfillment f d) = f"
  "pf_verification_signature (buildPreparedFulfillment f d) = pd_verification_signature d"
  "pf_trust_tier (buildPreparedFulfillment f d) = or_str (pd_trust_tier d) TRUST_TIER_ENCLAVE_ATTESTED"
  "pf_route (buildPreparedFulfillment f d) = pd_route d"
  by (simp_all add: buildPreparedFulfillment_def buildPreparedFulfillmentRetryMeta_def prepared_encoding_def
      str_or_empty_def or_str_def TRUST_TIER_ENCLAVE_ATTESTED_def)

lemma prep_details_sel [simp]:
  "pd_verification_signature (prep_details_of route ctx st r sig tier) = sig"
  "pd_trust_tier (prep_details_of route ctx st r sig tier) = tier"
  "pd_route (prep_details_of route ctx st r sig tier) = route"
  by (simp_all add: prep_details_of_def)

lemma bind_prep_Inr: "bind_prep r f = Inr p \<longleftrightarrow> (\<exists>a. r = Inr a \<and> p = f a)"
  by (cases r) (auto simp: bind_prep_def)

section \<open>What the signature covers\<close>

definition event_context :: "oracle_event \<Rightarrow> fulfillment_context" where
  "event_context event = resolveEventFulfillmentContext event (intent_of (ev_requestType event))"

definition delivered_input :: "oracle_event \<Rightarrow> prepared_fulfillment \<Rightarrow> sign_input" where
  "delivered_input event p = sign_input_of event (event_context event) (prepared_encoding p)"

definition signed_here :: "prep_env \<Rightarrow> oracle_event \<Rightarrow> prepared_fulfillment \<Rightarrow> bool" where
  "signed_here env event p \<longleftrightarrow>
     signFulfillmentPayload env (ev_chain event) (delivered_input event p) = Inr (pf_verification_signature p)"

text \<open>
  Signed by the enclave: some reply carries this signature and a digest equal to the digest the
  relayer recomputes for what it will deliver, and the verifiers accepted it.
\<close>

definition signed_by_enclave :: "prep_env \<Rightarrow> oracle_event \<Rightarrow> prepared_fulfillment \<Rightarrow> bool" where
  "signed_by_enclave env event p \<longleftrightarrow> pe_enclaveFulfill env \<and>
     (\<exists>request r hex. pe_callNitro env ''/oracle/fulfill'' request True = Inr r \<and> wr_ok r
        \<and> str_or_empty (getp (wr_body r) ''signature'') = pf_verification_signature p
        \<and> pf_verification_signature p \<noteq> []
        \<and> recomputeFulfillmentDigestHex env (ev_chain event) (delivered_input event p) = Inr hex
        \<and> normalizePublicKey (trimText (getp (wr_body r) ''fulfillment_digest_hex'')) = normalizePublicKey hex
        \<and> (\<forall>v. pe_verifySignature env = Some v \<longrightarrow> v (wr_body r) (normalizePublicKey hex) = Inr ())
        \<and> (\<exists>attested. pe_verifyAttestation env (wr_body r) (normalizePublicKey hex) (pe_nonce env) = Inr attested
             \<and> pf_trust_tier p = (if attested then TRUST_TIER_ENCLAVE_ATTESTED else TRUST_TIER_HOST_UNATTESTED)))"

lemma encoded_lane_signed:
  "encoded_lane env event (event_context event) r route tier = Inr p \<Longrightarrow> signed_here env event p"
  by (auto simp: encoded_lane_def bind_result_eq_Inr bind_prep_Inr signed_here_def delivered_input_def
      signEncodedFulfillment_def)

lemma encoded_lane_tier:
  "encoded_lane env event ctx r route tier = Inr p \<Longrightarrow> pf_trust_tier p = or_str tier TRUST_TIER_ENCLAVE_ATTESTED"
  by (auto simp: encoded_lane_def bind_result_eq_Inr bind_prep_Inr)

lemma automation_lane_signed:
  "automation_lane env event (event_context event) payload = Inr p \<Longrightarrow> signed_here env event p"
  by (auto simp: automation_lane_def bind_result_eq_Inr split: option.splits dest: encoded_lane_signed)

lemma operator_only_signed:
  "operator_only_lane_result env event (event_context event) = Inr p \<Longrightarrow> signed_here env event p"
  by (auto simp: operator_only_lane_result_def bind_prep_Inr signed_here_def delivered_input_def Let_def)

lemma decrypt_lane_signed:
  "decrypt_lane env event (event_context event) payload = Inr p \<Longrightarrow> signed_here env event p"
  by (auto simp: decrypt_lane_def bind_result_eq_Inr bind_prep_Inr signed_here_def delivered_input_def Let_def
      split: if_splits)

lemma worker_lane_signed:
  "worker_lane env event (event_context event) intent payload = Inr p \<Longrightarrow> signed_here env event p"
  by (auto simp: worker_lane_def bind_result_eq_Inr Let_def split: if_splits dest: encoded_lane_signed)

lemma tiers_nonempty [simp]:
  "or_str TRUST_TIER_ENCLAVE_ATTESTED x = TRUST_TIER_ENCLAVE_ATTESTED"
  "or_str TRUST_TIER_HOST_UNATTESTED x = TRUST_TIER_HOST_UNATTESTED"
  "TRUST_TIER_HOST_UNATTESTED \<noteq> TRUST_TIER_ENCLAVE_ATTESTED"
  by (simp_all add: or_str_def TRUST_TIER_ENCLAVE_ATTESTED_def TRUST_TIER_HOST_UNATTESTED_def)

lemma objectlike_default: "str_or_empty (getp (if is_objectlike b then b else JObj []) k) \<noteq> [] \<Longrightarrow> is_objectlike b"
  by (cases "is_objectlike b") (auto simp: str_or_empty_def)

lemma enclave_lane_signed:
  assumes "enclave_lane env event (event_context event) intent payload = Inr p" "pe_enclaveFulfill env"
  shows "signed_by_enclave env event p"
proof -
  obtain er where er: "callEnclaveFulfill env event (event_context event) payload = Inr er"
    and p: "prepared_encoding p = er_fulfillment er" "pf_verification_signature p = er_signature er"
      "pf_trust_tier p = or_str (er_trust_tier er) TRUST_TIER_ENCLAVE_ATTESTED"
    using assms(1) by (auto simp: enclave_lane_def bind_prep_Inr)
  from er obtain r where r: "pe_callNitro env ''/oracle/fulfill'' (enclave_payload env event (event_context event) payload) True = Inr r"
    by (auto simp: callEnclaveFulfill_def bind_result_eq_Inr split: if_splits)
  define body where "body = (if is_objectlike (wr_body r) then wr_body r else JObj [])"
  have sig: "wr_ok r" "str_or_empty (getp body ''signature'') \<noteq> []"
    using er r by (auto simp: callEnclaveFulfill_def Let_def body_def split: if_splits)
  have body: "body = wr_body r" using objectlike_default [of "wr_body r" "''signature''"] sig(2) by (simp add: body_def)
  from er r sig obtain hex att where "er_signature er = str_or_empty (getp body ''signature'')"
      "recomputeFulfillmentDigestHex env (ev_chain event) (sign_input_of event (event_context event) (er_fulfillment er)) = Inr hex"
      "normalizePublicKey (trimText (getp body ''fulfillment_digest_hex'')) = normalizePublicKey hex"
      "\<forall>v. pe_verifySignature env = Some v \<longrightarrow> v body (normalizePublicKey hex) = Inr ()"
      "pe_verifyAttestation env body (normalizePublicKey hex) (pe_nonce env) = Inr att"
      "er_trust_tier er = (if att then TRUST_TIER_ENCLAVE_ATTESTED else TRUST_TIER_HOST_UNATTESTED)"
    by (auto simp: callEnclaveFulfill_def Let_def body_def [symmetric] bind_result_eq_Inr split: if_splits option.splits)
  with r sig p assms(2) body show ?thesis
    unfolding signed_by_enclave_def delivered_input_def
    by (intro conjI exI [of _ "enclave_payload env event (event_context event) payload"] exI [of _ r]
        exI [of _ hex] exI [of _ att]) auto
qed

text \<open>
  C8: Whichever lane prepares a request - automation control, a blocked automation run, the
  operator-only rejection, the enclave, local randomness, confidential decryption or a worker - the
  signature in the prepared fulfillment is either the signature the relayer obtained for exactly the
  success flag, result, result bytes and error it will deliver, under the event's request id, type
  and context, or an enclave signature whose digest equals the digest the relayer recomputes for
  them and which the configured verifiers accepted.
\<close>

theorem prepared_signature_covers_delivery:
  assumes "prepareOracleFulfillment env event = Inr p"
  shows "signed_here env event p \<or> signed_by_enclave env event p"
proof -
  obtain payload where "enrichAutomationExecutionPayload event (decodePayloadText (pe_parse env) (ev_payloadText event)) = Inr payload"
    using assms by (auto simp: prepareOracleFulfillment_def bind_result_eq_Inr)
  with assms show ?thesis
    by (auto simp: prepareOracleFulfillment_def bind_result_eq_Inr Let_def vrf_lane_def event_context_def [symmetric]
        split: if_splits
        dest: automation_lane_signed encoded_lane_signed operator_only_signed enclave_lane_signed
          decrypt_lane_signed worker_lane_signed)
qed

section \<open>The trust label\<close>

text \<open>The lanes that never consult an attestation document.\<close>

definition unlabelled_lane :: "prep_env \<Rightarrow> oracle_event \<Rightarrow> bool" where
  "unlabelled_lane env event \<longleftrightarrow> isAutomationControlRequestType (ev_requestType event)
     \<or> isOperatorOnlyRequestType (JStr (ev_requestType event))
     \<or> ki_moduleId (intent_of (ev_requestType event)) = ''confidential.decrypt''
     \<or> (\<exists>payload. enrichAutomationExecutionPayload event (decodePayloadText (pe_parse env) (ev_payloadText event)) = Inr payload
          \<and> isQueuedAutomationExecutionPayload payload)"

lemma host_lane_tier:
  "vrf_lane env event ctx = Inr p \<Longrightarrow> \<not> pe_enclaveFulfill env \<Longrightarrow> pf_trust_tier p = TRUST_TIER_HOST_UNATTESTED"
  "worker_lane env event ctx intent payload = Inr p \<Longrightarrow>
     \<not> pe_enclaveFulfill env \<or> isHostUnattestedFetchLane intent payload \<Longrightarrow> pf_trust_tier p = TRUST_TIER_HOST_UNATTESTED"
  by (auto simp: vrf_lane_def worker_lane_def Let_def bind_result_eq_Inr defaultHostWorkerTrustTier_def
      split: if_splits dest!: encoded_lane_tier)

lemma vrf_not_fetch_lane:
  "ki_moduleId (intent_of t) = ''random.generate'' \<Longrightarrow> \<not> isHostUnattestedFetchLane (intent_of t) payload"
  using resolveKernelIntent_route_in_table [of "JStr t"]
  by (auto simp: isHostUnattestedFetchLane_def kernel_routes_def)


section \<open>Confidential reveals\<close>

text \<open>
  With the enclave-fulfill flag off, a confidential reveal depends on no answer of the worker but
  the one to \<open>/oracle/decrypt\<close>, which is asked for without fail-over.
\<close>

lemma reveal_one_call:
  assumes "ki_moduleId (intent_of (ev_requestType event)) = ''confidential.decrypt''"
    and "\<not> pe_enclaveFulfill env" "pe_localVerifier env = Some sign" "ev_chain event = Neo_N3"
    and "\<not> isAutomationControlRequestType (ev_requestType event)"
    and "\<And>body. pe_callNitro env' ''/oracle/decrypt'' body False = pe_callNitro env ''/oracle/decrypt'' body False"
    and "env' = env\<lparr>pe_callNitro := call\<rparr>"
  shows "prepareOracleFulfillment env' event = prepareOracleFulfillment env event"
proof -
  have op: "\<not> isOperatorOnlyRequestType (JStr (ev_requestType event))"
    using assms(1) by (simp add: isOperatorOnlyRequestType_def operatorOnly_iff_feed_module)
  have sign: "signFulfillmentPayload env' Neo_N3 f = signFulfillmentPayload env Neo_N3 f" for f
    using assms(3,7) by (simp add: signFulfillmentPayload_def resolveDigestBinding_def cong: option.case_cong)
  have call: "call ''/oracle/decrypt'' body False = pe_callNitro env ''/oracle/decrypt'' body False" for body
    using assms(6) [of body] assms(7) by simp
  have "encoded_lane env' event ctx r route tier = encoded_lane env event ctx r route tier" for ctx r route tier
    using sign assms(4,7) by (simp add: encoded_lane_def signEncodedFulfillment_def)
  moreover have "buildDecryptBindingRequest env' event payload x = buildDecryptBindingRequest env event payload x" for payload x
    using assms(7) by (simp add: buildDecryptBindingRequest_def Let_def)
  then have "decrypt_lane env' event ctx payload = decrypt_lane env event ctx payload" for ctx payload
    using sign assms(4,7) call by (simp add: decrypt_lane_def Let_def cong: if_cong)
  ultimately show ?thesis
    using assms(1,2,4,5,7) op by (simp add: prepareOracleFulfillment_def Let_def cong: if_cong)
qed

section \<open>Examples\<close>

definition sample_prep :: "bool \<Rightarrow> worker_response \<Rightarrow> prep_env" where
  "sample_prep flag reply = \<lparr>pe_parse = \<lambda>s. None, pe_le = (\<lambda>a b. True), pe_enclaveFulfill = flag, pe_oracleContract = [],
     pe_networkMagic = NaN, pe_messageContract = [], pe_neoxOracleContract = [], pe_neoxChainId = Fin 47763,
     pe_localVerifier = Some (\<lambda>hex. ''local''), pe_signNeoX = \<lambda>f. Inr ''0xsig'', pe_neoxDigest = \<lambda>f. Inr ''0xAB'',
     pe_callNitro = \<lambda>route body fallback. Inr reply, pe_verifySignature = None,
     pe_verifyAttestation = \<lambda>body digest nonce. Inr True, pe_nonce = ''n'', pe_randomness = replicate 32 7,
     pe_control = \<lparr>ce_now = 0, ce_uuid = [], ce_parse = \<lambda>s. None, ce_parse_date = \<lambda>v. None, ce_upsert = \<lambda>j. Inr (),
       ce_persistEncrypted = \<lambda>j. Inr (), ce_fetchJob = \<lambda>k. Inr None, ce_patchJob = \<lambda>k p. Inr (),
       ce_fetchRun = \<lambda>h. Inr None\<rparr>\<rparr>"

definition enclave_reply :: worker_response where
  "enclave_reply = \<lparr>wr_ok = True, wr_status = 200, wr_body = JObj [(''success'', JBool True), (''result'', JStr ''42''),
     (''signature'', JStr ''0xenc''), (''fulfillment_digest_hex'', JStr ''ab'')]\<rparr>"

definition neox_event :: "string \<Rightarrow> oracle_event" where
  "neox_event requestType = (sample_event ''7'')\<lparr>ev_chain := NeoX, ev_requestType := requestType, ev_requester := ''0x1'',
     ev_callbackContract := ''0x2'', ev_callbackMethod := ''cb''\<rparr>"

lemma sample_preparations:
  "case prepareOracleFulfillment (sample_prep False enclave_reply) (neox_event ''datafeed'') of
     Inr p \<Rightarrow> pf_verification_signature p = ''0xsig'' \<and> pf_trust_tier p = TRUST_TIER_ENCLAVE_ATTESTED | Inl e \<Rightarrow> False"
  "case prepareOracleFulfillment (sample_prep True enclave_reply) (neox_event ''oracle'') of
     Inr p \<Rightarrow> pf_verification_signature p = ''0xenc'' \<and> pf_result p = ''42''
       \<and> pf_trust_tier p = TRUST_TIER_ENCLAVE_ATTESTED | Inl e \<Rightarrow> False"
  by code_simp+

theorem prepared_signature_covers_delivery_witness:
  "\<exists>p. prepareOracleFulfillment (sample_prep False enclave_reply) (neox_event ''datafeed'') = Inr p
     \<and> (signed_here (sample_prep False enclave_reply) (neox_event ''datafeed'') p
        \<or> signed_by_enclave (sample_prep False enclave_reply) (neox_event ''datafeed'') p)"
proof -
  obtain p where p: "prepareOracleFulfillment (sample_prep False enclave_reply) (neox_event ''datafeed'') = Inr p"
    using sample_preparations(1) by (auto split: sum.splits)
  then show ?thesis using prepared_signature_covers_delivery [OF p] by blast
qed


text \<open>
  The rejection of an operator-only request is computed by the relayer itself with the enclave flag
  off, and is still labelled \<open>enclave-attested\<close>.
\<close>

theorem operator_only_labelled_attested:
  "case prepareOracleFulfillment (sample_prep False enclave_reply) (neox_event ''datafeed'') of
     Inr p \<Rightarrow> \<not> pe_enclaveFulfill (sample_prep False enclave_reply) \<and> pf_trust_tier p = ''enclave-attested''
   | Inl e \<Rightarrow> False"
  by code_simp

end
