(* ===== verification/Relayed_Decrypt.thy ===== *)
theory Relayed_Decrypt
  imports Gated_Decrypt Fulfillment_Prepare_Facts
begin

text \<open>
  The confidential reveal from end to end: the relayer's decrypt lane (\<open>prepareOracleFulfillment\<close> of
  \<^verbatim>\<open>morpheus-relayer/src/fulfillment.js\<close>) against the worker's \<open>handleOracleDecrypt\<close>. What the relayer
  signs as a revealed text is the content of the envelope stored on the configured contract, after its
  unlock time.
\<close>

section \<open>The request the relayer sends\<close>

definition worker_reply :: "http_response \<Rightarrow> worker_response" where
  "worker_reply r = \<lparr>wr_ok = (200 \<le> hr_status r \<and> hr_status r < 300), wr_status = hr_status r, wr_body = hr_body r\<rparr>"

text \<open>The call of the decrypt route reaches the worker and returns its answer.\<close>

definition served_by :: "prep_env \<Rightarrow> decrypt_env \<Rightarrow> bool" where
  "served_by prep de \<longleftrightarrow>
     (\<forall>body. pe_callNitro prep ''/oracle/decrypt'' body False = Inr (worker_reply (fst (handleOracleDecrypt de body))))"

lemma open_envelope_ok:
  "hr_status (open_envelope de c payload extra) = 200 \<longleftrightarrow> (\<exists>text. de_decrypt de c payload = Inr (Some text))"
  "hr_status (open_envelope de c payload extra) \<in> {200, 400}"
  "de_decrypt de c payload = Inr (Some text) \<Longrightarrow> getp (hr_body (open_envelope de c payload extra)) ''plaintext'' = JStr text"
  by (simp_all add: open_envelope_def split: sum.split option.split)

lemma rejection_status: "fst (assertDecryptBinding de payload c) = Some r \<Longrightarrow> hr_status r \<in> {400, 403, 502, 503}"
  by (auto simp: assertDecryptBinding_def check_message_def Let_def split: if_splits option.splits sum.splits)

lemma decrypt_status_opened:
  assumes "hr_status (fst (handleOracleDecrypt de payload)) = 200"
  shows "fst (handleOracleDecrypt de payload) = open_envelope de (extractDecryptCiphertext payload) payload []
     \<and> Decrypt (extractDecryptCiphertext payload) \<in> set (snd (handleOracleDecrypt de payload))"
proof -
  let ?c = "extractDecryptCiphertext payload"
  obtain r tr where b: "assertDecryptBinding de payload ?c = (r, tr)" by fastforce
  have "hr_status x \<noteq> 200" if "r = Some x" for x using rejection_status [of de payload ?c x] that b by auto
  then show ?thesis
    using assms b decrypt_cases [of payload de]
    by (cases "?c = []"; cases "hasDecryptBindingFields payload"; cases "decryptBindingRequired (de_pe de)"; cases r) auto
qed

lemma decrypt_status: "hr_status (fst (handleOracleDecrypt de payload)) \<in> {200, 400, 403, 502, 503}"
proof -
  let ?c = "extractDecryptCiphertext payload"
  obtain r tr where b: "assertDecryptBinding de payload ?c = (r, tr)" by fastforce
  have "hr_status x \<in> {400, 403, 502, 503}" if "r = Some x" for x using rejection_status [of de payload ?c x] that b by auto
  then show ?thesis
    using b decrypt_cases [of payload de] open_envelope_ok(2) [of de ?c payload "[]"]
    by (cases "?c = []"; cases "hasDecryptBindingFields payload"; cases "decryptBindingRequired (de_pe de)"; cases r) auto
qed

lemma decrypt_ok_opened:
  assumes "wr_ok (worker_reply (fst (handleOracleDecrypt de payload)))"
  shows "\<exists>text. de_decrypt de (extractDecryptCiphertext payload) payload = Inr (Some text)
     \<and> getp (hr_body (fst (handleOracleDecrypt de payload))) ''plaintext'' = JStr text
     \<and> Decrypt (extractDecryptCiphertext payload) \<in> set (snd (handleOracleDecrypt de payload))"
proof -
  have ok: "hr_status (fst (handleOracleDecrypt de payload)) = 200"
    using assms decrypt_status [of de payload] by (auto simp: worker_reply_def)
  then obtain t where "de_decrypt de (extractDecryptCiphertext payload) payload = Inr (Some t)"
    using decrypt_status_opened [OF ok] open_envelope_ok(1) by metis
  then show ?thesis using decrypt_status_opened [OF ok] open_envelope_ok(3) by metis
qed

text \<open>The message id the relayer binds a request to: the payload's own, or the one of the event.\<close>

definition relayed_id :: "oracle_event \<Rightarrow> jsv \<Rightarrow> string" where
  "relayed_id event payload =
     (let messageId = js_nullish (getp payload ''message_id'') (js_nullish (getp payload ''messageId'')
            (js_nullish (getp payload ''id'') (if ev_messageId event = [] then JNull else JStr (ev_messageId event))))
      in if is_nullish messageId then [] else js_trim (js_string messageId))"

definition relayed_contract :: "prep_env \<Rightarrow> jsv \<Rightarrow> string" where
  "relayed_contract prep payload = or_str (trimText (js_or (getp payload ''contract'') (getp payload ''contract_address'')))
     (js_trim (or_str (pe_messageContract prep) (pe_neoxOracleContract prep)))"

lemma relayed_request:
  "buildDecryptBindingRequest prep event payload envelope = JObj ((''envelope'', JStr envelope) #
     (if relayed_id event payload = [] then []
      else [(''message_id'', JStr (relayed_id event payload)), (''chain'', JStr ''neox'')] @
        (if relayed_contract prep payload = [] then [] else [(''contract'', JStr (relayed_contract prep payload))])))"
  by (simp add: buildDecryptBindingRequest_def relayed_id_def relayed_contract_def Let_def cong: if_cong)

lemma relayed_members:
  "getp (buildDecryptBindingRequest prep event payload envelope) ''envelope'' = JStr envelope"
  "getp (buildDecryptBindingRequest prep event payload envelope) ''ciphertext'' = JUndef"
  "getp (buildDecryptBindingRequest prep event payload envelope) ''sealed'' = JUndef"
  "getp (buildDecryptBindingRequest prep event payload envelope) ''encrypted_payload'' = JUndef"
  "getp (buildDecryptBindingRequest prep event payload envelope) ''messageId'' = JUndef"
  "getp (buildDecryptBindingRequest prep event payload envelope) ''id'' = JUndef"
  "getp (buildDecryptBindingRequest prep event payload envelope) ''message_id''
     = (if relayed_id event payload = [] then JUndef else JStr (relayed_id event payload))"
  by (simp_all add: relayed_request)

lemma relayed_fields:
  "extractDecryptCiphertext (buildDecryptBindingRequest prep event payload envelope) = js_trim envelope"
  "hasDecryptBindingFields (buildDecryptBindingRequest prep event payload envelope) \<longleftrightarrow> relayed_id event payload \<noteq> []"
  "relayed_id event payload \<noteq> [] \<Longrightarrow>
     binding_message_id (buildDecryptBindingRequest prep event payload envelope) = parseMessageId (JStr (relayed_id event payload))"
  by (simp_all add: extractDecryptCiphertext_def text_member_def hasDecryptBindingFields_def binding_message_id_def
      js_nullish_def relayed_members)

lemma decrypt_lane_success:
  assumes "decrypt_lane prep event ctx payload = Inr p" "pf_success p" "served_by prep de"
  shows "\<exists>text. de_decrypt de (js_trim (ev_payloadText event))
        (buildDecryptBindingRequest prep event payload (js_trim (ev_payloadText event))) = Inr (Some text)
     \<and> Decrypt (js_trim (ev_payloadText event))
         \<in> set (snd (handleOracleDecrypt de (buildDecryptBindingRequest prep event payload (js_trim (ev_payloadText event)))))
     \<and> pf_result_bytes_base64 p = base64_encode (utf8 text)"
proof -
  let ?body = "buildDecryptBindingRequest prep event payload (js_trim (ev_payloadText event))"
  let ?r = "worker_reply (fst (handleOracleDecrypt de ?body))"
  have p: "pf_success p = ef_success (decrypt_fulfillment ?r) \<and> pf_result_bytes_base64 p = ef_result_bytes_base64 (decrypt_fulfillment ?r)"
    using assms(1,3)
    by (auto simp: decrypt_lane_def served_by_def bind_prep_def bind_result_eq_Inr Let_def buildPreparedFulfillment_def
        buildPreparedFulfillmentRetryMeta_def str_or_empty_def split: if_splits)
  then have ok: "wr_ok ?r" using assms(2) by (auto simp: decrypt_fulfillment_def split: option.splits if_splits)
  obtain t where plain: "de_decrypt de (extractDecryptCiphertext ?body) ?body = Inr (Some t)"
    "getp (hr_body (fst (handleOracleDecrypt de ?body))) ''plaintext'' = JStr t"
    "Decrypt (extractDecryptCiphertext ?body) \<in> set (snd (handleOracleDecrypt de ?body))"
    using decrypt_ok_opened [OF ok] by blast
  have "pf_result_bytes_base64 p = base64_encode (utf8 t)"
    using p ok plain(2) by (simp add: decrypt_fulfillment_def worker_reply_def)
  then show ?thesis using plain by (auto simp: relayed_fields js_trim_idem)
qed

text \<open>
  C15: When the relayer prepares a successful reveal and the worker requires the binding, the payload of
  the event is the envelope stored on the worker's contract under the message id of the request, the
  unlock time of that message has passed, and the signed result is the text the envelope holds.
\<close>

theorem relayed_reveal_unlocked:
  assumes "decrypt_lane prep event ctx payload = Inr p" "pf_success p"
    and "served_by prep de" "decryptBindingRequired (de_pe de)"
  shows "\<exists>message envelope opened.
     stored_message de (parseMessageId (JStr (relayed_id event payload))) message envelope
     \<and> js_trim envelope = js_trim (ev_payloadText event)
     \<and> 0 < cm_unlockTime message \<and> cm_unlockTime message \<le> de_now de div 1000
     \<and> de_decrypt de (js_trim (ev_payloadText event))
           (buildDecryptBindingRequest prep event payload (js_trim (ev_payloadText event))) = Inr (Some opened)
     \<and> pf_result_bytes_base64 p = base64_encode (utf8 opened)"
proof -
  let ?body = "buildDecryptBindingRequest prep event payload (js_trim (ev_payloadText event))"
  obtain opened where o: "de_decrypt de (js_trim (ev_payloadText event)) ?body = Inr (Some opened)"
    "Decrypt (js_trim (ev_payloadText event)) \<in> set (snd (handleOracleDecrypt de ?body))"
    "pf_result_bytes_base64 p = base64_encode (utf8 opened)"
    using decrypt_lane_success [OF assms(1-3)] by blast
  then have "hasDecryptBindingFields ?body \<and> (\<exists>message envelope. stored_message de (binding_message_id ?body) message envelope
      \<and> js_trim envelope = js_trim (ev_payloadText event)
      \<and> 0 < cm_unlockTime message \<and> cm_unlockTime message \<le> de_now de div 1000)"
    using decrypt_opened [OF assms(4)] by blast
  then show ?thesis using o(1,3) relayed_fields(2,3) by metis
qed

text \<open>
  Where the comments differ. A request without a message id is said to keep working, the gate staying
  inert; by default the worker rejects it, as a client error that the relayer takes to be final. And
  without a configured message contract the relayer names the oracle contract, which the worker refuses
  unless the two are the same.
\<close>

lemma unbound_reveal_rejected:
  assumes "relayed_id event payload = []" "decryptBindingRequired (de_pe de)" "js_trim envelope \<noteq> []"
  shows "hr_status (fst (handleOracleDecrypt de (buildDecryptBindingRequest prep event payload envelope))) = 400"
  using decrypt_cases(2) [of "buildDecryptBindingRequest prep event payload envelope" de] assms by (simp add: relayed_fields)

section \<open>An example\<close>

definition revealing :: "millis \<Rightarrow> prep_env" where
  "revealing now = (sample_prep False enclave_reply)\<lparr>pe_messageContract := ''0xab'',
     pe_callNitro := \<lambda>route body fallback. Inr (worker_reply (fst (handleOracleDecrypt (locked_env now) body)))\<rparr>"

definition sealed_event :: oracle_event where
  "sealed_event = (neox_event ''confidential.decrypt'')\<lparr>ev_payloadText := ''sealed'', ev_messageId := ''5''\<rparr>"

definition sealed_context :: fulfillment_context where
  "sealed_context = \<lparr>fc_appId = ''app'', fc_moduleId = ''confidential.decrypt'', fc_operation = ''decrypt''\<rparr>"

lemma sealed_request:
  "buildDecryptBindingRequest (revealing now) sealed_event (JObj []) ''sealed''
     = JObj [(''envelope'', JStr ''sealed''), (''message_id'', JStr ''5''), (''chain'', JStr ''neox''), (''contract'', JStr ''0xab'')]"
  "js_trim (ev_payloadText sealed_event) = ''sealed''" "ev_chain sealed_event = NeoX"
  by code_simp+

definition sealed_body :: jsv where
  "sealed_body = JObj [(''envelope'', JStr ''sealed''), (''message_id'', JStr ''5''), (''chain'', JStr ''neox''), (''contract'', JStr ''0xab'')]"

lemma sealed_body_facts:
  "extractDecryptCiphertext sealed_body = ''sealed''" "hasDecryptBindingFields sealed_body"
  "lane_chain sealed_body \<in> set NEOX_CHAIN_ALIASES" "binding_message_id sealed_body = Some 5"
  "to_lower (requested_contract sealed_body) = to_lower ''0xAB''" "js_trim ''sealed'' = ''sealed''"
  by code_simp+

lemma sealed_answer:
  "fst (handleOracleDecrypt (locked_env 100000) sealed_body) = \<lparr>hr_status = 200, hr_body = JObj [(''plaintext'', JStr ''hello'')]\<rparr>"
proof -
  obtain r tr where b: "assertDecryptBinding (locked_env 100000) sealed_body ''sealed'' = (r, tr)" by fastforce
  have "fst (assertDecryptBinding (locked_env 100000) sealed_body ''sealed'') = None"
    unfolding binding_passes
  proof (intro conjI exI)
    show "lane_chain sealed_body \<in> set NEOX_CHAIN_ALIASES" by (rule sealed_body_facts)
    show "contract_agrees (locked_env 100000) sealed_body" by (simp add: contract_agrees_def locked_env_facts sealed_body_facts)
    show "stored_message (locked_env 100000) (binding_message_id sealed_body) locked_message ''sealed ''"
      by (simp only: sealed_body_facts locked_stored)
    show "js_trim ''sealed '' = js_trim ''sealed''" by (simp only: sealed_body_facts locked_request_facts)
  qed (simp_all add: locked_message_def locked_env_def)
  then have "handleOracleDecrypt (locked_env 100000) sealed_body
      = (open_envelope (locked_env 100000) ''sealed'' sealed_body [], tr @ [Decrypt ''sealed''])"
    using decrypt_cases(5) [of sealed_body "locked_env 100000" tr] b sealed_body_facts(1,2) by simp
  then show ?thesis by (simp add: open_envelope_def locked_env_def)
qed

theorem relayed_reveal_unlocked_witness:
  "\<exists>p message envelope opened. decrypt_lane (revealing 100000) sealed_event sealed_context (JObj []) = Inr p \<and> pf_success p
     \<and> stored_message (locked_env 100000) (parseMessageId (JStr (relayed_id sealed_event (JObj [])))) message envelope
     \<and> js_trim envelope = js_trim (ev_payloadText sealed_event) \<and> 0 < cm_unlockTime message
     \<and> pf_result_bytes_base64 p = base64_encode (utf8 opened)"
proof -
  have served: "served_by (revealing 100000) (locked_env 100000)" by (simp add: served_by_def revealing_def)
  have "\<exists>p. decrypt_lane (revealing 100000) sealed_event sealed_context (JObj []) = Inr p \<and> pf_success p"
    using sealed_request(1) [of 100000] sealed_answer
    by (simp add: decrypt_lane_def sealed_request(2,3) sealed_body_def [symmetric] revealing_def worker_reply_def decrypt_fulfillment_def
        signFulfillmentPayload_def bind_prep_def sample_prep_def buildPreparedFulfillment_def buildPreparedFulfillmentRetryMeta_def)
  then show ?thesis
    using relayed_reveal_unlocked [OF _ _ served locked_env_facts(1), of sealed_event sealed_context "JObj []"] by blast
qed

end
