(* ===== verification/Nitro_Client.thy ===== *)
theory Nitro_Client
  imports Fulfillment_Prepare_Facts
begin

text \<open>
  The client of the confidential worker, \<^verbatim>\<open>workers/morpheus-relayer/src/nitro.js\<close>: the candidate
  endpoints, the decoration of a payload, the clamped timeout and the fail-over loop of
  \<open>callNitro\<close>. \<open>fetch\<close> is a parameter: what it does with a request may depend on the requests sent
  before in the same call. The loop returns the requests it sent with its answer.
\<close>

section \<open>Endpoints\<close>

text \<open>\<open>s.replace(/\/$/, '')\<close>.\<close>

definition drop_final_slash :: "string \<Rightarrow> string" where
  "drop_final_slash s = (if s \<noteq> [] \<and> last s = CHR ''/'' then butlast s else s)"

definition resolveCandidateApiUrls :: "string \<Rightarrow> string list" where
  "resolveCandidateApiUrls apiUrl =
     filter (\<lambda>entry. entry \<noteq> []) (map (\<lambda>entry. drop_final_slash (js_trim entry)) (js_split (CHR '','') apiUrl))"

section \<open>Configuration and options\<close>

record nitro_config =
  nc_apiUrl :: string
  nc_token :: string
  nc_timeoutMs :: "int option"
  nc_nitroDerivedKeys :: "bool option"
  nc_useDerivedKeys :: bool
  nc_network :: string

record call_options =
  co_baseUrl :: string
  co_timeoutMs :: "int option"
  co_maxTimeoutMs :: "int option"
  co_allowFallback :: bool

definition default_options :: call_options where
  "default_options = \<lparr>co_baseUrl = [], co_timeoutMs = None, co_maxTimeoutMs = None, co_allowFallback = True\<rparr>"

definition decorateWorkerPayload :: "nitro_config \<Rightarrow> jsv \<Rightarrow> jsv" where
  "decorateWorkerPayload config payload =
     (if \<not> is_plain_object payload then payload
      else
        (let derivedKeysEnabled = (case nc_nitroDerivedKeys config of Some b \<Rightarrow> b | None \<Rightarrow> nc_useDerivedKeys config);
             next1 = (if \<not> list_ex (\<lambda>k. truthy (getp payload k))
                           [''network'', ''morpheus_network'', ''runtime_network'', ''environment'']
                         \<and> nc_network config \<noteq> []
                      then JObj (spread (members payload) [(''network'', JStr (nc_network config))]) else payload)
         in if derivedKeysEnabled \<and> getp next1 ''use_derived_keys'' = JUndef \<and> getp next1 ''useDerivedKeys'' = JUndef
            then JObj (spread (members next1) [(''use_derived_keys'', JBool True)]) else next1))"

section \<open>Timeouts\<close>

definition max_timeout :: "call_options \<Rightarrow> int" where
  "max_timeout options = max (min (or_num (co_maxTimeoutMs options) 10000) 30000) 10000"

definition call_timeout :: "nitro_config \<Rightarrow> call_options \<Rightarrow> int" where
  "call_timeout config options =
     min (max (or_num (co_timeoutMs options) (or_num (nc_timeoutMs config) 10000)) 1000) (max_timeout options)"

section \<open>The call\<close>

record http_request =
  hq_base :: string
  hq_path :: string
  hq_headers :: "(string \<times> string) list"
  hq_body :: jsv

text \<open>What becomes of a request within the timeout: a reply with its text, a rejection, or nothing.\<close>

datatype net_outcome = Reply int string | Rejected string | Silent

type_synonym network = "http_request list \<Rightarrow> http_request \<Rightarrow> net_outcome"

record nitro_response = worker_response +
  nr_api_url :: string

definition parse_body :: "(string \<Rightarrow> jsv option) \<Rightarrow> string \<Rightarrow> jsv" where
  "parse_body parse text =
     (if text = [] then JObj [] else case parse text of Some v \<Rightarrow> v | None \<Rightarrow> JObj [(''raw'', JStr text)])"

definition nitro_headers :: "nitro_config \<Rightarrow> (string \<times> string) list" where
  "nitro_headers config = (''content-type'', ''application/json'') #
     (if nc_token config \<noteq> [] then [(''authorization'', ''Bearer '' @ nc_token config), (''x-nitro-token'', nc_token config)]
      else [])"

text \<open>One round of the loop: the answer, or the error that becomes \<open>lastError\<close>.\<close>

definition try_url :: "(string \<Rightarrow> jsv option) \<Rightarrow> int \<Rightarrow> net_outcome \<Rightarrow> string \<Rightarrow> nitro_response result" where
  "try_url parse timeoutMs out apiBaseUrl =
     (case out of
        Reply status text \<Rightarrow> Inr \<lparr>wr_ok = (200 \<le> status \<and> status \<le> 299), wr_status = status,
                               wr_body = parse_body parse text, nr_api_url = apiBaseUrl\<rparr>
      | Rejected message \<Rightarrow> Inl message
      | Silent \<Rightarrow> Inl (''nitro request timed out after '' @ show_int timeoutMs @ ''ms''))"

fun try_urls ::
  "(string \<Rightarrow> jsv option) \<Rightarrow> network \<Rightarrow> int \<Rightarrow> (string \<Rightarrow> http_request) \<Rightarrow> string list \<Rightarrow> string \<Rightarrow> http_request list
     \<Rightarrow> nitro_response result \<times> http_request list" where
  "try_urls parse net timeoutMs request [] lastError sent = (Inl lastError, sent)"
| "try_urls parse net timeoutMs request (url # urls) lastError sent =
     (case try_url parse timeoutMs (net sent (request url)) url of
        Inr answer \<Rightarrow> (Inr answer, sent @ [request url])
      | Inl message \<Rightarrow> try_urls parse net timeoutMs request urls message (sent @ [request url]))"

definition call_urls :: "nitro_config \<Rightarrow> call_options \<Rightarrow> string list" where
  "call_urls config options =
     (let candidates = resolveCandidateApiUrls (or_str (co_baseUrl options) (nc_apiUrl config))
      in if co_allowFallback options then candidates else take 1 candidates)"

definition call_request :: "nitro_config \<Rightarrow> string \<Rightarrow> jsv \<Rightarrow> string \<Rightarrow> http_request" where
  "call_request config path payload url =
     \<lparr>hq_base = url, hq_path = path, hq_headers = nitro_headers config, hq_body = decorateWorkerPayload config payload\<rparr>"

definition callNitro ::
  "(string \<Rightarrow> jsv option) \<Rightarrow> network \<Rightarrow> nitro_config \<Rightarrow> string \<Rightarrow> jsv \<Rightarrow> call_options
     \<Rightarrow> nitro_response result \<times> http_request list" where
  "callNitro parse net config path payload options =
     (if resolveCandidateApiUrls (or_str (co_baseUrl options) (nc_apiUrl config)) = []
      then (Inl ''MORPHEUS_RUNTIME_URL or NITRO_API_URL is not configured'', [])
      else try_urls parse net (call_timeout config options) (call_request config path payload) (call_urls config options) ''null'' [])"

section \<open>Facts\<close>

lemma candidate_urls:
  "url \<in> set (resolveCandidateApiUrls s) \<Longrightarrow> url \<noteq> [] \<and> CHR '','' \<notin> set url"
  using js_split_no_sep [of _ "CHR '',''" s] set_js_trim
  by (fastforce simp: resolveCandidateApiUrls_def drop_final_slash_def dest: in_set_butlastD)

lemma timeout_bounds:
  "1000 \<le> call_timeout config options" "call_timeout config options \<le> max_timeout options"
  "10000 \<le> max_timeout options" "max_timeout options \<le> 30000"
  by (auto simp: call_timeout_def max_timeout_def)

definition unanswered :: "net_outcome \<Rightarrow> bool" where
  "unanswered out \<longleftrightarrow> \<not> (\<exists>status text. out = Reply status text)"

lemma try_url_Inl: "try_url parse t out url = Inl m \<Longrightarrow> unanswered out"
  by (auto simp: try_url_def unanswered_def split: net_outcome.splits)

lemma try_url_Inr:
  "try_url parse t out url = Inr a \<Longrightarrow> \<exists>text. out = Reply (wr_status a) text \<and> wr_body a = parse_body parse text
     \<and> nr_api_url a = url \<and> (wr_ok a \<longleftrightarrow> 200 \<le> wr_status a \<and> wr_status a \<le> 299)"
  by (auto simp: try_url_def split: net_outcome.splits)

text \<open>
  The contract of the loop: it went through a prefix of the endpoints, each met with silence or a
  rejection but the one that answered, and it gives up only at the end of the list.
\<close>

definition failover :: "network \<Rightarrow> (string \<Rightarrow> http_request) \<Rightarrow> string list \<Rightarrow> nitro_response result \<Rightarrow> http_request list \<Rightarrow> bool" where
  "failover net request urls r sent \<longleftrightarrow> sent = map request (take (length sent) urls) \<and> length sent \<le> length urls
     \<and> (\<forall>i < length sent. unanswered (net (take i sent) (sent ! i)) \<longleftrightarrow> (\<exists>m. r = Inl m) \<or> Suc i < length sent)
     \<and> (case r of Inl m \<Rightarrow> length sent = length urls
         | Inr a \<Rightarrow> sent \<noteq> [] \<and> nr_api_url a = urls ! (length sent - 1)
             \<and> (\<exists>text. net (butlast sent) (last sent) = Reply (wr_status a) text))"

lemma try_urls_failover:
  assumes "try_urls parse net t request urls err (map request past) = (r, sent)"
    and "\<forall>i < length past. unanswered (net (map request (take i past)) (request (past ! i)))"
  shows "failover net request (past @ urls) r sent"
  using assms
proof (induction urls arbitrary: past err)
  case Nil
  then show ?case by (auto simp: failover_def take_map)
next
  case (Cons url urls)
  show ?case
  proof (cases "try_url parse t (net (map request past) (request url)) url")
    case (Inl m)
    have "\<forall>i < length (past @ [url]). unanswered (net (map request (take i (past @ [url]))) (request ((past @ [url]) ! i)))"
      using Cons.prems(2) try_url_Inl [OF Inl] by (auto simp: less_Suc_eq nth_append)
    then show ?thesis using Cons.IH [of m "past @ [url]"] Cons.prems(1) Inl by simp
  next
    case (Inr a)
    then have r: "r = Inr a" "sent = map request (past @ [url])" using Cons.prems(1) by simp_all
    have "\<not> unanswered (net (map request past) (request url))" using try_url_Inr [OF Inr] by (auto simp: unanswered_def)
    then show ?thesis using Cons.prems(2) try_url_Inr [OF Inr] r
      by (auto simp: failover_def take_map less_Suc_eq nth_append)
  qed
qed

text \<open>
  C21: \<open>callNitro\<close> fails over exactly on silence. The requests it sends go to the configured
  endpoints in order, all with the same path, headers and body; it moves on from an endpoint only
  when that one rejects or stays silent past the timeout (a reply of any HTTP status ends the call),
  it answers with the reply of the last endpoint it tried, and it throws only after every endpoint
  failed. Without fallback at most the first endpoint is contacted. A request waits at least one
  second and at most thirty.
\<close>

theorem call_nitro_failover:
  assumes "callNitro parse net config path payload options = (r, sent)"
  shows "failover net (call_request config path payload) (call_urls config options) r sent
    \<and> (\<not> co_allowFallback options \<longrightarrow> length sent \<le> 1)
    \<and> 1000 \<le> call_timeout config options \<and> call_timeout config options \<le> 30000"
proof -
  have "failover net (call_request config path payload) (call_urls config options) r sent"
  proof (cases "resolveCandidateApiUrls (or_str (co_baseUrl options) (nc_apiUrl config)) = []")
    case True
    then show ?thesis using assms by (auto simp: callNitro_def call_urls_def failover_def)
  next
    case False
    then show ?thesis using assms try_urls_failover [of parse net _ _ _ _ "[]" r sent] by (simp add: callNitro_def)
  qed
  moreover from this have "length sent \<le> length (call_urls config options)" by (simp add: failover_def)
  moreover have "length (call_urls config options) \<le> 1" if "\<not> co_allowFallback options"
    using that by (simp add: call_urls_def)
  ultimately show ?thesis using timeout_bounds(1,2) [of config options] timeout_bounds(3,4) [of options] by auto
qed

text \<open>
  The decoration of a payload is conservative: a plain object keeps every member it has, at most
  \<open>network\<close> and \<open>use_derived_keys\<close> are added, a network the caller named under any of the four keys
  is never replaced, and decorating twice changes nothing.
\<close>

theorem decorate_conservative:
  "(\<forall>k. k \<notin> {''network'', ''use_derived_keys''} \<longrightarrow> getp (decorateWorkerPayload config payload) k = getp payload k)
   \<and> (truthy (getp payload ''network'') \<longrightarrow> getp (decorateWorkerPayload config payload) ''network'' = getp payload ''network'')
   \<and> (getp payload ''use_derived_keys'' \<noteq> JUndef \<longrightarrow>
        getp (decorateWorkerPayload config payload) ''use_derived_keys'' = getp payload ''use_derived_keys'')
   \<and> decorateWorkerPayload config (decorateWorkerPayload config payload) = decorateWorkerPayload config payload"
proof -
  have g: "getp (JObj (spread ps [(n, v)])) k = (if k = n then v else getp (JObj ps) k)" for ps n v k
    by (simp add: map_of_spread)
  show ?thesis
    by (cases payload) (auto simp: decorateWorkerPayload_def Let_def g simp del: getp.simps)
qed

section \<open>The client of the fulfillment pipeline\<close>

text \<open>
  The endpoints \<^verbatim>\<open>fulfillment.js\<close> names for its calls: the signer, the enclave, the reveal endpoint (the
  signer when none is set), and the worker's own URL for the compute routes.
\<close>

record nitro_endpoints =
  ne_signerUrl :: string
  ne_enclaveFulfillUrl :: string
  ne_decryptUrl :: string

definition route_options :: "nitro_endpoints \<Rightarrow> string \<Rightarrow> bool \<Rightarrow> call_options" where
  "route_options urls route fallback = default_options\<lparr>co_allowFallback := fallback, co_baseUrl :=
     (if route = ''/sign/payload'' then ne_signerUrl urls
      else if route = ''/oracle/fulfill'' then ne_enclaveFulfillUrl urls
      else if route = ''/oracle/decrypt'' then or_str (ne_decryptUrl urls) (ne_signerUrl urls) else [])\<rparr>"

definition client_env :: "network \<Rightarrow> nitro_config \<Rightarrow> nitro_endpoints \<Rightarrow> prep_env \<Rightarrow> prep_env" where
  "client_env net config urls env = env\<lparr>pe_callNitro := \<lambda>route body fallback.
     map_sum id worker_response.truncate (fst (callNitro (pe_parse env) net config route body (route_options urls route fallback)))\<rparr>"

definition reveal_urls :: "nitro_config \<Rightarrow> nitro_endpoints \<Rightarrow> string list" where
  "reveal_urls config urls = resolveCandidateApiUrls (or_str (or_str (ne_decryptUrl urls) (ne_signerUrl urls)) (nc_apiUrl config))"

lemma client_env_sel [simp]:
  "pe_enclaveFulfill (client_env net config urls env) = pe_enclaveFulfill env"
  "pe_localVerifier (client_env net config urls env) = pe_localVerifier env"
  by (simp_all add: client_env_def)

lemma single_call_cong:
  assumes "\<not> co_allowFallback options"
    and "\<And>url. url \<in> set (take 1 (resolveCandidateApiUrls (or_str (co_baseUrl options) (nc_apiUrl config)))) \<Longrightarrow>
      net' [] (call_request config path payload url) = net [] (call_request config path payload url)"
  shows "callNitro parse net' config path payload options = callNitro parse net config path payload options"
proof (cases "resolveCandidateApiUrls (or_str (co_baseUrl options) (nc_apiUrl config))")
  case (Cons url urls)
  with assms show ?thesis by (simp add: callNitro_def call_urls_def split: sum.split)
qed (simp add: callNitro_def)

text \<open>
  C22: A confidential reveal talks to one endpoint. With the enclave-fulfill flag off and the relayer
  signing locally, what a Neo N3 reveal prepares depends on the network only through the reply of
  the first configured reveal endpoint to \<open>/oracle/decrypt\<close>: two networks that agree there give the
  same result, whatever the other endpoints, the worker and the enclave would answer.
\<close>

theorem reveal_contacts_one_endpoint:
  assumes "ki_moduleId (intent_of (ev_requestType event)) = ''confidential.decrypt''"
    and "\<not> pe_enclaveFulfill env" "pe_localVerifier env = Some sign" "ev_chain event = Neo_N3"
    and "\<not> isAutomationControlRequestType (ev_requestType event)"
    and "\<And>body url. url \<in> set (take 1 (reveal_urls config urls)) \<Longrightarrow>
      net' [] (call_request config ''/oracle/decrypt'' body url) = net [] (call_request config ''/oracle/decrypt'' body url)"
  shows "prepareOracleFulfillment (client_env net' config urls env) event = prepareOracleFulfillment (client_env net config urls env) event"
proof (rule reveal_one_call [OF assms(1)])
  show "pe_callNitro (client_env net' config urls env) ''/oracle/decrypt'' body False
      = pe_callNitro (client_env net config urls env) ''/oracle/decrypt'' body False" for body
  proof -
    let ?o = "route_options urls ''/oracle/decrypt'' False"
    have "callNitro (pe_parse env) net' config ''/oracle/decrypt'' body ?o = callNitro (pe_parse env) net config ''/oracle/decrypt'' body ?o"
      by (rule single_call_cong) (use assms(6) in \<open>simp_all add: route_options_def default_options_def reveal_urls_def\<close>)
    then show ?thesis by (simp add: client_env_def)
  qed
  show "client_env net' config urls env = (client_env net config urls env)\<lparr>pe_callNitro := pe_callNitro (client_env net' config urls env)\<rparr>"
    by (simp add: client_env_def)
qed (use assms in simp_all)

section \<open>Examples\<close>

definition sample_nitro :: nitro_config where
  "sample_nitro = \<lparr>nc_apiUrl = ''https://a/, https://b'', nc_token = ''t'', nc_timeoutMs = None, nc_nitroDerivedKeys = None,
     nc_useDerivedKeys = True, nc_network = ''testnet''\<rparr>"

text \<open>The first endpoint is down and the second answers with an error status.\<close>

definition half_down :: network where
  "half_down sent q = (if hq_base q = ''https://a'' then Silent else Reply 503 [])"

theorem call_nitro_failover_witness:
  "\<exists>r sent. callNitro (\<lambda>s. None) half_down sample_nitro ''/x'' (JObj []) default_options = (r, sent)
     \<and> map hq_base sent = [''https://a'', ''https://b'']
     \<and> failover half_down (call_request sample_nitro ''/x'' (JObj [])) (call_urls sample_nitro default_options) r sent"
proof -
  obtain r sent where c: "callNitro (\<lambda>s. None) half_down sample_nitro ''/x'' (JObj []) default_options = (r, sent)"
    by fastforce
  have "call_urls sample_nitro default_options = [''https://a'', ''https://b'']"
    "resolveCandidateApiUrls (or_str (co_baseUrl default_options) (nc_apiUrl sample_nitro)) \<noteq> []"
    by code_simp+
  then have "map hq_base (snd (callNitro (\<lambda>s. None) half_down sample_nitro ''/x'' (JObj []) default_options)) = [''https://a'', ''https://b'']"
    by (simp add: callNitro_def half_down_def call_request_def try_url_def)
  with call_nitro_failover [OF c] c show ?thesis by simp
qed

theorem decorate_conservative_witness:
  "getp (decorateWorkerPayload sample_nitro (JObj [(''network'', JStr ''mainnet''), (''a'', JNum (Fin 1))])) ''network'' = JStr ''mainnet''
   \<and> getp (decorateWorkerPayload sample_nitro (JObj [(''network'', JStr ''mainnet''), (''a'', JNum (Fin 1))])) ''a'' = JNum (Fin 1)"
  using decorate_conservative [of sample_nitro "JObj [(''network'', JStr ''mainnet''), (''a'', JNum (Fin 1))]"] by simp

definition sample_endpoints :: nitro_endpoints where
  "sample_endpoints = \<lparr>ne_signerUrl = ''https://s'', ne_enclaveFulfillUrl = [], ne_decryptUrl = ''https://d1,https://d2''\<rparr>"

definition reveal_only :: network where
  "reveal_only sent q = (if hq_base q = ''https://d1'' then Rejected ''down'' else Reply 200 [])"

theorem reveal_contacts_one_endpoint_witness:
  "prepareOracleFulfillment (client_env (\<lambda>sent q. Rejected ''down'') sample_nitro sample_endpoints (sample_prep False enclave_reply))
      (sample_event ''7''\<lparr>ev_requestType := ''decrypt''\<rparr>)
   = prepareOracleFulfillment (client_env reveal_only sample_nitro sample_endpoints (sample_prep False enclave_reply))
      (sample_event ''7''\<lparr>ev_requestType := ''decrypt''\<rparr>)"
proof -
  have m: "ki_moduleId (intent_of ''decrypt'') = ''confidential.decrypt''" "\<not> isAutomationControlRequestType ''decrypt''"
    "take (Suc 0) (reveal_urls sample_nitro sample_endpoints) = [''https://d1'']"
    by code_simp+
  show ?thesis
    by (rule reveal_contacts_one_endpoint [where sign = "\<lambda>hex. ''local''"])
      (simp_all add: m sample_prep_def sample_event_def reveal_only_def call_request_def)
qed

end
