(* ===== verification/Feed_Sync.thy ===== *)
theory Feed_Sync
  imports Nitro_Client
begin

text \<open>
  The feed publication of \<^verbatim>\<open>workers/morpheus-relayer/src/feed-sync.js\<close>: when a tick runs it, the request
  it sends per target chain through \<open>callNitro\<close>, what it makes of the answers, and the stamps and
  counters it leaves in the state. The network is a parameter, one per target chain.
\<close>

record feed_config =
  fs_enabled :: bool
  fs_intervalMs :: jsnum
  fs_timeoutMs :: int
  fs_network :: string
  fs_symbols :: "string list"
  fs_changeThresholdBps :: int
  fs_minUpdateIntervalMs :: int
  fs_staleAfterMs :: int
  fs_waitForSubmission :: bool
  fs_provider :: string
  fs_providers :: "string list"
  fs_projectConfigEnabled :: bool
  fs_projectSlug :: string
  fs_activeChains :: "string list"

section \<open>The interval\<close>

definition getFeedSyncDelayMs :: "feed_config \<Rightarrow> relayer_state \<Rightarrow> millis \<Rightarrow> jsnum" where
  "getFeedSyncDelayMs config s nowMs =
     (if \<not> fs_enabled config then PosInf
      else
        (let intervalMs = (case fs_intervalMs config of Fin n \<Rightarrow> Fin (max n 0) | PosInf \<Rightarrow> PosInf | _ \<Rightarrow> Fin 0) in
         if js_le intervalMs (Fin 0) then Fin 0
         else case find (\<lambda>v. v > 0) [parseTimestampMs (last_feed_sync_completed_at s), parseTimestampMs (last_feed_sync_started_at s),
                  parseTimestampMs (last_feed_sync_success_at s)] of
             None \<Rightarrow> Fin 0
           | Some lastAttemptAt \<Rightarrow> js_max (js_add (Fin (lastAttemptAt - nowMs)) intervalMs) (Fin 0)))"

section \<open>The request\<close>

definition buildFeedSyncPayload :: "feed_config \<Rightarrow> string \<Rightarrow> jsv" where
  "buildFeedSyncPayload config targetChain = JObj (
     [(''target_chain'', JStr targetChain), (''network'', JStr (fs_network config)),
      (''symbols'', JArr (map JStr (fs_symbols config))),
      (''feed_change_threshold_bps'', JNum (Fin (fs_changeThresholdBps config))),
      (''feed_min_update_interval_ms'', JNum (Fin (fs_minUpdateIntervalMs config))),
      (''feed_stale_after_ms'', JNum (Fin (fs_staleAfterMs config))),
      (''refresh_onchain_baseline'', JBool True), (''wait'', JBool (fs_waitForSubmission config))]
     @ (if fs_waitForSubmission config then [(''feed_submission_wait_timeout_ms'', JNum (Fin (fs_timeoutMs config)))] else [])
     @ (if fs_provider config \<noteq> [] then [(''provider'', JStr (fs_provider config))]
        else if fs_providers config \<noteq> [] then [(''providers'', JArr (map JStr (fs_providers config)))] else [])
     @ (if fs_projectConfigEnabled config \<and> fs_projectSlug config \<noteq> []
        then [(''project_slug'', JStr (fs_projectSlug config))] else []))"

section \<open>The summary of an answer\<close>

definition resolvePublicationState :: "nat \<Rightarrow> bool \<Rightarrow> nat \<Rightarrow> nat \<Rightarrow> string" where
  "resolvePublicationState errorCount accepted submittedPairs skippedPairs =
     (if errorCount > 0 then ''error'' else if accepted then ''accepted''
      else if submittedPairs > 0 then ''submitted'' else if skippedPairs > 0 then ''skipped'' else ''idle'')"

record pair_counts =
  pc_submitted :: nat
  pc_skipped :: nat
  pc_reasons :: "(string \<times> nat) list"

definition count_pair :: "jsv \<Rightarrow> pair_counts \<Rightarrow> pair_counts" where
  "count_pair result n =
     (let relayStatus = to_lower (js_trim (js_string (js_or (getp result ''relay_status'') (JStr [])))) in
      if relayStatus = ''submitted'' then n\<lparr>pc_submitted := pc_submitted n + 1\<rparr>
      else if relayStatus = ''skipped'' then
        (let reason = or_str (js_trim (js_string (js_or (getp result ''skip_reason'') (JStr [])))) ''unknown''
         in n\<lparr>pc_skipped := pc_skipped n + 1,
              pc_reasons := obj_set reason ((case obj_get (pc_reasons n) reason of None \<Rightarrow> 0 | Some k \<Rightarrow> k) + 1) (pc_reasons n)\<rparr>)
      else n)"

fun array_items :: "jsv \<Rightarrow> jsv list" where
  "array_items (JArr xs) = xs"
| "array_items _ = []"

record feed_answer =
  fa_target_chain :: string
  fa_api_url :: string
  fa_ok :: bool
  fa_status :: int
  fa_body :: jsv

record publication_summary =
  sm_target_chain :: string
  sm_api_url :: string
  sm_network :: string
  sm_publication_state :: string
  sm_batch_submitted :: bool
  sm_batch_count :: jsnum
  sm_submitted_pairs :: nat
  sm_skipped_pairs :: nat
  sm_error_count :: nat
  sm_skipped_reasons :: "(string \<times> nat) list"

definition summarizeFeedSyncChainResult :: "feed_answer \<Rightarrow> publication_summary" where
  "summarizeFeedSyncChainResult a =
     (let body = (if is_objectlike (fa_body a) then fa_body a else JObj []);
          n = fold count_pair (array_items (getp body ''sync_results'')) \<lparr>pc_submitted = 0, pc_skipped = 0, pc_reasons = []\<rparr>;
          errorCount = length (array_items (getp body ''errors''))
            + (case str_of (getp body ''error'') of Some e \<Rightarrow> if \<not> fa_ok a \<and> js_trim e \<noteq> [] then 1 else 0 | None \<Rightarrow> 0)
      in \<lparr>sm_target_chain = fa_target_chain a, sm_api_url = fa_api_url a,
          sm_network = js_string (js_or (getp body ''network'') (JStr [])),
          sm_publication_state = resolvePublicationState errorCount (truthy (getp body ''accepted'')) (pc_submitted n) (pc_skipped n),
          sm_batch_submitted = truthy (getp body ''batch_submitted''),
          sm_batch_count = js_to_number (js_or (getp body ''batch_count'') (JNum (Fin 0))),
          sm_submitted_pairs = pc_submitted n, sm_skipped_pairs = pc_skipped n, sm_error_count = errorCount,
          sm_skipped_reasons = pc_reasons n\<rparr>)"

definition isFeedSyncChainSuccessful :: "feed_answer \<Rightarrow> publication_summary \<Rightarrow> bool" where
  "isFeedSyncChainSuccessful a summary \<longleftrightarrow> fa_ok a \<and> sm_error_count summary = 0"

section \<open>A run\<close>

text \<open>The worker's \<open>/oracle/feed\<close>, with the feed timeout and never failed over.\<close>

record feed_io =
  fi_parse :: "string \<Rightarrow> jsv option"
  fi_nitro :: nitro_config
  fi_net :: "string \<Rightarrow> network"

definition feed_options :: "feed_config \<Rightarrow> call_options" where
  "feed_options config = \<lparr>co_baseUrl = [], co_timeoutMs = Some (fs_timeoutMs config),
     co_maxTimeoutMs = Some (fs_timeoutMs config), co_allowFallback = False\<rparr>"

definition call_feed :: "feed_config \<Rightarrow> feed_io \<Rightarrow> string \<Rightarrow> feed_answer result" where
  "call_feed config io targetChain =
     map_sum id (\<lambda>r. \<lparr>fa_target_chain = targetChain, fa_api_url = nr_api_url r, fa_ok = wr_ok r, fa_status = wr_status r, fa_body = wr_body r\<rparr>)
       (fst (callNitro (fi_parse io) (fi_net io targetChain) (fi_nitro io) ''/oracle/feed''
         (buildFeedSyncPayload config targetChain) (feed_options config)))"

record feed_report =
  fr_enabled :: bool
  fr_skipped :: "bool option"
  fr_chains :: "(feed_answer \<times> publication_summary) list"

definition failed_answer :: "string \<Rightarrow> string \<Rightarrow> feed_answer" where
  "failed_answer targetChain message = \<lparr>fa_target_chain = targetChain, fa_api_url = [], fa_ok = False, fa_status = 500,
     fa_body = JObj [(''error'', JStr message)]\<rparr>"

definition sync_chain :: "feed_config \<Rightarrow> feed_io \<Rightarrow> string \<Rightarrow> relayer_state \<Rightarrow> (feed_answer \<times> publication_summary) \<times> relayer_state" where
  "sync_chain config io targetChain s =
     (case call_feed config io targetChain of
        Inr a \<Rightarrow> (let summary = summarizeFeedSyncChainResult a
                  in ((a, summary), incrementMetric (if isFeedSyncChainSuccessful a summary then ''feed_sync_success_total''
                        else ''feed_sync_error_total'') 1 s))
      | Inl message \<Rightarrow> (let a = failed_answer targetChain message
                        in ((a, summarizeFeedSyncChainResult a), incrementMetric ''feed_sync_error_total'' 1 s)))"

fun sync_chains :: "feed_config \<Rightarrow> feed_io \<Rightarrow> string list \<Rightarrow> relayer_state \<Rightarrow> (feed_answer \<times> publication_summary) list \<times> relayer_state" where
  "sync_chains config io [] s = ([], s)"
| "sync_chains config io (t # ts) s =
     (let (x, s1) = sync_chain config io t s; (xs, s2) = sync_chains config io ts s1 in (x # xs, s2))"

definition feed_targets :: "feed_config \<Rightarrow> string list" where
  "feed_targets config = (if fs_activeChains config \<noteq> [] then fs_activeChains config else [''neo_n3''])"

text \<open>\<open>saveRelayerState\<close>: the stamp of the write and the snapshot.\<close>

definition saveRelayerState :: "millis \<Rightarrow> world \<Rightarrow> world" where
  "saveRelayerState now w = persistState (on_state (\<lambda>s. s\<lparr>updated_at := Some now\<rparr>) w)"

definition processFeedSync ::
  "feed_config \<Rightarrow> feed_io \<Rightarrow> millis \<Rightarrow> millis \<Rightarrow> world \<Rightarrow> feed_report \<times> world" where
  "processFeedSync config io now fin w =
     (if \<not> fs_enabled config then (\<lparr>fr_enabled = False, fr_skipped = None, fr_chains = []\<rparr>, w)
      else if js_lt (Fin 0) (getFeedSyncDelayMs config (w_state w) now)
      then (\<lparr>fr_enabled = True, fr_skipped = Some True, fr_chains = []\<rparr>, on_state (incrementMetric ''feed_sync_skipped_total'' 1) w)
      else
        (let w1 = saveRelayerState now (on_state (\<lambda>s. incrementMetric ''feed_sync_runs_total'' 1
                    (s\<lparr>last_feed_sync_started_at := Some now\<rparr>)) w);
             (chains, s2) = sync_chains config io (feed_targets config) (w_state w1);
             s3 = s2\<lparr>last_feed_sync_completed_at := Some fin, last_feed_sync_duration_ms := Some (fin - now)\<rparr>;
             s4 = (if \<exists>(a, summary) \<in> set chains. isFeedSyncChainSuccessful a summary
                   then s3\<lparr>last_feed_sync_success_at := Some fin\<rparr> else s3)
         in (\<lparr>fr_enabled = True, fr_skipped = Some False, fr_chains = chains\<rparr>,
             saveRelayerState fin (on_state (\<lambda>_. s4) w1))))"

section \<open>Correctness\<close>

text \<open>The reasons of a summary account for every skipped pair.\<close>

definition reasons_total :: "(string \<times> nat) list \<Rightarrow> nat" where
  "reasons_total rs = sum_list (map snd rs)"

definition counts_inv :: "nat \<Rightarrow> pair_counts \<Rightarrow> bool" where
  "counts_inv k n \<longleftrightarrow> distinct (obj_keys (pc_reasons n)) \<and> reasons_total (pc_reasons n) = pc_skipped n
     \<and> pc_submitted n + pc_skipped n \<le> k"

lemma reasons_total_bump:
  "reasons_total (obj_set k ((case obj_get rs k of None \<Rightarrow> 0 | Some m \<Rightarrow> m) + 1) rs) = Suc (reasons_total rs)"
  by (induction rs) (auto simp: reasons_total_def split: option.split)

lemma count_pair_inv: "counts_inv k n \<Longrightarrow> counts_inv (Suc k) (count_pair r n)"
  using reasons_total_bump [of _ "pc_reasons n"]
  by (auto simp: counts_inv_def count_pair_def Let_def distinct_obj_set)

lemma fold_count_inv: "counts_inv k n \<Longrightarrow> counts_inv (k + length rs) (fold count_pair rs n)"
proof (induction rs arbitrary: k n)
  case (Cons r rs)
  from Cons.IH [OF count_pair_inv [OF Cons.prems, of r]] show ?case by simp
qed simp

text \<open>
  The summary of a feed answer adds up: submitted and skipped pairs are at most the results the
  worker reported, the counts by reason sum to the skipped pairs with each reason once, and the
  publication state is \<open>error\<close> exactly when an error is counted.
\<close>

theorem feed_summary_adds_up:
  "let s = summarizeFeedSyncChainResult a;
       results = array_items (getp (if is_objectlike (fa_body a) then fa_body a else JObj []) ''sync_results'')
   in sm_submitted_pairs s + sm_skipped_pairs s \<le> length results
     \<and> reasons_total (sm_skipped_reasons s) = sm_skipped_pairs s \<and> distinct (obj_keys (sm_skipped_reasons s))
     \<and> (sm_publication_state s = ''error'' \<longleftrightarrow> sm_error_count s > 0)"
proof -
  let ?rs = "array_items (getp (if is_objectlike (fa_body a) then fa_body a else JObj []) ''sync_results'')"
  have "counts_inv (length ?rs) (fold count_pair ?rs \<lparr>pc_submitted = 0, pc_skipped = 0, pc_reasons = []\<rparr>)"
    using fold_count_inv [of 0 "\<lparr>pc_submitted = 0, pc_skipped = 0, pc_reasons = []\<rparr>" ?rs]
    by (simp add: counts_inv_def reasons_total_def)
  then show ?thesis
    by (auto simp: summarizeFeedSyncChainResult_def counts_inv_def Let_def resolvePublicationState_def)
qed

lemma sync_chains_length: "length (fst (sync_chains config io ts s)) = length ts"
  by (induction ts arbitrary: s) (simp_all add: split_beta)

lemma sync_chains_stamps [simp]:
  "last_feed_sync_completed_at (snd (sync_chains config io ts s)) = last_feed_sync_completed_at s"
  "last_feed_sync_success_at (snd (sync_chains config io ts s)) = last_feed_sync_success_at s"
  "chain_states (snd (sync_chains config io ts s)) = chain_states s"
  by (induction ts arbitrary: s) (simp_all add: split_beta sync_chain_def incrementMetric_def Let_def split: sum.split)

text \<open>
  Feed publications are spaced. After a run that completed at \<open>fin\<close>, any later call before the
  interval has passed is skipped, makes no call and changes no more than the skip counter, as long
  as the completion stamp of the state is the one the run left, on disk or in memory.
\<close>

theorem feed_sync_spaced:
  assumes "processFeedSync config io now fin w = (r, w')" "fr_skipped r = Some False" "0 < fin"
    and "fs_intervalMs config = Fin i" "0 < i" "now' < fin + i"
    and "last_feed_sync_completed_at (w_state v) = last_feed_sync_completed_at (w_state w')"
  shows "processFeedSync config io' now' fin' v =
     (\<lparr>fr_enabled = True, fr_skipped = Some True, fr_chains = []\<rparr>, on_state (incrementMetric ''feed_sync_skipped_total'' 1) v)"
proof -
  have en: "fs_enabled config" and c: "last_feed_sync_completed_at (w_state w') = Some fin"
    using assms(1,2) by (auto simp: processFeedSync_def saveRelayerState_def Let_def split: if_splits prod.splits)
  have st: "parseTimestampMs (last_feed_sync_completed_at (w_state v)) = fin" using c assms(7) by (simp add: parseTimestampMs_def)
  have "getFeedSyncDelayMs config (w_state v) now' = Fin (max (fin - now' + i) 0)"
    using en st assms(3,4,5) by (simp add: getFeedSyncDelayMs_def js_max_def Let_def)
  then show ?thesis using en assms(6) by (simp add: processFeedSync_def js_lt_def)
qed

section \<open>Accounting of a run\<close>

definition metric :: "string \<Rightarrow> relayer_state \<Rightarrow> int" where
  "metric name s = (case obj_get (counters s) name of None \<Rightarrow> 0 | Some n \<Rightarrow> n)"

lemma metric_increment [simp]: "metric name (incrementMetric name' n s) = metric name s + (if name = name' then n else 0)"
  by (simp add: metric_def incrementMetric_def obj_get_set)

lemma metric_stamps [simp]:
  "metric name (s\<lparr>last_feed_sync_started_at := a\<rparr>) = metric name s"
  "metric name (s\<lparr>last_feed_sync_completed_at := a\<rparr>) = metric name s"
  "metric name (s\<lparr>last_feed_sync_duration_ms := d\<rparr>) = metric name s"
  "metric name (s\<lparr>last_feed_sync_success_at := a\<rparr>) = metric name s"
  "metric name (s\<lparr>updated_at := a\<rparr>) = metric name s"
  by (simp_all add: metric_def)

lemma increment_stamp [simp]: "last_feed_sync_started_at (incrementMetric name n s) = last_feed_sync_started_at s"
  by (simp add: incrementMetric_def)

definition succeeded :: "feed_answer \<times> publication_summary \<Rightarrow> bool" where
  "succeeded x \<longleftrightarrow> isFeedSyncChainSuccessful (fst x) (snd x)"

lemma sync_chains_counts:
  "sync_chains config io ts s = (xs, s') \<Longrightarrow>
     map (fa_target_chain \<circ> fst) xs = ts
   \<and> metric ''feed_sync_success_total'' s' = metric ''feed_sync_success_total'' s + int (length (filter succeeded xs))
   \<and> metric ''feed_sync_error_total'' s' = metric ''feed_sync_error_total'' s + int (length (filter (\<lambda>x. \<not> succeeded x) xs))"
proof (induction ts arbitrary: s xs)
  case (Cons t ts)
  obtain x s1 where c: "sync_chain config io t s = (x, s1)" by fastforce
  obtain ys where y: "sync_chains config io ts s1 = (ys, s')" "xs = x # ys"
    using Cons.prems c by (auto split: prod.splits)
  have "fa_target_chain (fst x) = t
    \<and> metric ''feed_sync_success_total'' s1 = metric ''feed_sync_success_total'' s + (if succeeded x then 1 else 0)
    \<and> metric ''feed_sync_error_total'' s1 = metric ''feed_sync_error_total'' s + (if succeeded x then 0 else 1)"
    using c by (auto simp: sync_chain_def succeeded_def call_feed_def failed_answer_def isFeedSyncChainSuccessful_def Let_def
        map_sum_def split: sum.splits)
  with Cons.IH [OF y(1)] y(2) show ?case by auto
qed simp

text \<open>
  A feed run accounts for every target chain: it reports one entry per target in their order,
  whatever fails, and the success and error counters grow by the entries that succeeded and those
  that did not. The success stamp moves to the completion time exactly when some target succeeded,
  the queues of the chains are untouched, and the state is written before the first call and after
  the last.
\<close>

theorem feed_run_accounts_targets:
  assumes "processFeedSync config io now fin w = (r, w')" "fr_skipped r = Some False"
  shows "map (fa_target_chain \<circ> fst) (fr_chains r) = feed_targets config
    \<and> metric ''feed_sync_success_total'' (w_state w') = metric ''feed_sync_success_total'' (w_state w) + int (length (filter succeeded (fr_chains r)))
    \<and> metric ''feed_sync_error_total'' (w_state w') = metric ''feed_sync_error_total'' (w_state w) + int (length (filter (\<lambda>x. \<not> succeeded x) (fr_chains r)))
    \<and> last_feed_sync_success_at (w_state w') = (if list_ex succeeded (fr_chains r) then Some fin else last_feed_sync_success_at (w_state w))
    \<and> chain_states (w_state w') = chain_states (w_state w)
    \<and> (\<exists>s. w_trace w' = w_trace w @ [EPersist s, EPersist (w_state w')] \<and> last_feed_sync_started_at s = Some now)"
proof -
  let ?w1 = "saveRelayerState now (on_state (\<lambda>s. incrementMetric ''feed_sync_runs_total'' 1 (s\<lparr>last_feed_sync_started_at := Some now\<rparr>)) w)"
  obtain xs s2 where c: "sync_chains config io (feed_targets config) (w_state ?w1) = (xs, s2)" by fastforce
  have some: "(\<exists>(a, summary) \<in> set xs. isFeedSyncChainSuccessful a summary) = list_ex succeeded xs"
    by (simp add: list_ex_iff succeeded_def split_beta)
  have frame: "chain_states s2 = chain_states (w_state w)" "last_feed_sync_success_at s2 = last_feed_sync_success_at (w_state w)"
    using sync_chains_stamps(2,3) [of config io "feed_targets config" "w_state ?w1", unfolded c]
    by (simp_all add: saveRelayerState_def incrementMetric_def)
  have "r = \<lparr>fr_enabled = True, fr_skipped = Some False, fr_chains = xs\<rparr>
    \<and> w' = saveRelayerState fin (on_state (\<lambda>_. let s3 = s2\<lparr>last_feed_sync_completed_at := Some fin, last_feed_sync_duration_ms := Some (fin - now)\<rparr>
        in if list_ex succeeded xs then s3\<lparr>last_feed_sync_success_at := Some fin\<rparr> else s3) ?w1)"
    using assms c by (auto simp: processFeedSync_def some Let_def split: if_splits)
  with sync_chains_counts [OF c] frame show ?thesis
    by (auto simp: saveRelayerState_def Let_def)
qed

text \<open>
  The start stamp a run saves before its first call does not space the next one: as soon as an
  earlier run has completed, its completion stamp is the one that is read.
\<close>

lemma start_stamp_shadowed:
  assumes "last_feed_sync_completed_at s = Some t" "0 < t"
  shows "getFeedSyncDelayMs config (s\<lparr>last_feed_sync_started_at := x\<rparr>) now = getFeedSyncDelayMs config s now"
  using assms by (simp add: getFeedSyncDelayMs_def parseTimestampMs_def Let_def)

section \<open>Examples\<close>

definition sample_feed :: feed_config where
  "sample_feed = \<lparr>fs_enabled = True, fs_intervalMs = Fin 60000, fs_timeoutMs = 20000, fs_network = ''testnet'', fs_symbols = [],
     fs_changeThresholdBps = 10, fs_minUpdateIntervalMs = 0, fs_staleAfterMs = 0, fs_waitForSubmission = False, fs_provider = [],
     fs_providers = [], fs_projectConfigEnabled = False, fs_projectSlug = [], fs_activeChains = [''neo_n3'', ''neox'']\<rparr>"

definition sample_feed_io :: feed_io where
  "sample_feed_io = \<lparr>fi_parse = \<lambda>s. None, fi_nitro = sample_nitro,
     fi_net = \<lambda>target sent q. if target = ''neox'' then Rejected ''down'' else Reply 200 []\<rparr>"

lemma sample_feed_run:
  "fr_skipped (fst (processFeedSync sample_feed sample_feed_io 1000 1500 \<lparr>w_state = createEmptyRelayerState, w_backoff = no_backoff, w_trace = []\<rparr>))
     = Some False"
  by (simp add: processFeedSync_def getFeedSyncDelayMs_def sample_feed_def createEmptyRelayerState_def parseTimestampMs_def js_lt_def split_beta Let_def)

theorem feed_run_accounts_targets_witness:
  "\<exists>r w'. processFeedSync sample_feed sample_feed_io 1000 1500 \<lparr>w_state = createEmptyRelayerState, w_backoff = no_backoff, w_trace = []\<rparr> = (r, w')
     \<and> map (fa_target_chain \<circ> fst) (fr_chains r) = [''neo_n3'', ''neox'']"
proof -
  obtain r w' where r: "processFeedSync sample_feed sample_feed_io 1000 1500 \<lparr>w_state = createEmptyRelayerState, w_backoff = no_backoff, w_trace = []\<rparr> = (r, w')"
    by fastforce
  with sample_feed_run have "fr_skipped r = Some False" by simp
  from feed_run_accounts_targets [OF r this] r show ?thesis by (simp add: feed_targets_def sample_feed_def)
qed

theorem feed_sync_spaced_witness:
  "\<exists>r w'. processFeedSync sample_feed sample_feed_io 1000 1500 \<lparr>w_state = createEmptyRelayerState, w_backoff = no_backoff, w_trace = []\<rparr> = (r, w')
     \<and> processFeedSync sample_feed sample_feed_io 30000 30001 w' = (\<lparr>fr_enabled = True, fr_skipped = Some True, fr_chains = []\<rparr>,
         on_state (incrementMetric ''feed_sync_skipped_total'' 1) w')"
proof -
  obtain r w' where r: "processFeedSync sample_feed sample_feed_io 1000 1500 \<lparr>w_state = createEmptyRelayerState, w_backoff = no_backoff, w_trace = []\<rparr> = (r, w')"
    by fastforce
  with sample_feed_run have "fr_skipped r = Some False" by simp
  from feed_sync_spaced [OF r this, of 60000 30000 w' sample_feed_io 30001] r show ?thesis by (simp add: sample_feed_def)
qed

end
