(* ===== verification/Fulfillment.thy ===== *)
theory Fulfillment
  imports Fulfillment_Prepare
begin

text \<open>
  Processing one request in \<^verbatim>\<open>workers/morpheus-relayer/src/fulfillment.js\<close>: the claim, the lane of
  the attempt (failure callback, redelivery of a prepared fulfillment, fresh preparation), the
  checkpoint before delivery, and what each outcome records. One clock reading (\<open>sv_now\<close>) stands for
  the readings of one call.
\<close>

section \<open>The checkpoint\<close>

definition checkpoint_details :: "oracle_event \<Rightarrow> prepared_fulfillment \<Rightarrow> int \<Rightarrow> kernel_intent \<Rightarrow> job_details" where
  "checkpoint_details event p attempts intent =
     (job_details_of (buildEventKey event) ''callback_pending'' attempts)
       \<lparr>jd_route := pf_route p, jd_worker_status := pf_worker_status p,
        jd_worker_response := buildCallbackPendingWorkerResponse p intent\<rparr>"

definition checkpointPreparedFulfillment ::
  "('a relayer_config_scheme) \<Rightarrow> services \<Rightarrow> oracle_event \<Rightarrow> prepared_fulfillment \<Rightarrow> int \<Rightarrow> kernel_intent \<Rightarrow> world
     \<Rightarrow> unit result \<times> world" where
  "checkpointPreparedFulfillment config sv event p attempts intent w =
     (let details = checkpoint_details event p attempts intent;
          mirror = (Inr (), maybeUpsertJob sv event details w)
      in if \<not> durableQueueEnabled config then mirror
         else case ensureDurableQueueAvailable config sv (chain_name (ev_chain event) @ '':callback-pending-checkpoint'') of
             Inl e \<Rightarrow> (Inl e, w)
           | Inr False \<Rightarrow> mirror
           | Inr True \<Rightarrow>
               (case upsertJobOrThrow sv event details w of
                  (Inr _, w1) \<Rightarrow> (Inr (), w1)
                | (Inl e, w1) \<Rightarrow>
                    (let (transient, w2) = isTransientDurableQueueError sv e w1
                     in (if transient then Inr () else Inl e, w2))))"

section \<open>Outcomes\<close>

datatype outcome =
    OResult bool
  | OSkipped string
  | ORetry string int
  | OSettled
  | OTerminal
  | OExhausted int

record delivery_result =
  dr_success :: bool
  dr_route :: string
  dr_module_id :: string
  dr_operation :: string
  dr_fulfill_tx :: jsv
  dr_worker_status :: "int option"
  dr_error :: string
  dr_worker_response :: jsv
  dr_timed :: bool

definition delivered_result :: "prepared_fulfillment \<Rightarrow> jsv \<Rightarrow> delivery_result" where
  "delivered_result p tx = \<lparr>dr_success = pf_success p, dr_route = pf_route p, dr_module_id = pf_module_id p,
     dr_operation = pf_operation p, dr_fulfill_tx = tx, dr_worker_status = pf_worker_status p, dr_error = pf_error p,
     dr_worker_response = (case pf_worker_response p of None \<Rightarrow> JNull | Some r \<Rightarrow> r), dr_timed = True\<rparr>"

definition failure_result :: "string \<Rightarrow> jsv \<Rightarrow> delivery_result" where
  "failure_result safeError tx = \<lparr>dr_success = False, dr_route = ''failure-finalize'', dr_module_id = [],
     dr_operation = [], dr_fulfill_tx = tx, dr_worker_status = None, dr_error = safeError,
     dr_worker_response = JNull, dr_timed = False\<rparr>"

definition item_attempts :: "retry_item option \<Rightarrow> int" where
  "item_attempts item = (case item of None \<Rightarrow> 0 | Some i \<Rightarrow> ri_attempts i)"

definition item_first_failed :: "millis \<Rightarrow> retry_item option \<Rightarrow> millis" where
  "item_first_failed now item = (case item of None \<Rightarrow> now | Some i \<Rightarrow> ri_first_failed_at i)"

definition item_terminal_error :: "retry_item option \<Rightarrow> string" where
  "item_terminal_error item = trimOnchainErrorMessage (case item of
      None \<Rightarrow> ''request execution failed''
    | Some i \<Rightarrow> (case or_null (ri_terminal_error i) of Some e \<Rightarrow> e | None \<Rightarrow>
        (case or_null (ri_last_error i) of Some e \<Rightarrow> e | None \<Rightarrow> ''request execution failed'')))"

definition request_age_ms :: "millis \<Rightarrow> oracle_event \<Rightarrow> int option" where
  "request_age_ms now event = (if ev_createdAtMs event > 0 then Some (max (now - ev_createdAtMs event) 0) else None)"

section \<open>Recording\<close>

definition recordDeliveryExhaustion ::
  "('a relayer_config_scheme) \<Rightarrow> services \<Rightarrow> oracle_event \<Rightarrow> int \<Rightarrow> string \<Rightarrow> string \<Rightarrow> string option \<Rightarrow> world
     \<Rightarrow> outcome \<times> world" where
  "recordDeliveryExhaustion config sv event attempts route errorMessage terminalError w =
     (let k = buildEventKey event; c = ev_chain event; intent = intent_of (ev_requestType event);
          lastError = trimOnchainErrorMessage errorMessage;
          meta = no_meta\<lparr>pm_attempts := Some attempts, pm_route := Some route,
            pm_module_id := Some (ki_moduleId intent), pm_operation := Some (ki_operation intent),
            pm_last_error := Some lastError, pm_terminal_error := or_null terminalError\<rparr>;
          w1 = on_state (\<lambda>s. clearRetryItem c k (recordProcessedEvent config c event ''exhausted'' meta (sv_now sv)
                 (incrementLabeledFailure (chain_name c) (ki_moduleId intent) (ki_operation intent) 1
                   (incrementMetric ''retries_exhausted_total'' 1 s)))) w
      in (OExhausted attempts,
          maybeUpsertJob sv event ((job_details_of k ''exhausted'' attempts)
            \<lparr>jd_route := route, jd_last_error := Some lastError, jd_completed_at := Some (sv_now sv)\<rparr>)
            (persistState w1)))"

text \<open>The retry item and the durable row of a delivery that will be attempted again.\<close>

record retry_options =
  ro_firstFailedAt :: millis
  ro_finalize_only :: bool
  ro_terminal_error :: "string option"
  ro_prepared :: "prepared_fulfillment option"
  ro_upsertStatus :: string
  ro_route :: string
  ro_worker_status :: "int option"
  ro_worker_response :: jsv
  ro_retryStatus :: string

definition scheduleCallbackRetry ::
  "('a relayer_config_scheme) \<Rightarrow> services \<Rightarrow> oracle_event \<Rightarrow> int \<Rightarrow> string \<Rightarrow> retry_options \<Rightarrow> world \<Rightarrow> outcome \<times> world" where
  "scheduleCallbackRetry config sv event nextAttempts errorMessage ro w =
     (let k = buildEventKey event; c = ev_chain event;
          options = enqueue_defaults\<lparr>eo_attempts := nextAttempts,
            eo_next_retry_at := Some (sv_now sv + computeRetryDelayMs config nextAttempts (sv_rng sv)),
            eo_first_failed_at := Some (ro_firstFailedAt ro),
            eo_last_error := Some (trimOnchainErrorMessage errorMessage),
            eo_finalize_only := ro_finalize_only ro, eo_terminal_error := ro_terminal_error ro,
            eo_prepared := ro_prepared ro, eo_retryQueueLimit := retryQueueLimit config,
            eo_deadLetterLimit := deadLetterLimit config\<rparr>;
          (item, s1) = enqueueRetryItem c event options (sv_now sv) (w_state w);
          w1 = persistState (on_state (\<lambda>_. incrementMetric ''retries_scheduled_total'' 1 s1) w)
      in (ORetry (ro_retryStatus ro) (ri_attempts item),
          maybeUpsertJob sv event ((job_details_of k (ro_upsertStatus ro) (ri_attempts item))
            \<lparr>jd_route := ro_route ro, jd_worker_status := ro_worker_status ro, jd_last_error := ri_last_error item,
             jd_next_retry_at := Some (ri_next_retry_at item), jd_worker_response := ro_worker_response ro\<rparr>) w1))"

definition resolveDeliveryRetryOrExhaust ::
  "('a relayer_config_scheme) \<Rightarrow> services \<Rightarrow> oracle_event \<Rightarrow> int \<Rightarrow> string \<Rightarrow> string \<Rightarrow> string option \<Rightarrow> retry_options
     \<Rightarrow> world \<Rightarrow> outcome \<times> world" where
  "resolveDeliveryRetryOrExhaust config sv event nextAttempts errorMessage exhaustRoute exhaustTerminalError ro w =
     (if classifyError errorMessage = Permanent \<or> nextAttempts > resolveCallbackRetryCeiling config
      then recordDeliveryExhaustion config sv event nextAttempts exhaustRoute errorMessage exhaustTerminalError w
      else scheduleCallbackRetry config sv event nextAttempts errorMessage ro w)"

definition recordTerminalOutcome ::
  "('a relayer_config_scheme) \<Rightarrow> services \<Rightarrow> oracle_event \<Rightarrow> int \<Rightarrow> string \<Rightarrow> string \<Rightarrow> string \<Rightarrow> string \<Rightarrow> bool
     \<Rightarrow> outcome \<Rightarrow> world \<Rightarrow> outcome \<times> world" where
  "recordTerminalOutcome config sv event attempts localStatus durableStatus route lastError counted out w =
     (let k = buildEventKey event; c = ev_chain event; intent = intent_of (ev_requestType event);
          meta = no_meta\<lparr>pm_attempts := Some attempts, pm_route := Some route,
            pm_module_id := Some (ki_moduleId intent), pm_operation := Some (ki_operation intent),
            pm_last_error := Some lastError\<rparr>;
          w1 = on_state (\<lambda>s. clearRetryItem c k (recordProcessedEvent config c event localStatus meta (sv_now sv)
                 (if counted then incrementMetric ''retries_exhausted_total'' 1 s else s))) w
      in (out, maybeUpsertJob sv event ((job_details_of k durableStatus attempts)
            \<lparr>jd_last_error := Some lastError, jd_completed_at := Some (sv_now sv)\<rparr>) (persistState w1)))"

definition recordFinalizedFailure ::
  "('a relayer_config_scheme) \<Rightarrow> services \<Rightarrow> oracle_event \<Rightarrow> int \<Rightarrow> delivery_result \<Rightarrow> world \<Rightarrow> outcome \<times> world" where
  "recordFinalizedFailure config sv event attempts r w =
     (let k = buildEventKey event; c = ev_chain event; intent = intent_of (ev_requestType event);
          meta = no_meta\<lparr>pm_attempts := Some attempts, pm_route := Some (dr_route r),
            pm_module_id := Some (or_str (dr_module_id r) (ki_moduleId intent)),
            pm_operation := Some (or_str (dr_operation r) (ki_operation intent)),
            pm_fulfill_tx := Some (dr_fulfill_tx r), pm_last_error := Some (dr_error r)\<rparr>;
          w1 = on_state (\<lambda>s. clearRetryItem c k (recordProcessedEvent config c event ''failed'' meta (sv_now sv)
                 (incrementLabeledFailure (chain_name c) (ki_moduleId intent) (ki_operation intent) 1
                   (incrementMetric ''fulfill_failure_total'' 1 (incrementMetric ''events_failed_total'' 1
                     (incrementMetric ''events_processed_total'' 1 s)))))) w
      in (OResult False, maybeUpsertJob sv event ((job_details_of k ''failed'' attempts)
            \<lparr>jd_last_error := Some (dr_error r), jd_fulfill_tx := dr_fulfill_tx r,
             jd_completed_at := Some (sv_now sv)\<rparr>) (persistState w1)))"

section \<open>One attempt\<close>

text \<open>
  The \<open>try\<close> block up to the delivery: the result of the callback or the message thrown, the prepared
  fulfillment known to the \<open>catch\<close> block, and the world.
\<close>

type_synonym attempt = "delivery_result result \<times> prepared_fulfillment option \<times> world"

definition attempt_finalize :: "chain_io \<Rightarrow> oracle_event \<Rightarrow> string \<Rightarrow> prepared_fulfillment option \<Rightarrow> world \<Rightarrow> attempt" where
  "attempt_finalize io event terminalError known w =
     (case finalizeFailedRequest io event terminalError w of
        (Inl e, w1) \<Rightarrow> (Inl e, known, w1)
      | (Inr (safeError, tx), w1) \<Rightarrow>
          (Inr (failure_result safeError tx), known, on_state (incrementMetric ''fulfill_failure_total'' 1) w1))"

definition attempt_delivery :: "chain_io \<Rightarrow> oracle_event \<Rightarrow> prepared_fulfillment \<Rightarrow> world \<Rightarrow> attempt" where
  "attempt_delivery io event p w =
     (case deliverPreparedFulfillment io event p w of
        (Inl e, w1) \<Rightarrow> (Inl e, Some p, w1)
      | (Inr tx, w1) \<Rightarrow>
          (Inr (delivered_result p tx), Some p,
           on_state (incrementMetric (if pf_success p then ''fulfill_success_total'' else ''fulfill_failure_total'') 1) w1))"

definition pending_options ::
  "('a relayer_config_scheme) \<Rightarrow> services \<Rightarrow> retry_item option \<Rightarrow> prepared_fulfillment \<Rightarrow> enqueue_options" where
  "pending_options config sv item p = enqueue_defaults
     \<lparr>eo_attempts := item_attempts item,
      eo_next_retry_at := Some (sv_now sv + computeRetryDelayMs config (item_attempts item + 1) (sv_rng sv)),
      eo_first_failed_at := Some (item_first_failed (sv_now sv) item), eo_last_error := Some ''callback_pending'',
      eo_prepared := Some (renormalised p),
      eo_durable_claimed := (case item of None \<Rightarrow> False | Some i \<Rightarrow> ri_durable_claimed i),
      eo_retryQueueLimit := retryQueueLimit config, eo_deadLetterLimit := deadLetterLimit config\<rparr>"

definition enqueue_prepared ::
  "('a relayer_config_scheme) \<Rightarrow> services \<Rightarrow> oracle_event \<Rightarrow> retry_item option \<Rightarrow> prepared_fulfillment \<Rightarrow> world \<Rightarrow> world" where
  "enqueue_prepared config sv event item p w =
     persistState (on_state (\<lambda>s. snd (enqueueRetryItem (ev_chain event) event (pending_options config sv item p) (sv_now sv)
       (if pf_success p then s else incrementMetric ''worker_failures_total'' 1 s))) w)"

definition attempt_fresh ::
  "('a relayer_config_scheme) \<Rightarrow> services \<Rightarrow> chain_io \<Rightarrow> oracle_event \<Rightarrow> retry_item option \<Rightarrow> world \<Rightarrow> attempt" where
  "attempt_fresh config sv io event item w =
     (let w1 = on_state (incrementMetric ''worker_calls_total'' 1) w in
      case prepareOracleFulfillment (io_prep io) event of
        Inl e \<Rightarrow> (Inl e, None, w1)
      | Inr p \<Rightarrow>
          (case checkpointPreparedFulfillment config sv event p (item_attempts item) (intent_of (ev_requestType event))
              (enqueue_prepared config sv event item p w1) of
             (Inl e, w2) \<Rightarrow> (Inl e, Some p, w2)
           | (Inr _, w2) \<Rightarrow> attempt_delivery io event p w2))"

definition attempt_event ::
  "('a relayer_config_scheme) \<Rightarrow> services \<Rightarrow> chain_io \<Rightarrow> oracle_event \<Rightarrow> retry_item option \<Rightarrow> world \<Rightarrow> attempt" where
  "attempt_event config sv io event item w =
     (let known = (case item of None \<Rightarrow> None | Some i \<Rightarrow> map_option renormalised (ri_prepared i)) in
      if (case item of None \<Rightarrow> False | Some i \<Rightarrow> ri_finalize_only i)
      then attempt_finalize io event (item_terminal_error item) known w
      else case known of
          Some p \<Rightarrow> attempt_delivery io event p w
        | None \<Rightarrow> attempt_fresh config sv io event item w)"

section \<open>Success\<close>

definition delivered_meta :: "services \<Rightarrow> oracle_event \<Rightarrow> int \<Rightarrow> delivery_result \<Rightarrow> proc_meta" where
  "delivered_meta sv event attempts r =
     (let intent = intent_of (ev_requestType event) in
      no_meta\<lparr>pm_attempts := Some attempts, pm_route := Some (dr_route r),
        pm_module_id := Some (or_str (dr_module_id r) (ki_moduleId intent)),
        pm_operation := Some (or_str (dr_operation r) (ki_operation intent)),
        pm_fulfill_tx := Some (dr_fulfill_tx r), pm_worker_status := dr_worker_status r,
        pm_last_error := or_null (Some (dr_error r)), pm_request_age_ms := request_age_ms (sv_now sv) event,
        pm_total_duration_ms := Some 0, pm_durations_ms := (if dr_timed r then Some 0 else None)\<rparr>)"

definition delivered_worker_response :: "oracle_event \<Rightarrow> delivery_result \<Rightarrow> jsv" where
  "delivered_worker_response event r =
     (let intent = intent_of (ev_requestType event) in
      if is_objectlike (dr_worker_response r)
      then JObj (spread (own_entries (dr_worker_response r)) [(''kernel_intent'', JObj
             [(''module_id'', JStr (or_str (dr_module_id r) (ki_moduleId intent))),
              (''operation'', JStr (or_str (dr_operation r) (ki_operation intent))),
              (''legacy_request_type'', JStr (ki_legacyRequestType intent))])])
      else dr_worker_response r)"

definition record_delivery ::
  "('a relayer_config_scheme) \<Rightarrow> services \<Rightarrow> oracle_event \<Rightarrow> int \<Rightarrow> delivery_result \<Rightarrow> world \<Rightarrow> outcome \<times> world" where
  "record_delivery config sv event attempts r w =
     (let k = buildEventKey event; c = ev_chain event;
          status = (if dr_success r then ''fulfilled'' else ''failed'');
          w1 = on_state (\<lambda>s. clearRetryItem c k (recordProcessedEvent config c event status
                 (delivered_meta sv event attempts r) (sv_now sv)
                 ((incrementMetric ''events_processed_total'' 1 s)\<lparr>last_fulfill_latency_ms := Some 0\<rparr>))) w
      in (OResult (dr_success r), maybeUpsertJob sv event ((job_details_of k status attempts)
            \<lparr>jd_route := dr_route r, jd_worker_status := dr_worker_status r,
             jd_worker_response := delivered_worker_response event r, jd_fulfill_tx := dr_fulfill_tx r,
             jd_completed_at := Some (sv_now sv)\<rparr>) (persistState w1)))"

section \<open>Failure\<close>

definition callback_options :: "services \<Rightarrow> oracle_event \<Rightarrow> retry_item option \<Rightarrow> prepared_fulfillment \<Rightarrow> retry_options" where
  "callback_options sv event item p =
     \<lparr>ro_firstFailedAt = item_first_failed (sv_now sv) item, ro_finalize_only = False, ro_terminal_error = None,
      ro_prepared = Some (renormalised p), ro_upsertStatus = ''callback_retry_scheduled'', ro_route = pf_route p,
      ro_worker_status = pf_worker_status p,
      ro_worker_response = buildCallbackPendingWorkerResponse p (intent_of (ev_requestType event)),
      ro_retryStatus = ''callback_retry_scheduled''\<rparr>"

definition finalize_options :: "oracle_event \<Rightarrow> millis \<Rightarrow> string \<Rightarrow> retry_options" where
  "finalize_options event firstFailedAt terminalError =
     (let intent = intent_of (ev_requestType event) in
      \<lparr>ro_firstFailedAt = firstFailedAt, ro_finalize_only = True, ro_terminal_error = Some terminalError,
       ro_prepared = None, ro_upsertStatus = ''failure_callback_retry_scheduled'', ro_route = [], ro_worker_status = None,
       ro_worker_response = JObj [(''retry_meta'', JObj
         [(''finalize_only'', JBool True), (''terminal_error'', JStr terminalError),
          (''module_id'', JStr (ki_moduleId intent)), (''operation'', JStr (ki_operation intent))])],
       ro_retryStatus = ''scheduled''\<rparr>)"

text \<open>The primary execution is out of retries: deliver a failure callback, or retry that.\<close>

definition finalize_exhausted ::
  "('a relayer_config_scheme) \<Rightarrow> services \<Rightarrow> chain_io \<Rightarrow> oracle_event \<Rightarrow> int \<Rightarrow> string \<Rightarrow> world \<Rightarrow> outcome \<times> world" where
  "finalize_exhausted config sv io event attempts message w =
     (case finalizeFailedRequest io event message (on_state (incrementMetric ''retries_exhausted_total'' 1) w) of
        (Inr (safeError, tx), w1) \<Rightarrow> recordFinalizedFailure config sv event attempts (failure_result safeError tx) w1
      | (Inl finalizeError, w1) \<Rightarrow>
          resolveDeliveryRetryOrExhaust config sv event (attempts + 1) finalizeError ''failure-finalize''
            (Some (trimOnchainErrorMessage message))
            (finalize_options event (sv_now sv) (trimOnchainErrorMessage message)) w1)"

definition retry_primary ::
  "('a relayer_config_scheme) \<Rightarrow> services \<Rightarrow> chain_io \<Rightarrow> oracle_event \<Rightarrow> retry_item option \<Rightarrow> string \<Rightarrow> world \<Rightarrow> outcome \<times> world" where
  "retry_primary config sv io event item message w =
     (if classifyError message = Permanent
      then finalize_exhausted config sv io event (item_attempts item + 1) message w
      else case scheduleRetry config (ev_chain event) event message (sv_rng sv) (sv_now sv) (w_state w) of
          (Exhausted k attempts err, s1) \<Rightarrow>
            finalize_exhausted config sv io event attempts message (on_state (\<lambda>_. s1) w)
        | (Scheduled k it, s1) \<Rightarrow>
            (let w1 = persistState (on_state (\<lambda>_. incrementMetric ''retries_scheduled_total'' 1 s1) w)
             in (ORetry ''scheduled'' (ri_attempts it),
                 maybeUpsertJob sv event ((job_details_of (buildEventKey event) ''retry_scheduled'' (ri_attempts it))
                   \<lparr>jd_last_error := Some message, jd_next_retry_at := Some (ri_next_retry_at it)\<rparr>) w1)))"

definition handle_failure ::
  "('a relayer_config_scheme) \<Rightarrow> services \<Rightarrow> chain_io \<Rightarrow> oracle_event \<Rightarrow> retry_item option \<Rightarrow> prepared_fulfillment option
     \<Rightarrow> string \<Rightarrow> world \<Rightarrow> outcome \<times> world" where
  "handle_failure config sv io event item known message w =
     (let attempts = item_attempts item;
          isFinalizeOnly = (case item of None \<Rightarrow> False | Some i \<Rightarrow> ri_finalize_only i);
          terminalError = item_terminal_error item
      in if isAlreadyFulfilledError message
         then recordTerminalOutcome config sv event attempts ''settled'' ''settled''
                (if isFinalizeOnly then ''failure-finalize:already-fulfilled'' else ''already-fulfilled'')
                (trimOnchainErrorMessage message) False OSettled w
         else if isTerminalConfigurationError message
         then recordTerminalOutcome config sv event attempts ''exhausted'' ''failed_config''
                (if isFinalizeOnly then ''failure-finalize:config-error'' else ''config-error'')
                (trimOnchainErrorMessage message) True OTerminal w
         else case known of
             Some p \<Rightarrow> resolveDeliveryRetryOrExhaust config sv event (attempts + 1) message
                 (or_str (pf_route p) ''callback-delivery'') None (callback_options sv event item p) w
           | None \<Rightarrow>
               if isFinalizeOnly
               then resolveDeliveryRetryOrExhaust config sv event (attempts + 1) message ''failure-finalize''
                      (Some terminalError) (finalize_options event (item_first_failed (sv_now sv) item) terminalError) w
               else retry_primary config sv io event item message w)"

section \<open>processEvent\<close>

definition claim_reason :: "claim_outcome \<Rightarrow> string" where
  "claim_reason r = (case r of BackoffSkip \<Rightarrow> ''backoff_skip'' | Unavailable \<Rightarrow> ''unavailable'' | Granted \<Rightarrow> ''claimed'' | Conflict \<Rightarrow> ''conflict'')"

text \<open>The cross-instance claim is offline: keep the work and try again later.\<close>

definition retain_unclaimed ::
  "('a relayer_config_scheme) \<Rightarrow> services \<Rightarrow> oracle_event \<Rightarrow> retry_item option \<Rightarrow> string \<Rightarrow> world \<Rightarrow> outcome \<times> world" where
  "retain_unclaimed config sv event item reason w =
     (OSkipped reason,
      if item \<noteq> None then w
      else persistState (on_state (\<lambda>s. snd (enqueueRetryItem (ev_chain event) event
        (enqueue_defaults\<lparr>eo_attempts := item_attempts item,
          eo_next_retry_at := Some (sv_now sv + computeRetryDelayMs config (item_attempts item + 1) (sv_rng sv)),
          eo_first_failed_at := Some (sv_now sv), eo_last_error := Some (''durable_claim_'' @ reason),
          eo_retryQueueLimit := retryQueueLimit config, eo_deadLetterLimit := deadLetterLimit config\<rparr>) (sv_now sv) s)) w))"

definition drop_conflict :: "oracle_event \<Rightarrow> world \<Rightarrow> outcome \<times> world" where
  "drop_conflict event w =
     (OSkipped ''claimed_elsewhere'',
      persistState (on_state (\<lambda>s. clearRetryItem (ev_chain event) (buildEventKey event)
        (incrementMetric ''claim_conflicts_total'' 1 s)) w))"

definition process_claimed ::
  "('a relayer_config_scheme) \<Rightarrow> services \<Rightarrow> chain_io \<Rightarrow> oracle_event \<Rightarrow> retry_item option \<Rightarrow> world \<Rightarrow> outcome \<times> world" where
  "process_claimed config sv io event item w =
     (let w1 = maybeUpsertJob sv event (job_details_of (buildEventKey event)
            (if item \<noteq> None then ''retrying'' else ''processing'') (item_attempts item)) w
      in case attempt_event config sv io event item w1 of
          (Inr r, known, w2) \<Rightarrow> record_delivery config sv event (item_attempts item) r w2
        | (Inl message, known, w2) \<Rightarrow> handle_failure config sv io event item known message w2)"

definition processEvent ::
  "('a relayer_config_scheme) \<Rightarrow> services \<Rightarrow> chain_io \<Rightarrow> oracle_event \<Rightarrow> retry_item option \<Rightarrow> world
     \<Rightarrow> outcome result \<times> world" where
  "processEvent config sv io event item w =
     (case claimDurableJobForProcessing config sv event item w of
        (Inl e, w1) \<Rightarrow> (Inl e, w1)
      | (Inr reason, w1) \<Rightarrow>
          (case reason of
             Granted \<Rightarrow> (let (out, w2) = process_claimed config sv io event item w1 in (Inr out, w2))
           | Conflict \<Rightarrow> (let (out, w2) = drop_conflict event w1 in (Inr out, w2))
           | _ \<Rightarrow> (let (out, w2) = retain_unclaimed config sv event item (claim_reason reason) w1 in (Inr out, w2))))"

end
