(* ===== verification/Request_Processor.thy ===== *)
theory Request_Processor
  imports Fulfillment Chain_Cursor
begin

text \<open>
  One tick of a chain in \<^verbatim>\<open>workers/morpheus-relayer/src/request-processor.js\<close>: manual actions, the
  quarantine and hydration of the durable queue, discovery by block or by request id, the due
  retries, and the reconciliation of requests the block scan missed. The chain adapters
  (\<^verbatim>\<open>neo-n3.js\<close>, \<^verbatim>\<open>neox.js\<close>) are the \<open>options\<close> object of the source, here a record of replies. The
  requests of a batch run one after the other, which is \<open>mapWithConcurrency\<close> with one worker; an
  exception ends the batch.
\<close>

section \<open>Sequencing\<close>

definition then_world :: "'a result \<times> world \<Rightarrow> ('a \<Rightarrow> world \<Rightarrow> 'b result \<times> world) \<Rightarrow> 'b result \<times> world" where
  "then_world m f = (case m of (Inl e, w) \<Rightarrow> (Inl e, w) | (Inr x, w) \<Rightarrow> f x w)"

lemma then_world_simps [simp]:
  "then_world (Inl e, w) f = (Inl e, w)" "then_world (Inr x, w) f = f x w"
  by (simp_all add: then_world_def)

text \<open>The events of a batch, each with its retry item when it has one.\<close>

fun process_all ::
  "('a relayer_config_scheme) \<Rightarrow> services \<Rightarrow> chain_io \<Rightarrow> (oracle_event \<times> retry_item option) list \<Rightarrow> world
     \<Rightarrow> outcome list result \<times> world" where
  "process_all config sv io [] w = (Inr [], w)"
| "process_all config sv io ((event, item) # jobs) w =
     then_world (processEvent config sv io event item w) (\<lambda>out w1.
       then_world (process_all config sv io jobs w1) (\<lambda>outs w2. (Inr (out # outs), w2)))"

section \<open>Retries\<close>

definition retry_batch :: "('a relayer_config_scheme) \<Rightarrow> retry_item list \<Rightarrow> retry_item list" where
  "retry_batch config due = take (max (or_nat (maxRetryEventsPerTick config) (length due)) 1) due"

definition runDueRetries ::
  "('a relayer_config_scheme) \<Rightarrow> services \<Rightarrow> chain_io \<Rightarrow> chain \<Rightarrow> world \<Rightarrow> outcome list result \<times> world" where
  "runDueRetries config sv io c w =
     (let due = getDueRetryItems c (sv_now sv) (w_state w);
          batch = retry_batch config due;
          w1 = (if length batch < length due
                then on_state (incrementMetric ''backpressure_retry_skipped_total'' (int (length due) - int (length batch))) w
                else w)
      in process_all config sv io (map (\<lambda>item. (ri_event item, Some item)) batch) w1)"

section \<open>New events\<close>

definition is_known :: "relayer_state \<Rightarrow> chain \<Rightarrow> string list \<Rightarrow> oracle_event \<Rightarrow> bool" where
  "is_known s c seen event \<longleftrightarrow> buildEventKey event \<in> set seen \<or> hasProcessedEvent c (buildEventKey event) s
     \<or> isEventQueuedForRetry c (buildEventKey event) s"

fun filter_new ::
  "relayer_state \<Rightarrow> chain \<Rightarrow> oracle_event list \<Rightarrow> string list \<Rightarrow> oracle_event list \<times> nat \<Rightarrow> oracle_event list \<times> nat" where
  "filter_new s c [] seen acc = acc"
| "filter_new s c (event # events) seen (unique, duplicates) =
     (if is_known s c seen event
      then filter_new s c events seen (unique, duplicates + 1)
      else filter_new s c events (buildEventKey event # seen) (unique @ [event], duplicates))"

definition filterNewEvents :: "relayer_state \<Rightarrow> chain \<Rightarrow> oracle_event list \<Rightarrow> oracle_event list \<times> nat" where
  "filterNewEvents s c events = filter_new s c events [] ([], 0)"

definition fresh_events :: "chain \<Rightarrow> oracle_event list \<Rightarrow> world \<Rightarrow> oracle_event list \<times> world" where
  "fresh_events c scanned w =
     (let w1 = on_state (incrementMetric ''events_scanned_total'' (int (length scanned))) w;
          (events, duplicates) = filterNewEvents (w_state w1) c scanned
      in (events, on_state (incrementMetric ''duplicates_skipped_total'' (int duplicates)) w1))"

section \<open>The chain adapter\<close>

record discovery =
  dc_hasConfig :: bool
  dc_getLatestBlock :: "int result"
  dc_getLatestRequestId :: "int result option"
  dc_scan :: "jsnum \<Rightarrow> jsnum \<Rightarrow> oracle_event list result"
  dc_scanByRequestId :: "(jsnum \<Rightarrow> jsnum \<Rightarrow> oracle_event list result) option"

definition lift_call :: "'a result \<Rightarrow> world \<Rightarrow> 'a result \<times> world" where
  "lift_call r w = (r, w)"

text \<open>The window a tick scanned and the tip it saw, and the outcomes of its requests.\<close>

record scan_report =
  sr_window :: "(jsnum \<times> jsnum \<times> int) option"
  sr_events :: "outcome list"

definition no_scan :: scan_report where
  "no_scan = \<lparr>sr_window = None, sr_events = []\<rparr>"

definition set_cursor :: "(jsnum \<Rightarrow> chain_state \<Rightarrow> chain_state) \<Rightarrow> chain \<Rightarrow> jsnum \<Rightarrow> world \<Rightarrow> world" where
  "set_cursor f c to w = persistState (on_state (upd_chain c (f to)) w)"

definition on_last_block :: "jsnum \<Rightarrow> chain_state \<Rightarrow> chain_state" where
  "on_last_block to cs = cs\<lparr>last_block := Some to\<rparr>"

definition on_last_request_id :: "jsnum \<Rightarrow> chain_state \<Rightarrow> chain_state" where
  "on_last_request_id to cs = cs\<lparr>last_request_id := Some to\<rparr>"

section \<open>Reconciliation\<close>

definition pending_only :: "string list \<Rightarrow> chain \<Rightarrow> relayer_state \<Rightarrow> oracle_event list \<Rightarrow> oracle_event list" where
  "pending_only excluded c s events =
     filter (\<lambda>event. ev_requestId event \<notin> set excluded \<and> ev_requestId event \<notin> collectActiveRequestIds c s) events"

definition reconcilePendingRequests ::
  "('a relayer_config_scheme) \<Rightarrow> services \<Rightarrow> chain_io \<Rightarrow> chain \<Rightarrow> discovery \<Rightarrow> string list \<Rightarrow> world
     \<Rightarrow> scan_report result \<times> world" where
  "reconcilePendingRequests config sv io c dc excluded w =
     (case (dc_getLatestRequestId dc, dc_scanByRequestId dc) of
        (Some getLatest, Some scanById) \<Rightarrow>
          then_world (lift_call getLatest w) (\<lambda>latest w.
            let (from, s1) = resolveRequestCursor config c latest (w_state w);
                w1 = on_state (\<lambda>_. s1) w;
                to = scan_to latest from (maxBlocksPerTick config)
            in if js_lt (Fin latest) from then (Inr no_scan, w1)
               else then_world (lift_call (scanById from to) w1) (\<lambda>scanned w1.
                 let (events, w2) = fresh_events c (pending_only excluded c (w_state w1) scanned) w1 in
                 then_world (persistFreshEventsToDurableQueue config sv c events w2) (\<lambda>_ w3.
                 then_world (process_all config sv io (map (\<lambda>e. (e, None)) events) w3) (\<lambda>outs w4.
                   (Inr \<lparr>sr_window = Some (from, to, latest), sr_events = outs\<rparr>,
                    set_cursor on_last_request_id c to w4)))))
      | _ \<Rightarrow> (Inr no_scan, w))"

section \<open>Discovery\<close>

text \<open>The fresh events of a scanned window: filter, persist, defer, process, then move the cursor.\<close>

definition process_window ::
  "('a relayer_config_scheme) \<Rightarrow> services \<Rightarrow> chain_io \<Rightarrow> chain \<Rightarrow> (jsnum \<Rightarrow> chain_state \<Rightarrow> chain_state)
     \<Rightarrow> jsnum \<Rightarrow> jsnum \<Rightarrow> int \<Rightarrow> oracle_event list \<Rightarrow> world \<Rightarrow> (scan_report \<times> string list) result \<times> world" where
  "process_window config sv io c cursor from to tip scanned w =
     (let (events, w1) = fresh_events c scanned w in
      then_world (persistFreshEventsToDurableQueue config sv c events w1) (\<lambda>_ w2.
        let ((processable, deferred), w3) = deferEventsForBackpressure config sv c events w2 in
        then_world (process_all config sv io (map (\<lambda>e. (e, None)) processable) w3) (\<lambda>outs w4.
          (Inr (\<lparr>sr_window = Some (from, to, tip), sr_events = outs\<rparr>, map ev_requestId processable),
           set_cursor cursor c to w4))))"

definition idle_skip :: "('a relayer_config_scheme) \<Rightarrow> services \<Rightarrow> chain \<Rightarrow> relayer_state \<Rightarrow> bool" where
  "idle_skip config sv c s \<longleftrightarrow>
     (let backoff = max (discoveryIdleBackoffMs config) 0; lastScan = last_discovery_at (chain_states s c)
      in backoff > 0 \<and> getDueRetryItems c (sv_now sv) s = [] \<and> lastScan > 0 \<and> sv_now sv - lastScan < backoff)"

definition note_idle :: "('a relayer_config_scheme) \<Rightarrow> services \<Rightarrow> chain \<Rightarrow> relayer_state \<Rightarrow> relayer_state" where
  "note_idle config sv c s =
     (if max (discoveryIdleBackoffMs config) 0 > 0 \<and> getDueRetryItems c (sv_now sv) s = []
      then (if idle_skip config sv c s then incrementMetric ''discovery_idle_skips_total'' 1 s else s)
      else upd_chain c (\<lambda>cs. cs\<lparr>idle_discovery_skips := 0\<rparr>) s)"

definition discover_blocks ::
  "('a relayer_config_scheme) \<Rightarrow> services \<Rightarrow> chain_io \<Rightarrow> chain \<Rightarrow> discovery \<Rightarrow> world
     \<Rightarrow> (scan_report \<times> string list) result \<times> world" where
  "discover_blocks config sv io c dc w =
     (let w1 = on_state (upd_chain c (\<lambda>cs. cs\<lparr>last_discovery_at := sv_now sv\<rparr>)) w in
      then_world (lift_call (dc_getLatestBlock dc) w1) (\<lambda>latestBlock w1.
        let confirmedTip = latestBlock - max (confirmations config c) 0 in
        if confirmedTip < 0 then (Inr (no_scan, []), w1)
        else
          (let (from, s2) = resolveChainFromBlock config c confirmedTip (w_state w1);
               w2 = on_state (\<lambda>_. s2) w1;
               to = scan_to confirmedTip from (maxBlocksPerTick config)
           in if \<not> js_le from (Fin confirmedTip) then (Inr (no_scan, []), w2)
              else then_world (lift_call (dc_scan dc from to) w2)
                (process_window config sv io c on_last_block from to confirmedTip))))"

text \<open>The work before discovery that both lanes share.\<close>

definition prepare_chain ::
  "('a relayer_config_scheme) \<Rightarrow> services \<Rightarrow> chain \<Rightarrow> world \<Rightarrow> unit result \<times> world" where
  "prepare_chain config sv c w =
     then_world (syncManualActions sv c w) (\<lambda>_ w.
     then_world (quarantineDurableBacklogBelowRequestFloor config sv c w) (\<lambda>_ w.
     then_world (hydrateDurableQueue config sv c w) (\<lambda>_ w.
       let (pruned, s1) = pruneRetryQueueBelowRequestFloor c (getRequestCursorFloor config c) (w_state w);
           w1 = on_state (\<lambda>_. s1) w
       in (Inr (), if pruned > 0 then persistState w1 else w1))))"

text \<open>A \<open>catch\<close> that counts the failure and goes on with nothing scanned.\<close>

definition caught :: "string \<Rightarrow> 'a \<Rightarrow> 'a result \<times> world \<Rightarrow> 'a \<times> world" where
  "caught metric none m =
     (case m of (Inr x, w) \<Rightarrow> (x, w) | (Inl e, w) \<Rightarrow> (none, on_state (incrementMetric metric 1) w))"

record chain_report =
  cr_scan :: scan_report
  cr_retries :: "outcome list"
  cr_reconciliation :: "scan_report option"

definition nothing_done :: chain_report where
  "nothing_done = \<lparr>cr_scan = no_scan, cr_retries = [], cr_reconciliation = Some no_scan\<rparr>"

definition processChain ::
  "('a relayer_config_scheme) \<Rightarrow> services \<Rightarrow> chain_io \<Rightarrow> chain \<Rightarrow> discovery \<Rightarrow> world \<Rightarrow> chain_report result \<times> world" where
  "processChain config sv io c dc w =
     (if \<not> dc_hasConfig dc then (Inr nothing_done, w)
      else then_world (prepare_chain config sv c w) (\<lambda>_ w1.
        let skip = idle_skip config sv c (w_state w1);
            w2 = on_state (note_idle config sv c) w1;
            ((scan, observed), w3) = (if skip then ((no_scan, []), w2)
              else caught ''discovery_failures_total'' (no_scan, []) (discover_blocks config sv io c dc w2))
        in then_world (runDueRetries config sv io c w3) (\<lambda>retries w4.
             let (rec, w5) = caught ''reconciliation_failures_total'' None
                   (case reconcilePendingRequests config sv io c dc observed w4 of (r, w) \<Rightarrow> (map_sum id Some r, w))
             in (Inr \<lparr>cr_scan = scan, cr_retries = retries, cr_reconciliation = rec\<rparr>, w5))))"

section \<open>Discovery by request id\<close>

text \<open>
  The body of the \<open>try\<close>: with the cursor past the latest request it runs the due retries and
  returns from the tick (\<open>Inl\<close>), otherwise it scans (\<open>Inr\<close>).
\<close>

definition request_lane ::
  "('a relayer_config_scheme) \<Rightarrow> services \<Rightarrow> chain_io \<Rightarrow> chain \<Rightarrow> discovery \<Rightarrow> world
     \<Rightarrow> (outcome list + scan_report) result \<times> world" where
  "request_lane config sv io c dc w =
     then_world (lift_call (case dc_getLatestRequestId dc of Some r \<Rightarrow> r
         | None \<Rightarrow> Inl ''options.getLatestRequestId is not a function'') w) (\<lambda>latest w.
       let (from, s1) = resolveRequestCursor config c latest (w_state w);
           w1 = on_state (\<lambda>_. s1) w;
           to = scan_to latest from (maxBlocksPerTick config)
       in if js_lt (Fin latest) from
          then then_world (runDueRetries config sv io c w1) (\<lambda>retries w2. (Inr (Inl retries), w2))
          else then_world (lift_call (dc_scan dc from to) w1) (\<lambda>scanned w1.
            then_world (process_window config sv io c on_last_request_id from to latest scanned w1)
              (\<lambda>report w2. (Inr (Inr (fst report)), w2))))"

definition processChainByRequestCursor ::
  "('a relayer_config_scheme) \<Rightarrow> services \<Rightarrow> chain_io \<Rightarrow> chain \<Rightarrow> discovery \<Rightarrow> world \<Rightarrow> chain_report result \<times> world" where
  "processChainByRequestCursor config sv io c dc w =
     (if \<not> dc_hasConfig dc then (Inr \<lparr>cr_scan = no_scan, cr_retries = [], cr_reconciliation = None\<rparr>, w)
      else then_world (prepare_chain config sv c w) (\<lambda>_ w1.
        let (lane, w2) = caught ''discovery_failures_total'' (Inr no_scan) (request_lane config sv io c dc w1)
        in case lane of
             Inl retries \<Rightarrow> (Inr \<lparr>cr_scan = no_scan, cr_retries = retries, cr_reconciliation = None\<rparr>, w2)
           | Inr scan \<Rightarrow> then_world (runDueRetries config sv io c w2) (\<lambda>retries w3.
               (Inr \<lparr>cr_scan = scan, cr_retries = retries, cr_reconciliation = None\<rparr>, w3))))"

end
