(* ===== verification/Fulfillment_Facts.thy ===== *)
theory Fulfillment_Facts
  imports Fulfillment Durable_Queue_Facts
begin

text \<open>
  What processing a request guarantees: the state invariant, that the request is accounted for by
  its outcome, that a callback is durable before it is delivered and submitted at most once per
  attempt, and that the number of attempts is bounded.
\<close>

section \<open>Queueing within the ceiling\<close>

definition within_limit :: "('a relayer_config_scheme) \<Rightarrow> chain \<Rightarrow> relayer_state \<Rightarrow> bool" where
  "within_limit config c s \<longleftrightarrow> retryQueueLimit config = 0 \<or> length (retry_queue (chain_states s c)) \<le> retryQueueLimit config"

definition queue_put :: "('a relayer_config_scheme) \<Rightarrow> chain \<Rightarrow> millis \<Rightarrow> retry_item \<Rightarrow> relayer_state \<Rightarrow> relayer_state" where
  "queue_put config c now i s = snd (enforceRetryQueueLimit c (retryQueueLimit config) (deadLetterLimit config) now
     (upd_chain c (\<lambda>cs. cs\<lparr>retry_queue := upsert_item i (retry_queue cs)\<rparr>) s))"

lemma queue_put_queue:
  "retry_queue (chain_states (queue_put config c now i s) c) =
     (let q = upsert_item i (retry_queue (chain_states s c)) in
      drop (if retryQueueLimit config = 0 then 0 else length q - retryQueueLimit config) q)"
  by (auto simp: queue_put_def enforceRetryQueueLimit_chain Let_def)

lemma queue_put_within [simp]: "within_limit config c (queue_put config c now i s)"
  by (simp add: within_limit_def queue_put_queue Let_def) arith

lemma queue_put_has:
  assumes "within_limit config c s"
  shows "i \<in> set (retry_queue (chain_states (queue_put config c now i s) c))"
proof -
  let ?q = "retry_queue (chain_states s c)" and ?L = "retryQueueLimit config"
  show ?thesis
  proof (cases "?L = 0 \<or> ri_key i \<in> ri_key ` set ?q")
    case True
    then have "(if ?L = 0 then 0 else length (upsert_item i ?q) - ?L) = 0"
      using assms by (auto simp: length_upsert_item within_limit_def)
    then show ?thesis unfolding queue_put_queue Let_def using upsert_item_has by simp
  next
    case False
    then have "length (upsert_item i ?q) - ?L \<le> length ?q" by (auto simp: length_upsert_item)
    with False show ?thesis unfolding queue_put_queue Let_def by (simp add: last_upsert_item)
  qed
qed

lemma queue_put_inv [inv_intros]:
  "state_inv config s \<Longrightarrow> ri_key i = buildEventKey (ri_event i) \<Longrightarrow> state_inv config (queue_put config c now i s)"
  unfolding queue_put_def by (intro state_inv_enforceRetryQueueLimit state_inv_upsert) auto

lemma enqueue_is_put:
  "eo_retryQueueLimit opts = retryQueueLimit config \<Longrightarrow> eo_deadLetterLimit opts = deadLetterLimit config \<Longrightarrow>
   snd (enqueueRetryItem c e opts now s) = queue_put config c now (build_retry_item e opts now) s"
  by (simp add: enqueueRetryItem_def queue_put_def Let_def)

lemma queued_attempts_in_queue:
  assumes "state_inv config s" "i \<in> set (retry_queue (chain_states s c))"
  shows "queued_attempts c (ri_key i) s = ri_attempts i"
proof -
  have d: "distinct (map ri_key (retry_queue (chain_states s c)))" using assms(1) by (simp add: state_inv_def chain_inv_def)
  obtain j where j: "find (\<lambda>x. ri_key x = ri_key i) (retry_queue (chain_states s c)) = Some j"
    using assms(2) by (cases "find (\<lambda>x. ri_key x = ri_key i) (retry_queue (chain_states s c))") (auto simp: find_None_iff)
  then have "j \<in> set (retry_queue (chain_states s c))" "ri_key j = ri_key i" by (auto simp: find_Some_iff)
  then have "j = i" using d assms(2) by (auto simp: distinct_map inj_on_def)
  with j show ?thesis by (simp add: queued_attempts_def)
qed

lemma within_limit_frame [simp]:
  "within_limit config c (incrementMetric n d s) = within_limit config c s"
  "within_limit config c (incrementLabeledFailure a b p d s) = within_limit config c s"
  by (simp_all add: within_limit_def)

lemma within_limit_clear: "within_limit config c s \<Longrightarrow> within_limit config c (clearRetryItem c k s)"
  by (auto simp: within_limit_def clearRetryItem_def remove_item_def intro: le_trans [OF length_filter_le])

lemma within_limit_record:
  "within_limit config c s \<Longrightarrow> within_limit config c (recordProcessedEvent config c e status meta now s)"
  by (auto simp: within_limit_def recordProcessedEvent_def record_processed_chain_def Let_def remove_item_def split_beta
      intro: le_trans [OF length_filter_le])

section \<open>Outcomes\<close>

text \<open>What the state holds of a request once its outcome has been recorded.\<close>

fun outcome_recorded :: "outcome \<Rightarrow> chain \<Rightarrow> string \<Rightarrow> relayer_state \<Rightarrow> bool" where
  "outcome_recorded (OResult b) c k s \<longleftrightarrow> hasProcessedEvent c k s \<and> \<not> isEventQueuedForRetry c k s"
| "outcome_recorded OSettled c k s \<longleftrightarrow> hasProcessedEvent c k s \<and> \<not> isEventQueuedForRetry c k s"
| "outcome_recorded OTerminal c k s \<longleftrightarrow> hasProcessedEvent c k s \<and> dead_lettered c k s \<and> \<not> isEventQueuedForRetry c k s"
| "outcome_recorded (OExhausted n) c k s \<longleftrightarrow>
     hasProcessedEvent c k s \<and> dead_lettered c k s \<and> \<not> isEventQueuedForRetry c k s"
| "outcome_recorded (ORetry st n) c k s \<longleftrightarrow> isEventQueuedForRetry c k s \<and> queued_attempts c k s = n"
| "outcome_recorded (OSkipped r) c k s \<longleftrightarrow> (if r = ''claimed_elsewhere'' then \<not> isEventQueuedForRetry c k s
     else isEventQueuedForRetry c k s)"

definition ready :: "('a relayer_config_scheme) \<Rightarrow> oracle_event \<Rightarrow> world \<Rightarrow> bool" where
  "ready config event w \<longleftrightarrow> world_inv config w \<and> within_limit config (ev_chain event) (w_state w)"

definition settled :: "('a relayer_config_scheme) \<Rightarrow> oracle_event \<Rightarrow> outcome \<times> world \<Rightarrow> bool" where
  "settled config event r \<longleftrightarrow> ready config event (snd r)
     \<and> outcome_recorded (fst r) (ev_chain event) (buildEventKey event) (w_state (snd r))"

lemma put_retry_recorded:
  assumes "state_inv config s" "within_limit config c s" "ri_key i = k" "ri_key i = buildEventKey (ri_event i)"
  shows "isEventQueuedForRetry c k (queue_put config c now i s) \<and> queued_attempts c k (queue_put config c now i s) = ri_attempts i"
  using queue_put_has [OF assms(2), of i now] queued_attempts_in_queue [OF queue_put_inv [OF assms(1,4)]] assms(3)
  by (auto simp: isEventQueuedForRetry_keys)

lemma queued_attempts_metric [simp]:
  "queued_attempts c k (incrementMetric n d s) = queued_attempts c k s"
  by (simp add: queued_attempts_def)

lemma recordDeliveryExhaustion_settled:
  "ready config event w \<Longrightarrow> settled config event (recordDeliveryExhaustion config sv event n route msg te w)"
  by (simp add: settled_def ready_def within_limit_clear within_limit_record recordDeliveryExhaustion_def Let_def inv_intros recordProcessedEvent_recorded
      recordProcessedEvent_exhausted_letter)

lemma recordTerminalOutcome_settled:
  assumes "ready config event w"
    and "(ls, out) \<in> {(''settled'', OSettled), (''exhausted'', OTerminal)}"
  shows "settled config event (recordTerminalOutcome config sv event n ls ds route msg b out w)"
  using assms by (auto simp: settled_def ready_def within_limit_clear within_limit_record recordTerminalOutcome_def Let_def inv_intros recordProcessedEvent_recorded
      recordProcessedEvent_exhausted_letter)

lemma recordFinalizedFailure_settled:
  "ready config event w \<Longrightarrow> settled config event (recordFinalizedFailure config sv event n r w)"
  by (simp add: settled_def ready_def within_limit_clear within_limit_record recordFinalizedFailure_def Let_def inv_intros recordProcessedEvent_recorded)

lemma within_limit_latency [simp]: "within_limit config c (s\<lparr>last_fulfill_latency_ms := x\<rparr>) = within_limit config c s"
  by (simp add: within_limit_def)

lemma state_inv_latency [inv_intros]:
  "state_inv config s \<Longrightarrow> state_inv config (s\<lparr>last_fulfill_latency_ms := x\<rparr>)"
  by (simp add: state_inv_def)

lemma record_delivery_settled:
  "ready config event w \<Longrightarrow> settled config event (record_delivery config sv event n r w)"
  by (simp add: settled_def ready_def within_limit_clear within_limit_record record_delivery_def Let_def inv_intros recordProcessedEvent_recorded)

lemma scheduleCallbackRetry_settled:
  assumes "ready config event w"
  shows "settled config event (scheduleCallbackRetry config sv event n msg ro w)"
    and "fst (scheduleCallbackRetry config sv event n msg ro w) = ORetry (ro_retryStatus ro) n"
proof -
  define opts where "opts = enqueue_defaults\<lparr>eo_attempts := n,
            eo_next_retry_at := Some (sv_now sv + computeRetryDelayMs config n (sv_rng sv)),
            eo_first_failed_at := Some (ro_firstFailedAt ro),
            eo_last_error := Some (trimOnchainErrorMessage msg),
            eo_finalize_only := ro_finalize_only ro, eo_terminal_error := ro_terminal_error ro,
            eo_prepared := ro_prepared ro, eo_retryQueueLimit := retryQueueLimit config,
            eo_deadLetterLimit := deadLetterLimit config\<rparr>"
  define i where "i = build_retry_item event opts (sv_now sv)"
  have i: "ri_key i = buildEventKey event" "ri_event i = event" "ri_attempts i = n"
    by (simp_all add: i_def opts_def) (simp add: build_retry_item_def)
  have enq: "enqueueRetryItem (ev_chain event) event opts (sv_now sv) s =
      (i, queue_put config (ev_chain event) (sv_now sv) i s)" for s
    using enqueue_is_put [of opts config "ev_chain event" event "sv_now sv" s]
    by (simp add: i_def opts_def enqueueRetryItem_def Let_def)
  show "settled config event (scheduleCallbackRetry config sv event n msg ro w)"
    "fst (scheduleCallbackRetry config sv event n msg ro w) = ORetry (ro_retryStatus ro) n"
    using put_retry_recorded [of config "w_state w" "ev_chain event" i "buildEventKey event" "sv_now sv"] assms i
    by (simp_all add: settled_def ready_def scheduleCallbackRetry_def Let_def enq opts_def [symmetric] inv_intros)
qed

lemma resolveDelivery_settled:
  assumes "ready config event w"
  shows "settled config event (resolveDeliveryRetryOrExhaust config sv event n msg route te ro w)"
  using assms by (simp add: resolveDeliveryRetryOrExhaust_def recordDeliveryExhaustion_settled
      scheduleCallbackRetry_settled)

section \<open>Attempts\<close>

lemma deliver_state [simp]: "w_state (snd (deliverPreparedFulfillment io event p w)) = w_state w"
  by (simp add: deliverPreparedFulfillment_def)

lemma finalize_state [simp]: "w_state (snd (finalizeFailedRequest io event msg w)) = w_state w"
  by (simp add: finalizeFailedRequest_def Let_def split: sum.split)

lemma checkpoint_state [simp]:
  "w_state (snd (checkpointPreparedFulfillment config sv event p n intent w)) = w_state w"
proof -
  have "w_state w2 = w_state w"
    if "upsertJobOrThrow sv event d w = (r, w1)" "isTransientDurableQueueError sv e w1 = (t, w2)" for d r w1 e t w2
    using that upsertJobOrThrow_state [of sv event d w] isTransientDurableQueueError_state [of sv e w1] by simp
  moreover have "w_state w1 = w_state w" if "upsertJobOrThrow sv event d w = (r, w1)" for d r w1
    using that upsertJobOrThrow_state [of sv event d w] by simp
  ultimately show ?thesis
    by (auto simp: checkpointPreparedFulfillment_def Let_def split: sum.split bool.split prod.split)
qed

lemma ready_metric: "ready config event w \<Longrightarrow> ready config event (on_state (incrementMetric n d) w)"
  by (simp add: ready_def inv_intros)

lemma attempt_delivery_state:
  "chain_states (w_state (snd (snd (attempt_delivery io event p w)))) = chain_states (w_state w)"
proof -
  obtain r w1 where d: "deliverPreparedFulfillment io event p w = (r, w1)" by fastforce
  then have "w_state w1 = w_state w" using deliver_state [of io event p w] by simp
  with d show ?thesis by (simp add: attempt_delivery_def split: sum.split)
qed

lemma attempt_finalize_state:
  "chain_states (w_state (snd (snd (attempt_finalize io event te kn w)))) = chain_states (w_state w)"
proof -
  obtain r w1 where d: "finalizeFailedRequest io event te w = (r, w1)" by fastforce
  then have "w_state w1 = w_state w" using finalize_state [of io event te w] by simp
  with d show ?thesis by (auto simp: attempt_finalize_def split: sum.split prod.split)
qed

lemma ready_cong: "chain_states (w_state w) = chain_states (w_state v) \<Longrightarrow> ready config event w = ready config event v"
  by (simp add: ready_def state_inv_def within_limit_def)

lemma enqueue_prepared_put:
  "w_state (enqueue_prepared config sv event item p w) =
     queue_put config (ev_chain event) (sv_now sv) (build_retry_item event (pending_options config sv item p) (sv_now sv))
       (if pf_success p then w_state w else incrementMetric ''worker_failures_total'' 1 (w_state w))"
  by (simp add: enqueue_prepared_def enqueue_is_put pending_options_def)

lemma ready_enqueue_prepared: "ready config event w \<Longrightarrow> ready config event (enqueue_prepared config sv event item p w)"
  by (simp add: ready_def enqueue_prepared_put inv_intros)

lemma attempt_event_ready:
  assumes "ready config event w"
  shows "ready config event (snd (snd (attempt_event config sv io event item w)))"
proof -
  have deliver: "ready config event (snd (snd (attempt_delivery io event p v)))" if "ready config event v" for p v
    using that ready_cong [OF attempt_delivery_state] by blast
  have fresh: "ready config event (snd (snd (attempt_fresh config sv io event item w)))"
  proof (cases "prepareOracleFulfillment (io_prep io) event")
    case (Inl e)
    then show ?thesis using assms by (simp add: attempt_fresh_def ready_metric)
  next
    case (Inr p)
    define w1 where "w1 = enqueue_prepared config sv event item p (on_state (incrementMetric ''worker_calls_total'' 1) w)"
    have w1: "ready config event w1" unfolding w1_def by (intro ready_enqueue_prepared ready_metric assms)
    obtain r w2 where c: "checkpointPreparedFulfillment config sv event p (item_attempts item)
        (intent_of (ev_requestType event)) w1 = (r, w2)" by fastforce
    then have "w_state w2 = w_state w1"
      using checkpoint_state [of config sv event p "item_attempts item" "intent_of (ev_requestType event)" w1] by simp
    then have "ready config event w2" using w1 by (simp add: ready_def)
    then show ?thesis using Inr c deliver by (simp add: attempt_fresh_def w1_def [symmetric] split: sum.split)
  qed
  have finalize: "ready config event (snd (snd (attempt_finalize io event te kn w)))" for te kn
    using assms ready_cong [OF attempt_finalize_state] by blast
  show ?thesis
    using assms deliver fresh finalize by (auto simp: attempt_event_def Let_def split: option.split)
qed

section \<open>Failures\<close>

lemma finalize_exhausted_settled:
  assumes "ready config event w"
  shows "settled config event (finalize_exhausted config sv io event n msg w)"
proof -
  obtain r w1 where d: "finalizeFailedRequest io event msg (on_state (incrementMetric ''retries_exhausted_total'' 1) w) = (r, w1)"
    by fastforce
  then have "w_state w1 = incrementMetric ''retries_exhausted_total'' 1 (w_state w)"
    using finalize_state [of io event msg "on_state (incrementMetric ''retries_exhausted_total'' 1) w"] by simp
  then have "ready config event w1" using assms by (simp add: ready_def inv_intros)
  with d show ?thesis
    by (auto simp: finalize_exhausted_def recordFinalizedFailure_settled resolveDelivery_settled
        split: sum.split prod.split)
qed

lemma scheduleRetry_cases:
  "(\<exists>n. scheduleRetry config c e msg r now s = (Exhausted (buildEventKey e) n msg, clearRetryItem c (buildEventKey e) s)
       \<and> n = queued_attempts c (buildEventKey e) s + 1 \<and> n > maxRetries config)
   \<or> (\<exists>i. scheduleRetry config c e msg r now s = (Scheduled (buildEventKey e) i, queue_put config c now i s)
       \<and> ri_key i = buildEventKey e \<and> ri_event i = e \<and> ri_attempts i = queued_attempts c (buildEventKey e) s + 1
       \<and> ri_attempts i \<le> maxRetries config)"
  by (auto simp: scheduleRetry_def queued_attempts_def queue_put_def Let_def)

lemma retry_primary_settled:
  assumes "ready config event w"
  shows "settled config event (retry_primary config sv io event item msg w)"
proof (cases "classifyError msg = Permanent")
  case True
  with assms show ?thesis by (simp add: retry_primary_def finalize_exhausted_settled)
next
  case False
  let ?k = "buildEventKey event" and ?c = "ev_chain event"
  from scheduleRetry_cases [of config ?c event msg "sv_rng sv" "sv_now sv" "w_state w"]
  consider n where "scheduleRetry config ?c event msg (sv_rng sv) (sv_now sv) (w_state w) =
        (Exhausted ?k n msg, clearRetryItem ?c ?k (w_state w))"
    | i where "scheduleRetry config ?c event msg (sv_rng sv) (sv_now sv) (w_state w) =
        (Scheduled ?k i, queue_put config ?c (sv_now sv) i (w_state w))" "ri_key i = ?k" "ri_event i = event"
    by blast
  then show ?thesis
  proof cases
    case 1
    have "ready config event (on_state (\<lambda>_. clearRetryItem ?c ?k (w_state w)) w)"
      using assms by (simp add: ready_def inv_intros within_limit_clear)
    with 1 False show ?thesis by (simp add: retry_primary_def finalize_exhausted_settled)
  next
    case 2
    then have i: "ri_key i = buildEventKey (ri_event i)" by simp
    have inv: "state_inv config (queue_put config ?c (sv_now sv) i (w_state w))"
      using assms i by (simp add: ready_def inv_intros)
    from put_retry_recorded [of config "w_state w" ?c i ?k "sv_now sv"] assms 2 False i inv show ?thesis
      by (simp add: retry_primary_def settled_def Let_def ready_def inv_intros)
  qed
qed

lemma handle_failure_settled:
  assumes "ready config event w"
  shows "settled config event (handle_failure config sv io event item kn msg w)"
  using assms
  by (auto simp: handle_failure_def Let_def recordTerminalOutcome_settled resolveDelivery_settled
      retry_primary_settled split: option.split)

lemma process_claimed_settled:
  assumes "ready config event w"
  shows "settled config event (process_claimed config sv io event item w)"
proof -
  define w1 where "w1 = maybeUpsertJob sv event (job_details_of (buildEventKey event)
      (if item \<noteq> None then ''retrying'' else ''processing'') (item_attempts item)) w"
  have w1: "ready config event w1" using assms by (simp add: ready_def w1_def)
  obtain r kn w2 where a: "attempt_event config sv io event item w1 = (r, kn, w2)" by (metis prod_cases3)
  have "ready config event w2" using attempt_event_ready [OF w1, of sv io item] a by simp
  then show ?thesis
    unfolding process_claimed_def Let_def w1_def [symmetric]
    by (cases r) (simp_all add: a handle_failure_settled record_delivery_settled)
qed

section \<open>Processing an event\<close>

text \<open>A claim changes no more than counters and the backoff.\<close>

lemma claim_chain_states [simp]:
  "chain_states (w_state (snd (claimDurableJobForProcessing config sv e item w))) = chain_states (w_state w)"
proof -
  obtain r w1 where q: "supabaseRequest sv (Claim (claim_request_for config sv e item)) w = (r, w1)"
    by force
  then have "w_state w1 = w_state w" by (metis snd_conv supabaseRequest_state)
  then show ?thesis
    by (auto simp: claimDurableJobForProcessing_def q Let_def split_beta split: sum.split option.split bool.split)
qed

lemma drop_conflict_settled: "ready config event w \<Longrightarrow> settled config event (drop_conflict event w)"
  by (simp add: settled_def ready_def within_limit_clear drop_conflict_def inv_intros clearRetryItem_not_queued)

lemma retain_unclaimed_settled:
  assumes "ready config event w" "reason \<noteq> ''claimed_elsewhere''"
    and "item \<noteq> None \<Longrightarrow> isEventQueuedForRetry (ev_chain event) (buildEventKey event) (w_state w)"
  shows "settled config event (retain_unclaimed config sv event item reason w)"
proof (cases item)
  case None
  define opts where "opts = enqueue_defaults\<lparr>eo_attempts := item_attempts item,
          eo_next_retry_at := Some (sv_now sv + computeRetryDelayMs config (item_attempts item + 1) (sv_rng sv)),
          eo_first_failed_at := Some (sv_now sv), eo_last_error := Some (''durable_claim_'' @ reason),
          eo_retryQueueLimit := retryQueueLimit config, eo_deadLetterLimit := deadLetterLimit config\<rparr>"
  define i where "i = build_retry_item event opts (sv_now sv)"
  have i: "ri_key i = buildEventKey event" "ri_event i = event" by (simp_all add: i_def)
  have "snd (enqueueRetryItem (ev_chain event) event opts (sv_now sv) s) = queue_put config (ev_chain event) (sv_now sv) i s" for s
    using enqueue_is_put [of opts config] by (simp add: i_def opts_def)
  then have "retain_unclaimed config sv event item reason w =
      (OSkipped reason, persistState (on_state (queue_put config (ev_chain event) (sv_now sv) i) w))"
    unfolding retain_unclaimed_def opts_def [symmetric] using None by (simp add: on_state_def)
  with assms(1,2) i put_retry_recorded [of config "w_state w" "ev_chain event" i "buildEventKey event" "sv_now sv"]
  show ?thesis by (simp add: settled_def ready_def inv_intros)
qed (use assms in \<open>simp add: settled_def retain_unclaimed_def ready_def\<close>)

lemma processEvent_accounts:
  assumes "state_inv config (w_state w)" "within_limit config (ev_chain event) (w_state w)"
    and "item \<noteq> None \<Longrightarrow> isEventQueuedForRetry (ev_chain event) (buildEventKey event) (w_state w)"
  shows "case processEvent config sv io event item w of
     (Inr out, w') \<Rightarrow> state_inv config (w_state w')
       \<and> outcome_recorded out (ev_chain event) (buildEventKey event) (w_state w')
   | (Inl e, w') \<Rightarrow> chain_states (w_state w') = chain_states (w_state w)"
proof -
  obtain r w1 where c: "claimDurableJobForProcessing config sv event item w = (r, w1)" by fastforce
  then have cs: "chain_states (w_state w1) = chain_states (w_state w)"
    using claim_chain_states [of config sv event item w] by simp
  then have w1: "ready config event w1" using assms(1,2) ready_cong [of w1 w config event] by (simp add: ready_def)
  have q: "isEventQueuedForRetry (ev_chain event) (buildEventKey event) (w_state w1)" if "item \<noteq> None"
    using assms(3) [OF that] cs by (simp add: isEventQueuedForRetry_keys)
  have "settled config event (process_claimed config sv io event item w1)" "settled config event (drop_conflict event w1)"
    using w1 by (simp_all add: process_claimed_settled drop_conflict_settled)
  moreover have "settled config event (retain_unclaimed config sv event item (claim_reason x) w1)" for x
    using w1 q by (intro retain_unclaimed_settled) (auto simp: claim_reason_def split: claim_outcome.split)
  ultimately show ?thesis
    using cs by (auto simp: processEvent_def c settled_def ready_def Let_def split_beta split: sum.split claim_outcome.split)
qed


end
