(* ===== verification/Fulfillment_Delivery.thy ===== *)
theory Fulfillment_Delivery
  imports Fulfillment_Facts Fulfillment_Prepare_Facts
begin

text \<open>
  What one call of \<open>processEvent\<close> submits to the chain: at most one transaction, and a fresh
  fulfillment only after the snapshot that holds it. The retry budget of the delivery lanes.
\<close>

section \<open>Submissions of a trace\<close>

fun is_submission :: "effect \<Rightarrow> bool" where
  "is_submission (EDeliver e p) = True"
| "is_submission (EFinalize e m) = True"
| "is_submission (EPersist s) = False"
| "is_submission (EWrite x) = False"

definition submissions :: "effect list \<Rightarrow> effect list" where
  "submissions tr = filter is_submission tr"

lemma submissions_simps [simp]:
  "submissions [] = []" "submissions (xs @ ys) = submissions xs @ submissions ys"
  "submissions (x # xs) = (if is_submission x then x # submissions xs else submissions xs)"
  by (simp_all add: submissions_def)

text \<open>The retry item a snapshot holds for the request delivers the same callback.\<close>

definition same_callback :: "prepared_fulfillment \<Rightarrow> prepared_fulfillment \<Rightarrow> bool" where
  "same_callback p q \<longleftrightarrow> prepared_encoding p = prepared_encoding q
     \<and> pf_verification_signature p = pf_verification_signature q"

definition holds_callback :: "oracle_event \<Rightarrow> prepared_fulfillment \<Rightarrow> relayer_state \<Rightarrow> bool" where
  "holds_callback event p s \<longleftrightarrow> (\<exists>i \<in> set (retry_queue (chain_states s (ev_chain event))).
     ri_key i = buildEventKey event \<and> (case ri_prepared i of None \<Rightarrow> False | Some q \<Rightarrow> same_callback q p))"

text \<open>Every delivery of a trace is a redelivery of \<open>kn\<close> or follows a snapshot that holds it.\<close>

fun durable_first :: "oracle_event \<Rightarrow> prepared_fulfillment option \<Rightarrow> relayer_state list \<Rightarrow> effect list \<Rightarrow> bool" where
  "durable_first event kn seen [] = True"
| "durable_first event kn seen (EPersist s # tr) = durable_first event kn (s # seen) tr"
| "durable_first event kn seen (EDeliver e p # tr) =
     (e = event \<and> (kn = Some p \<or> list_ex (holds_callback event p) seen) \<and> durable_first event kn seen tr)"
| "durable_first event kn seen (EWrite x # tr) = durable_first event kn seen tr"
| "durable_first event kn seen (EFinalize e m # tr) = (e = event \<and> durable_first event kn seen tr)"

fun snapshots :: "effect list \<Rightarrow> relayer_state list" where
  "snapshots [] = []"
| "snapshots (EPersist s # tr) = snapshots tr @ [s]"
| "snapshots (x # tr) = snapshots tr"

lemma durable_first_append:
  "durable_first event kn seen (xs @ ys) \<longleftrightarrow>
     durable_first event kn seen xs \<and> durable_first event kn (snapshots xs @ seen) ys"
  by (induction event kn seen xs rule: durable_first.induct) auto

lemma durable_first_quiet: "submissions xs = [] \<Longrightarrow> durable_first event kn seen xs"
  by (induction event kn seen xs rule: durable_first.induct) auto

section \<open>Quiet steps\<close>

text \<open>A step that extends the trace without submitting anything.\<close>

definition quiet :: "world \<Rightarrow> world \<Rightarrow> bool" where
  "quiet w w' \<longleftrightarrow> (\<exists>tr. w_trace w' = w_trace w @ tr \<and> submissions tr = [])"

lemma quiet_refl: "w_trace w' = w_trace w \<Longrightarrow> quiet w w'"
  by (simp add: quiet_def)

lemma quiet_trans: "quiet u v \<Longrightarrow> quiet v w \<Longrightarrow> quiet u w"
  by (auto simp: quiet_def)

lemma quiet_persist: "quiet w (persistState w)"
  by (simp add: quiet_def)

lemma quiet_request: "quiet w (snd (supabaseRequest sv x w))"
  by (auto simp: quiet_def supabaseRequest_trace)

lemma quiet_mark: "quiet w (snd (mark_unavailable sv m w))"
  by (simp add: quiet_def)

lemma quiet_on_state: "quiet w (on_state f w)"
  by (simp add: quiet_def)

lemma quiet_maybeUpsert: "quiet w (maybeUpsertJob sv e d w)"
  by (simp add: maybeUpsertJob_def quiet_request quiet_refl)

lemma quiet_upsert: "quiet w (snd (upsertJobOrThrow sv e d w))"
  using quiet_request by (simp add: upsertJobOrThrow_def quiet_refl split_beta)

lemma quiet_transient: "quiet w (snd (isTransientDurableQueueError sv m w))"
  using quiet_mark [of w sv m] by (simp add: isTransientDurableQueueError_def split_beta)

lemmas quiet_steps = quiet_persist quiet_request quiet_on_state quiet_maybeUpsert quiet_upsert quiet_transient

lemma quiet_checkpoint: "quiet w (snd (checkpointPreparedFulfillment config sv event p n intent w))"
proof -
  have "quiet w w2" if "upsertJobOrThrow sv event d w = (r, w1)" "isTransientDurableQueueError sv e w1 = (t, w2)" for d r w1 e t w2
    using quiet_trans [OF quiet_upsert quiet_transient] that by (metis snd_conv)
  moreover have "quiet w w1" if "upsertJobOrThrow sv event d w = (r, w1)" for d r w1
    using quiet_upsert that by (metis snd_conv)
  ultimately show ?thesis
    by (auto simp: checkpointPreparedFulfillment_def Let_def quiet_refl quiet_maybeUpsert
        split: sum.split bool.split prod.split)
qed

lemma quiet_claim: "quiet w (snd (claimDurableJobForProcessing config sv event item w))"
proof -
  have "quiet w w2" if "supabaseRequest sv x w = (r, w1)" "isTransientDurableQueueError sv e w1 = (t, w2)" for x r w1 e t w2
    using quiet_trans [OF quiet_request quiet_transient] that by (metis snd_conv)
  moreover have "quiet w w1" if "supabaseRequest sv x w = (r, w1)" for x r w1
    using quiet_request that by (metis snd_conv)
  ultimately show ?thesis
    by (auto simp: claimDurableJobForProcessing_def Let_def quiet_refl quiet_on_state
        split: sum.split bool.split prod.split option.split)
qed

lemma quiet_committed: "quiet w (maybeUpsertJob sv e d (persistState (on_state f w)))"
  by (intro quiet_trans [OF quiet_on_state quiet_trans [OF quiet_persist quiet_maybeUpsert]])

lemma quiet_record:
  "quiet w (snd (recordDeliveryExhaustion config sv event n route msg te w))"
  "quiet w (snd (recordTerminalOutcome config sv event n ls ds route msg b out w))"
  "quiet w (snd (recordFinalizedFailure config sv event n r w))"
  "quiet w (snd (record_delivery config sv event n r w))"
  "quiet w (snd (scheduleCallbackRetry config sv event n msg ro w))"
  by (simp_all add: recordDeliveryExhaustion_def recordTerminalOutcome_def recordFinalizedFailure_def record_delivery_def
      scheduleCallbackRetry_def Let_def split_beta quiet_committed)

lemma quiet_resolve: "quiet w (snd (resolveDeliveryRetryOrExhaust config sv event n msg route te ro w))"
  by (simp add: resolveDeliveryRetryOrExhaust_def quiet_record)

section \<open>What each lane submits\<close>

text \<open>
  A step that submits at most one transaction for the request (none when \<open>b\<close> is false), a delivery
  only as \<open>durable_first\<close> allows.
\<close>

definition submits :: "oracle_event \<Rightarrow> prepared_fulfillment option \<Rightarrow> bool \<Rightarrow> world \<Rightarrow> world \<Rightarrow> bool" where
  "submits event kn b w w' \<longleftrightarrow> (\<exists>tr. w_trace w' = w_trace w @ tr \<and> durable_first event kn [] tr
     \<and> length (submissions tr) \<le> (if b then 1 else 0))"

lemma quiet_submits: "quiet w w' \<Longrightarrow> submits event kn b w w'"
  by (auto simp: quiet_def submits_def durable_first_quiet)

lemma durable_first_seen: "durable_first event kn seen tr \<Longrightarrow> set seen \<subseteq> set seen' \<Longrightarrow> durable_first event kn seen' tr"
proof (induction event kn seen tr arbitrary: seen' rule: durable_first.induct)
  case (2 event kn seen s tr)
  then show ?case by (simp add: "2.IH" subset_insertI2)
qed (auto simp: list_ex_iff)

lemma submits_trans:
  assumes "submits event kn b u v" "submits event kn b' v w" "\<not> (b \<and> b')"
  shows "submits event kn (b \<or> b') u w"
proof -
  obtain x where x: "w_trace v = w_trace u @ x" "durable_first event kn [] x" "length (submissions x) \<le> (if b then 1 else 0)"
    using assms(1) by (auto simp: submits_def)
  obtain y where y: "w_trace w = w_trace v @ y" "durable_first event kn [] y" "length (submissions y) \<le> (if b' then 1 else 0)"
    using assms(2) by (auto simp: submits_def)
  have "durable_first event kn [] (x @ y)"
    using x(2) durable_first_seen [OF y(2), of "snapshots x"] by (simp add: durable_first_append)
  moreover have "length (submissions (x @ y)) \<le> (if b \<or> b' then 1 else 0)"
    using x(3) y(3) assms(3) by (cases b; cases b') auto
  ultimately show ?thesis using x(1) y(1) by (auto simp: submits_def)
qed

lemma submits_quiet: "submits event kn b u v \<Longrightarrow> quiet v w \<Longrightarrow> submits event kn b u w"
  using submits_trans [of event kn b u v False w] quiet_submits by auto

lemma quiet_then_submits: "quiet u v \<Longrightarrow> submits event kn b v w \<Longrightarrow> submits event kn b u w"
  using submits_trans [of event kn False u v b w] quiet_submits by auto

lemma finalizeFailedRequest_submits: "submits event kn True w (snd (finalizeFailedRequest io event msg w))"
  by (auto simp: finalizeFailedRequest_def Let_def submits_def split: sum.split)

lemma attempt_finalize_submits: "submits event kn True w (snd (snd (attempt_finalize io event te k w)))"
proof -
  obtain r w1 where d: "finalizeFailedRequest io event te w = (r, w1)" by fastforce
  then have "submits event kn True w w1" using finalizeFailedRequest_submits [of event kn w io te] by simp
  with d show ?thesis by (auto simp: attempt_finalize_def submits_quiet quiet_on_state split: sum.split prod.split)
qed

lemma attempt_delivery_trace:
  "w_trace (snd (snd (attempt_delivery io event p w))) = w_trace w @ [EDeliver event p]"
  by (simp add: attempt_delivery_def deliverPreparedFulfillment_def split: sum.split)

lemma renormalised_same_callback [simp]: "same_callback (renormalised p) p"
  by (simp add: same_callback_def renormalised_def buildPreparedFulfillmentRetryMeta_def prepared_json_def prepared_encoding_def
      str_or_empty_def Let_def)

lemma enqueue_prepared_holds:
  assumes "within_limit config (ev_chain event) (w_state w)"
  shows "holds_callback event p (w_state (enqueue_prepared config sv event item p w))"
proof -
  define i where "i = build_retry_item event (pending_options config sv item p) (sv_now sv)"
  let ?s = "if pf_success p then w_state w else incrementMetric ''worker_failures_total'' 1 (w_state w)"
  have "i \<in> set (retry_queue (chain_states (queue_put config (ev_chain event) (sv_now sv) i ?s) (ev_chain event)))"
    using assms by (intro queue_put_has) simp
  moreover have "ri_key i = buildEventKey event" "ri_prepared i = Some (renormalised p)"
    by (simp_all add: i_def) (simp add: build_retry_item_def pending_options_def)
  ultimately show ?thesis
    unfolding holds_callback_def enqueue_prepared_put i_def [symmetric] by (intro bexI [of _ i]) simp_all
qed

lemma enqueue_prepared_trace:
  "w_trace (enqueue_prepared config sv event item p w) = w_trace w @ [EPersist (w_state (enqueue_prepared config sv event item p w))]"
  by (simp add: enqueue_prepared_def)

lemma attempt_fresh_submits:
  assumes "within_limit config (ev_chain event) (w_state w)"
  shows "submits event kn (fst (snd (attempt_fresh config sv io event item w)) \<noteq> None) w
           (snd (snd (attempt_fresh config sv io event item w)))"
proof (cases "prepareOracleFulfillment (io_prep io) event")
  case (Inl e)
  then show ?thesis by (simp add: attempt_fresh_def quiet_submits quiet_on_state)
next
  case (Inr p)
  define w1 where "w1 = enqueue_prepared config sv event item p (on_state (incrementMetric ''worker_calls_total'' 1) w)"
  have tr1: "w_trace w1 = w_trace w @ [EPersist (w_state w1)]" unfolding w1_def by (subst enqueue_prepared_trace) simp
  have h: "holds_callback event p (w_state w1)" unfolding w1_def by (intro enqueue_prepared_holds) (simp add: assms)
  obtain r w2 where c: "checkpointPreparedFulfillment config sv event p (item_attempts item)
      (intent_of (ev_requestType event)) w1 = (r, w2)" by fastforce
  then have "quiet w1 w2" using quiet_checkpoint [of w1] by (metis snd_conv)
  then obtain x where x: "w_trace w2 = w_trace w1 @ x" "submissions x = []" by (auto simp: quiet_def)
  have del: "fst (snd (attempt_delivery io event p w2)) = Some p" by (simp add: attempt_delivery_def split: prod.split sum.split)
  have "durable_first event kn [] ([EPersist (w_state w1)] @ x @ [EDeliver event p])"
    using h x(2) by (simp add: durable_first_append durable_first_quiet)
  then have "submits event kn True w (snd (snd (attempt_delivery io event p w2)))"
    using tr1 x by (auto simp: submits_def attempt_delivery_trace intro!: exI [of _ "[EPersist (w_state w1)] @ x @ [EDeliver event p]"])
  moreover have "submits event kn True w w2" using tr1 x by (auto simp: submits_def durable_first_quiet)
  ultimately show ?thesis using Inr c del by (simp add: attempt_fresh_def w1_def [symmetric] split: sum.split)
qed

definition item_prepared :: "retry_item option \<Rightarrow> prepared_fulfillment option" where
  "item_prepared item = (case item of None \<Rightarrow> None | Some i \<Rightarrow> map_option renormalised (ri_prepared i))"

definition item_finalize :: "retry_item option \<Rightarrow> bool" where
  "item_finalize item = (case item of None \<Rightarrow> False | Some i \<Rightarrow> ri_finalize_only i)"

lemma attempt_event_lanes:
  "attempt_event config sv io event item w =
     (if item_finalize item then attempt_finalize io event (item_terminal_error item) (item_prepared item) w
      else case item_prepared item of Some p \<Rightarrow> attempt_delivery io event p w
        | None \<Rightarrow> attempt_fresh config sv io event item w)"
  by (simp add: attempt_event_def item_finalize_def item_prepared_def Let_def)

lemma attempt_event_submits:
  assumes "within_limit config (ev_chain event) (w_state w)"
  shows "submits event (item_prepared item)
      (item_finalize item \<or> fst (snd (attempt_event config sv io event item w)) \<noteq> None) w
      (snd (snd (attempt_event config sv io event item w)))"
proof (cases "item_finalize item")
  case True
  then show ?thesis by (simp add: attempt_event_lanes attempt_finalize_submits)
next
  case False
  have d: "submits event (Some p) True w (snd (snd (attempt_delivery io event p w)))" for p
    by (auto simp: submits_def attempt_delivery_trace)
  have "fst (snd (attempt_delivery io event p w)) = Some p" for p
    by (simp add: attempt_delivery_def split: prod.split sum.split)
  with False d attempt_fresh_submits [OF assms, of None sv io item] show ?thesis
    by (cases "item_prepared item") (simp_all add: attempt_event_lanes)
qed

lemma finalize_exhausted_submits: "submits event kn True w (snd (finalize_exhausted config sv io event n msg w))"
proof -
  let ?w = "on_state (incrementMetric ''retries_exhausted_total'' 1) w"
  obtain r w1 where d: "finalizeFailedRequest io event msg ?w = (r, w1)" by fastforce
  then have "submits event kn True ?w w1" using finalizeFailedRequest_submits [of event kn ?w io msg] by simp
  then have "submits event kn True w w1" by (rule quiet_then_submits [OF quiet_on_state])
  with d show ?thesis
    by (auto simp: finalize_exhausted_def submits_quiet quiet_record quiet_resolve split: sum.split prod.split)
qed

lemma retry_primary_submits: "submits event kn True w (snd (retry_primary config sv io event item msg w))"
  using quiet_then_submits [OF quiet_on_state finalize_exhausted_submits]
  by (auto simp: retry_primary_def Let_def finalize_exhausted_submits quiet_committed quiet_submits
      split: prod.split schedule_result.split)

lemma handle_failure_submits:
  "submits event kn (k = None \<and> \<not> item_finalize item) w (snd (handle_failure config sv io event item k msg w))"
  by (auto simp: handle_failure_def Let_def item_finalize_def [symmetric] quiet_submits quiet_record quiet_resolve
      retry_primary_submits split: option.split)

lemma attempt_finalize_none: "item_finalize item \<Longrightarrow>
  fst (snd (attempt_event config sv io event item w)) = item_prepared item"
  by (auto simp: attempt_event_lanes attempt_finalize_def split: prod.split sum.split)

lemma process_claimed_submits:
  assumes "within_limit config (ev_chain event) (w_state w)"
  shows "submits event (item_prepared item) True w (snd (process_claimed config sv io event item w))"
proof -
  define w1 where "w1 = maybeUpsertJob sv event (job_details_of (buildEventKey event)
      (if item \<noteq> None then ''retrying'' else ''processing'') (item_attempts item)) w"
  obtain r k w2 where a: "attempt_event config sv io event item w1 = (r, k, w2)" by (metis prod_cases3)
  have q: "quiet w w1" by (simp add: w1_def quiet_maybeUpsert)
  have lim: "within_limit config (ev_chain event) (w_state w1)" using assms by (simp add: w1_def)
  have s: "submits event (item_prepared item) (item_finalize item \<or> k \<noteq> None) w w2"
    using quiet_then_submits [OF q attempt_event_submits [OF lim, of item sv io]] a by simp
  show ?thesis
  proof (cases r)
    case (Inl msg)
    have "submits event (item_prepared item) (k = None \<and> \<not> item_finalize item) w2
        (snd (handle_failure config sv io event item k msg w2))"
      by (rule handle_failure_submits)
    from submits_trans [OF s this]
    have "submits event (item_prepared item) True w (snd (handle_failure config sv io event item k msg w2))"
      by (cases "item_finalize item"; cases k) simp_all
    then show ?thesis unfolding process_claimed_def Let_def w1_def [symmetric] by (simp add: a Inl)
  next
    case (Inr res)
    have "submits event (item_prepared item) True w w2"
      using s by (auto simp: submits_def split: if_splits)
    then show ?thesis
      unfolding process_claimed_def Let_def w1_def [symmetric] by (simp add: a Inr submits_quiet quiet_record)
  qed
qed

lemma processEvent_submits:
  assumes "within_limit config (ev_chain event) (w_state w)"
  shows "submits event (item_prepared item) True w (snd (processEvent config sv io event item w))"
proof -
  obtain r w1 where c: "claimDurableJobForProcessing config sv event item w = (r, w1)" by fastforce
  then have q: "quiet w w1" using quiet_claim by (metis snd_conv)
  have "chain_states (w_state w1) = chain_states (w_state w)" using claim_chain_states c by (metis snd_conv)
  then have lim: "within_limit config (ev_chain event) (w_state w1)" using assms by (simp add: within_limit_def)
  have "quiet w1 (snd (drop_conflict event w1))" "quiet w1 (snd (retain_unclaimed config sv event item reason w1))" for reason
    using quiet_trans [OF quiet_on_state quiet_persist] by (simp_all add: drop_conflict_def retain_unclaimed_def quiet_refl)
  then show ?thesis
    using quiet_then_submits [OF q process_claimed_submits [OF lim, of item sv io]] quiet_trans [OF q] q
    by (auto simp: processEvent_def c Let_def split_beta quiet_submits split: sum.split claim_outcome.split)
qed


end
