(* ===== verification/Relayer_Loop.thy ===== *)
theory Relayer_Loop
  imports Feed_Sync Request_Processor Fulfillment_Delivery
begin

text \<open>
  The relayer process of \<^verbatim>\<open>workers/morpheus-relayer/src/relayer.js\<close>: one tick (\<open>runRelayerOnce\<close>) from
  loading the state file to the run snapshot in Supabase, the sleep between ticks, and the health
  check that reads the file (\<^verbatim>\<open>healthcheck.js\<close>). The clock readings of a tick, the replies of the
  services and the chain adapters are the fields of \<open>tick_env\<close>; each tick has its own.
\<close>

section \<open>Configuration and environment\<close>

record loop_config =
  lc_activeChains :: "chain list"
  lc_scanMode :: string
  lc_feed :: feed_config
  lc_automation :: automation_config
  lc_statePersistMinIntervalMs :: int
  lc_snapshotsEnabled :: bool
  lc_snapshotIntervalMs :: int
  lc_snapshotErrorBackoffMs :: int
  lc_pollIntervalMs :: int

record tick_env =
  te_startedAt :: millis
  te_feedNow :: millis
  te_feedDone :: millis
  te_completedAt :: millis
  te_saveAt :: millis
  te_snapshotAt :: millis
  te_feed_io :: feed_io
  te_services :: "chain \<Rightarrow> services"
  te_io :: "chain \<Rightarrow> chain_io"
  te_discovery :: "string \<Rightarrow> chain \<Rightarrow> discovery"
  te_automation :: auto_env
  te_run_reply :: reply

text \<open>The process: the state file (absent or unreadable is \<open>None\<close>) and the module-level variables.\<close>

record relayer_process =
  rp_file :: "relayer_state option"
  rp_backoff :: supa_backoff
  rp_lastEmptyFetchAt :: millis
  rp_auto_trace :: "auto_effect list"

definition loadRelayerState :: "relayer_state option \<Rightarrow> relayer_state" where
  "loadRelayerState file = (case file of None \<Rightarrow> createEmptyRelayerState | Some s \<Rightarrow> s)"

definition shouldRunFeedSync :: "('a relayer_config_scheme) \<Rightarrow> bool" where
  "shouldRunFeedSync config \<longleftrightarrow> mode config \<noteq> ''requests_only''"

definition shouldRunRequestProcessing :: "('a relayer_config_scheme) \<Rightarrow> bool" where
  "shouldRunRequestProcessing config \<longleftrightarrow> mode config \<noteq> ''feed_only''"

section \<open>Activity\<close>

record tick_result =
  tr_feed_sync :: feed_report
  tr_neo_n3 :: "chain_report option"
  tr_neox :: "chain_report option"
  tr_automation :: "(tick_counts \<times> nat) option"

definition chainResultHasActivity :: "chain_report option \<Rightarrow> bool" where
  "chainResultHasActivity r \<longleftrightarrow> (case r of None \<Rightarrow> False
     | Some x \<Rightarrow> sr_events (cr_scan x) \<noteq> [] \<or> cr_retries x \<noteq> []
         \<or> (case cr_reconciliation x of None \<Rightarrow> False | Some y \<Rightarrow> sr_events y \<noteq> []))"

definition automation_activity :: "(tick_counts \<times> nat) option \<Rightarrow> bool" where
  "automation_activity a \<longleftrightarrow> (case a of None \<Rightarrow> False
     | Some (counts, inspected) \<Rightarrow> tc_queued counts > 0 \<or> tc_failed counts > 0 \<or> inspected > 0)"

definition resultHasPersistableActivity :: "tick_result \<Rightarrow> bool" where
  "resultHasPersistableActivity r \<longleftrightarrow> fr_skipped (tr_feed_sync r) = Some False
     \<or> chainResultHasActivity (tr_neo_n3 r) \<or> chainResultHasActivity (tr_neox r) \<or> automation_activity (tr_automation r)"

text \<open>\<open>!feedSync?.skipped\<close> holds as well when the field is absent.\<close>

definition tickHadActivity :: "tick_result \<Rightarrow> bool" where
  "tickHadActivity r \<longleftrightarrow> fr_skipped (tr_feed_sync r) \<noteq> Some True
     \<or> chainResultHasActivity (tr_neo_n3 r) \<or> chainResultHasActivity (tr_neox r) \<or> automation_activity (tr_automation r)"

section \<open>The metrics of a tick\<close>

record labeled_failure =
  lf_chain :: string
  lf_module :: string
  lf_operation :: string
  lf_value :: int

record metrics_snapshot =
  ms_counters :: "(string \<times> int) list"
  ms_retry_queue_sizes :: "chain \<Rightarrow> nat"
  ms_dead_letter_sizes :: "chain \<Rightarrow> nat"
  ms_checkpoints :: "chain \<Rightarrow> jsnum option"
  ms_request_checkpoints :: "chain \<Rightarrow> jsnum option"
  ms_oldest_retry_age_seconds :: "chain \<Rightarrow> int option"
  ms_oldest_dead_letter_age_seconds :: "chain \<Rightarrow> int option"
  ms_labeled_failures :: "labeled_failure list"

text \<open>The parts of a delimiter-joined label; an absent or empty part is \<open>unknown\<close>.\<close>

definition expand_label :: "string \<times> int \<Rightarrow> labeled_failure" where
  "expand_label entry =
     (let parts = js_split (CHR ''|'') (fst entry);
          part = (\<lambda>i. or_str (if i < length parts then parts ! i else []) ''unknown'')
      in \<lparr>lf_chain = part 0, lf_module = part 1, lf_operation = part 2, lf_value = snd entry\<rparr>)"

definition snapshotMetrics :: "relayer_state \<Rightarrow> millis \<Rightarrow> metrics_snapshot" where
  "snapshotMetrics s nowMs =
     \<lparr>ms_counters = counters s,
      ms_retry_queue_sizes = (\<lambda>c. length (retry_queue (chain_states s c))),
      ms_dead_letter_sizes = (\<lambda>c. length (dead_letters (chain_states s c))),
      ms_checkpoints = (\<lambda>c. last_block (chain_states s c)),
      ms_request_checkpoints = (\<lambda>c. last_request_id (chain_states s c)),
      ms_oldest_retry_age_seconds = (\<lambda>c. oldestAgeSeconds (map ri_first_failed_at (retry_queue (chain_states s c))) nowMs),
      ms_oldest_dead_letter_age_seconds = (\<lambda>c. oldestAgeSeconds (map dl_exhausted_at (dead_letters (chain_states s c))) nowMs),
      ms_labeled_failures = map expand_label (labeled_failures s)\<rparr>"

section \<open>The run snapshot\<close>

definition shouldPersistRunSnapshot ::
  "('a relayer_config_scheme) \<Rightarrow> loop_config \<Rightarrow> tick_result \<Rightarrow> relayer_state \<Rightarrow> millis \<Rightarrow> bool \<times> string" where
  "shouldPersistRunSnapshot config lc result s nowMs =
     (if \<not> lc_snapshotsEnabled lc then (False, ''disabled'')
      else
        (let lastErrorMs = parseTimestampMs (last_run_snapshot_error_at s);
             errorBackoffMs = max (lc_snapshotErrorBackoffMs lc) 0;
             intervalMs = max (lc_snapshotIntervalMs lc) 0;
             lastPersistedMs = parseTimestampMs (last_run_snapshot_persisted_at s);
             hasActivity = resultHasPersistableActivity result
         in if lastErrorMs > 0 \<and> errorBackoffMs > 0 \<and> nowMs - lastErrorMs < errorBackoffMs then (False, ''error_backoff'')
            else if \<not> hasActivity \<and> mode config = ''feed_only'' then (False, ''feed_sync_skipped'')
            else if \<not> hasActivity \<and> lastPersistedMs > 0 \<and> intervalMs > 0 \<and> nowMs - lastPersistedMs < intervalMs
            then (False, ''interval'')
            else (True, if hasActivity then ''activity'' else ''interval_elapsed'')))"

text \<open>The \<open>POST\<close> of \<open>persistRelayerRun\<close>; without credentials it resolves and writes nothing.\<close>

definition persistRelayerRun :: "tick_env \<Rightarrow> world \<Rightarrow> unit result \<times> world" where
  "persistRelayerRun env w =
     (let sv = te_services env Neo_N3 in
      if \<not> sv_configured sv then (Inr (), w)
      else case te_run_reply env of
          NetError message \<Rightarrow> (Inl message, w)
        | HttpError code body \<Rightarrow>
            (let message = js_trim (''supabase morpheus_relayer_runs POST failed: '' @ show_nat code @ '' '' @ body)
             in (Inl message, snd (mark_unavailable (sv\<lparr>sv_now := te_snapshotAt env\<rparr>) message w)))
        | Rows n \<Rightarrow> (Inr (), w))"

definition maybePersistRun ::
  "('a relayer_config_scheme) \<Rightarrow> loop_config \<Rightarrow> tick_env \<Rightarrow> tick_result \<Rightarrow> world \<Rightarrow> world" where
  "maybePersistRun config lc env result w =
     (if shouldSkipSupabasePersistence (te_snapshotAt env) (w_backoff w) then w
      else if \<not> fst (shouldPersistRunSnapshot config lc result (w_state w) (te_snapshotAt env)) then w
      else case persistRelayerRun env w of
          (Inr _, w1) \<Rightarrow> saveRelayerState (te_snapshotAt env) (on_state (\<lambda>s. s\<lparr>last_run_snapshot_persisted_at := Some (te_snapshotAt env),
             last_run_snapshot_error_at := None\<rparr>) w1)
        | (Inl message, w1) \<Rightarrow>
            (let w2 = snd (mark_unavailable ((te_services env Neo_N3)\<lparr>sv_now := te_snapshotAt env\<rparr>) message w1)
             in saveRelayerState (te_snapshotAt env) (on_state (\<lambda>s. s\<lparr>last_run_snapshot_error_at := Some (te_snapshotAt env)\<rparr>) w2)))"

section \<open>One tick\<close>

definition start_tick :: "tick_env \<Rightarrow> relayer_process \<Rightarrow> world" where
  "start_tick env p =
     \<lparr>w_state = incrementMetric ''ticks_total'' 1 ((loadRelayerState (rp_file p))\<lparr>last_tick_started_at := Some (te_startedAt env)\<rparr>),
      w_backoff = rp_backoff p, w_trace = []\<rparr>"

definition run_feed :: "('a relayer_config_scheme) \<Rightarrow> loop_config \<Rightarrow> tick_env \<Rightarrow> world \<Rightarrow> feed_report \<times> world" where
  "run_feed config lc env w =
     (if shouldRunFeedSync config
      then processFeedSync (lc_feed lc) (te_feed_io env) (te_feedNow env) (te_feedDone env) w
      else (\<lparr>fr_enabled = False, fr_skipped = Some True, fr_chains = []\<rparr>, w))"

text \<open>
  Every write of the file stamps \<open>updated_at\<close> of the state object first. Nothing in the processing of
  a chain reads the stamp, so it is set here for all the writes of the chain, in the state and in
  the snapshots.
\<close>

fun stamp_effect :: "millis \<Rightarrow> effect \<Rightarrow> effect" where
  "stamp_effect t (EPersist s) = EPersist (s\<lparr>updated_at := Some t\<rparr>)"
| "stamp_effect t e = e"

definition stamp_writes :: "millis \<Rightarrow> world \<Rightarrow> world \<Rightarrow> world" where
  "stamp_writes t w w' =
     (let new = drop (length (w_trace w)) (w_trace w');
          w1 = w'\<lparr>w_trace := w_trace w @ map (stamp_effect t) new\<rparr>
      in if snapshots new = [] then w1 else on_state (\<lambda>s. s\<lparr>updated_at := Some t\<rparr>) w1)"

definition run_chain ::
  "('a relayer_config_scheme) \<Rightarrow> loop_config \<Rightarrow> tick_env \<Rightarrow> chain \<Rightarrow> world \<Rightarrow> chain_report option result \<times> world" where
  "run_chain config lc env c w =
     (if shouldRunRequestProcessing config \<and> c \<in> set (lc_activeChains lc)
      then (let sv = te_services env c; dc = te_discovery env (lc_scanMode lc) c;
                (r, w') = (if c = NeoX \<or> lc_scanMode lc = ''request_cursor''
                  then processChainByRequestCursor config sv (te_io env c) c dc w
                  else processChain config sv (te_io env c) c dc w)
            in (map_sum id Some r, stamp_writes (sv_now sv) w w'))
      else (Inr None, w))"

text \<open>The automation tick shares the backoff and keeps its own trace.\<close>

definition run_automation ::
  "('a relayer_config_scheme) \<Rightarrow> loop_config \<Rightarrow> tick_env \<Rightarrow> relayer_process \<Rightarrow> world
     \<Rightarrow> (tick_counts \<times> nat) option \<times> world \<times> relayer_process" where
  "run_automation config lc env p w =
     (if shouldRunRequestProcessing config
      then (let (report, tw) = processAutomationJobs (lc_automation lc) (te_automation env)
              \<lparr>tw_trace = rp_auto_trace p, tw_backoff = w_backoff w, tw_lastEmptyFetchAt = rp_lastEmptyFetchAt p\<rparr>
            in (Some report, w\<lparr>w_backoff := tw_backoff tw\<rparr>,
                p\<lparr>rp_lastEmptyFetchAt := tw_lastEmptyFetchAt tw, rp_auto_trace := tw_trace tw\<rparr>))
      else (None, w, p))"

definition idleAndFresh :: "loop_config \<Rightarrow> tick_env \<Rightarrow> tick_result \<Rightarrow> relayer_state \<Rightarrow> bool" where
  "idleAndFresh lc env result s \<longleftrightarrow>
     (let statePersistMinIntervalMs = max (lc_statePersistMinIntervalMs lc) 0; lastPersistedMs = parseTimestampMs (updated_at s)
      in \<not> tickHadActivity result \<and> statePersistMinIntervalMs > 0 \<and> lastPersistedMs > 0
         \<and> te_saveAt env - lastPersistedMs < statePersistMinIntervalMs)"

text \<open>The tick up to its end: the feed, the two chains and the automation, an exception ending it.\<close>

definition tick_body ::
  "('a relayer_config_scheme) \<Rightarrow> loop_config \<Rightarrow> tick_env \<Rightarrow> relayer_process \<Rightarrow> (tick_result result \<times> world) \<times> relayer_process" where
  "tick_body config lc env p =
     (let (feed, w1) = run_feed config lc env (start_tick env p) in
      case run_chain config lc env Neo_N3 w1 of
        (Inl e, w2) \<Rightarrow> ((Inl e, w2), p)
      | (Inr neoN3, w2) \<Rightarrow>
          (case run_chain config lc env NeoX w2 of
             (Inl e, w3) \<Rightarrow> ((Inl e, w3), p)
           | (Inr neox, w3) \<Rightarrow>
               (let (automation, w4, p4) = run_automation config lc env p w3
                in ((Inr \<lparr>tr_feed_sync = feed, tr_neo_n3 = neoN3, tr_neox = neox, tr_automation = automation\<rparr>, w4), p4))))"

definition end_tick ::
  "('a relayer_config_scheme) \<Rightarrow> loop_config \<Rightarrow> tick_env \<Rightarrow> tick_result \<Rightarrow> world \<Rightarrow> world" where
  "end_tick config lc env result w =
     (let w1 = on_state (\<lambda>s. s\<lparr>last_tick_completed_at := Some (te_completedAt env),
            last_tick_duration_ms := Some (te_completedAt env - te_startedAt env)\<rparr>) w;
          w2 = (if idleAndFresh lc env result (w_state w1) then w1 else saveRelayerState (te_saveAt env) w1)
      in maybePersistRun config lc env result w2)"

definition runRelayerOnce ::
  "('a relayer_config_scheme) \<Rightarrow> loop_config \<Rightarrow> tick_env \<Rightarrow> relayer_process \<Rightarrow> (tick_result result \<times> world) \<times> relayer_process" where
  "runRelayerOnce config lc env p =
     (case tick_body config lc env p of
        ((Inl e, w), p') \<Rightarrow> ((Inl e, w), p')
      | ((Inr result, w), p') \<Rightarrow> ((Inr result, end_tick config lc env result w), p'))"

section \<open>The loop\<close>

text \<open>The file after a tick holds the last snapshot of the tick.\<close>

definition after_tick :: "(tick_result result \<times> world) \<times> relayer_process \<Rightarrow> relayer_process" where
  "after_tick out = (snd out)\<lparr>rp_backoff := w_backoff (snd (fst out)),
     rp_file := (case snapshots (w_trace (snd (fst out))) of [] \<Rightarrow> rp_file (snd out) | s # _ \<Rightarrow> Some s)\<rparr>"

definition sleep_ms :: "('a relayer_config_scheme) \<Rightarrow> loop_config \<Rightarrow> tick_result result \<Rightarrow> relayer_state \<Rightarrow> millis \<Rightarrow> jsnum" where
  "sleep_ms config lc r s nowMs =
     (case r of
        Inl e \<Rightarrow> Fin (lc_pollIntervalMs lc)
      | Inr _ \<Rightarrow>
          if mode config = ''feed_only''
          then (let feedSyncDelayMs = getFeedSyncDelayMs (lc_feed lc) s nowMs
                in js_max (Fin 0) (js_min (Fin (max (lc_pollIntervalMs lc) 0)) (if is_finite feedSyncDelayMs then feedSyncDelayMs else PosInf)))
          else Fin (max (lc_pollIntervalMs lc) 0))"

section \<open>The health check\<close>

datatype health = Missing_state_file | Unreadable_state_file | Missing_completed_tick | Stale_completed_tick int | Fresh int

definition checkRelayerStateFreshness :: "string \<Rightarrow> relayer_state option \<Rightarrow> int \<Rightarrow> millis \<Rightarrow> health" where
  "checkRelayerStateFreshness stateFile file maxStaleMs nowMs =
     (if js_trim stateFile = [] then Missing_state_file
      else case file of
          None \<Rightarrow> Unreadable_state_file
        | Some s \<Rightarrow>
            (case last_tick_completed_at s of
               None \<Rightarrow> Missing_completed_tick
             | Some completedAt \<Rightarrow>
                 (let staleMs = max (or_num (Some maxStaleMs) 120000) 1000; ageMs = nowMs - completedAt
                  in if ageMs > staleMs then Stale_completed_tick ageMs else Fresh ageMs)))"

end
