(* ===== verification/Fulfillment_Progress.thy ===== *)
theory Fulfillment_Progress
  imports Fulfillment_Delivery
begin

text \<open>
  The retry budget: every retry spends an attempt, attempts never pass the ceiling, and a request
  whose claims are granted is out of the retry queue once it has been processed often enough.
\<close>

section \<open>Spending attempts\<close>

definition retry_budget :: "('a relayer_config_scheme) \<Rightarrow> int" where
  "retry_budget config = max (maxRetries config) (resolveCallbackRetryCeiling config)"

lemma maxRetries_budget: "n \<le> maxRetries config \<Longrightarrow> n \<le> retry_budget config"
  by (simp add: retry_budget_def)

fun spends :: "int \<Rightarrow> int \<Rightarrow> outcome \<Rightarrow> bool" where
  "spends limit a (ORetry st n) \<longleftrightarrow> a < n \<and> n \<le> limit"
| "spends limit a (OSkipped r) \<longleftrightarrow> False"
| "spends limit a out \<longleftrightarrow> True"

lemma scheduleCallbackRetry_outcome:
  "fst (scheduleCallbackRetry config sv event n msg ro w) = ORetry (ro_retryStatus ro) n"
  by (simp add: scheduleCallbackRetry_def enqueueRetryItem_def build_retry_item_def Let_def split_beta)

lemma resolveDelivery_spends:
  "a < n \<Longrightarrow> spends (retry_budget config) a (fst (resolveDeliveryRetryOrExhaust config sv event n msg route te ro w))"
  by (auto simp: resolveDeliveryRetryOrExhaust_def scheduleCallbackRetry_outcome recordDeliveryExhaustion_def
      retry_budget_def Let_def)

lemma finalize_exhausted_spends:
  "a < n \<Longrightarrow> spends (retry_budget config) a (fst (finalize_exhausted config sv io event n msg w))"
  using resolveDelivery_spends [of a "n + 1"]
  by (auto simp: finalize_exhausted_def recordFinalizedFailure_def Let_def split: prod.split sum.split)

lemma retry_primary_spends:
  assumes "queued_attempts (ev_chain event) (buildEventKey event) (w_state w) = item_attempts item"
  shows "spends (retry_budget config) (item_attempts item) (fst (retry_primary config sv io event item msg w))"
  using scheduleRetry_cases [of config "ev_chain event" event msg "sv_rng sv" "sv_now sv" "w_state w"] assms
  by (auto simp: retry_primary_def Let_def finalize_exhausted_spends maxRetries_budget)

lemma handle_failure_spends:
  assumes "kn = None \<Longrightarrow> \<not> item_finalize item \<Longrightarrow>
      queued_attempts (ev_chain event) (buildEventKey event) (w_state w) = item_attempts item"
  shows "spends (retry_budget config) (item_attempts item) (fst (handle_failure config sv io event item kn msg w))"
  using assms retry_primary_spends [of event w item]
  by (auto simp: handle_failure_def recordTerminalOutcome_def Let_def item_finalize_def [symmetric] resolveDelivery_spends
      split: option.split)

lemma attempt_fresh_unprepared:
  assumes "attempt_event config sv io event item w = (r, None, w2)" "\<not> item_finalize item"
  shows "chain_states (w_state w2) = chain_states (w_state w)"
proof -
  have "fst (snd (attempt_delivery io event p v)) = Some p" for p v
    by (simp add: attempt_delivery_def split: prod.split sum.split)
  then have d: "attempt_delivery io event p v \<noteq> (r, None, w2)" for p v by (metis fst_conv option.distinct(1) snd_conv)
  show ?thesis using assms d
    by (auto simp: attempt_event_lanes attempt_fresh_def Let_def split: option.splits sum.splits prod.splits)
qed

lemma process_claimed_spends:
  assumes "queued_attempts (ev_chain event) (buildEventKey event) (w_state w) = item_attempts item"
  shows "spends (retry_budget config) (item_attempts item) (fst (process_claimed config sv io event item w))"
proof -
  define w1 where "w1 = maybeUpsertJob sv event (job_details_of (buildEventKey event)
      (if item \<noteq> None then ''retrying'' else ''processing'') (item_attempts item)) w"
  obtain r k w2 where a: "attempt_event config sv io event item w1 = (r, k, w2)" by (metis prod_cases3)
  have "queued_attempts (ev_chain event) (buildEventKey event) (w_state w2) = item_attempts item"
    if "k = None" "\<not> item_finalize item"
    using attempt_fresh_unprepared [of config sv io event item w1 r w2] a that assms
    by (simp add: queued_attempts_def w1_def)
  from handle_failure_spends [OF this] show ?thesis
    unfolding process_claimed_def Let_def w1_def [symmetric]
    by (cases r) (simp_all add: a record_delivery_def Let_def)
qed

lemma queued_attempts_claim [simp]:
  "queued_attempts c k (w_state (snd (claimDurableJobForProcessing config sv e item w))) = queued_attempts c k (w_state w)"
  by (simp add: queued_attempts_def)

text \<open>
  C7: Every retry costs an attempt and the attempts are bounded. When \<open>processEvent\<close> queues the
  request again, the attempt count it reports is larger than the one it was called with and at most
  the larger of \<open>maxRetries\<close> and the callback ceiling, whichever lane failed: preparation, delivery of
  a prepared fulfillment, or the failure callback.
\<close>

theorem retries_are_bounded:
  assumes "processEvent config sv io event item w = (Inr (ORetry st n), w')"
    and "queued_attempts (ev_chain event) (buildEventKey event) (w_state w) = item_attempts item"
  shows "item_attempts item < n \<and> n \<le> max (maxRetries config) (resolveCallbackRetryCeiling config)"
proof -
  obtain r w1 where c: "claimDurableJobForProcessing config sv event item w = (r, w1)" by fastforce
  then have "queued_attempts (ev_chain event) (buildEventKey event) (w_state w1) = item_attempts item"
    using queued_attempts_claim assms(2) by (metis snd_conv)
  from process_claimed_spends [OF this, of config sv io] assms(1) show ?thesis
    by (auto simp: processEvent_def c Let_def split_beta drop_conflict_def retain_unclaimed_def retry_budget_def
        split: sum.splits claim_outcome.splits)
qed

section \<open>Settling\<close>

text \<open>One visit of the retry loop to the request: process the item that is queued for it.\<close>

definition queued_item :: "chain \<Rightarrow> string \<Rightarrow> relayer_state \<Rightarrow> retry_item option" where
  "queued_item c k s = find (\<lambda>i. ri_key i = k) (retry_queue (chain_states s c))"

definition retry_visit ::
  "('a relayer_config_scheme) \<Rightarrow> oracle_event \<Rightarrow> services \<times> chain_io \<Rightarrow> world \<Rightarrow> world" where
  "retry_visit config event env w =
     (case queued_item (ev_chain event) (buildEventKey event) (w_state w) of
        None \<Rightarrow> w
      | Some i \<Rightarrow> snd (processEvent config (fst env) (snd env) event (Some i) w))"

lemma queued_item_iff: "isEventQueuedForRetry c k s \<longleftrightarrow> queued_item c k s \<noteq> None"
  by (auto simp: isEventQueuedForRetry_keys queued_item_def find_None_iff)

lemma queued_item_attempts: "queued_item c k s = Some i \<Longrightarrow> queued_attempts c k s = ri_attempts i"
  by (simp add: queued_item_def queued_attempts_def)

lemma granted_without_durable_queue:
  "\<not> durableQueueEnabled config \<Longrightarrow> processEvent config sv io event item w =
     map_prod Inr id (process_claimed config sv io event item w)"
  by (simp add: processEvent_def claimDurableJobForProcessing_def Let_def split_beta map_prod_def)

lemma retry_visit_progress:
  fixes env :: "services \<times> chain_io"
  assumes "ready config event w" "\<not> durableQueueEnabled config"
    and q: "queued_item (ev_chain event) (buildEventKey event) (w_state w) = Some i"
  defines "w' \<equiv> retry_visit config event env w"
  shows "ready config event w'"
    and "if isEventQueuedForRetry (ev_chain event) (buildEventKey event) (w_state w')
         then ri_attempts i < queued_attempts (ev_chain event) (buildEventKey event) (w_state w')
           \<and> queued_attempts (ev_chain event) (buildEventKey event) (w_state w') \<le> retry_budget config
         else hasProcessedEvent (ev_chain event) (buildEventKey event) (w_state w')"
proof -
  let ?r = "process_claimed config (fst env) (snd env) event (Some i) w"
  have w': "w' = snd ?r" using q assms(2) by (simp add: w'_def retry_visit_def granted_without_durable_queue)
  have s: "settled config event ?r" by (rule process_claimed_settled [OF assms(1)])
  have "spends (retry_budget config) (item_attempts (Some i)) (fst ?r)"
    by (rule process_claimed_spends) (simp add: queued_item_attempts [OF q] item_attempts_def)
  then have sp: "spends (retry_budget config) (ri_attempts i) (fst ?r)" by (simp add: item_attempts_def)
  show "ready config event w'" using s by (simp add: settled_def w')
  show "if isEventQueuedForRetry (ev_chain event) (buildEventKey event) (w_state w')
         then ri_attempts i < queued_attempts (ev_chain event) (buildEventKey event) (w_state w')
           \<and> queued_attempts (ev_chain event) (buildEventKey event) (w_state w') \<le> retry_budget config
         else hasProcessedEvent (ev_chain event) (buildEventKey event) (w_state w')"
    using s sp by (cases "fst ?r") (auto simp: settled_def w')
qed

lemma fold_visits_unqueued:
  "\<not> isEventQueuedForRetry (ev_chain event) (buildEventKey event) (w_state w) \<Longrightarrow> fold (retry_visit config event) envs w = w"
  by (induction envs) (simp_all add: retry_visit_def queued_item_iff)

lemma fold_visits_settle:
  assumes "ready config event w" "\<not> durableQueueEnabled config"
    and "queued_item (ev_chain event) (buildEventKey event) (w_state w) = Some i"
    and "nat (retry_budget config - ri_attempts i) < length envs"
  shows "\<not> isEventQueuedForRetry (ev_chain event) (buildEventKey event) (w_state (fold (retry_visit config event) envs w))
    \<and> hasProcessedEvent (ev_chain event) (buildEventKey event) (w_state (fold (retry_visit config event) envs w))"
  using assms
proof (induction envs arbitrary: w i)
  case (Cons env envs)
  note p = retry_visit_progress [OF Cons.prems(1-3), where env = env]
  let ?w = "retry_visit config event env w"
  show ?case
  proof (cases "queued_item (ev_chain event) (buildEventKey event) (w_state ?w)")
    case None
    then have "\<not> isEventQueuedForRetry (ev_chain event) (buildEventKey event) (w_state ?w)" by (simp add: queued_item_iff)
    with p(2) show ?thesis by (simp add: fold_visits_unqueued)
  next
    case (Some j)
    then have "ri_attempts i < ri_attempts j \<and> ri_attempts j \<le> retry_budget config"
      using p(2) queued_item_attempts [OF Some] by (simp add: queued_item_iff)
    then have "nat (retry_budget config - ri_attempts j) < length envs" using Cons.prems(4) by (simp, linarith)
    from Cons.IH [OF p(1) Cons.prems(2) Some this] show ?thesis by simp
  qed
qed simp


section \<open>Runs\<close>

text \<open>A chain that refuses every submission, and one that accepts them.\<close>

definition sample_io :: "jsv result \<Rightarrow> chain_io" where
  "sample_io reply = \<lparr>io_prep = sample_prep False enclave_reply, io_hook = None,
     io_neox = \<lambda>tr rid f sig. reply, io_neo_n3 = \<lambda>tr rid f sig. reply\<rparr>"

definition failing_item :: "int \<Rightarrow> retry_item" where
  "failing_item n = (sample_item ''7'' 5)\<lparr>ri_attempts := n, ri_prepared := Some sample_prepared\<rparr>"

lemma failing_item_key [simp]: "ri_key (failing_item n) = buildEventKey (sample_event ''7'')"
  "ri_event (failing_item n) = sample_event ''7''" "ri_attempts (failing_item n) = n"
  by (simp_all add: failing_item_def sample_item_def)

lemma failing_state_inv: "state_inv sample_config (w_state (sample_world [failing_item n]))"
  by (simp add: sample_world_def sample_state_def state_inv_def chain_inv_def createEmptyRelayerState_def defaultChainState_def
      lanes_bounded_def)

lemma failing_queue [simp]: "retry_queue (chain_states (w_state (sample_world [failing_item n])) c) = [failing_item n]"
  by (simp add: sample_world_def sample_state_def)

lemma sample_limits [simp]:
  "retryQueueLimit sample_config = 1" "\<not> durableQueueEnabled sample_config" "ev_chain (sample_event rid) = Neo_N3"
  "maxRetries sample_config = 2" "resolveCallbackRetryCeiling sample_config = 4"
  by (simp_all add: sample_config_def sample_event_def resolveCallbackRetryCeiling_def)


lemma busy_is_retried:
  "\<not> isAlreadyFulfilledError ''busy''" "\<not> isTerminalConfigurationError ''busy''" "classifyError ''busy'' \<noteq> Permanent"
  "\<not> js_includes (to_lower ''busy'') ''request not found''"
  by code_simp+

lemma failing_redelivery:
  "fst (processEvent sample_config sample_services (sample_io (Inl ''busy'')) (sample_event ''7'') (Some (failing_item 1)) w)
     = Inr (ORetry ''callback_retry_scheduled'' 2)"
proof -
  have known: "item_prepared (Some (failing_item 1)) = Some (renormalised sample_prepared)"
    "\<not> item_finalize (Some (failing_item 1))"
    by (simp_all add: item_prepared_def item_finalize_def failing_item_def) (simp add: sample_item_def build_retry_item_def enqueue_defaults_def)
  show ?thesis
    by (simp add: granted_without_durable_queue process_claimed_def attempt_event_lanes known attempt_delivery_def
        deliverPreparedFulfillment_def fulfillNeoRequest_def sample_io_def busy_is_retried handle_failure_def Let_def
        resolveDeliveryRetryOrExhaust_def scheduleCallbackRetry_outcome callback_options_def item_attempts_def)
qed

theorem retries_are_bounded_witness:
  "\<exists>w'. processEvent sample_config sample_services (sample_io (Inl ''busy'')) (sample_event ''7'') (Some (failing_item 1))
       (sample_world [failing_item 1]) = (Inr (ORetry ''callback_retry_scheduled'' 2), w')
     \<and> item_attempts (Some (failing_item 1)) < 2
     \<and> 2 \<le> max (maxRetries sample_config) (resolveCallbackRetryCeiling sample_config)"
proof -
  obtain w' where w': "processEvent sample_config sample_services (sample_io (Inl ''busy'')) (sample_event ''7'')
      (Some (failing_item 1)) (sample_world [failing_item 1]) = (Inr (ORetry ''callback_retry_scheduled'' 2), w')"
    using failing_redelivery [of "sample_world [failing_item 1]"] by (metis prod.collapse)
  have "queued_attempts (ev_chain (sample_event ''7'')) (buildEventKey (sample_event ''7'')) (w_state (sample_world [failing_item 1]))
      = item_attempts (Some (failing_item 1))"
    by (simp add: queued_attempts_def item_attempts_def)
  from retries_are_bounded [OF w' this] w' show ?thesis by blast
qed



end
