(* ===== verification/Fulfillment_Frame.thy ===== *)
theory Fulfillment_Frame
  imports Fulfillment_Progress
begin

text \<open>
  What processing a request leaves alone. Every change \<open>processEvent\<close> makes to the relayer state is
  one of six updates, and every snapshot it hands to the writer is the state of that moment; a
  predicate on worlds that these steps keep is kept by the call. The instances are the state
  invariant (of the state and of every snapshot), the cursors, and the state of the other chain.
\<close>

section \<open>Steps without a snapshot\<close>

text \<open>The state is as before and no snapshot has been written.\<close>

definition unsaved :: "world \<Rightarrow> world \<Rightarrow> bool" where
  "unsaved w w' \<longleftrightarrow> w_state w' = w_state w \<and> (\<exists>tr. w_trace w' = w_trace w @ tr \<and> snapshots tr = [])"

lemma snapshots_append [simp]: "snapshots (xs @ ys) = snapshots ys @ snapshots xs"
  by (induction xs rule: snapshots.induct) simp_all

lemma unsaved_refl [simp]: "unsaved w w"
  by (simp add: unsaved_def)

lemma unsaved_trans: "unsaved u v \<Longrightarrow> unsaved v w \<Longrightarrow> unsaved u w"
  by (auto simp: unsaved_def)

lemma unsaved_request: "unsaved w (snd (supabaseRequest sv x w))"
  by (auto simp: unsaved_def supabaseRequest_trace)

lemma unsaved_mark: "unsaved w (snd (mark_unavailable sv m w))"
  by (simp add: unsaved_def)

lemma unsaved_fetch: "unsaved w (snd (fetchRelayerJobsByStatuses sv st c n w))"
proof -
  have "w_trace (snd (fetchRelayerJobsByStatuses sv st c n w)) = w_trace w"
    by (simp add: fetchRelayerJobsByStatuses_def Let_def split: reply.split sum.split)
  then show ?thesis by (simp add: unsaved_def)
qed

lemma unsaved_maybeUpsert: "unsaved w (maybeUpsertJob sv e d w)"
  by (simp add: maybeUpsertJob_def unsaved_request)

lemma unsaved_upsert: "unsaved w (snd (upsertJobOrThrow sv e d w))"
  using unsaved_request by (simp add: upsertJobOrThrow_def split_beta)

lemma unsaved_transient: "unsaved w (snd (isTransientDurableQueueError sv m w))"
  using unsaved_mark [of w sv m] by (simp add: isTransientDurableQueueError_def split_beta)

lemma unsaved_checkpoint: "unsaved w (snd (checkpointPreparedFulfillment config sv event p n intent w))"
proof -
  have "unsaved w w2" if "upsertJobOrThrow sv event d w = (r, w1)" "isTransientDurableQueueError sv e w1 = (t, w2)" for d r w1 e t w2
    using unsaved_trans [OF unsaved_upsert unsaved_transient] that by (metis snd_conv)
  moreover have "unsaved w w1" if "upsertJobOrThrow sv event d w = (r, w1)" for d r w1
    using unsaved_upsert that by (metis snd_conv)
  ultimately show ?thesis
    by (auto simp: checkpointPreparedFulfillment_def Let_def unsaved_maybeUpsert split: sum.split bool.split prod.split)
qed

lemma unsaved_deliver: "unsaved w (snd (deliverPreparedFulfillment io event p w))"
  by (simp add: unsaved_def deliverPreparedFulfillment_def)

lemma unsaved_finalize: "unsaved w (snd (finalizeFailedRequest io event msg w))"
  by (simp add: unsaved_def finalizeFailedRequest_def Let_def split: sum.split)

section \<open>The frame\<close>

text \<open>
  From \<open>w\<close> to \<open>w'\<close> the trace has grown, and \<open>P\<close> holds of every snapshot written on the way and of the
  state reached.
\<close>

definition keeps :: "(relayer_state \<Rightarrow> bool) \<Rightarrow> world \<Rightarrow> world \<Rightarrow> bool" where
  "keeps P w w' \<longleftrightarrow> P (w_state w') \<and> (\<exists>tr. w_trace w' = w_trace w @ tr \<and> (\<forall>s \<in> set (snapshots tr). P s))"

lemma keeps_refl: "P (w_state w) \<Longrightarrow> keeps P w w"
  by (simp add: keeps_def)

lemma keeps_trans: "keeps P u v \<Longrightarrow> keeps P v w \<Longrightarrow> keeps P u w"
  by (auto simp: keeps_def)

lemma keeps_state: "keeps P w w' \<Longrightarrow> P (w_state w')"
  by (simp add: keeps_def)

lemma keeps_on_state: "keeps P w w' \<Longrightarrow> P (f (w_state w')) \<Longrightarrow> keeps P w (on_state f w')"
  by (simp add: keeps_def)

lemma keeps_persist: "keeps P w w' \<Longrightarrow> keeps P w (persistState w')"
  by (auto simp: keeps_def)

lemma keeps_unsaved: "keeps P w w' \<Longrightarrow> unsaved w' w'' \<Longrightarrow> keeps P w w''"
  by (auto simp: keeps_def unsaved_def)

lemma keeps_upsert: "keeps P w w' \<Longrightarrow> keeps P w (maybeUpsertJob sv e d w')"
  by (erule keeps_unsaved [OF _ unsaved_maybeUpsert])

lemma keeps_commit: "keeps P w w' \<Longrightarrow> P (f (w_state w')) \<Longrightarrow> keeps P w (maybeUpsertJob sv e d (persistState (on_state f w')))"
  by (intro keeps_upsert keeps_persist keeps_on_state)

locale event_frame =
  fixes P :: "relayer_state \<Rightarrow> bool" and config :: "'a relayer_config_scheme" and event :: oracle_event
  assumes metric: "P s \<Longrightarrow> P (incrementMetric name n s)"
    and failure: "P s \<Longrightarrow> P (incrementLabeledFailure a b p n s)"
    and latency: "P s \<Longrightarrow> P (s\<lparr>last_fulfill_latency_ms := x\<rparr>)"
    and processed: "P s \<Longrightarrow> P (recordProcessedEvent config (ev_chain event) event status meta now s)"
    and clear: "P s \<Longrightarrow> P (clearRetryItem (ev_chain event) (buildEventKey event) s)"
    and put: "P s \<Longrightarrow> ri_key i = buildEventKey event \<Longrightarrow> ri_event i = event \<Longrightarrow> P (queue_put config (ev_chain event) now i s)"
begin

lemmas kept = metric failure latency processed clear

lemma enqueue_kept:
  assumes "P s" "eo_retryQueueLimit opts = retryQueueLimit config" "eo_deadLetterLimit opts = deadLetterLimit config"
  shows "P (snd (enqueueRetryItem (ev_chain event) event opts now s))"
  using put [OF assms(1), of "build_retry_item event opts now" now] by (simp add: enqueue_is_put [OF assms(2,3)])

lemma enqueue_prepared_kept:
  assumes "keeps P w0 w"
  shows "keeps P w0 (enqueue_prepared config sv event item p w)"
  unfolding enqueue_prepared_def
  using keeps_state [OF assms] assms by (intro keeps_persist keeps_on_state enqueue_kept) (auto simp: kept pending_options_def)

lemma record_kept:
  assumes "keeps P w0 w"
  shows "keeps P w0 (snd (recordDeliveryExhaustion config sv event n route msg te w))"
    and "keeps P w0 (snd (recordTerminalOutcome config sv event n ls ds route msg b out w))"
    and "keeps P w0 (snd (recordFinalizedFailure config sv event n r w))"
    and "keeps P w0 (snd (record_delivery config sv event n r w))"
    and "keeps P w0 (snd (scheduleCallbackRetry config sv event n msg ro w))"
  using assms keeps_state [OF assms]
  by (simp_all add: recordDeliveryExhaustion_def recordTerminalOutcome_def recordFinalizedFailure_def record_delivery_def
      scheduleCallbackRetry_def Let_def split_beta kept enqueue_kept keeps_commit)

lemma resolveDelivery_kept:
  "keeps P w0 w \<Longrightarrow> keeps P w0 (snd (resolveDeliveryRetryOrExhaust config sv event n msg route te ro w))"
  by (simp add: resolveDeliveryRetryOrExhaust_def record_kept)

lemma keeps_metric: "keeps P w0 w \<Longrightarrow> keeps P w0 (on_state (incrementMetric name n) w)"
  by (frule keeps_state) (simp add: keeps_on_state kept)

lemma finalize_exhausted_kept:
  assumes "keeps P w0 w"
  shows "keeps P w0 (snd (finalize_exhausted config sv io event n msg w))"
proof -
  let ?w = "on_state (incrementMetric ''retries_exhausted_total'' 1) w"
  obtain r w1 where d: "finalizeFailedRequest io event msg ?w = (r, w1)" by fastforce
  then have "unsaved ?w w1" using unsaved_finalize by (metis snd_conv)
  then have "keeps P w0 w1" using assms keeps_metric keeps_unsaved by blast
  with d show ?thesis
    by (auto simp: finalize_exhausted_def record_kept resolveDelivery_kept split: sum.split prod.split)
qed

lemma retry_primary_kept:
  assumes "keeps P w0 w"
  shows "keeps P w0 (snd (retry_primary config sv io event item msg w))"
proof -
  obtain q s1 where q: "scheduleRetry config (ev_chain event) event msg (sv_rng sv) (sv_now sv) (w_state w) = (q, s1)" by fastforce
  have "P s1"
    using scheduleRetry_cases [of config "ev_chain event" event msg "sv_rng sv" "sv_now sv" "w_state w"] keeps_state [OF assms] q
    by (elim disjE exE conjE) (simp_all, (metis clear put)+)
  then have "keeps P w0 (on_state (\<lambda>_. s1) w)" "P (incrementMetric ''retries_scheduled_total'' 1 s1)"
    using assms by (auto intro: keeps_on_state kept)
  with assms show ?thesis
    by (auto simp: retry_primary_def q Let_def finalize_exhausted_kept keeps_commit split: schedule_result.split)
qed

lemma handle_failure_kept:
  "keeps P w0 w \<Longrightarrow> keeps P w0 (snd (handle_failure config sv io event item kn msg w))"
  by (auto simp: handle_failure_def Let_def record_kept resolveDelivery_kept retry_primary_kept split: option.split)

lemma attempt_delivery_kept: "keeps P w0 w \<Longrightarrow> keeps P w0 (snd (snd (attempt_delivery io event p w)))"
proof -
  obtain r w1 where d: "deliverPreparedFulfillment io event p w = (r, w1)" by fastforce
  then have "unsaved w w1" using unsaved_deliver by (metis snd_conv)
  then show "keeps P w0 w \<Longrightarrow> ?thesis"
    using d keeps_unsaved by (fastforce simp: attempt_delivery_def keeps_metric split: sum.split)
qed

lemma attempt_finalize_kept: "keeps P w0 w \<Longrightarrow> keeps P w0 (snd (snd (attempt_finalize io event te kn w)))"
proof -
  obtain r w1 where d: "finalizeFailedRequest io event te w = (r, w1)" by fastforce
  then have "unsaved w w1" using unsaved_finalize by (metis snd_conv)
  then show "keeps P w0 w \<Longrightarrow> ?thesis"
    using d keeps_unsaved by (fastforce simp: attempt_finalize_def keeps_metric split: sum.split prod.split)
qed

lemma attempt_fresh_kept:
  assumes "keeps P w0 w"
  shows "keeps P w0 (snd (snd (attempt_fresh config sv io event item w)))"
proof (cases "prepareOracleFulfillment (io_prep io) event")
  case (Inl e)
  then show ?thesis using assms by (simp add: attempt_fresh_def keeps_metric)
next
  case (Inr p)
  define w1 where "w1 = enqueue_prepared config sv event item p (on_state (incrementMetric ''worker_calls_total'' 1) w)"
  have w1: "keeps P w0 w1" unfolding w1_def by (intro enqueue_prepared_kept keeps_metric assms)
  obtain r w2 where c: "checkpointPreparedFulfillment config sv event p (item_attempts item)
      (intent_of (ev_requestType event)) w1 = (r, w2)" by fastforce
  then have "unsaved w1 w2" using unsaved_checkpoint by (metis snd_conv)
  then have "keeps P w0 w2" using w1 keeps_unsaved by blast
  then show ?thesis
    using Inr c attempt_delivery_kept by (simp add: attempt_fresh_def w1_def [symmetric] split: sum.split)
qed

lemma process_claimed_kept:
  assumes "keeps P w0 w"
  shows "keeps P w0 (snd (process_claimed config sv io event item w))"
proof -
  define w1 where "w1 = maybeUpsertJob sv event (job_details_of (buildEventKey event)
      (if item \<noteq> None then ''retrying'' else ''processing'') (item_attempts item)) w"
  have w1: "keeps P w0 w1" using assms by (simp add: w1_def keeps_upsert)
  obtain r k w2 where a: "attempt_event config sv io event item w1 = (r, k, w2)" by (metis prod_cases3)
  have "keeps P w0 (snd (snd (attempt_event config sv io event item w1)))"
    using attempt_delivery_kept [OF w1] attempt_finalize_kept [OF w1] attempt_fresh_kept [OF w1]
    by (auto simp: attempt_event_lanes split: option.split)
  then show ?thesis
    unfolding process_claimed_def Let_def w1_def [symmetric] by (cases r) (simp_all add: a record_kept handle_failure_kept)
qed

lemma claim_kept:
  assumes "keeps P w0 w"
  shows "keeps P w0 (snd (claimDurableJobForProcessing config sv event item w))"
proof -
  obtain r w1 where q: "supabaseRequest sv (Claim (claim_request_for config sv event item)) w = (r, w1)" by force
  then have w1: "keeps P w0 w1" using keeps_unsaved [OF assms unsaved_request] by (metis snd_conv)
  have "keeps P w0 (snd (isTransientDurableQueueError sv e w1))" for e
    using w1 unsaved_transient keeps_unsaved by blast
  then show ?thesis using assms w1
    by (simp add: claimDurableJobForProcessing_def q Let_def split_beta keeps_metric split: sum.split bool.split)
      (simp split: option.split)
qed

lemma processEvent_keeps:
  assumes "P (w_state w)"
  shows "keeps P w (snd (processEvent config sv io event item w))"
proof -
  obtain r w1 where c: "claimDurableJobForProcessing config sv event item w = (r, w1)" by fastforce
  then have w1: "keeps P w w1" using claim_kept [OF keeps_refl [where P = P, OF assms], of sv item] by simp
  have "keeps P w (snd (drop_conflict event w1))" "keeps P w (snd (retain_unclaimed config sv event item reason w1))" for reason
    using w1 keeps_state [OF w1]
    by (auto simp: drop_conflict_def retain_unclaimed_def kept enqueue_kept intro!: keeps_persist keeps_on_state)
  then show ?thesis
    using w1 by (auto simp: processEvent_def c Let_def split_beta process_claimed_kept split: sum.split claim_outcome.split)
qed

lemma processEvent_kept: "P (w_state w) \<Longrightarrow> P (w_state (snd (processEvent config sv io event item w)))"
  by (rule keeps_state [OF processEvent_keeps])

end

section \<open>Instances\<close>

interpretation event_inv: event_frame "state_inv config" config event for config event
  by unfold_locales (simp_all add: inv_intros)

text \<open>The stored cursors of a chain.\<close>

definition cursors :: "chain \<Rightarrow> relayer_state \<Rightarrow> jsnum option \<times> jsnum option" where
  "cursors c s = (last_block (chain_states s c), last_request_id (chain_states s c))"

lemma cursors_frame [simp]:
  "cursors c (incrementMetric name n s) = cursors c s"
  "cursors c (incrementLabeledFailure a b p n s) = cursors c s"
  "cursors c (s\<lparr>last_fulfill_latency_ms := x\<rparr>) = cursors c s"
  "cursors c (recordProcessedEvent config c' e status meta now s) = cursors c s"
  "cursors c (clearRetryItem c' k s) = cursors c s"
  "cursors c (queue_put config c' now i s) = cursors c s"
  by (simp_all add: cursors_def recordProcessedEvent_def record_processed_chain_def clearRetryItem_def queue_put_def
      enforceRetryQueueLimit_def upd_chain_def Let_def split_beta)

interpretation event_cursors: event_frame "\<lambda>s. cursors c s = x" config event for c x config event
  by unfold_locales simp_all

lemma other_chain_frame [simp]:
  "c \<noteq> c' \<Longrightarrow> chain_states (recordProcessedEvent config c' e status meta now s) c = chain_states s c"
  "c \<noteq> c' \<Longrightarrow> chain_states (clearRetryItem c' k s) c = chain_states s c"
  "c \<noteq> c' \<Longrightarrow> chain_states (queue_put config c' now i s) c = chain_states s c"
  by (simp_all add: recordProcessedEvent_def clearRetryItem_def queue_put_def enforceRetryQueueLimit_def upd_chain_def
      Let_def split_beta)

lemma processEvent_cursors [simp]: "cursors c (w_state (snd (processEvent config sv io event item w))) = cursors c (w_state w)"
  by (rule event_cursors.processEvent_kept) (rule refl)

lemma last_discovery_frame [simp]:
  "last_discovery_at (chain_states (recordProcessedEvent config c' e status meta now s) c) = last_discovery_at (chain_states s c)"
  "last_discovery_at (chain_states (clearRetryItem c' k s) c) = last_discovery_at (chain_states s c)"
  "last_discovery_at (chain_states (queue_put config c' now i s) c) = last_discovery_at (chain_states s c)"
  by (simp_all add: recordProcessedEvent_def record_processed_chain_def clearRetryItem_def queue_put_def
      enforceRetryQueueLimit_def upd_chain_def Let_def split_beta)

interpretation event_discovery: event_frame "\<lambda>s. last_discovery_at (chain_states s c) = x" config event for c x config event
  by unfold_locales simp_all

lemma processEvent_last_discovery [simp]:
  "last_discovery_at (chain_states (w_state (snd (processEvent config sv io event item w))) c) = last_discovery_at (chain_states (w_state w) c)"
  by (rule event_discovery.processEvent_kept) (rule refl)

end
