(* ===== verification/Request_Processor_Facts.thy ===== *)
theory Request_Processor_Facts
  imports Request_Processor Fulfillment_Frame "HOL-Library.Sublist"
begin

text \<open>
  What one tick of a chain guarantees: the state invariant, that the cursor moves only over windows
  whose requests are all accounted for, that a failing discovery neither moves the cursor nor keeps
  the due retries from running, and that reconciliation leaves tracked requests alone.
\<close>

section \<open>filterNewEvents\<close>

lemma filter_new_acc:
  "filter_new s c events seen (unique, n) =
     (unique @ fst (filter_new s c events seen ([], 0)), n + snd (filter_new s c events seen ([], 0)))"
proof (induction events arbitrary: seen unique n)
  case (Cons e es)
  show ?case
    using Cons.IH [of seen unique "n + 1"] Cons.IH [of seen "[]" 1]
      Cons.IH [of "buildEventKey e # seen" "unique @ [e]" n] Cons.IH [of "buildEventKey e # seen" "[e]" 0]
    by simp
qed simp

lemma filter_new_Cons:
  "filter_new s c (e # es) seen ([], 0) =
     (if is_known s c seen e then map_prod id Suc (filter_new s c es seen ([], 0))
      else map_prod (Cons e) id (filter_new s c es (buildEventKey e # seen) ([], 0)))"
  using filter_new_acc [of s c es seen "[]" 1] filter_new_acc [of s c es "buildEventKey e # seen" "[e]" 0]
  by (simp add: map_prod_def split_beta)

lemma filter_new_spec:
  "distinct (map buildEventKey (fst (filter_new s c events seen ([], 0))))
    \<and> buildEventKey ` set (fst (filter_new s c events seen ([], 0))) = {k \<in> buildEventKey ` set events. k \<notin> set seen
          \<and> \<not> hasProcessedEvent c k s \<and> \<not> isEventQueuedForRetry c k s}
    \<and> subseq (fst (filter_new s c events seen ([], 0))) events
    \<and> length (fst (filter_new s c events seen ([], 0))) + snd (filter_new s c events seen ([], 0)) = length events"
proof (induction events arbitrary: seen)
  case (Cons e es)
  show ?case
  proof (cases "is_known s c seen e")
    case True
    then show ?thesis using Cons.IH [of seen]
      by (simp add: filter_new_Cons del: filter_new.simps) (auto simp: is_known_def)
  next
    case False
    then show ?thesis using Cons.IH [of "buildEventKey e # seen"]
      by (simp add: filter_new_Cons del: filter_new.simps) (auto simp: is_known_def image_iff)
  qed
qed simp

text \<open>
  \<open>filterNewEvents\<close> keeps, in scan order and once per event key, exactly the events that are
  neither processed nor queued for retry, and counts the rest as duplicates.
\<close>

theorem filter_new_events_exact:
  "let (new, duplicates) = filterNewEvents s c events in
     subseq new events \<and> distinct (map buildEventKey new)
     \<and> buildEventKey ` set new = {k \<in> buildEventKey ` set events. \<not> hasProcessedEvent c k s \<and> \<not> isEventQueuedForRetry c k s}
     \<and> length new + duplicates = length events"
  using filter_new_spec [of s c events "[]"] by (simp add: filterNewEvents_def split_beta)

section \<open>Invariants of a tick\<close>

text \<open>
  What every step of a tick keeps, the whole tick keeps. The laws list the steps: the durable-queue
  operations, processing one request, and the direct updates of the state; \<open>J\<close> is what the work
  before discovery starts from. That work is a sequence of four operations.
\<close>

lemma then_world_rule:
  "I (snd m) \<Longrightarrow> (\<And>x w. m = (Inr x, w) \<Longrightarrow> I w \<Longrightarrow> I (snd (f x w))) \<Longrightarrow> I (snd (then_world m f))"
  by (cases m; cases "fst m") (auto simp: then_world_def)

lemma prepare_chain_rule:
  assumes "I w" "\<And>w. I w \<Longrightarrow> I (snd (syncManualActions sv c w))"
    and "\<And>w. I w \<Longrightarrow> I (snd (quarantineDurableBacklogBelowRequestFloor config sv c w))"
    and "\<And>w. I w \<Longrightarrow> I (snd (hydrateDurableQueue config sv c w))"
    and "\<And>m w. I w \<Longrightarrow> I (on_state (\<lambda>_. snd (pruneRetryQueueBelowRequestFloor c m (w_state w))) w)"
    and "\<And>w. I w \<Longrightarrow> I (persistState w)"
  shows "I (snd (prepare_chain config sv c w))"
  unfolding prepare_chain_def using assms
  by (intro then_world_rule [where I = I]) (simp_all add: Let_def split_beta)

locale tick_invariant =
  fixes J :: "world \<Rightarrow> bool" and I :: "world \<Rightarrow> bool"
    and config :: "'a relayer_config_scheme" and sv :: services and io :: chain_io and c :: chain
    and mine :: "oracle_event \<Rightarrow> retry_item option \<Rightarrow> bool"
  assumes event: "I w \<Longrightarrow> mine e item \<Longrightarrow> I (snd (processEvent config sv io e item w))"
    and entry: "J w \<Longrightarrow> I w"
    and prepare: "J w \<Longrightarrow> I (snd (prepare_chain config sv c w))"
    and fresh: "I w \<Longrightarrow> I (snd (persistFreshEventsToDurableQueue config sv c es w))"
    and deferral: "I w \<Longrightarrow> (\<And>e. e \<in> set es \<Longrightarrow> mine e None) \<Longrightarrow> I (snd (deferEventsForBackpressure config sv c es w))"
    and block_cursor: "I w \<Longrightarrow> I (on_state (\<lambda>_. snd (resolveChainFromBlock config c tip (w_state w))) w)"
    and request_cursor: "I w \<Longrightarrow> I (on_state (\<lambda>_. snd (resolveRequestCursor config c tip (w_state w))) w)"
    and bookkeeping: "I w \<Longrightarrow> (\<And>cs. retry_queue (f cs) = retry_queue cs \<and> processed_records (f cs) = processed_records cs
        \<and> processed_order (f cs) = processed_order cs \<and> dead_letters (f cs) = dead_letters cs) \<Longrightarrow> I (on_state (upd_chain c f) w)"
    and metric: "I w \<Longrightarrow> I (on_state (incrementMetric name n) w)"
    and persist: "I w \<Longrightarrow> I (persistState w)"
    and due: "I w \<Longrightarrow> i \<in> set (retry_queue (chain_states (w_state w) c)) \<Longrightarrow> mine (ri_event i) (Some i)"
begin

lemmas then_keeps = then_world_rule [where I = I]

lemma all_keeps: "I w \<Longrightarrow> (\<And>e item. (e, item) \<in> set jobs \<Longrightarrow> mine e item) \<Longrightarrow> I (snd (process_all config sv io jobs w))"
proof (induction jobs arbitrary: w)
  case (Cons job jobs)
  obtain e item where job: "job = (e, item)" by fastforce
  show ?case unfolding job process_all.simps
    using Cons.prems Cons.IH event [of w e item] by (intro then_keeps) (auto simp: job)
qed simp

lemma due_keeps: "I w \<Longrightarrow> I (snd (runDueRetries config sv io c w))"
proof -
  assume w: "I w"
  have "mine e item" if "(e, item) \<in> set (map (\<lambda>item. (ri_event item, Some item)) (retry_batch config (getDueRetryItems c (sv_now sv) (w_state w))))" for e item
    using that due [OF w] by (auto simp: retry_batch_def getDueRetryItems_def dest!: in_set_takeD)
  then show ?thesis using w metric by (auto simp: runDueRetries_def Let_def intro!: all_keeps)
qed

lemma cursor_keeps: "I w \<Longrightarrow> I (set_cursor on_last_block c to w)" "I w \<Longrightarrow> I (set_cursor on_last_request_id c to w)"
  by (simp_all add: set_cursor_def on_last_block_def on_last_request_id_def persist bookkeeping)

lemma fresh_keeps: "I w \<Longrightarrow> I (snd (fresh_events c es w))"
  by (simp add: fresh_events_def Let_def split_beta metric)

lemma fresh_events_subset: "set (fst (fresh_events c es w)) \<subseteq> set es"
  using filter_new_spec [of "w_state (on_state (incrementMetric ''events_scanned_total'' (int (length es))) w)" c es "[]"]
  by (auto simp: fresh_events_def filterNewEvents_def Let_def split_beta dest: list_emb_set)

lemma defer_subset: "set (fst (fst (deferEventsForBackpressure config sv c es w))) \<subseteq> set es"
  by (auto simp: deferEventsForBackpressure_def Let_def dest: in_set_takeD)

lemma window_keeps:
  assumes "I w" "\<And>e. e \<in> set scanned \<Longrightarrow> mine e None" "\<And>to w. I w \<Longrightarrow> I (set_cursor cur c to w)"
  shows "I (snd (process_window config sv io c cur from to tip scanned w))"
proof -
  obtain events w1 where f: "fresh_events c scanned w = (events, w1)" by fastforce
  have sub: "set events \<subseteq> set scanned" using fresh_events_subset [of scanned w] f by simp
  have "I (snd (process_all config sv io (map (\<lambda>e. (e, None)) (fst (fst (deferEventsForBackpressure config sv c events v))))
      (snd (deferEventsForBackpressure config sv c events v))))" if "I v" for v
    using that deferral [of v events] defer_subset [of events v] sub assms(2) by (intro all_keeps) auto
  then show ?thesis
    using fresh_keeps [OF assms(1), of scanned] f fresh assms(3)
    by (auto simp: process_window_def split_beta intro!: then_keeps)
qed

lemma caught_keeps: "I (snd m) \<Longrightarrow> I (snd (caught name x m))"
  using metric by (cases m; cases "fst m") (auto simp: caught_def)

lemma blocks_keeps:
  assumes "I w" "\<And>a b es e. dc_scan dc a b = Inr es \<Longrightarrow> e \<in> set es \<Longrightarrow> mine e None"
  shows "I (snd (discover_blocks config sv io c dc w))"
proof -
  let ?v = "on_state (upd_chain c (\<lambda>cs. cs\<lparr>last_discovery_at := sv_now sv\<rparr>)) w"
  have v: "I ?v" using assms(1) by (simp add: bookkeeping)
  have "I (on_state (\<lambda>_. snd (resolveChainFromBlock config c tip (w_state ?v))) ?v)" for tip
    by (rule block_cursor [OF v])
  then show ?thesis
    unfolding discover_blocks_def Let_def
    using v assms(2) by (auto simp: lift_call_def split_beta cursor_keeps simp del: world_sel intro!: then_keeps window_keeps)
qed

lemma note_idle_keeps: "I w \<Longrightarrow> I (on_state (note_idle config sv c) w)"
proof -
  assume w: "I w"
  have "on_state (note_idle config sv c) w \<in> {w, on_state (incrementMetric ''discovery_idle_skips_total'' 1) w,
      on_state (upd_chain c (\<lambda>cs. cs\<lparr>idle_discovery_skips := 0\<rparr>)) w}"
    by (simp add: note_idle_def on_state_def)
  then show ?thesis using w metric bookkeeping by auto
qed

lemma reconcile_keeps:
  assumes "I w" "\<And>scan a b es e. dc_scanByRequestId dc = Some scan \<Longrightarrow> scan a b = Inr es \<Longrightarrow> e \<in> set es \<Longrightarrow> mine e None"
  shows "I (snd (reconcilePendingRequests config sv io c dc excluded w))"
proof -
  have "I (snd (process_all config sv io (map (\<lambda>e. (e, None)) (fst (fresh_events c (pending_only excluded c s es) v))) v'))"
    if "I v'" "\<And>e. e \<in> set es \<Longrightarrow> mine e None" for v v' s es
    using that fresh_events_subset [of "pending_only excluded c s es" v] by (intro all_keeps) (auto simp: pending_only_def)
  then show ?thesis
    using assms
    by (auto simp: reconcilePendingRequests_def Let_def lift_call_def split_beta request_cursor fresh fresh_keeps cursor_keeps
        split: option.split intro!: then_keeps)
qed

lemma chain_keeps:
  assumes "J w" "\<And>a b es e. dc_scan dc a b = Inr es \<Longrightarrow> e \<in> set es \<Longrightarrow> mine e None"
    and "\<And>scan a b es e. dc_scanByRequestId dc = Some scan \<Longrightarrow> scan a b = Inr es \<Longrightarrow> e \<in> set es \<Longrightarrow> mine e None"
  shows "I (snd (processChain config sv io c dc w))"
proof -
  have rec: "I (snd (caught ''reconciliation_failures_total'' None
      (case reconcilePendingRequests config sv io c dc obs v of (r, w) \<Rightarrow> (map_sum id Some r, w))))" if "I v" for v obs
    using reconcile_keeps [OF that assms(3)] by (intro caught_keeps) (simp add: split_beta)
  have disc: "I (snd (if b then ((no_scan, []), v) else caught ''discovery_failures_total'' (no_scan, [])
      (discover_blocks config sv io c dc v)))" if "I v" for b v
    using that caught_keeps [OF blocks_keeps [OF that assms(2)]] by simp
  show ?thesis
    using assms(1) entry prepare note_idle_keeps disc rec due_keeps
    by (auto simp: processChain_def Let_def split_beta intro!: then_keeps)
qed

lemma request_chain_keeps:
  assumes "J w" "\<And>a b es e. dc_scan dc a b = Inr es \<Longrightarrow> e \<in> set es \<Longrightarrow> mine e None"
  shows "I (snd (processChainByRequestCursor config sv io c dc w))"
proof -
  have lane: "I (snd (caught ''discovery_failures_total'' (Inr no_scan) (request_lane config sv io c dc v)))" if "I v" for v
    unfolding request_lane_def Let_def
    using that assms(2)
    by (auto simp: lift_call_def split_beta request_cursor cursor_keeps due_keeps intro!: caught_keeps then_keeps window_keeps)
  show ?thesis
    using assms(1) entry prepare lane due_keeps
    by (auto simp: processChainByRequestCursor_def Let_def split_beta intro!: then_keeps split: sum.split)
qed

end

section \<open>The state invariant over a tick\<close>

lemma patch_chunks_state [simp]: "w_state (snd (patch_chunks sv plan n w)) = w_state w"
proof (induction plan arbitrary: n w)
  case (Cons x plan)
  then show ?case by (cases x) (auto split: prod.split sum.split, (metis snd_conv supabaseRequest_state)+)
qed simp

lemma quarantine_state [simp]: "w_state (snd (quarantineDurableBacklogBelowRequestFloor config sv c w)) = w_state w"
proof -
  have f: "w_state w1 = w_state w" if "fetchRelayerJobsByStatuses sv st c n w = (r, w1)" for st n r w1
    using that by (metis snd_conv fetchRelayerJobsByStatuses_state)
  have "w_state (snd (quarantineRelayerJobsBelowRequestId sv c m st nt w)) = w_state w" for m st nt
    by (auto simp: quarantineRelayerJobsBelowRequestId_def Let_def f split: prod.split sum.split)
  then show ?thesis
    by (simp add: quarantineDurableBacklogBelowRequestFloor_def Let_def split_beta split: option.split sum.split bool.split)
qed

lemma state_inv_bookkeeping:
  assumes "state_inv config s"
    and "\<And>cs. retry_queue (f cs) = retry_queue cs \<and> processed_records (f cs) = processed_records cs
        \<and> processed_order (f cs) = processed_order cs \<and> dead_letters (f cs) = dead_letters cs"
  shows "state_inv config (upd_chain c f s)"
  using assms by (auto simp: state_inv_def chain_inv_def lanes_bounded_def upd_chain_def)

section \<open>Snapshots of the durable queue\<close>

lemma keeps_request: "keeps P w0 w \<Longrightarrow> keeps P w0 (snd (supabaseRequest sv x w))"
  by (erule keeps_unsaved [OF _ unsaved_request])

lemma keeps_transient: "keeps P w0 w \<Longrightarrow> keeps P w0 (snd (isTransientDurableQueueError sv e (snd (mark_unavailable sv e w))))"
  using keeps_unsaved unsaved_mark unsaved_transient by blast

lemma keeps_patch_chunks: "keeps P w0 w \<Longrightarrow> keeps P w0 (snd (patch_chunks sv plan n w))"
proof (induction plan arbitrary: n w)
  case (Cons x plan)
  obtain e ks where x: "x = (e, ks)" by fastforce
  obtain r w1 where q: "supabaseRequest sv (PatchMany ks (quarantine_patch (sv_now sv) e)) w = (r, w1)" by fastforce
  then have "keeps P w0 w1" using keeps_request [OF Cons.prems] by (metis snd_conv)
  then show ?case using Cons.IH by (cases r) (simp_all add: x q)
qed simp

lemma keeps_quarantine:
  assumes "keeps P w0 w"
  shows "keeps P w0 (snd (quarantineDurableBacklogBelowRequestFloor config sv c w))"
proof -
  have "keeps P w0 (snd (quarantineRelayerJobsBelowRequestId sv c m st nt w))" for m st nt
  proof -
    obtain r w1 where f: "fetchRelayerJobsByStatuses sv st c 5000 w = (r, w1)" by force
    then have "keeps P w0 w1" using keeps_unsaved [OF assms unsaved_fetch] by (metis snd_conv)
    then show ?thesis by (cases r) (simp_all add: quarantineRelayerJobsBelowRequestId_def f Let_def keeps_patch_chunks)
  qed
  then show ?thesis
    using assms
    by (simp add: quarantineDurableBacklogBelowRequestFloor_def Let_def split_beta keeps_transient split: option.split sum.split bool.split)
qed

lemma keeps_persistFresh:
  assumes "keeps P w0 w"
  shows "keeps P w0 (snd (persistFreshEventsToDurableQueue config sv c es w))"
proof -
  have i: "keeps P w0 (snd (insert_fresh sv ds v))" if "keeps P w0 v" for ds v
    using that
  proof (induction ds arbitrary: v)
    case (Cons e ds)
    let ?x = "InsertIfAbsent (buildRelayerJobRecord (sv_network sv) e
        ((job_details_of (buildEventKey e) ''queued'' 0)\<lparr>jd_next_retry_at := Some (sv_now sv)\<rparr>) (sv_now sv))"
    obtain r w1 where q: "supabaseRequest sv ?x v = (r, w1)" by fastforce
    then have "keeps P w0 w1" using keeps_request [OF Cons.prems] by (metis snd_conv)
    then show ?case using Cons.IH by (cases r) (simp_all add: q)
  qed simp
  obtain r w1 where q: "insert_fresh sv es w = (r, w1)" by fastforce
  then have w1: "keeps P w0 w1" using i [OF assms] by (metis snd_conv)
  then have "keeps P w0 (snd (isTransientDurableQueueError sv e w1))" for e using keeps_unsaved unsaved_transient by blast
  then show ?thesis
    using assms w1 by (simp add: persistFreshEventsToDurableQueue_def q Let_def split_beta split: sum.split bool.split)
qed

text \<open>
  A predicate on states that every update of a chain's part of the state keeps: then the tick keeps
  it, of the state and of every snapshot.
\<close>

locale chain_frame =
  fixes P :: "relayer_state \<Rightarrow> bool" and config :: "'a relayer_config_scheme" and c :: chain
  assumes event: "event_frame P config e"
    and manual: "P s \<Longrightarrow> P (apply_manual_action c now job e s)"
    and hydrate: "P (snd acc) \<Longrightarrow> P (snd (hydrate_job config c now job acc))"
    and put: "P s \<Longrightarrow> eo_retryQueueLimit opts = retryQueueLimit config \<Longrightarrow> eo_deadLetterLimit opts = deadLetterLimit config \<Longrightarrow>
        P (snd (enqueueRetryItem c e opts now s))"
    and prune: "P s \<Longrightarrow> P (snd (pruneRetryQueueBelowRequestFloor c m s))"
    and block_cursor: "P s \<Longrightarrow> P (snd (resolveChainFromBlock config c tip s))"
    and request_cursor: "P s \<Longrightarrow> P (snd (resolveRequestCursor config c tip s))"
    and bookkeeping: "P s \<Longrightarrow> (\<And>cs. retry_queue (f cs) = retry_queue cs \<and> processed_records (f cs) = processed_records cs
        \<and> processed_order (f cs) = processed_order cs \<and> dead_letters (f cs) = dead_letters cs) \<Longrightarrow> P (upd_chain c f s)"
begin

lemma metric: "P s \<Longrightarrow> P (incrementMetric name n s)"
  by (rule event_frame.metric [OF event])

lemma kept_state: "keeps P w0 w \<Longrightarrow> P (w_state w)"
  by (rule keeps_state)

lemma sync_rows_keeps: "keeps P w0 w \<Longrightarrow> keeps P w0 (snd (sync_manual_rows sv c jobs applied w))"
proof (induction jobs arbitrary: applied w)
  case (Cons job jobs)
  have q: "keeps P w0 w'" if "supabaseRequest sv x v = (r, w')" "keeps P w0 v" for x v r w'
    using that keeps_request by (metis snd_conv)
  have m: "keeps P w0 (on_state (apply_manual_action c (sv_now sv) job e) w)" for e
    using Cons.prems keeps_state [OF Cons.prems] by (simp add: keeps_on_state manual)
  show ?case
    using Cons.IH Cons.prems q m by (auto simp: Let_def split: option.split prod.split sum.split)
qed simp

lemma syncManual_keeps:
  assumes "keeps P w0 w"
  shows "keeps P w0 (snd (syncManualActions sv c w))"
proof -
  let ?st = "[''manual_retry_requested'', ''manual_replay_requested'']"
  obtain r w1 where f: "fetchRelayerJobsByStatuses sv ?st c 50 w = (r, w1)" by force
  then have w1: "keeps P w0 w1" using keeps_unsaved [OF assms unsaved_fetch] by (metis snd_conv)
  then have "keeps P w0 (snd (mark_unavailable sv e w1))" for e using keeps_unsaved unsaved_mark by blast
  then show ?thesis
    using assms sync_rows_keeps [OF w1, of sv]
    by (cases r) (simp_all add: syncManualActions_def f split_beta keeps_persist split: sum.split)
qed

lemma hydrate_keeps:
  assumes "keeps P w0 w"
  shows "keeps P w0 (snd (hydrateDurableQueue config sv c w))"
proof -
  let ?n = "max (or_num (Some (durableSyncLimit config)) 200) 1"
  obtain r w1 where f: "fetchRelayerJobsByStatuses sv open_statuses c ?n w = (r, w1)" by force
  then have w1: "keeps P w0 w1" using keeps_unsaved [OF assms unsaved_fetch] by (metis snd_conv)
  have "P (snd (fold (hydrate_job config c (sv_now sv)) jobs acc))" if "P (snd acc)" for jobs acc
    using that hydrate by (induction jobs arbitrary: acc) simp_all
  then have "keeps P w0 (w1\<lparr>w_state := snd (fold (hydrate_job config c (sv_now sv)) jobs ([], w_state w1))\<rparr>)" for jobs
    using keeps_on_state [OF w1, of "\<lambda>s. snd (fold (hydrate_job config c (sv_now sv)) jobs ([], s))"] keeps_state [OF w1]
    by (simp add: on_state_def)
  then show ?thesis
    using assms w1
    by (cases r) (simp_all add: hydrateDurableQueue_def f Let_def split_beta keeps_persist keeps_transient split: sum.split bool.split)
qed

lemma defer_keeps:
  assumes "keeps P w0 w"
  shows "keeps P w0 (snd (deferEventsForBackpressure config sv c es w))"
proof -
  have "keeps P w0 (defer_event config sv c t e v)" if "keeps P w0 v" for t e v
    unfolding defer_event_def using that keeps_state [OF that] by (intro keeps_upsert keeps_on_state) (simp_all add: put)
  then have f: "keeps P w0 (fold (defer_event config sv c t) ds v)" if "keeps P w0 v" for t ds v
    using that by (induction ds arbitrary: v) simp_all
  show ?thesis
    using assms f [OF assms] keeps_state [OF f [OF assms]]
    by (simp add: deferEventsForBackpressure_def Let_def keeps_persist keeps_on_state metric)
qed

lemma prepare_keeps: "keeps P w0 w \<Longrightarrow> keeps P w0 (snd (prepare_chain config sv c w))"
  by (rule prepare_chain_rule [where I = "keeps P w0"])
    (auto simp: syncManual_keeps keeps_quarantine hydrate_keeps intro: keeps_on_state keeps_persist prune kept_state)

sublocale tick: tick_invariant "keeps P w0" "keeps P w0" config sv io c "\<lambda>_ _. True" for w0 sv io
proof unfold_locales
  fix w e item
  assume w: "keeps P w0 w"
  show "keeps P w0 (snd (processEvent config sv io e item w))"
    by (rule keeps_trans [OF w]) (rule event_frame.processEvent_keeps [OF event], rule keeps_state [OF w])
qed (auto simp: prepare_keeps keeps_persistFresh defer_keeps
      intro!: keeps_on_state keeps_persist block_cursor request_cursor bookkeeping metric kept_state)

end

interpretation tick_inv: chain_frame "state_inv config" config c for config c
proof unfold_locales
  fix s and f :: "chain_state \<Rightarrow> chain_state"
  assume "state_inv config s" "\<And>cs. retry_queue (f cs) = retry_queue cs \<and> processed_records (f cs) = processed_records cs
        \<and> processed_order (f cs) = processed_order cs \<and> dead_letters (f cs) = dead_letters cs"
  then show "state_inv config (upd_chain c f s)" by (rule state_inv_bookkeeping)
qed (simp_all add: state_inv_hydrate_job inv_intros)

text \<open>
  C5: A whole tick of a chain keeps the state invariant, whatever it discovers and whatever fails:
  each retry item under the key of its event and no key twice, the processed cache and its order in
  step, and both bounded lanes within their limits. The invariant holds of the state when the tick
  ends, also in an exception, and of every snapshot the tick hands to the writer on the way, in both
  discovery modes.
\<close>

theorem tick_keeps_state_inv:
  assumes "state_inv config (w_state w)"
  shows "keeps (state_inv config) w (snd (processChain config sv io c dc w))
    \<and> keeps (state_inv config) w (snd (processChainByRequestCursor config sv io c dc w))"
  using tick_inv.tick.chain_keeps [of config w w] tick_inv.tick.request_chain_keeps [of config w w] keeps_refl [where P = "state_inv config", OF assms] by simp

text \<open>A witness: a tick that hydrates nothing, sees an unreachable node and runs no retry.\<close>

definition dead_node :: discovery where
  "dead_node = \<lparr>dc_hasConfig = True, dc_getLatestBlock = Inl ''timeout'', dc_getLatestRequestId = None,
     dc_scan = (\<lambda>a b. Inr []), dc_scanByRequestId = None\<rparr>"

theorem tick_keeps_state_inv_witness:
  "keeps (state_inv sample_config) (sample_world [failing_item 1])
     (snd (processChain sample_config sample_services (sample_io (Inr JNull)) Neo_N3 dead_node (sample_world [failing_item 1])))"
  using tick_keeps_state_inv [OF failing_state_inv] by blast

end
