(* ===== verification/Tick_Isolation.thy ===== *)
theory Tick_Isolation
  imports Request_Processor_Facts
begin

text \<open>
  A tick of one chain leaves the state of the other chain alone: its cursors, its processed cache,
  its retry queue and its dead letters.
\<close>

section \<open>Queues of one chain\<close>

definition own_queue :: "chain \<Rightarrow> relayer_state \<Rightarrow> bool" where
  "own_queue c s \<longleftrightarrow> (\<forall>i \<in> set (retry_queue (chain_states s c)). ev_chain (ri_event i) = c)"

definition undisturbed :: "chain \<Rightarrow> chain \<Rightarrow> chain_state \<Rightarrow> relayer_state \<Rightarrow> bool" where
  "undisturbed c c' x s \<longleftrightarrow> own_queue c s \<and> c' \<noteq> c \<and> chain_states s c' = x"

lemma own_queue_frame [simp]:
  "own_queue c (incrementMetric name n s) = own_queue c s"
  "own_queue c (incrementLabeledFailure a b p n s) = own_queue c s"
  "own_queue c (s\<lparr>last_fulfill_latency_ms := x\<rparr>) = own_queue c s"
  by (simp_all add: own_queue_def)

lemma own_queue_subset:
  "own_queue c s \<Longrightarrow> set (retry_queue (chain_states t c)) \<subseteq> set (retry_queue (chain_states s c)) \<Longrightarrow> own_queue c t"
  by (auto simp: own_queue_def)

lemma own_queue_clear: "own_queue c s \<Longrightarrow> own_queue c (clearRetryItem c k s)"
  by (erule own_queue_subset) (auto simp: clearRetryItem_def remove_item_def)

lemma own_queue_record: "own_queue c s \<Longrightarrow> own_queue c (recordProcessedEvent config c e status meta now s)"
  by (erule own_queue_subset)
    (auto simp: recordProcessedEvent_def record_processed_chain_def remove_item_def Let_def split_beta)

lemma enforce_queue: "set (retry_queue (chain_states (snd (enforceRetryQueueLimit c l d now s)) c)) \<subseteq> set (retry_queue (chain_states s c))"
  by (auto simp: enforceRetryQueueLimit_chain Let_def dest: in_set_dropD)

lemma own_queue_put:
  assumes "own_queue c s" "ev_chain (ri_event i) = c"
  shows "own_queue c (queue_put config c now i s)"
  unfolding queue_put_def
proof (rule own_queue_subset [OF _ enforce_queue])
  show "own_queue c (upd_chain c (\<lambda>cs. cs\<lparr>retry_queue := upsert_item i (retry_queue cs)\<rparr>) s)"
    using assms set_upsert_item [of i "retry_queue (chain_states s c)"] by (auto simp: own_queue_def)
qed

lemma own_queue_enqueue:
  assumes "own_queue c s" "ev_chain e = c"
  shows "own_queue c (snd (enqueueRetryItem c e opts now s))"
proof -
  let ?i = "build_retry_item e opts now"
  have "own_queue c (upd_chain c (\<lambda>cs. cs\<lparr>retry_queue := upsert_item ?i (retry_queue cs)\<rparr>) s)"
    using assms set_upsert_item [of ?i "retry_queue (chain_states s c)"] by (auto simp: own_queue_def)
  from own_queue_subset [OF this enforce_queue] show ?thesis by (simp add: enqueueRetryItem_def Let_def)
qed

lemma enqueue_other: "c' \<noteq> c \<Longrightarrow> chain_states (snd (enqueueRetryItem c e opts now s)) c' = chain_states s c'"
  by (simp add: enqueueRetryItem_def Let_def enforceRetryQueueLimit_other)

lemma undisturbed_enqueue: "undisturbed c c' x s \<Longrightarrow> ev_chain e = c \<Longrightarrow> undisturbed c c' x (snd (enqueueRetryItem c e opts now s))"
  by (simp add: undisturbed_def own_queue_enqueue enqueue_other)

lemma undisturbed_metric: "undisturbed c c' x (incrementMetric name n s) = undisturbed c c' x s"
  by (simp add: undisturbed_def)

lemma processEvent_undisturbed:
  assumes "undisturbed c c' x (w_state w)" "ev_chain event = c"
  shows "undisturbed c c' x (w_state (snd (processEvent config sv io event item w)))"
proof -
  have "event_frame (undisturbed c c' x) config event"
    using assms(2)
    by unfold_locales (auto simp: undisturbed_def own_queue_record own_queue_clear own_queue_put)
  then show ?thesis using assms(1) by (rule event_frame.processEvent_kept)
qed

section \<open>The durable queue\<close>

text \<open>The rows the store returns for a chain carry events of that chain.\<close>

definition row_chain :: "chain \<Rightarrow> durable_job \<Rightarrow> bool" where
  "row_chain c job \<longleftrightarrow> (case dj_event job of None \<Rightarrow> True | Some e \<Rightarrow> ev_chain e = c)"

definition rows_of_chain :: "services \<Rightarrow> chain \<Rightarrow> bool" where
  "rows_of_chain sv c \<longleftrightarrow> (\<forall>tr st n rows. sv_fetch sv tr st c n = Inr rows \<longrightarrow> list_all (row_chain c) rows)"

lemma fetched_rows:
  assumes "rows_of_chain sv c" "fetchRelayerJobsByStatuses sv st c n w = (Inr rows, w')"
  shows "\<forall>job \<in> set rows. row_chain c job"
  using assms
  by (auto simp: fetchRelayerJobsByStatuses_def rows_of_chain_def list_all_iff Let_def split: if_splits sum.splits reply.splits)

lemma apply_manual_undisturbed:
  assumes "undisturbed c c' x s" "ev_chain e = c"
  shows "undisturbed c c' x (apply_manual_action c now job e s)"
proof -
  define k where "k = job_key job e"
  have "undisturbed c c' x (if dj_status job = ''manual_replay_requested'' then removeProcessedEvent c k s else s)"
    using assms(1) by (auto simp: undisturbed_def own_queue_def removeProcessedEvent_def Let_def)
  then have "undisturbed c c' x (clearRetryItem c k (removeDeadLetter c k
      (if dj_status job = ''manual_replay_requested'' then removeProcessedEvent c k s else s)))"
    by (auto simp: undisturbed_def own_queue_def removeDeadLetter_def clearRetryItem_def remove_item_def)
  then show ?thesis
    unfolding apply_manual_action_def Let_def k_def [symmetric] undisturbed_metric
    using assms(2) by (intro undisturbed_enqueue)
qed

lemma sync_rows_undisturbed:
  assumes "undisturbed c c' x (w_state w)" "\<forall>job \<in> set jobs. row_chain c job"
  shows "undisturbed c c' x (w_state (snd (sync_manual_rows sv c jobs applied w)))"
  using assms
proof (induction jobs arbitrary: applied w)
  case (Cons job jobs)
  have q: "w_state w' = w_state v" if "supabaseRequest sv r v = (a, w')" for r v a w'
    using that supabaseRequest_state [of sv r v] by simp
  have "undisturbed c c' x (apply_manual_action c (sv_now sv) job e (w_state w))" if "dj_event job = Some e" for e
    using Cons.prems that by (intro apply_manual_undisturbed) (auto simp: row_chain_def)
  then show ?case
    using Cons.IH Cons.prems by (auto simp: Let_def q split: option.split prod.split sum.split)
qed simp

lemma syncManual_undisturbed:
  assumes "undisturbed c c' x (w_state w)" "rows_of_chain sv c"
  shows "undisturbed c c' x (w_state (snd (syncManualActions sv c w)))"
proof -
  let ?st = "[''manual_retry_requested'', ''manual_replay_requested'']"
  obtain r w1 where f: "fetchRelayerJobsByStatuses sv ?st c 50 w = (r, w1)" by force
  then have w1: "w_state w1 = w_state w" using fetchRelayerJobsByStatuses_state [of sv ?st c 50 w] by simp
  have "undisturbed c c' x (w_state (snd (sync_manual_rows sv c jobs [] w1)))" if "r = Inr jobs" for jobs
    using sync_rows_undisturbed [of c c' x w1 jobs sv "[]"] assms fetched_rows [OF assms(2) f [unfolded that]] w1 by simp
  then show ?thesis
    using assms w1 by (cases r) (simp_all add: syncManualActions_def f split_beta split: sum.split)
qed

lemma hydrate_job_undisturbed:
  assumes "undisturbed c c' x (snd acc)" "row_chain c job"
  shows "undisturbed c c' x (snd (hydrate_job config c now job acc))"
  using assms by (auto simp: row_chain_def hydrate_job_def Let_def split_beta undisturbed_enqueue undisturbed_metric split: option.split)

lemma fold_hydrate_undisturbed:
  assumes "undisturbed c c' x (snd acc)" "\<forall>job \<in> set jobs. row_chain c job"
  shows "undisturbed c c' x (snd (fold (hydrate_job config c now) jobs acc))"
  using assms by (induction jobs arbitrary: acc) (simp_all add: hydrate_job_undisturbed)

lemma hydrate_undisturbed:
  assumes "undisturbed c c' x (w_state w)" "rows_of_chain sv c"
  shows "undisturbed c c' x (w_state (snd (hydrateDurableQueue config sv c w)))"
proof -
  let ?n = "max (or_num (Some (durableSyncLimit config)) 200) 1"
  obtain r w1 where f: "fetchRelayerJobsByStatuses sv open_statuses c ?n w = (r, w1)" by force
  then have w1: "w_state w1 = w_state w" using fetchRelayerJobsByStatuses_state [of sv open_statuses c ?n w] by simp
  have "undisturbed c c' x (snd (fold (hydrate_job config c (sv_now sv)) jobs ([], w_state w1)))" if "r = Inr jobs" for jobs
    using assms(1) w1 fetched_rows [OF assms(2) f [unfolded that]] by (intro fold_hydrate_undisturbed) auto
  then show ?thesis
    using assms(1) w1
    by (cases r) (simp_all add: hydrateDurableQueue_def f Let_def split_beta split: sum.split bool.split)
qed

section \<open>The tick\<close>

lemma defer_undisturbed:
  assumes "undisturbed c c' x (w_state w)" "\<forall>e \<in> set es. ev_chain e = c"
  shows "undisturbed c c' x (w_state (snd (deferEventsForBackpressure config sv c es w)))"
proof -
  have f: "undisturbed c c' x (w_state (fold (defer_event config sv c t) ds v))"
    if "undisturbed c c' x (w_state v)" "\<forall>e \<in> set ds. ev_chain e = c" for t ds v
    using that by (induction ds arbitrary: v) (simp_all add: defer_event_def undisturbed_enqueue)
  have "\<forall>e \<in> set (drop n es). ev_chain e = c" for n using assms(2) by (auto dest: in_set_dropD)
  from f [OF assms(1) this] show ?thesis
    using assms by (auto simp: deferEventsForBackpressure_def Let_def undisturbed_metric)
qed

lemma upd_chain_undisturbed:
  "undisturbed c c' x s \<Longrightarrow> set (retry_queue (f (chain_states s c))) \<subseteq> set (retry_queue (chain_states s c)) \<Longrightarrow>
   undisturbed c c' x (upd_chain c f s)"
  by (auto simp: undisturbed_def own_queue_def)

lemma prune_undisturbed:
  "undisturbed c c' x s \<Longrightarrow> undisturbed c c' x (snd (pruneRetryQueueBelowRequestFloor c m s))"
  by (auto simp: pruneRetryQueueBelowRequestFloor_def Let_def intro!: upd_chain_undisturbed split: option.split)

lemma cursor_undisturbed:
  "undisturbed c c' x s \<Longrightarrow> undisturbed c c' x (snd (resolveChainFromBlock config c tip s))"
  "undisturbed c c' x s \<Longrightarrow> undisturbed c c' x (snd (resolveRequestCursor config c tip s))"
  by (auto simp: resolveChainFromBlock_def resolveRequestCursor_def Let_def intro!: upd_chain_undisturbed split: option.split)

lemma tick_isolated:
  assumes "rows_of_chain sv c"
  shows "tick_invariant (\<lambda>w. undisturbed c c' x (w_state w)) (\<lambda>w. undisturbed c c' x (w_state w)) config sv io c (\<lambda>e item. ev_chain e = c)"
proof
  fix w :: world
  assume w: "undisturbed c c' x (w_state w)"
  show "undisturbed c c' x (w_state (snd (prepare_chain config sv c w)))"
    by (rule prepare_chain_rule [where I = "\<lambda>w. undisturbed c c' x (w_state w)", OF w])
      (use assms in \<open>simp_all add: syncManual_undisturbed hydrate_undisturbed prune_undisturbed\<close>)
next
  fix w :: world and f :: "chain_state \<Rightarrow> chain_state"
  assume "undisturbed c c' x (w_state w)"
    and "\<And>cs. retry_queue (f cs) = retry_queue cs \<and> processed_records (f cs) = processed_records cs
        \<and> processed_order (f cs) = processed_order cs \<and> dead_letters (f cs) = dead_letters cs"
  then show "undisturbed c c' x (w_state (on_state (upd_chain c f) w))" by (simp add: upd_chain_undisturbed)
qed (use assms in \<open>simp_all add: processEvent_undisturbed
      defer_undisturbed cursor_undisturbed undisturbed_metric, simp add: undisturbed_def own_queue_def\<close>)

text \<open>
  C24: The chains are isolated. A tick of chain \<open>c\<close> leaves every part of the other chain's state as it
  was (cursors, processed cache, retry queue, dead letters), in both discovery modes and on every
  error path, when the scans, the store and the retry queue of \<open>c\<close> hold events of \<open>c\<close>.
\<close>

theorem tick_leaves_other_chain:
  assumes "rows_of_chain sv c" "own_queue c (w_state w)" "c' \<noteq> c"
    and "\<And>a b es. dc_scan dc a b = Inr es \<Longrightarrow> \<forall>e \<in> set es. ev_chain e = c"
    and "\<And>scan a b es. dc_scanByRequestId dc = Some scan \<Longrightarrow> scan a b = Inr es \<Longrightarrow> \<forall>e \<in> set es. ev_chain e = c"
  shows "chain_states (w_state (snd (processChain config sv io c dc w))) c' = chain_states (w_state w) c'
    \<and> chain_states (w_state (snd (processChainByRequestCursor config sv io c dc w))) c' = chain_states (w_state w) c'"
proof -
  note t = tick_isolated [OF assms(1), of c' "chain_states (w_state w) c'" config io]
  have u: "undisturbed c c' (chain_states (w_state w) c') (w_state w)" using assms(2,3) by (simp add: undisturbed_def)
  have "undisturbed c c' (chain_states (w_state w) c') (w_state (snd (processChain config sv io c dc w)))"
    using assms(4,5) by (intro tick_invariant.chain_keeps [OF t u]) blast+
  moreover have "undisturbed c c' (chain_states (w_state w) c') (w_state (snd (processChainByRequestCursor config sv io c dc w)))"
    using assms(4) by (intro tick_invariant.request_chain_keeps [OF t u]) blast+
  ultimately show ?thesis by (simp add: undisturbed_def)
qed

theorem tick_leaves_other_chain_witness:
  "chain_states (w_state (snd (processChain sample_config sample_services (sample_io (Inr JNull)) Neo_N3 dead_node
      (sample_world [failing_item 1])))) NeoX = chain_states (w_state (sample_world [failing_item 1])) NeoX"
  using tick_leaves_other_chain [of sample_services Neo_N3 "sample_world [failing_item 1]" NeoX dead_node sample_config
      "sample_io (Inr JNull)"]
  by (simp add: rows_of_chain_def sample_services_def own_queue_def sample_event_def dead_node_def)

end
