(* ===== verification/Tick_Durability.thy ===== *)
theory Tick_Durability
  imports Tick_Isolation
begin

text \<open>
  What a tick leaves in the state file. The relayer reloads the file at every tick, so work that is
  only in memory when a tick ends is lost. \<open>saved d\<close> says that the lanes of the state (retry queue,
  processed cache, dead letters of every chain) are those of the last snapshot handed to the
  writer, or of the file \<open>d\<close> when there was none.
\<close>

section \<open>Saved lanes\<close>

definition lanes :: "relayer_state \<Rightarrow> chain \<Rightarrow> retry_item list \<times> (string \<times> processed_record) list \<times> string list \<times> dead_letter list" where
  "lanes s c = (retry_queue (chain_states s c), processed_records (chain_states s c),
     processed_order (chain_states s c), dead_letters (chain_states s c))"

definition file_after :: "relayer_state \<Rightarrow> effect list \<Rightarrow> relayer_state" where
  "file_after d tr = hd (snapshots tr @ [d])"

definition saved :: "relayer_state \<Rightarrow> world \<Rightarrow> bool" where
  "saved d w \<longleftrightarrow> lanes (w_state w) = lanes (file_after d (w_trace w))"

lemma lanes_cong: "chain_states s = chain_states t \<Longrightarrow> lanes s = lanes t"
  by (simp add: fun_eq_iff lanes_def)

lemma lanes_frame [simp]:
  "lanes (incrementMetric name n s) = lanes s" "lanes (incrementLabeledFailure a b p n s) = lanes s"
  "lanes (s\<lparr>last_fulfill_latency_ms := x\<rparr>) = lanes s"
  by (simp_all add: fun_eq_iff lanes_def)

lemma lanes_bookkeeping:
  "(\<And>cs. retry_queue (f cs) = retry_queue cs \<and> processed_records (f cs) = processed_records cs
     \<and> processed_order (f cs) = processed_order cs \<and> dead_letters (f cs) = dead_letters cs) \<Longrightarrow> lanes (upd_chain c f s) = lanes s"
  by (simp add: fun_eq_iff lanes_def upd_chain_def)

lemma file_after_append: "file_after d (xs @ ys) = file_after (file_after d xs) ys"
  by (cases "snapshots ys") (simp_all add: file_after_def)

lemma saved_persist [simp]: "saved d (persistState w)"
  by (simp add: saved_def file_after_def)

lemma saved_unsaved: "saved d w \<Longrightarrow> unsaved w w' \<Longrightarrow> saved d w'"
  by (auto simp: saved_def unsaved_def file_after_def)

lemma saved_on_state: "saved d w \<Longrightarrow> lanes (f (w_state w)) = lanes (w_state w) \<Longrightarrow> saved d (on_state f w)"
  by (simp add: saved_def)

lemma saved_upsert: "saved d w \<Longrightarrow> saved d (maybeUpsertJob sv e x w)"
  by (erule saved_unsaved [OF _ unsaved_maybeUpsert])

lemmas saved_steps = saved_on_state saved_upsert saved_unsaved

section \<open>Processing a request\<close>

lemma record_saved [simp]:
  "saved d (snd (recordDeliveryExhaustion config sv event n route msg te w))"
  "saved d (snd (recordTerminalOutcome config sv event n ls ds route msg b out w))"
  "saved d (snd (recordFinalizedFailure config sv event n r w))"
  "saved d (snd (record_delivery config sv event n r w))"
  "saved d (snd (scheduleCallbackRetry config sv event n msg ro w))"
  by (simp_all add: recordDeliveryExhaustion_def recordTerminalOutcome_def recordFinalizedFailure_def record_delivery_def
      scheduleCallbackRetry_def Let_def split_beta saved_upsert)

lemma handle_failure_saved [simp]: "saved d (snd (handle_failure config sv io event item kn msg w))"
proof -
  have r: "saved d (snd (resolveDeliveryRetryOrExhaust config sv event n msg route te ro v))" for n msg route te ro v
    by (simp add: resolveDeliveryRetryOrExhaust_def)
  then have "saved d (snd (finalize_exhausted config sv io event n msg v))" for n msg v
    by (simp add: finalize_exhausted_def split: prod.split sum.split)
  then have "saved d (snd (retry_primary config sv io event item msg w))" for item
    by (auto simp: retry_primary_def Let_def saved_upsert split: prod.split schedule_result.split)
  with r show ?thesis by (simp add: handle_failure_def Let_def split: option.split)
qed

lemma claim_saved: "saved d w \<Longrightarrow> saved d (snd (claimDurableJobForProcessing config sv event item w))"
proof -
  assume w: "saved d w"
  obtain r w1 where q: "supabaseRequest sv (Claim (claim_request_for config sv event item)) w = (r, w1)" by force
  then have w1: "saved d w1" using saved_unsaved [OF w unsaved_request] by (metis snd_conv)
  have "saved d (snd (isTransientDurableQueueError sv e w1))" for e using saved_unsaved [OF w1 unsaved_transient] .
  then show ?thesis using w w1
    by (simp add: claimDurableJobForProcessing_def q Let_def split_beta saved_on_state split: sum.split bool.split)
      (simp split: option.split)
qed

lemma processEvent_saved: "saved d w \<Longrightarrow> saved d (snd (processEvent config sv io event item w))"
proof -
  assume w: "saved d w"
  obtain r w1 where c: "claimDurableJobForProcessing config sv event item w = (r, w1)" by fastforce
  then have "saved d w1" using claim_saved [OF w] by (metis snd_conv)
  moreover have "saved d (snd (process_claimed config sv io event item v))" for v
    by (simp add: process_claimed_def Let_def split: prod.split sum.split)
  ultimately show ?thesis
    by (simp add: processEvent_def c Let_def split_beta drop_conflict_def retain_unclaimed_def split: sum.split claim_outcome.split)
qed

section \<open>The durable queue\<close>

lemma hydrate_job_cases:
  "hydrate_job config c now job acc = acc \<or> (\<exists>k. fst (hydrate_job config c now job acc) = fst acc @ [k])"
  by (simp add: hydrate_job_def Let_def split_beta split: option.split)

lemma hydrate_fold_nothing:
  "fst (fold (hydrate_job config c now) jobs acc) = [] \<Longrightarrow> fold (hydrate_job config c now) jobs acc = acc"
proof (induction jobs arbitrary: acc)
  case (Cons job jobs)
  have "fold (hydrate_job config c now) jobs (hydrate_job config c now job acc) = hydrate_job config c now job acc"
    by (rule Cons.IH) (use Cons.prems in simp)
  with Cons.prems hydrate_job_cases [of config c now job acc] show ?case by auto
qed simp

lemma hydrate_saved:
  assumes "saved d w"
  shows "saved d (snd (hydrateDurableQueue config sv c w))"
proof -
  let ?n = "max (or_num (Some (durableSyncLimit config)) 200) 1"
  obtain r w1 where f: "fetchRelayerJobsByStatuses sv open_statuses c ?n w = (r, w1)" by force
  then have w1: "saved d w1" using saved_unsaved [OF assms unsaved_fetch] by (metis snd_conv)
  have t: "saved d (snd (isTransientDurableQueueError sv e (snd (mark_unavailable sv e w1))))" for e
    using saved_unsaved [OF saved_unsaved [OF w1 unsaved_mark] unsaved_transient] .
  have "saved d (w1\<lparr>w_state := snd (fold (hydrate_job config c (sv_now sv)) jobs ([], w_state w1))\<rparr>)"
    if "fst (fold (hydrate_job config c (sv_now sv)) jobs ([], w_state w1)) = []" for jobs
    using hydrate_fold_nothing [OF that] w1 by (simp add: saved_def)
  with t show ?thesis
    using assms w1
    by (cases r) (simp_all add: hydrateDurableQueue_def f Let_def split_beta split: sum.split bool.split)
qed

lemma manual_rows_saved:
  assumes "sync_manual_rows sv c jobs applied w = (Inr applied', w')" "applied' = []" "saved d w"
  shows "saved d w'"
proof -
  have mono: "applied = []" if "sync_manual_rows sv c jobs applied w = (Inr [], w')" for jobs applied w w'
    using that
  proof (induction jobs arbitrary: applied w)
    case (Cons job jobs)
    then show ?case by (auto simp: Let_def split: option.splits prod.splits sum.splits if_splits)
  qed simp
  show ?thesis
    using assms
  proof (induction jobs arbitrary: w applied)
    case (Cons job jobs)
    have q: "saved d v'" if "supabaseRequest sv x w = (r, v')" for x r v'
      using that saved_unsaved [OF Cons.prems(3) unsaved_request] by (metis snd_conv)
    show ?case
      using Cons.prems(1,2) Cons.IH q mono
      by (fastforce simp: Let_def split: option.splits prod.splits sum.splits if_splits)
  qed simp
qed

lemma manual_saved:
  assumes "saved d w" "syncManualActions sv c w = (Inr x, w')"
  shows "saved d w'"
proof (cases "shouldSkipSupabasePersistence (sv_now sv) (w_backoff w)")
  case False
  let ?st = "[''manual_retry_requested'', ''manual_replay_requested'']"
  obtain r w1 where f: "fetchRelayerJobsByStatuses sv ?st c 50 w = (r, w1)" by force
  then have w1: "saved d w1" using saved_unsaved [OF assms(1) unsaved_fetch] by (metis snd_conv)
  have "saved d (snd (mark_unavailable sv e w1))" for e by (rule saved_unsaved [OF w1 unsaved_mark])
  then show ?thesis
    using assms(2) False w1 manual_rows_saved [of sv c _ "[]" w1 x w']
    by (cases r) (auto simp: syncManualActions_def f split: prod.splits sum.splits if_splits)
qed (use assms in \<open>simp add: syncManualActions_def\<close>)

lemma saved_same_state:
  assumes "keeps (\<lambda>s. s = w_state w) w w'" "saved d w"
  shows "saved d w'"
proof -
  obtain tr where tr: "w_trace w' = w_trace w @ tr" "\<forall>s \<in> set (snapshots tr). s = w_state w" "w_state w' = w_state w"
    using assms(1) by (auto simp: keeps_def)
  then show ?thesis using assms(2) by (cases "snapshots tr") (auto simp: saved_def file_after_def)
qed

lemma quarantine_saved: "saved d w \<Longrightarrow> saved d (snd (quarantineDurableBacklogBelowRequestFloor config sv c w))"
  by (rule saved_same_state [OF keeps_quarantine]) (simp_all add: keeps_refl)

lemma fresh_saved: "saved d w \<Longrightarrow> saved d (snd (persistFreshEventsToDurableQueue config sv c es w))"
  by (rule saved_same_state [OF keeps_persistFresh]) (simp_all add: keeps_refl)

lemma prune_lanes:
  "fst (pruneRetryQueueBelowRequestFloor c m s) = 0 \<Longrightarrow> lanes (snd (pruneRetryQueueBelowRequestFloor c m s)) = lanes s"
proof (cases m)
  case (Some n)
  let ?keep = "\<lambda>item. case js_number (or_str (ev_requestId (ri_event item)) ''0'') of Fin i \<Rightarrow> i \<ge> n | _ \<Rightarrow> True"
  assume "fst (pruneRetryQueueBelowRequestFloor c m s) = 0"
  then have "length (retry_queue (chain_states s c)) \<le> length (filter ?keep (retry_queue (chain_states s c)))"
    using Some by (simp add: pruneRetryQueueBelowRequestFloor_def Let_def)
  then have "filter ?keep (retry_queue (chain_states s c)) = retry_queue (chain_states s c)"
    by (metis (no_types, lifting) filter_id_conv length_filter_less linorder_not_le)
  then show ?thesis using Some by (simp add: pruneRetryQueueBelowRequestFloor_def Let_def lanes_def fun_eq_iff)
qed (simp add: pruneRetryQueueBelowRequestFloor_def)

lemma cursor_lanes:
  "lanes (snd (resolveChainFromBlock config c tip s)) = lanes s" "lanes (snd (resolveRequestCursor config c tip s)) = lanes s"
  by (auto simp: resolveChainFromBlock_def resolveRequestCursor_def Let_def lanes_bookkeeping split: option.split)

section \<open>The tick\<close>

text \<open>A tick starts saved, and its manual-action sync does not throw.\<close>

definition manual_ok :: "relayer_state \<Rightarrow> services \<Rightarrow> chain \<Rightarrow> world \<Rightarrow> bool" where
  "manual_ok d sv c w \<longleftrightarrow> saved d w \<and> (\<exists>x. fst (syncManualActions sv c w) = Inr x)"

lemma prepare_saved:
  assumes "manual_ok d sv c w"
  shows "saved d (snd (prepare_chain config sv c w))"
proof -
  obtain x w1 where m: "syncManualActions sv c w = (Inr x, w1)" using assms by (cases "syncManualActions sv c w") (auto simp: manual_ok_def)
  then have w1: "saved d w1" using assms manual_saved by (auto simp: manual_ok_def)
  have p: "saved d (if fst (pruneRetryQueueBelowRequestFloor c k (w_state v)) > 0
      then persistState (on_state (\<lambda>_. snd (pruneRetryQueueBelowRequestFloor c k (w_state v))) v)
      else on_state (\<lambda>_. snd (pruneRetryQueueBelowRequestFloor c k (w_state v))) v)" if "saved d v" for k v
    using that prune_lanes by (auto intro: saved_on_state)
  have "saved d (snd (then_world (hydrateDurableQueue config sv c v) (\<lambda>_ w.
       let (pruned, s1) = pruneRetryQueueBelowRequestFloor c (getRequestCursorFloor config c) (w_state w); w1 = on_state (\<lambda>_. s1) w
       in (Inr (), if pruned > 0 then persistState w1 else w1))))" if "saved d v" for v
    using that p hydrate_saved by (intro then_world_rule [where I = "saved d"]) (simp_all add: Let_def split_beta)
  then show ?thesis
    unfolding prepare_chain_def m then_world_simps by (rule then_world_rule [where I = "saved d", OF quarantine_saved [OF w1]])
qed

interpretation tick_saved: tick_invariant "manual_ok d sv c" "saved d" config sv io c "\<lambda>_ _. True" for d sv c config io
proof unfold_locales
  fix w es
  assume w: "saved d w"
  show "saved d (snd (deferEventsForBackpressure config sv c es w))"
    using w by (simp add: deferEventsForBackpressure_def Let_def)
next
  fix w and f :: "chain_state \<Rightarrow> chain_state"
  assume "saved d w" "\<And>cs. retry_queue (f cs) = retry_queue cs \<and> processed_records (f cs) = processed_records cs
        \<and> processed_order (f cs) = processed_order cs \<and> dead_letters (f cs) = dead_letters cs"
  then show "saved d (on_state (upd_chain c f) w)" by (intro saved_on_state lanes_bookkeeping)
qed (auto simp: manual_ok_def processEvent_saved prepare_saved fresh_saved cursor_lanes intro: saved_on_state)

text \<open>
  A tick of a chain ends with its work in the state file. Whatever it discovers and however it
  ends, also by an exception on the way, the retry queue, processed cache and dead letters of both
  chains in memory are those of the last snapshot it handed to the writer (or of the file, when it
  wrote none), so a tick that starts from that file resumes with the same work. The sync of manual
  actions must not throw.
\<close>

theorem tick_work_is_saved:
  assumes "saved d w" "syncManualActions sv c w = (Inr x, w1)"
  shows "saved d (snd (processChain config sv io c dc w)) \<and> saved d (snd (processChainByRequestCursor config sv io c dc w))"
proof -
  have "manual_ok d sv c w" using assms by (simp add: manual_ok_def)
  then show ?thesis by (intro conjI tick_saved.chain_keeps tick_saved.request_chain_keeps) simp_all
qed

theorem tick_work_is_saved_witness:
  "saved (w_state (sample_world [failing_item 1]))
     (snd (processChain sample_config sample_services (sample_io (Inr JNull)) Neo_N3 dead_node (sample_world [failing_item 1])))"
proof -
  have "saved (w_state (sample_world [failing_item 1])) (sample_world [failing_item 1])"
    by (simp add: saved_def file_after_def sample_world_def)
  moreover obtain w1 where "syncManualActions sample_services Neo_N3 (sample_world [failing_item 1]) = (Inr [], w1)"
    by (auto simp: syncManualActions_def fetchRelayerJobsByStatuses_def sample_services_def split: if_splits)
  ultimately show ?thesis by (rule conjunct1 [OF tick_work_is_saved])
qed

section \<open>A lost replay\<close>

text \<open>
  Where the sync of manual actions throws, work is lost. Two rows ask for an action; the first, a
  replay, is applied in memory and its row set to \<open>queued\<close>, then the update of the second fails: the
  sync throws with nothing saved. The file still has the request as processed, so the queued row is
  not hydrated from it and the replay never happens.
\<close>

theorem manual_replay_lost:
  assumes "sv_configured sv" "\<not> shouldSkipSupabasePersistence (sv_now sv) (w_backoff w)"
    and "sv_fetch sv (w_trace w) [''manual_retry_requested'', ''manual_replay_requested''] c 50 = Inr [job, bad]"
    and "dj_event job = Some e" "ev_requestId e \<noteq> []" "dj_event bad = None"
    and "sv_reply sv (w_trace w) (Patch (job_key job e) (requeued_patch (sv_now sv))) = Rows 1"
    and "sv_reply sv (w_trace w @ [EWrite (Patch (job_key job e) (requeued_patch (sv_now sv)))])
           (Patch (dj_event_key bad) manual_failed_patch) = NetError m"
    and "hasProcessedEvent c (job_key job e) (w_state w)"
  shows "\<exists>w'. syncManualActions sv c w = (Inl m, w') \<and> file_after d (w_trace w') = file_after d (w_trace w)
    \<and> w_trace w' = w_trace w @ [EWrite (Patch (job_key job e) (requeued_patch (sv_now sv)))]
    \<and> hydrate_job config c now (job\<lparr>dj_status := ''queued''\<rparr>) (hs, w_state w) = (hs, w_state w)"
proof -
  have "hydrate_job config c now (job\<lparr>dj_status := ''queued''\<rparr>) (hs, w_state w) = (hs, w_state w)"
    using assms(4,9) by (simp add: hydrate_job_def job_key_def)
  moreover have "syncManualActions sv c w = (Inl m, emit (EWrite (Patch (job_key job e) (requeued_patch (sv_now sv))))
      (on_state (apply_manual_action c (sv_now sv) job e) w))"
    using assms by (simp add: syncManualActions_def fetchRelayerJobsByStatuses_def supabaseRequest_def Let_def)
  ultimately show ?thesis by (simp add: file_after_def)
qed

end
