(* ===== verification/Relayer_Loop_Facts.thy ===== *)
theory Relayer_Loop_Facts
  imports Relayer_Loop Tick_Durability
begin

text \<open>
  The relayer over many ticks: the state invariant survives every tick, exception and crash; the
  work of a tick is found again by the next one; and what the idle tick leaves out of the file.
\<close>

section \<open>A rule for the tick\<close>

text \<open>
  A predicate on worlds holds after a tick when it holds at its start and every part keeps it: the
  feed, the chains, the change of the backoff, the stamps and the saves.
\<close>

lemma on_state_const: "f (w_state w) = x \<Longrightarrow> on_state f w = on_state (\<lambda>_. x) w"
  by (simp add: on_state_def)

locale relayer_tick =
  fixes I :: "world \<Rightarrow> bool" and config :: "'a relayer_config_scheme" and lc :: loop_config and env :: tick_env
  assumes chain: "I w \<Longrightarrow> I (snd (run_chain config lc env c w))"
    and counter: "I w \<Longrightarrow> I (on_state (incrementMetric name n) w)"
    and stamp: "I w \<Longrightarrow> (\<And>s. chain_states (f s) = chain_states s \<and> last_tick_completed_at (f s) = last_tick_completed_at s)
        \<Longrightarrow> I (on_state f w)"
    and persist: "I w \<Longrightarrow> I (persistState w)"
    and backoff: "I w \<Longrightarrow> I (w\<lparr>w_backoff := b\<rparr>)"
begin

lemma save_keeps: "I w \<Longrightarrow> I (saveRelayerState t w)"
  unfolding saveRelayerState_def by (intro persist stamp) simp_all

lemma feed_keeps:
  assumes "I w"
  shows "I (snd (run_feed config lc env w))"
proof -
  have "I (snd (processFeedSync fc io now fin w))" for fc io now fin
  proof -
    let ?w1 = "saveRelayerState now (on_state (\<lambda>s. incrementMetric ''feed_sync_runs_total'' 1 (s\<lparr>last_feed_sync_started_at := Some now\<rparr>)) w)"
    have "I (on_state (\<lambda>s. incrementMetric ''feed_sync_runs_total'' 1 (s\<lparr>last_feed_sync_started_at := Some now\<rparr>)) w)"
      by (rule stamp [OF assms]) (simp add: incrementMetric_def)
    then have w1: "I ?w1" by (rule save_keeps)
    obtain xs s2 where c: "sync_chains fc io (feed_targets fc) (w_state ?w1) = (xs, s2)" by fastforce
    have inert: "chain_states (snd (sync_chains fc io ts s)) = chain_states s
        \<and> last_tick_completed_at (snd (sync_chains fc io ts s)) = last_tick_completed_at s" for ts s
      by (induction ts arbitrary: s) (simp_all add: split_beta sync_chain_def incrementMetric_def Let_def split: sum.split)
    define upd where "upd = (\<lambda>s. let s2 = snd (sync_chains fc io (feed_targets fc) s);
        s3 = s2\<lparr>last_feed_sync_completed_at := Some fin, last_feed_sync_duration_ms := Some (fin - now)\<rparr>
        in if \<exists>(a, summary) \<in> set xs. isFeedSyncChainSuccessful a summary then s3\<lparr>last_feed_sync_success_at := Some fin\<rparr> else s3)"
    have "I (saveRelayerState fin (on_state upd ?w1))"
      by (intro save_keeps stamp [OF w1]) (simp add: upd_def inert Let_def)
    moreover have "on_state upd ?w1 = on_state (\<lambda>_. let s3 = s2\<lparr>last_feed_sync_completed_at := Some fin, last_feed_sync_duration_ms := Some (fin - now)\<rparr>
        in if \<exists>(a, summary) \<in> set xs. isFeedSyncChainSuccessful a summary then s3\<lparr>last_feed_sync_success_at := Some fin\<rparr> else s3) ?w1"
      by (rule on_state_const) (simp add: upd_def c)
    ultimately show ?thesis
      using assms counter [OF assms] by (simp add: processFeedSync_def c Let_def)
  qed
  with assms show ?thesis by (simp add: run_feed_def)
qed

lemma maybe_persist_keeps: "I w \<Longrightarrow> I (maybePersistRun config lc env result w)"
proof -
  assume w: "I w"
  have m: "I (snd (mark_unavailable sv msg v))" if "I v" for sv msg v
    using backoff [OF that] by (simp add: mark_unavailable_def split_beta)
  then have "I (snd (persistRelayerRun env w))"
    using w by (simp add: persistRelayerRun_def Let_def split: reply.split)
  then have "I w1" if "persistRelayerRun env w = (r, w1)" for r w1 using that by simp
  with m w show ?thesis
    by (auto simp: maybePersistRun_def Let_def intro!: save_keeps stamp split: prod.split sum.split)
qed

lemma body_keeps:
  assumes "I (start_tick env p)"
  shows "I (snd (fst (tick_body config lc env p)))"
proof -
  obtain feed w1 where f: "run_feed config lc env (start_tick env p) = (feed, w1)" by fastforce
  obtain n3 w2 where n3: "run_chain config lc env Neo_N3 w1 = (n3, w2)" by fastforce
  obtain nx w3 where nx: "run_chain config lc env NeoX w2 = (nx, w3)" by fastforce
  obtain a w4 p4 where a: "run_automation config lc env p w3 = (a, w4, p4)" by (metis prod_cases3)
  have w1: "I w1" using feed_keeps [OF assms] f by simp
  have w2: "I w2" using chain [OF w1, of Neo_N3] n3 by simp
  have w3: "I w3" using chain [OF w2, of NeoX] nx by simp
  have "I w4" using backoff [OF w3] w3 a by (auto simp: run_automation_def split: if_splits prod.splits)
  then show ?thesis
    using w2 w3 by (cases n3; cases nx) (auto simp: tick_body_def f n3 nx a Let_def)
qed

end

text \<open>A predicate that does not look at the completion stamp holds after the whole tick.\<close>

locale relayer_tick_blind = relayer_tick +
  assumes completed: "I w \<Longrightarrow> I (on_state (\<lambda>s. s\<lparr>last_tick_completed_at := t, last_tick_duration_ms := d\<rparr>) w)"
begin

lemma end_keeps: "I w \<Longrightarrow> I (end_tick config lc env result w)"
  by (simp add: end_tick_def Let_def maybe_persist_keeps save_keeps completed)

lemma once_keeps: "I (start_tick env p) \<Longrightarrow> I (snd (fst (runRelayerOnce config lc env p)))"
  using body_keeps [of p] end_keeps by (auto simp: runRelayerOnce_def split: prod.split sum.split)

end

section \<open>The invariant\<close>

lemma snapshots_stamped: "snapshots (map (stamp_effect t) tr) = map (\<lambda>s. s\<lparr>updated_at := Some t\<rparr>) (snapshots tr)"
  by (induction tr rule: snapshots.induct) simp_all

lemma stamp_writes_trace:
  "w_trace w' = w_trace w @ tr \<Longrightarrow> w_trace (stamp_writes t w w') = w_trace w @ map (stamp_effect t) tr"
  "w_state (stamp_writes t w w') \<in> {w_state w', (w_state w')\<lparr>updated_at := Some t\<rparr>}"
  by (simp_all add: stamp_writes_def Let_def)

lemma keeps_stamped:
  assumes "keeps P w w'" "\<And>s t. P (s\<lparr>updated_at := t\<rparr>) = P s"
  shows "keeps P w (stamp_writes t w w')"
proof -
  obtain tr where tr: "w_trace w' = w_trace w @ tr" "\<forall>s \<in> set (snapshots tr). P s" "P (w_state w')"
    using assms(1) by (auto simp: keeps_def)
  then show ?thesis
    using assms(2) stamp_writes_trace(1) [OF tr(1), of t] stamp_writes_trace(2) [of t w w']
    by (auto simp: keeps_def snapshots_stamped)
qed

lemma state_inv_updated [simp]: "state_inv config (s\<lparr>updated_at := t\<rparr>) = state_inv config s"
  by (simp add: state_inv_def lanes_bounded_def)

lemma keeps_chain:
  assumes "keeps (state_inv config) w0 w"
  shows "keeps (state_inv config) w0 (snd (run_chain config lc env c w))"
proof -
  have w: "keeps (state_inv config) w w" by (rule keeps_refl) (rule keeps_state [OF assms])
  have "keeps (state_inv config) w (snd (processChain config sv io c dc w))"
    "keeps (state_inv config) w (snd (processChainByRequestCursor config sv io c dc w))" for sv io dc
    using tick_inv.tick.chain_keeps [OF w] tick_inv.tick.request_chain_keeps [OF w] by simp_all
  from this [THEN keeps_stamped] have "keeps (state_inv config) w (snd (run_chain config lc env c w))"
    using w by (auto simp: run_chain_def Let_def split_beta)
  with assms show ?thesis by (rule keeps_trans)
qed

interpretation tick_keeps: relayer_tick_blind "keeps (state_inv config) w0" config lc env for config w0 lc env
proof unfold_locales
  fix w and f :: "relayer_state \<Rightarrow> relayer_state"
  assume w: "keeps (state_inv config) w0 w"
    and f: "\<And>s. chain_states (f s) = chain_states s \<and> last_tick_completed_at (f s) = last_tick_completed_at s"
  have "state_inv config (f (w_state w)) = state_inv config (w_state w)" using f by (simp add: state_inv_def lanes_bounded_def)
  then show "keeps (state_inv config) w0 (on_state f w)" using w keeps_state [OF w] by (simp add: keeps_on_state)
next
  fix w b
  assume "keeps (state_inv config) w0 w"
  then show "keeps (state_inv config) w0 (w\<lparr>w_backoff := b\<rparr>)" by (simp add: keeps_def)
next
  fix w t d'
  assume w: "keeps (state_inv config) w0 w"
  have "state_inv config (s\<lparr>last_tick_completed_at := t, last_tick_duration_ms := d'\<rparr>) = state_inv config s" for s
    by (simp add: state_inv_def lanes_bounded_def)
  then show "keeps (state_inv config) w0 (on_state (\<lambda>s. s\<lparr>last_tick_completed_at := t, last_tick_duration_ms := d'\<rparr>) w)"
    using w keeps_state [OF w] by (simp add: keeps_on_state)
qed (simp_all add: keeps_chain tick_inv.tick.metric keeps_persist)

text \<open>
  Runs of the process. A tick may return or throw; a crash leaves the file at any snapshot of the
  tick, or as the tick found it, and starts a process with fresh module variables.
\<close>

inductive relayer_runs :: "('a relayer_config_scheme) \<Rightarrow> loop_config \<Rightarrow> relayer_process \<Rightarrow> bool" for config lc where
  first_start: "relayer_runs config lc \<lparr>rp_file = None, rp_backoff = no_backoff, rp_lastEmptyFetchAt = 0, rp_auto_trace = tr\<rparr>"
| full_tick: "relayer_runs config lc p \<Longrightarrow> relayer_runs config lc (after_tick (runRelayerOnce config lc env p))"
| crashed: "relayer_runs config lc p \<Longrightarrow> f = rp_file p \<or> f \<in> Some ` set (snapshots (w_trace (snd (fst (runRelayerOnce config lc env p)))))
    \<Longrightarrow> relayer_runs config lc \<lparr>rp_file = f, rp_backoff = no_backoff, rp_lastEmptyFetchAt = 0, rp_auto_trace = tr\<rparr>"

lemma state_inv_start: "state_inv config (loadRelayerState (rp_file p)) \<Longrightarrow> state_inv config (w_state (start_tick env p))"
  by (simp add: start_tick_def inv_intros) (simp add: state_inv_def lanes_bounded_def)

lemma tick_snapshots_inv:
  assumes "state_inv config (loadRelayerState (rp_file p))"
  shows "\<forall>s \<in> set (snapshots (w_trace (snd (fst (runRelayerOnce config lc env p))))). state_inv config s"
proof -
  have "keeps (state_inv config) (start_tick env p) (snd (fst (runRelayerOnce config lc env p)))"
    by (rule tick_keeps.once_keeps) (rule keeps_refl, rule state_inv_start [OF assms])
  then show ?thesis by (auto simp: keeps_def start_tick_def)
qed

lemma once_file: "rp_file (snd (runRelayerOnce config lc env p)) = rp_file p"
  by (auto simp: runRelayerOnce_def tick_body_def run_automation_def Let_def split: prod.split sum.split)

text \<open>
  C10: However the relayer is stopped and restarted, it resumes from a well-formed state. Over any
  sequence of ticks (with whatever services, chains and clocks, returning or throwing) and of
  crashes at any write of a tick, the state loaded at the next start satisfies the state invariant:
  queue keys unique and matching their events, processed cache and order in step, lanes bounded.
\<close>

theorem relayer_restarts_well_formed:
  assumes "relayer_runs config lc p"
  shows "state_inv config (loadRelayerState (rp_file p))"
  using assms
proof induction
  case first_start
  then show ?case by (simp add: loadRelayerState_def inv_intros)
next
  case (full_tick p env)
  have "rp_file (snd (runRelayerOnce config lc env p)) = rp_file p"
    by (rule once_file)
  with full_tick tick_snapshots_inv [OF full_tick.IH, of lc env] show ?case
    by (cases "snapshots (w_trace (snd (fst (runRelayerOnce config lc env p))))") (simp_all add: after_tick_def loadRelayerState_def)
next
  case (crashed p f env tr)
  with tick_snapshots_inv [OF crashed.IH, of lc env] show ?case by (auto simp: loadRelayerState_def)
qed

section \<open>What a chain leaves alone\<close>

text \<open>The fields of the state that are neither queues nor counters.\<close>

definition outside :: "relayer_state \<Rightarrow> relayer_state" where
  "outside s = s\<lparr>chain_states := (\<lambda>_. defaultChainState), counters := [], labeled_failures := [], last_fulfill_latency_ms := None\<rparr>"

lemma outside_frame [simp]:
  "outside (incrementMetric name n s) = outside s" "outside (incrementLabeledFailure a b p n s) = outside s"
  "outside (s\<lparr>last_fulfill_latency_ms := x\<rparr>) = outside s" "outside (upd_chain c f s) = outside s"
  by (simp_all add: outside_def incrementMetric_def incrementLabeledFailure_def upd_chain_def Let_def)

lemma outside_ops [simp]:
  "outside (recordProcessedEvent config c e status meta now s) = outside s" "outside (clearRetryItem c k s) = outside s"
  "outside (snd (enqueueRetryItem c e opts now s)) = outside s" "outside (queue_put config c now i s) = outside s"
  "outside (removeProcessedEvent c k s) = outside s" "outside (removeDeadLetter c k s) = outside s"
  by (simp_all add: recordProcessedEvent_def clearRetryItem_def enqueueRetryItem_def enforceRetryQueueLimit_def queue_put_def
      removeProcessedEvent_def removeDeadLetter_def Let_def split_beta)

lemma outside_tick_ops [simp]:
  "outside (apply_manual_action c now job e s) = outside s" "outside (snd (hydrate_job config c now job acc)) = outside (snd acc)"
  "outside (snd (pruneRetryQueueBelowRequestFloor c m s)) = outside s"
  "outside (snd (resolveChainFromBlock config c tip s)) = outside s" "outside (snd (resolveRequestCursor config c tip s)) = outside s"
  by (simp_all add: apply_manual_action_def hydrate_job_def pruneRetryQueueBelowRequestFloor_def resolveChainFromBlock_def
      resolveRequestCursor_def Let_def split_beta split: option.split)

interpretation event_outside: event_frame "\<lambda>s. outside s = x" config event for x config event
  by unfold_locales simp_all

interpretation tick_outside: chain_frame "\<lambda>s. outside s = x" config c for x config c
  by unfold_locales simp_all

lemma chain_outside:
  "keeps (\<lambda>s. outside s = outside (w_state w)) w (snd (processChain config sv io c dc w))"
  "keeps (\<lambda>s. outside s = outside (w_state w)) w (snd (processChainByRequestCursor config sv io c dc w))"
  by (intro tick_outside.tick.chain_keeps tick_outside.tick.request_chain_keeps; simp add: keeps_refl)+

section \<open>Work across ticks\<close>

lemma lanes_updated [simp]: "lanes (s\<lparr>updated_at := t\<rparr>) = lanes s"
  by (rule lanes_cong) simp

lemma saved_stamped:
  assumes "saved d w'" "keeps P w w'"
  shows "saved d (stamp_writes t w w')"
proof -
  obtain tr where tr: "w_trace w' = w_trace w @ tr" using assms(2) by (auto simp: keeps_def)
  have "lanes (file_after d (w_trace w @ map (stamp_effect t) tr)) = lanes (file_after d (w_trace w @ tr))"
    by (cases "snapshots tr") (simp_all add: file_after_def snapshots_stamped)
  then show ?thesis
    using assms(1) tr stamp_writes_trace(1) [OF tr, of t] stamp_writes_trace(2) [of t w w'] by (auto simp: saved_def)
qed

text \<open>The sync of manual actions of no chain throws.\<close>

definition manual_sync_returns :: "tick_env \<Rightarrow> bool" where
  "manual_sync_returns env \<longleftrightarrow> (\<forall>c w. \<exists>x. fst (syncManualActions (te_services env c) c w) = Inr x)"

lemma chain_saved:
  assumes "manual_sync_returns env" "saved d w"
  shows "saved d (snd (run_chain config lc env c w))"
proof -
  have m: "manual_ok d (te_services env c) c w" using assms by (simp add: manual_sync_returns_def manual_ok_def)
  have "saved d (stamp_writes t w (snd (processChain config (te_services env c) io c dc w)))"
    "saved d (stamp_writes t w (snd (processChainByRequestCursor config (te_services env c) io c dc w)))" for t io dc
    by (rule saved_stamped [OF _ chain_outside(1)] saved_stamped [OF _ chain_outside(2)],
        intro tick_saved.chain_keeps tick_saved.request_chain_keeps; simp add: m)+
  then show ?thesis using assms(2) by (simp add: run_chain_def Let_def split_beta)
qed

lemma tick_saves:
  assumes "manual_sync_returns env"
  shows "relayer_tick_blind (saved d) config lc env"
proof
  fix w and f :: "relayer_state \<Rightarrow> relayer_state"
  assume w: "saved d w" and f: "\<And>s. chain_states (f s) = chain_states s \<and> last_tick_completed_at (f s) = last_tick_completed_at s"
  show "saved d (on_state f w)" by (rule saved_on_state [OF w]) (rule lanes_cong, simp add: f)
next
  fix w t d'
  assume w: "saved d w"
  show "saved d (on_state (\<lambda>s. s\<lparr>last_tick_completed_at := t, last_tick_duration_ms := d'\<rparr>) w)"
    by (rule saved_on_state [OF w]) (rule lanes_cong, simp)
qed (auto simp: chain_saved [OF assms] saved_on_state, simp add: saved_def)

lemma loaded_after_tick:
  "loadRelayerState (rp_file (after_tick (runRelayerOnce config lc env p)))
     = file_after (loadRelayerState (rp_file p)) (w_trace (snd (fst (runRelayerOnce config lc env p))))"
proof -
  have "rp_file (snd (runRelayerOnce config lc env p)) = rp_file p"
    by (rule once_file)
  then show ?thesis
    by (cases "snapshots (w_trace (snd (fst (runRelayerOnce config lc env p))))")
      (simp_all add: after_tick_def loadRelayerState_def file_after_def)
qed


section \<open>The idle tick and the health check\<close>

lemma keeps_mono: "keeps P w w' \<Longrightarrow> (\<And>s. P s \<Longrightarrow> Q s) \<Longrightarrow> keeps Q w w'"
  by (auto simp: keeps_def)

lemma outside_completed: "outside s = outside t \<Longrightarrow> last_tick_completed_at s = last_tick_completed_at t"
  by (drule arg_cong [of _ _ last_tick_completed_at]) (simp add: outside_def)

interpretation tick_stamp: relayer_tick "keeps (\<lambda>s. last_tick_completed_at s = x) w0" config lc env for x w0 config lc env
proof unfold_locales
  fix w c
  assume w: "keeps (\<lambda>s. last_tick_completed_at s = x) w0 w"
  then have x: "last_tick_completed_at (w_state w) = x" by (rule keeps_state)
  have "keeps (\<lambda>s. last_tick_completed_at s = x) w w'" if "keeps (\<lambda>s. outside s = outside (w_state w)) w w'" for w'
    by (rule keeps_mono [OF that]) (simp add: x outside_completed [of _ "w_state w"])
  then have "keeps (\<lambda>s. last_tick_completed_at s = x) w (stamp_writes t w w')"
    if "keeps (\<lambda>s. outside s = outside (w_state w)) w w'" for t w'
    using that by (intro keeps_stamped) auto
  note stamped = this
  have "keeps (\<lambda>s. last_tick_completed_at s = x) w (stamp_writes t w (snd (processChain config sv io c dc w)))"
    "keeps (\<lambda>s. last_tick_completed_at s = x) w (stamp_writes t w (snd (processChainByRequestCursor config sv io c dc w)))" for t sv io dc
    by (intro stamped chain_outside)+
  then have "keeps (\<lambda>s. last_tick_completed_at s = x) w (snd (run_chain config lc env c w))"
    using x by (simp add: run_chain_def Let_def split_beta keeps_refl)
  with w show "keeps (\<lambda>s. last_tick_completed_at s = x) w0 (snd (run_chain config lc env c w))" by (rule keeps_trans)
qed (auto simp: keeps_def incrementMetric_def)

text \<open>
  An idle tick that finds its state written recently, by an earlier tick or by itself, does not
  save: the file keeps the completion stamp of an earlier tick, and the health check, which reads it
  there, reports a relayer that ticks as stale once that stamp is old enough. The comment in the
  code has these stamps read from memory only. Run snapshots are off here; they save as well.
\<close>

theorem idle_ticks_go_stale:
  assumes "tick_body config lc env p = ((Inr r, w), p')" "idleAndFresh lc env r (w_state w)" "\<not> lc_snapshotsEnabled lc"
    and "rp_file p = Some s" "last_tick_completed_at s = Some t" "max (or_num (Some maxStaleMs) 120000) 1000 < now - t" "js_trim file \<noteq> []"
  shows "checkRelayerStateFreshness file (rp_file (after_tick (runRelayerOnce config lc env p))) maxStaleMs now = Stale_completed_tick (now - t)"
proof -
  have "keeps (\<lambda>s. last_tick_completed_at s = Some t) (start_tick env p) w"
    using tick_stamp.body_keeps [of "Some t" "start_tick env p" env p config lc] assms(1,4,5)
    by (simp add: keeps_def start_tick_def loadRelayerState_def incrementMetric_def)
  then have snaps: "\<forall>s \<in> set (snapshots (w_trace w)). last_tick_completed_at s = Some t"
    by (auto simp: keeps_def start_tick_def)
  have "w_trace (end_tick config lc env r w) = w_trace w"
    using assms(2,3) by (simp add: end_tick_def idleAndFresh_def maybePersistRun_def shouldPersistRunSnapshot_def Let_def)
  then have "w_trace (snd (fst (runRelayerOnce config lc env p))) = w_trace w"
    using assms(1) by (simp add: runRelayerOnce_def)
  with snaps assms(4,5) obtain s' where "rp_file (after_tick (runRelayerOnce config lc env p)) = Some s'" "last_tick_completed_at s' = Some t"
    using once_file [of config lc env p] by (cases "snapshots (w_trace w)") (auto simp: after_tick_def)
  with assms(6,7) show ?thesis by (simp add: checkRelayerStateFreshness_def Let_def)
qed

text \<open>With the feed disabled in a mode that runs it, no tick is idle: the absent field counts as activity.\<close>

theorem disabled_feed_is_activity:
  assumes "shouldRunFeedSync config" "\<not> fs_enabled (lc_feed lc)" "tick_body config lc env p = ((Inr r, w), p')"
  shows "tickHadActivity r \<and> fr_skipped (tr_feed_sync r) \<noteq> Some False"
  using assms
  by (auto simp: tick_body_def run_feed_def processFeedSync_def tickHadActivity_def Let_def split: prod.splits sum.splits)

section \<open>The sleep between ticks\<close>

text \<open>
  The sleep of the loop is bounded. After a tick that returned, the sleep is between zero
  and the poll interval (a negative interval counts as zero), it is the whole interval in the modes
  that process requests, and in feed-only mode it ends no later than the next feed run is due.
\<close>

theorem sleep_bounds:
  assumes "sleep_ms config lc (Inr r) s now = n"
  shows "\<exists>i. n = Fin i \<and> 0 \<le> i \<and> i \<le> max (lc_pollIntervalMs lc) 0
    \<and> (mode config \<noteq> ''feed_only'' \<longrightarrow> i = max (lc_pollIntervalMs lc) 0)
    \<and> (mode config = ''feed_only'' \<longrightarrow> (\<forall>d. getFeedSyncDelayMs (lc_feed lc) s now = Fin d \<longrightarrow> i \<le> max d 0))"
  using assms by (cases "getFeedSyncDelayMs (lc_feed lc) s now") (auto simp: sleep_ms_def Let_def js_min_def js_max_def)

section \<open>Labels in the metrics\<close>

text \<open>Keys as \<open>incrementLabeledFailure\<close> makes them from delimiter-free labels, each key once.\<close>

definition wf_label :: "string \<Rightarrow> bool" where
  "wf_label k \<longleftrightarrow> length (js_split (CHR ''|'') k) = 3 \<and> [] \<notin> set (js_split (CHR ''|'') k)"

lemma expand_label_iff:
  assumes "wf_label (fst entry)"
  shows "(lf_chain (expand_label entry) = a \<and> lf_module (expand_label entry) = b \<and> lf_operation (expand_label entry) = c)
    = (js_split (CHR ''|'') (fst entry) = [a, b, c])"
proof -
  obtain x y z where "js_split (CHR ''|'') (fst entry) = [x, y, z]"
    using assms by (auto simp: wf_label_def numeral_3_eq_3 length_Suc_conv)
  then show ?thesis using assms by (auto simp: wf_label_def expand_label_def Let_def or_str_def nth_Cons')
qed

lemma filter_obj_set: "distinct (map fst l) \<Longrightarrow> filter (\<lambda>e. fst e = k) (obj_set k v l) = [(k, v)]"
proof (induction l)
  case (Cons e l)
  have "filter (\<lambda>e. fst e = k) l = []" if "fst e = k" using Cons.prems that by (auto simp: filter_empty_conv image_iff)
  with Cons show ?case by (cases e) auto
qed simp

text \<open>
  A labelled failure is found again in the metrics snapshot. After counting a failure under a
  chain, module and operation that are non-empty and free of the delimiter, in a state whose labels
  were counted that way, the snapshot has exactly one series with these labels, and its value is the
  count so far plus the increment.
\<close>

theorem labeled_failures_roundtrip:
  assumes "a \<noteq> []" "b \<noteq> []" "c \<noteq> []" "CHR ''|'' \<notin> set a \<union> set b \<union> set c"
    and "distinct (map fst (labeled_failures s))" "\<forall>k \<in> fst ` set (labeled_failures s). wf_label k"
  shows "filter (\<lambda>f. lf_chain f = a \<and> lf_module f = b \<and> lf_operation f = c)
      (ms_labeled_failures (snapshotMetrics (incrementLabeledFailure a b c n s) now))
    = [\<lparr>lf_chain = a, lf_module = b, lf_operation = c,
        lf_value = (case obj_get (labeled_failures s) (js_join ''|'' [a, b, c]) of None \<Rightarrow> 0 | Some v \<Rightarrow> v) + n\<rparr>]"
proof -
  let ?k = "js_join ''|'' [a, b, c]" and ?l = "labeled_failures s"
  define v where "v = (case obj_get ?l ?k of None \<Rightarrow> 0 | Some v \<Rightarrow> v) + n"
  have k: "js_split (CHR ''|'') ?k = [a, b, c]" by (rule js_split_joined) (use assms(4) in auto)
  then have "wf_label ?k" using assms(1-3) by (simp add: wf_label_def)
  then have "\<forall>k' \<in> fst ` set (obj_set ?k v ?l). wf_label k'"
    using assms(6) unfolding fst_set_obj_set by simp
  then have wf: "\<forall>e \<in> set (obj_set ?k v ?l). wf_label (fst e)" by simp
  have "labeled_failures (incrementLabeledFailure a b c n s) = obj_set ?k v ?l"
    using assms(1-3) by (simp add: incrementLabeledFailure_def LABELED_FAILURE_DELIMITER_def Let_def or_str_def v_def)
  moreover have "(js_split (CHR ''|'') k' = [a, b, c]) = (k' = ?k)" for k'
    using k js_split_join [of "CHR ''|''" k'] by auto
  then have "filter ((\<lambda>f. lf_chain f = a \<and> lf_module f = b \<and> lf_operation f = c) \<circ> expand_label) (obj_set ?k v ?l)
      = filter (\<lambda>e. fst e = ?k) (obj_set ?k v ?l)"
    using wf by (intro filter_cong) (simp_all add: expand_label_iff)
  moreover have "expand_label (?k, v) = \<lparr>lf_chain = a, lf_module = b, lf_operation = c, lf_value = v\<rparr>"
    using assms(1-3) k by (simp add: expand_label_def Let_def or_str_def)
  ultimately show ?thesis
    by (simp add: snapshotMetrics_def filter_map filter_obj_set [OF assms(5)]) (simp add: v_def)
qed

theorem labeled_failures_roundtrip_witness:
  "filter (\<lambda>f. lf_chain f = ''neox'' \<and> lf_module f = ''vrf'' \<and> lf_operation f = ''draw'')
      (ms_labeled_failures (snapshotMetrics (incrementLabeledFailure ''neox'' ''vrf'' ''draw'' 1 createEmptyRelayerState) 0))
   = [\<lparr>lf_chain = ''neox'', lf_module = ''vrf'', lf_operation = ''draw'', lf_value = 1\<rparr>]"
  using labeled_failures_roundtrip [of "''neox''" "''vrf''" "''draw''" createEmptyRelayerState 1 0]
  by (simp add: createEmptyRelayerState_def)

section \<open>Examples\<close>

definition sample_auto_env :: auto_env where
  "sample_auto_env = \<lparr>ae_now = 0, ae_supa_env = \<lparr>supabaseBackoffMs = 300000, supabaseTransientBackoffMs = 30000\<rparr>,
     ae_parse_date = \<lambda>_. None, ae_fetch = \<lambda>_. Inr [], ae_claim = \<lambda>_ _ _. Inr None, ae_patch = \<lambda>_ _ _. Inr (),
     ae_run = \<lambda>_ _. Inr (), ae_feed = \<lambda>_. Inl ''no feed'', ae_queue = \<lambda>_ _ _ _. Inl ''no chain''\<rparr>"

definition sample_tick :: "millis \<Rightarrow> tick_env" where
  "sample_tick now = \<lparr>te_startedAt = now, te_feedNow = now, te_feedDone = now + 1, te_completedAt = now + 2, te_saveAt = now + 3,
     te_snapshotAt = now + 4, te_feed_io = sample_feed_io, te_services = (\<lambda>_. sample_services), te_io = (\<lambda>_. sample_io (Inr JNull)),
     te_discovery = (\<lambda>_ _. dead_node), te_automation = sample_auto_env, te_run_reply = Rows 1\<rparr>"

definition sample_loop :: loop_config where
  "sample_loop = \<lparr>lc_activeChains = [Neo_N3, NeoX], lc_scanMode = ''block'', lc_feed = sample_feed,
     lc_automation = \<lparr>ac_enabled = False, ac_batchSize = 1, ac_maxQueuedPerTick = 1, ac_claimStaleMs = 1,
       ac_defaultPriceCooldownMs = Fin 0, ac_idleBackoffMs = 0\<rparr>,
     lc_statePersistMinIntervalMs = 250, lc_snapshotsEnabled = False, lc_snapshotIntervalMs = 0, lc_snapshotErrorBackoffMs = 0,
     lc_pollIntervalMs = 5000\<rparr>"

definition process_with :: "relayer_state \<Rightarrow> relayer_process" where
  "process_with s = \<lparr>rp_file = Some s, rp_backoff = no_backoff, rp_lastEmptyFetchAt = 0, rp_auto_trace = []\<rparr>"

theorem relayer_restarts_well_formed_witness:
  "state_inv sample_config (loadRelayerState (rp_file (after_tick (runRelayerOnce sample_config sample_loop (sample_tick 1000)
     \<lparr>rp_file = None, rp_backoff = no_backoff, rp_lastEmptyFetchAt = 0, rp_auto_trace = []\<rparr>))))"
  by (rule relayer_restarts_well_formed [where lc = sample_loop]) (intro relayer_runs.full_tick relayer_runs.first_start)


theorem sleep_bounds_witness:
  "\<exists>i. sleep_ms (sample_config\<lparr>mode := ''feed_only''\<rparr>) sample_loop (Inr \<lparr>tr_feed_sync = \<lparr>fr_enabled = True, fr_skipped = Some True, fr_chains = []\<rparr>, tr_neo_n3 = None, tr_neox = None, tr_automation = None\<rparr>) createEmptyRelayerState 1000 = Fin i \<and> 0 \<le> i \<and> i \<le> 5000"
  using sleep_bounds [of "sample_config\<lparr>mode := ''feed_only''\<rparr>" sample_loop _ createEmptyRelayerState 1000, OF refl]
  by (fastforce simp: sample_loop_def)

text \<open>A feed-only relayer between two feed runs, its file written 100 ms ago and its last stamp 200 seconds old.\<close>

definition idle_file :: relayer_state where
  "idle_file = createEmptyRelayerState\<lparr>updated_at := Some 300000, last_tick_completed_at := Some 100000,
     last_feed_sync_completed_at := Some 299000\<rparr>"

theorem idle_ticks_go_stale_witness:
  "checkRelayerStateFreshness ''state.json'' (rp_file (after_tick (runRelayerOnce (sample_config\<lparr>mode := ''feed_only''\<rparr>) sample_loop
     (sample_tick 300100) (process_with idle_file)))) 120000 300200 = Stale_completed_tick 200200"
proof -
  let ?c = "sample_config\<lparr>mode := ''feed_only''\<rparr>"
  have f: "run_feed ?c sample_loop (sample_tick 300100) (start_tick (sample_tick 300100) (process_with idle_file)) =
      (\<lparr>fr_enabled = True, fr_skipped = Some True, fr_chains = []\<rparr>,
       on_state (incrementMetric ''feed_sync_skipped_total'' 1) (start_tick (sample_tick 300100) (process_with idle_file)))"
    by (simp add: run_feed_def shouldRunFeedSync_def processFeedSync_def getFeedSyncDelayMs_def sample_loop_def sample_feed_def sample_tick_def
        start_tick_def process_with_def idle_file_def loadRelayerState_def incrementMetric_def parseTimestampMs_def js_lt_def js_max_def Let_def)
  have b: "tick_body ?c sample_loop (sample_tick 300100) (process_with idle_file) =
      ((Inr \<lparr>tr_feed_sync = \<lparr>fr_enabled = True, fr_skipped = Some True, fr_chains = []\<rparr>, tr_neo_n3 = None, tr_neox = None, tr_automation = None\<rparr>,
        on_state (incrementMetric ''feed_sync_skipped_total'' 1) (start_tick (sample_tick 300100) (process_with idle_file))), process_with idle_file)"
    by (simp add: tick_body_def f run_chain_def run_automation_def shouldRunRequestProcessing_def)
  show ?thesis
    using idle_ticks_go_stale [OF b, of idle_file 100000 120000 300200 "''state.json''"]
    by (simp add: idleAndFresh_def tickHadActivity_def chainResultHasActivity_def automation_activity_def sample_loop_def sample_tick_def
        start_tick_def process_with_def idle_file_def loadRelayerState_def incrementMetric_def parseTimestampMs_def or_num_def js_trim_def is_ws_def)
qed

end
