(* ===== verification/Tick_Accounting.thy ===== *)
theory Tick_Accounting
  imports Request_Processor_Facts
begin

text \<open>
  Discovery and its cursor: when it moves, what it has covered, what a failure leaves, and what the
  reconciliation of missed requests may submit.
\<close>

section \<open>The runs of a batch\<close>

fun event_runs ::
  "('a relayer_config_scheme) \<Rightarrow> services \<Rightarrow> chain_io \<Rightarrow> (oracle_event \<times> retry_item option) list \<Rightarrow> world
     \<Rightarrow> (oracle_event \<times> outcome \<times> world) list" where
  "event_runs config sv io [] w = []"
| "event_runs config sv io ((event, item) # jobs) w =
     (case processEvent config sv io event item w of
        (Inl e, w1) \<Rightarrow> []
      | (Inr out, w1) \<Rightarrow> (event, out, w1) # event_runs config sv io jobs w1)"

lemma process_all_runs:
  "process_all config sv io jobs w = (Inr outs, w') \<Longrightarrow>
     map fst (event_runs config sv io jobs w) = map fst jobs \<and> map (fst \<circ> snd) (event_runs config sv io jobs w) = outs"
proof (induction config sv io jobs w arbitrary: outs rule: process_all.induct)
  case (2 config sv io event item jobs w)
  then show ?case by (auto simp: then_world_def split: prod.splits sum.splits)
qed simp

lemma runs_recorded:
  assumes "world_inv config w" "retryQueueLimit config = 0" "(e, out, v) \<in> set (event_runs config sv io (map (\<lambda>e. (e, None)) es) w)"
  shows "outcome_recorded out (ev_chain e) (buildEventKey e) (w_state v)"
  using assms(1,3)
proof (induction es arbitrary: w)
  case (Cons x es)
  have lim: "within_limit config (ev_chain x) (w_state w)" using assms(2) by (simp add: within_limit_def)
  obtain r w1 where p: "processEvent config sv io x None w = (r, w1)" by fastforce
  have "world_inv config w1" using event_inv.processEvent_kept [OF Cons.prems(1), of sv io x None] p by simp
  then show ?case
    using Cons p processEvent_accounts [OF Cons.prems(1) lim, of None sv io] by (cases r) auto
qed simp

lemma process_all_cursors [simp]: "cursors c (w_state (snd (process_all config sv io jobs w))) = cursors c (w_state w)"
proof (induction config sv io jobs w rule: process_all.induct)
  case (2 config sv io event item jobs w)
  obtain r w1 where p: "processEvent config sv io event item w = (r, w1)" by fastforce
  then have "cursors c (w_state w1) = cursors c (w_state w)" using processEvent_cursors [of c config sv io event item w] by simp
  then show ?case using 2 p by (cases r) (simp_all add: then_world_def split_beta split: sum.split)
qed simp

lemma defer_cursors [simp]: "cursors c (w_state (snd (deferEventsForBackpressure config sv c' es w))) = cursors c (w_state w)"
proof -
  have "cursors c (w_state (defer_event config sv c' t e v)) = cursors c (w_state v)" for t e v
    by (simp add: defer_event_def enqueueRetryItem_def enforceRetryQueueLimit_def cursors_def Let_def upd_chain_def)
  then have "cursors c (w_state (fold (defer_event config sv c' t) ds v)) = cursors c (w_state v)" for t ds v
    by (induction ds arbitrary: v) simp_all
  then show ?thesis by (simp add: deferEventsForBackpressure_def Let_def)
qed

lemma fresh_events_cursors [simp]: "cursors c (w_state (snd (fresh_events c' es w))) = cursors c (w_state w)"
  by (simp add: fresh_events_def Let_def split_beta)

section \<open>A scanned window\<close>

text \<open>The steps of a window that has been scanned without an exception.\<close>

lemma process_window_steps:
  assumes "process_window config sv io c cur from to tip scanned w = (Inr (report, ids), w')"
  obtains events w1 w2 now later w3 w4 where
    "fresh_events c scanned w = (events, w1)"
    "persistFreshEventsToDurableQueue config sv c events w1 = (Inr (), w2)"
    "deferEventsForBackpressure config sv c events w2 = ((now, later), w3)"
    "process_all config sv io (map (\<lambda>e. (e, None)) now) w3 = (Inr (sr_events report), w4)"
    "w' = set_cursor cur c to w4" "sr_window report = Some (from, to, tip)" "ids = map ev_requestId now"
  using assms by (auto simp: process_window_def then_world_def Let_def split: prod.splits sum.splits)

lemma then_world_fails:
  assumes "then_world m f = (Inl e, w')"
  obtains "m = (Inl e, w')" | x w where "m = (Inr x, w)" "f x w = (Inl e, w')"
  using assms by (cases m; cases "fst m") auto

lemma process_window_fails:
  assumes "process_window config sv io c cur from to tip scanned w = (Inl e, w')"
  shows "cursors c (w_state w') = cursors c (w_state w)"
proof -
  obtain events w1 where f: "fresh_events c scanned w = (events, w1)" by fastforce
  have w1: "cursors c (w_state w1) = cursors c (w_state w)" using fresh_events_cursors [of c c scanned w] f by simp
  have p: "cursors c (w_state v) = cursors c (w_state w)"
    if "persistFreshEventsToDurableQueue config sv c events w1 = (r, v)" for r v
    using persistFresh_state [of config sv c events w1] w1 that by simp
  have d: "cursors c (w_state u) = cursors c (w_state v)" if "deferEventsForBackpressure config sv c events v = (x, u)" for x v u
    using defer_cursors [of c config sv c events v] that by simp
  have a: "cursors c (w_state u) = cursors c (w_state v)" if "process_all config sv io jobs v = (x, u)" for jobs x v u
    using process_all_cursors [of c config sv io jobs v] that by simp
  from assms show ?thesis
    unfolding process_window_def f by (auto simp: Let_def elim!: then_world_fails dest!: p d a split: prod.splits)
qed

section \<open>The block cursor\<close>

lemma resolveChainFromBlock_cursor:
  "last_block (chain_states (snd (resolveChainFromBlock config c tip s)) c) \<in> {last_block (chain_states s c), None}"
  by (auto simp: resolveChainFromBlock_def Let_def split: option.split)

lemma is_known_frame [simp]:
  "is_known (incrementMetric name n s) c seen e = is_known s c seen e"
  by (simp add: is_known_def hasProcessedEvent_def isEventQueuedForRetry_keys)

lemma is_known_resolve:
  "is_known (snd (resolveChainFromBlock config c tip s)) c seen e = is_known s c seen e"
  by (auto simp: is_known_def resolveChainFromBlock_def hasProcessedEvent_def isEventQueuedForRetry_keys Let_def split: option.split)

lemma fresh_events_cover:
  assumes "fresh_events c scanned w = (events, w1)" "e \<in> set scanned" "\<not> is_known (w_state w) c [] e"
  shows "buildEventKey e \<in> buildEventKey ` set events"
proof -
  let ?s = "incrementMetric ''events_scanned_total'' (int (length scanned)) (w_state w)"
  have "buildEventKey ` set events = {k \<in> buildEventKey ` set scanned. \<not> hasProcessedEvent c k ?s \<and> \<not> isEventQueuedForRetry c k ?s}"
    using assms(1) filter_new_spec [of ?s c scanned "[]"] by (auto simp: fresh_events_def filterNewEvents_def Let_def split: prod.splits)
  moreover have "\<not> is_known ?s c [] e" using assms(3) by simp
  ultimately show ?thesis using assms(2) by (auto simp: is_known_def)
qed

text \<open>
  Every event of a window is accounted for: it was known before, or it has been deferred into the
  retry queue, or it has been processed and its outcome is what the state recorded.
\<close>

definition window_accounted ::
  "('a relayer_config_scheme) \<Rightarrow> services \<Rightarrow> chain_io \<Rightarrow> chain \<Rightarrow> relayer_state \<Rightarrow> oracle_event list \<Rightarrow> outcome list \<Rightarrow> bool" where
  "window_accounted config sv io c s scanned outs \<longleftrightarrow> (\<exists>now later w3.
     (\<forall>e \<in> set scanned. is_known s c [] e \<or> buildEventKey e \<in> buildEventKey ` (set now \<union> set later))
     \<and> (\<forall>e \<in> set later. isEventQueuedForRetry c (buildEventKey e) (w_state w3))
     \<and> map fst (event_runs config sv io (map (\<lambda>e. (e, None)) now) w3) = now
     \<and> map (fst \<circ> snd) (event_runs config sv io (map (\<lambda>e. (e, None)) now) w3) = outs
     \<and> (\<forall>(e, out, v) \<in> set (event_runs config sv io (map (\<lambda>e. (e, None)) now) w3).
          outcome_recorded out c (buildEventKey e) (w_state v)))"

lemma defer_split:
  assumes "retryQueueLimit config = 0" "deferEventsForBackpressure config sv c events w = ((now, later), w3)"
  shows "now @ later = events" "\<forall>e \<in> set later. isEventQueuedForRetry c (buildEventKey e) (w_state w3)"
  using assms(2) fold_defer_queued [OF assms(1)]
  by (auto simp: deferEventsForBackpressure_def Let_def isEventQueuedForRetry_keys split: if_splits)

lemma process_window_accounts:
  assumes "process_window config sv io c cur from to tip scanned w = (Inr (report, ids), w')"
    and "world_inv config w" "retryQueueLimit config = 0" "\<forall>e \<in> set scanned. ev_chain e = c"
  shows "window_accounted config sv io c (w_state w) scanned (sr_events report)"
    and "sr_window report = Some (from, to, tip)"
    and "\<exists>v. cursors c (w_state v) = cursors c (w_state w) \<and> w' = set_cursor cur c to v"
proof -
  obtain events w1 w2 now later w3 w4 where st:
    "fresh_events c scanned w = (events, w1)"
    "persistFreshEventsToDurableQueue config sv c events w1 = (Inr (), w2)"
    "deferEventsForBackpressure config sv c events w2 = ((now, later), w3)"
    "process_all config sv io (map (\<lambda>e. (e, None)) now) w3 = (Inr (sr_events report), w4)"
    "w' = set_cursor cur c to w4" "sr_window report = Some (from, to, tip)"
    using assms(1) by (rule process_window_steps)
  note split = defer_split [OF assms(3) st(3)]
  have "set events \<subseteq> set scanned" using tick_inv.tick.fresh_events_subset [of c scanned w] st(1) by simp
  then have chains: "\<forall>e \<in> set now. ev_chain e = c" using split(1) assms(4) by auto
  have "world_inv config w1" using assms(2) st(1) by (auto simp: fresh_events_def Let_def inv_intros split: prod.splits)
  then have "world_inv config w2" using persistFresh_state [of config sv c events w1] st(2) by simp
  then have inv3: "world_inv config w3" using world_inv_deferEvents [of config w2 sv c events] st(3) by simp
  note runs = process_all_runs [OF st(4)]
  have "outcome_recorded out c (buildEventKey e) (w_state v)"
    if "(e, out, v) \<in> set (event_runs config sv io (map (\<lambda>e. (e, None)) now) w3)" for e out v
  proof -
    have "e \<in> set (map fst (event_runs config sv io (map (\<lambda>e. (e, None)) now) w3))" using that by force
    then have "e \<in> set now" using runs by (simp add: comp_def)
    then show ?thesis using runs_recorded [OF inv3 assms(3) that] chains by simp
  qed
  moreover have "\<forall>e \<in> set scanned. is_known (w_state w) c [] e \<or> buildEventKey e \<in> buildEventKey ` (set now \<union> set later)"
    using fresh_events_cover [OF st(1)] unfolding split(1) [symmetric] set_append by blast
  ultimately show "window_accounted config sv io c (w_state w) scanned (sr_events report)"
    unfolding window_accounted_def using runs split(2)
    by (intro exI [of _ now] exI [of _ later] exI [of _ w3]) (auto simp: comp_def)
  show "sr_window report = Some (from, to, tip)" by (rule st(6))
  have "cursors c (w_state w4) = cursors c (w_state w)"
    using process_all_cursors [of c config sv io "map (\<lambda>e. (e, None)) now" w3] defer_cursors [of c config sv c events w2]
      persistFresh_state [of config sv c events w1] fresh_events_cursors [of c c scanned w] st by simp
  with st(5) show "\<exists>v. cursors c (w_state v) = cursors c (w_state w) \<and> w' = set_cursor cur c to v" by blast
qed

text \<open>Discovery either scans nothing and keeps or resets the cursor, or hands a scan to the window.\<close>

lemma discover_blocks_cases:
  assumes "discover_blocks config sv io c dc w = (r, w')" "world_inv config w"
  obtains "last_block (chain_states (w_state w') c) \<in> {last_block (chain_states (w_state w) c), None}"
  | lo hi tip v scanned where "dc_scan dc lo hi = Inr scanned"
      "process_window config sv io c on_last_block lo hi tip scanned v = (r, w')" "world_inv config v"
      "last_block (chain_states (w_state v) c) \<in> {last_block (chain_states (w_state w) c), None}"
      "\<And>seen e. is_known (w_state v) c seen e = is_known (w_state w) c seen e"
proof (cases "dc_getLatestBlock dc")
  case (Inl e)
  then show ?thesis using assms(1) by (intro that(1)) (auto simp: discover_blocks_def lift_call_def)
next
  case (Inr latest)
  let ?u = "on_state (upd_chain c (\<lambda>cs. cs\<lparr>last_discovery_at := sv_now sv\<rparr>)) w"
  define tip where "tip = latest - max (confirmations config c) 0"
  define lo where "lo = fst (resolveChainFromBlock config c tip (w_state ?u))"
  define hi where "hi = scan_to tip lo (maxBlocksPerTick config)"
  define v where "v = on_state (\<lambda>_. snd (resolveChainFromBlock config c tip (w_state ?u))) ?u"
  have v: "last_block (chain_states (w_state v) c) \<in> {last_block (chain_states (w_state w) c), None}"
    using resolveChainFromBlock_cursor [of config c tip "w_state ?u"] by (simp add: v_def)
  have inv: "world_inv config v"
    using assms(2) by (simp add: v_def) (intro state_inv_resolveChainFromBlock state_inv_bookkeeping; simp)
  have known: "is_known (w_state v) c seen e = is_known (w_state w) c seen e" for seen e
    by (simp add: v_def is_known_resolve) (simp add: is_known_def hasProcessedEvent_def isEventQueuedForRetry_keys)
  have "discover_blocks config sv io c dc w =
      (if tip < 0 then (Inr (no_scan, []), ?u) else if \<not> js_le lo (Fin tip) then (Inr (no_scan, []), v)
       else then_world (dc_scan dc lo hi, v) (process_window config sv io c on_last_block lo hi tip))"
    by (simp add: discover_blocks_def lift_call_def Inr Let_def tip_def lo_def hi_def v_def split_beta)
  then consider "w' = ?u" | "w' = v" | "then_world (dc_scan dc lo hi, v) (process_window config sv io c on_last_block lo hi tip) = (r, w')"
    using assms(1) by (auto split: if_splits)
  then show ?thesis
  proof cases
    case 3
    show ?thesis
    proof (cases "dc_scan dc lo hi")
      case (Inl e)
      then show ?thesis using 3 v by (intro that(1)) auto
    next
      case (Inr scanned)
      then show ?thesis using 3 inv v known by (intro that(2) [of lo hi scanned tip v]) auto
    qed
  qed (use v that(1) in simp_all)
qed


section \<open>Failures of discovery\<close>


text \<open>
  A node that does not answer: the due item of the queue is still processed.
\<close>

lemma dead_node_prepared:
  "prepare_chain sample_config sample_services Neo_N3 (sample_world q) = (Inr (), sample_world q)"
proof -
  have "syncManualActions sample_services Neo_N3 (sample_world q) = (Inr [], sample_world q)"
    by (simp add: syncManualActions_def sample_world_def no_backoff_def shouldSkipSupabasePersistence_def
        fetchRelayerJobsByStatuses_def sample_services_def)
  moreover have "getRequestCursorFloor sample_config Neo_N3 = None" by (simp add: getRequestCursorFloor_def sample_config_def)
  moreover have "hydrateDurableQueue sample_config sample_services Neo_N3 (sample_world q) = (Inr [], sample_world q)"
    by (simp add: hydrateDurableQueue_def ensureDurableQueueAvailable_def)
  ultimately show ?thesis
    by (simp add: prepare_chain_def quarantineDurableBacklogBelowRequestFloor_def pruneRetryQueueBelowRequestFloor_def
        on_state_def sample_world_def)
qed

lemma failing_due:
  assumes "retry_queue (chain_states (w_state w) Neo_N3) = [failing_item 1]"
  shows "\<exists>w'. runDueRetries sample_config sample_services (sample_io (Inl ''busy'')) Neo_N3 w
    = (Inr [ORetry ''callback_retry_scheduled'' 2], w')"
proof -
  have due: "getDueRetryItems Neo_N3 (sv_now sample_services) (w_state w) = [failing_item 1]"
    by (simp add: getDueRetryItems_def assms sample_services_def) (simp add: failing_item_def sample_item_def build_retry_item_def enqueue_defaults_def)
  obtain r w1 where p: "processEvent sample_config sample_services (sample_io (Inl ''busy'')) (sample_event ''7'') (Some (failing_item 1)) w = (r, w1)"
    by fastforce
  then have "r = Inr (ORetry ''callback_retry_scheduled'' 2)" using failing_redelivery [of w] by simp
  with p due show ?thesis by (simp add: runDueRetries_def retry_batch_def sample_config_def or_nat_def [abs_def])
qed


definition live_node :: discovery where
  "live_node = dead_node\<lparr>dc_getLatestBlock := Inr 20\<rparr>"


end
