(* ===== verification/Tick_Reconcile.thy ===== *)
theory Tick_Reconcile
  imports Tick_Accounting
begin

text \<open>
  The reconciliation of requests that the block scan missed never submits for a request that is
  tracked already, and the idle backoff of discovery.
\<close>

section \<open>What a batch submits for\<close>

fun submitted_for :: "effect \<Rightarrow> oracle_event option" where
  "submitted_for (EDeliver e p) = Some e"
| "submitted_for (EFinalize e m) = Some e"
| "submitted_for (EPersist s) = None"
| "submitted_for (EWrite x) = None"

definition submits_only :: "(oracle_event \<Rightarrow> bool) \<Rightarrow> world \<Rightarrow> world \<Rightarrow> bool" where
  "submits_only P w w' \<longleftrightarrow> (\<exists>tr. w_trace w' = w_trace w @ tr
     \<and> (\<forall>x \<in> set tr. case submitted_for x of None \<Rightarrow> True | Some e \<Rightarrow> P e))"

lemma submits_only_trans: "submits_only P u v \<Longrightarrow> submits_only P v w \<Longrightarrow> submits_only P u w"
  by (auto simp: submits_only_def)

lemma submits_only_mono: "submits_only P u v \<Longrightarrow> (\<And>e. P e \<Longrightarrow> Q e) \<Longrightarrow> submits_only Q u v"
  by (fastforce simp: submits_only_def split: option.splits)

lemma is_submission_iff: "is_submission x \<longleftrightarrow> submitted_for x \<noteq> None"
  by (cases x) simp_all

lemma quiet_submits_only: "quiet u v \<Longrightarrow> submits_only P u v"
  by (fastforce simp: quiet_def submits_only_def submissions_def filter_empty_conv is_submission_iff split: option.split)

lemma durable_first_events: "durable_first event kn seen tr \<Longrightarrow> x \<in> set tr \<Longrightarrow> submitted_for x = Some e \<Longrightarrow> e = event"
  by (induction event kn seen tr rule: durable_first.induct) auto

lemma process_all_submits_only:
  assumes "retryQueueLimit config = 0"
  shows "submits_only (\<lambda>e. e \<in> fst ` set jobs) w (snd (process_all config sv io jobs w))"
proof (induction jobs arbitrary: w)
  case Nil
  show ?case by (simp add: quiet_submits_only quiet_refl)
next
  case (Cons job jobs)
  obtain e item where job: "job = (e, item)" by fastforce
  obtain r w1 where p: "processEvent config sv io e item w = (r, w1)" by fastforce
  have "within_limit config (ev_chain e) (w_state w)" using assms by (simp add: within_limit_def)
  from processEvent_submits [OF this, of item sv io] p
  have first: "submits_only (\<lambda>e. e \<in> fst ` set (job # jobs)) w w1"
    by (auto simp: submits_def submits_only_def job dest: durable_first_events split: option.split)
  have "submits_only (\<lambda>e. e \<in> fst ` set (job # jobs)) w1 (snd (process_all config sv io jobs w1))"
    using Cons.IH by (rule submits_only_mono) simp
  from submits_only_trans [OF first this] first show ?case
    by (cases r) (simp_all add: job p then_world_def split_beta split: sum.split)
qed

lemma quiet_insert_fresh: "quiet w (snd (insert_fresh sv es w))"
proof (induction es arbitrary: w)
  case (Cons e es)
  let ?x = "InsertIfAbsent (buildRelayerJobRecord (sv_network sv) e
        ((job_details_of (buildEventKey e) ''queued'' 0)\<lparr>jd_next_retry_at := Some (sv_now sv)\<rparr>) (sv_now sv))"
  obtain r w1 where q: "supabaseRequest sv ?x w = (r, w1)" by fastforce
  then have "quiet w w1" using quiet_request by (metis snd_conv)
  then show ?case using quiet_trans [OF _ Cons.IH, of w w1] by (cases r) (simp_all add: q)
qed (simp add: quiet_refl)

lemma quiet_persistFresh: "quiet w (snd (persistFreshEventsToDurableQueue config sv c es w))"
proof -
  obtain r w1 where i: "insert_fresh sv es w = (r, w1)" by fastforce
  then have "quiet w w1" using quiet_insert_fresh by (metis snd_conv)
  then show ?thesis
    using quiet_trans [OF _ quiet_transient, of w w1]
    by (auto simp: persistFreshEventsToDurableQueue_def i Let_def split_beta quiet_refl split: sum.split bool.split)
qed

section \<open>Reconciliation\<close>

lemma collectActive_resolve:
  "collectActiveRequestIds c (snd (resolveRequestCursor config c latest s)) = collectActiveRequestIds c s"
  by (auto simp: collectActiveRequestIds_def resolveRequestCursor_def Let_def split: option.split)

lemma quiet_fresh_events: "quiet w (snd (fresh_events c es w))"
  by (simp add: fresh_events_def Let_def split_beta) (intro quiet_trans [OF quiet_on_state quiet_on_state])

lemma submits_only_then:
  "submits_only P u (snd m) \<Longrightarrow> (\<And>x w. m = (Inr x, w) \<Longrightarrow> submits_only P u w \<Longrightarrow> submits_only P u (snd (f x w)))
   \<Longrightarrow> submits_only P u (snd (then_world m f))"
  by (cases m; cases "fst m") auto

text \<open>
  C6: Reconciliation submits nothing for a tracked request. Whatever the scan by request id returns
  and wherever it stops, every transaction the reconciliation submits is for a request id that is
  neither in the retry queue nor in the processed cache nor among the requests this tick has
  processed already. The two cursor lanes give one request different event keys, so the key filter
  alone would let such a duplicate through.
\<close>

theorem reconcile_submits_untracked_only:
  assumes "retryQueueLimit config = 0"
  shows "submits_only (\<lambda>e. ev_requestId e \<notin> set excluded \<and> ev_requestId e \<notin> collectActiveRequestIds c (w_state w)) w
     (snd (reconcilePendingRequests config sv io c dc excluded w))"
proof (cases "dc_getLatestRequestId dc = None \<or> dc_scanByRequestId dc = None")
  case True
  then show ?thesis
    by (auto simp: reconcilePendingRequests_def quiet_submits_only quiet_refl split: option.splits)
next
  case False
  then obtain getLatest scanById where dc: "dc_getLatestRequestId dc = Some getLatest" "dc_scanByRequestId dc = Some scanById" by auto
  define P where "P = (\<lambda>e :: oracle_event. ev_requestId e \<notin> set excluded \<and> ev_requestId e \<notin> collectActiveRequestIds c (w_state w))"
  define v where "v = (\<lambda>latest. on_state (\<lambda>_. snd (resolveRequestCursor config c latest (w_state w))) w)"
  have v_fold: "on_state (\<lambda>_. snd (resolveRequestCursor config c latest (w_state w))) w = v latest" for latest
    by (simp add: v_def)
  have v: "submits_only P w (v latest)" for latest by (simp add: v_def quiet_submits_only quiet_on_state)
  have pend: "\<forall>e \<in> set (fst (fresh_events c (pending_only excluded c (w_state (v latest)) es) u)). P e" for latest es u
    using tick_inv.tick.fresh_events_subset [of c "pending_only excluded c (w_state (v latest)) es" u]
    by (auto simp: pending_only_def P_def v_def collectActive_resolve)
  have fresh: "submits_only P w (snd (fresh_events c es (v latest)))" for latest es
    using submits_only_trans [OF v quiet_submits_only [OF quiet_fresh_events]] .
  have pers: "submits_only P w (snd (persistFreshEventsToDurableQueue config sv c es u))" if "submits_only P w u" for es u
    using submits_only_trans [OF that quiet_submits_only [OF quiet_persistFresh]] .
  have all: "submits_only P w (snd (process_all config sv io (map (\<lambda>e. (e, None)) es) u))"
    if "submits_only P w u" "\<forall>e \<in> set es. P e" for es u
  proof -
    have "submits_only (\<lambda>e. e \<in> fst ` set (map (\<lambda>e. (e, None :: retry_item option)) es)) u
        (snd (process_all config sv io (map (\<lambda>e. (e, None)) es) u))"
      by (rule process_all_submits_only [OF assms])
    then have "submits_only P u (snd (process_all config sv io (map (\<lambda>e. (e, None)) es) u))"
      by (rule submits_only_mono) (use that(2) in auto)
    then show ?thesis by (rule submits_only_trans [OF that(1)])
  qed
  have cur: "submits_only P w (set_cursor f c to u)" if "submits_only P w u" for f to u
    unfolding set_cursor_def
    by (rule submits_only_trans [OF that quiet_submits_only [OF quiet_trans [OF quiet_on_state quiet_persist]]])
  have "submits_only P w w" by (simp add: quiet_submits_only quiet_refl)
  then show ?thesis
    unfolding P_def [symmetric] reconcilePendingRequests_def dc
    by (auto simp: lift_call_def Let_def split_beta v_fold v fresh pers all pend cur intro!: submits_only_then)
qed

text \<open>One request that the block scan missed and one that is queued: only the first is submitted for.\<close>

definition two_requests :: discovery where
  "two_requests = dead_node\<lparr>dc_getLatestRequestId := Some (Inr 8),
     dc_scanByRequestId := Some (\<lambda>a b. Inr [sample_event ''7'', sample_event ''8''])\<rparr>"

theorem reconcile_submits_untracked_only_witness:
  "submits_only (\<lambda>e. ev_requestId e \<notin> set [] \<and> ev_requestId e \<notin> collectActiveRequestIds Neo_N3 (w_state (sample_world [failing_item 1])))
     (sample_world [failing_item 1])
     (snd (reconcilePendingRequests (sample_config\<lparr>retryQueueLimit := 0\<rparr>) sample_services (sample_io (Inr JNull)) Neo_N3 two_requests []
        (sample_world [failing_item 1])))
   \<and> ''7'' \<in> collectActiveRequestIds Neo_N3 (w_state (sample_world [failing_item 1]))"
  using reconcile_submits_untracked_only [of "sample_config\<lparr>retryQueueLimit := 0\<rparr>" "[]" Neo_N3 "sample_world [failing_item 1]"]
  by (simp add: collectActiveRequestIds_def) (simp add: sample_event_def)

section \<open>Idle discovery\<close>

lemma process_all_last_discovery [simp]:
  "last_discovery_at (chain_states (w_state (snd (process_all config sv io jobs w))) c) = last_discovery_at (chain_states (w_state w) c)"
proof (induction config sv io jobs w rule: process_all.induct)
  case (2 config sv io event item jobs w)
  obtain r w1 where p: "processEvent config sv io event item w = (r, w1)" by fastforce
  then have "last_discovery_at (chain_states (w_state w1) c) = last_discovery_at (chain_states (w_state w) c)"
    using processEvent_last_discovery [of config sv io event item w c] by simp
  then show ?case using 2 p by (cases r) (simp_all add: then_world_def split_beta split: sum.split)
qed simp

lemma defer_last_discovery [simp]:
  "last_discovery_at (chain_states (w_state (snd (deferEventsForBackpressure config sv c' es w))) c) = last_discovery_at (chain_states (w_state w) c)"
proof -
  have "last_discovery_at (chain_states (w_state (defer_event config sv c' t e v)) c) = last_discovery_at (chain_states (w_state v) c)" for t e v
    by (simp add: defer_event_def enqueueRetryItem_def enforceRetryQueueLimit_def Let_def upd_chain_def)
  then have "last_discovery_at (chain_states (w_state (fold (defer_event config sv c' t) ds v)) c) = last_discovery_at (chain_states (w_state v) c)" for t ds v
    by (induction ds arbitrary: v) simp_all
  then show ?thesis by (simp add: deferEventsForBackpressure_def Let_def)
qed

definition scanned_at :: "millis \<Rightarrow> chain \<Rightarrow> world \<Rightarrow> bool" where
  "scanned_at t c w \<longleftrightarrow> last_discovery_at (chain_states (w_state w) c) = t"

lemma scanned_at_then:
  "scanned_at t c (snd m) \<Longrightarrow> (\<And>x w. scanned_at t c w \<Longrightarrow> scanned_at t c (snd (f x w))) \<Longrightarrow> scanned_at t c (snd (then_world m f))"
  by (cases m; cases "fst m") auto

lemma discover_blocks_scanned_at: "scanned_at (sv_now sv) c (snd (discover_blocks config sv io c dc w))"
proof -
  have res: "last_discovery_at (chain_states (snd (resolveChainFromBlock config c tip s)) c) = last_discovery_at (chain_states s c)" for tip s
    by (auto simp: resolveChainFromBlock_def Let_def split: option.split)
  have win: "scanned_at t c (snd (process_window config sv io c on_last_block lo hi tip scanned u))" if "scanned_at t c u" for t lo hi tip scanned u
    using that
    by (auto simp: process_window_def fresh_events_def scanned_at_def set_cursor_def on_last_block_def Let_def split_beta
        intro!: scanned_at_then [unfolded scanned_at_def])
  show ?thesis
    by (auto simp: discover_blocks_def lift_call_def Let_def split_beta scanned_at_def res intro!: scanned_at_then [unfolded scanned_at_def]
        win [unfolded scanned_at_def])
qed

text \<open>
  The comment on the idle backoff says that it is reset when a scan finds events. The code stamps
  every scan and never clears the stamp: the next discovery is skipped after a scan that found and
  settled events just as after an empty one.
\<close>

theorem idle_backoff_after_activity:
  assumes "discover_blocks config sv io c dc w = (Inr (report, ids), w')" "sr_events report \<noteq> []" "0 < sv_now sv"
    and "getDueRetryItems c (sv_now sv') (w_state w') = []" "sv_now sv' - sv_now sv < discoveryIdleBackoffMs config"
    and "sv_now sv \<le> sv_now sv'"
  shows "idle_skip config sv' c (w_state w')"
  using discover_blocks_scanned_at [of sv c config io dc w] assms by (simp add: idle_skip_def scanned_at_def Let_def)

text \<open>
  The stamp is set before the call of the node, so a failed call postpones the next discovery too.
\<close>

lemma failed_discovery_counts_as_scan:
  assumes "discover_blocks config sv io c dc w = (Inl e, w')" "0 < sv_now sv"
    and "getDueRetryItems c (sv_now sv') (w_state w') = []" "sv_now sv' - sv_now sv < discoveryIdleBackoffMs config"
    and "sv_now sv \<le> sv_now sv'"
  shows "idle_skip config sv' c (w_state w')"
  using discover_blocks_scanned_at [of sv c config io dc w] assms by (simp add: idle_skip_def scanned_at_def Let_def)

text \<open>
  With the request cursor past the latest id the due retries run inside the \<open>try\<close> of discovery: an
  exception of a retry is counted as a discovery failure, and the due retries run a second time in
  the same tick.
\<close>

lemma quiet_lane_retries_twice:
  assumes "dc_hasConfig dc" "prepare_chain config sv c w = (Inr (), w1)" "dc_getLatestRequestId dc = Some (Inr latest)"
    and "resolveRequestCursor config c latest (w_state w1) = (next_id, s1)" "js_lt (Fin latest) next_id"
    and "runDueRetries config sv io c (on_state (\<lambda>_. s1) w1) = (Inl e, w2)"
  shows "processChainByRequestCursor config sv io c dc w =
     then_world (runDueRetries config sv io c (on_state (incrementMetric ''discovery_failures_total'' 1) w2)) (\<lambda>retries w3.
       (Inr \<lparr>cr_scan = no_scan, cr_retries = retries, cr_reconciliation = None\<rparr>, w3))"
  using assms by (simp add: processChainByRequestCursor_def request_lane_def lift_call_def caught_def Let_def)

end
