(* ===== verification/Worker_Routes.thy ===== *)
theory Worker_Routes
  imports Gated_Decrypt
begin

text \<open>
  The routing table of the worker (\<^verbatim>\<open>workers/nitro-worker/src/capabilities.js\<close>) and the limiter of
  concurrent requests (\<^verbatim>\<open>platform/overload-guard.js\<close>). The limiter is a counter per route; a request
  that got a slot holds a ticket whose \<open>release\<close> works once. Requests start and end in any order: the
  relation \<open>slot_step\<close> is the limiter under every interleaving.

  The facts: a counter is the number of open tickets of its route and never exceeds the limit, a
  request is refused exactly when the limit is reached, and releasing twice frees one slot.
\<close>

section \<open>Capabilities\<close>

datatype route_rule = Match string | Pattern string

record capability =
  cp_id :: string
  cp_paths :: "route_rule list"
  cp_actions :: "string list"
  cp_workflow :: string

definition mk_capability :: "string \<Rightarrow> route_rule \<Rightarrow> string list \<Rightarrow> string \<Rightarrow> capability" where
  "mk_capability i rule actions workflow = \<lparr>cp_id = i, cp_paths = [rule], cp_actions = actions, cp_workflow = workflow\<rparr>"

definition CAPABILITIES :: "capability list" where
  "CAPABILITIES =
     [mk_capability ''keys_derived'' (Match ''/keys/derived'') [] [],
      mk_capability ''neodid_providers'' (Match ''/neodid/providers'') [] [],
      mk_capability ''neodid_runtime'' (Match ''/neodid/runtime'') [] [],
      mk_capability ''neodid_bind'' (Match ''/neodid/bind'') [] ''neodid.bind'',
      mk_capability ''neodid_action_ticket'' (Match ''/neodid/action-ticket'') [] ''neodid.action_ticket'',
      mk_capability ''neodid_recovery_ticket'' (Match ''/neodid/recovery-ticket'') [] ''neodid.recovery_ticket'',
      mk_capability ''neodid_zklogin_ticket'' (Match ''/neodid/zklogin-ticket'') [] [],
      mk_capability ''providers'' (Match ''/providers'') [] [],
      mk_capability ''oracle_public_key'' (Match ''/oracle/public-key'') [] [],
      mk_capability ''oracle_decrypt'' (Match ''/oracle/decrypt'') [''decrypt''] [],
      mk_capability ''oracle_message_reveal'' (Match ''/oracle/message-reveal'') [''message_reveal''] [],
      mk_capability ''oracle_heartbeat'' (Match ''/oracle/heartbeat'') [] [],
      mk_capability ''oracle_query'' (Match ''/oracle/query'') [] ''oracle.query'',
      mk_capability ''oracle_smart_fetch'' (Match ''/oracle/smart-fetch'') [] ''oracle.smart_fetch'',
      mk_capability ''feeds_catalog'' (Match ''/feeds/catalog'') [] [],
      mk_capability ''feeds_price_symbol'' (Pattern ''/feeds/price/'') [] [],
      mk_capability ''feeds_price'' (Match ''/feeds/price'') [] [],
      mk_capability ''vrf_random'' (Match ''/vrf/random'') [] [],
      mk_capability ''oracle_feed'' (Match ''/oracle/feed'') [''oracle_feed''] ''feed.sync'',
      mk_capability ''txproxy_invoke'' (Match ''/txproxy/invoke'') [] [],
      mk_capability ''sign_payload'' (Match ''/sign/payload'') [''sign_payload''] [],
      mk_capability ''relay_transaction'' (Match ''/relay/transaction'') [''relay_transaction''] [],
      mk_capability ''paymaster_authorize'' (Match ''/paymaster/authorize'') [] ''paymaster.authorize'',
      mk_capability ''compute_functions'' (Match ''/compute/functions'') [] [],
      mk_capability ''compute_execute'' (Match ''/compute/execute'') [] ''compute.execute'',
      mk_capability ''compute_jobs_id'' (Pattern ''/compute/jobs/'') [] [],
      mk_capability ''compute_jobs'' (Match ''/compute/jobs'') [] []]"

text \<open>The two patterns are a literal followed by at least one character of the same line.\<close>

definition line_end :: "char \<Rightarrow> bool" where
  "line_end c = (c = CHR 0x0A \<or> c = CHR 0x0D)"

fun pattern_test :: "string \<Rightarrow> string \<Rightarrow> bool" where
  "pattern_test l [] = False"
| "pattern_test l (c # s) =
     (js_starts_with (c # s) l \<and> (case drop (length l) (c # s) of [] \<Rightarrow> False | d # _ \<Rightarrow> \<not> line_end d) \<or> pattern_test l s)"

fun rule_matches :: "string \<Rightarrow> route_rule \<Rightarrow> bool" where
  "rule_matches path (Match m) = ends_with path m"
| "rule_matches path (Pattern l) = pattern_test l path"

definition resolveCapability :: "string \<Rightarrow> jsv \<Rightarrow> capability option" where
  "resolveCapability path payload =
     (case find (\<lambda>cap. \<exists>r \<in> set (cp_paths cap). rule_matches path r) CAPABILITIES of
        Some cap \<Rightarrow> Some cap
      | None \<Rightarrow> (case getp payload ''action'' of
            JStr action \<Rightarrow> if action = [] then None else find (\<lambda>cap. action \<in> set (cp_actions cap)) CAPABILITIES
          | _ \<Rightarrow> None))"

definition resolveRouteName :: "string \<Rightarrow> jsv \<Rightarrow> string" where
  "resolveRouteName path payload = (case resolveCapability path payload of Some cap \<Rightarrow> cp_id cap | None \<Rightarrow> [])"

section \<open>Slots\<close>

definition default_limits :: "(string \<times> int) list" where
  "default_limits =
     [(''compute_execute'', 4), (''vrf_random'', 4), (''relay_transaction'', 6), (''paymaster_authorize'', 8),
      (''neodid_recovery_ticket'', 4), (''neodid_bind'', 6), (''neodid_action_ticket'', 6), (''neodid_zklogin_ticket'', 6),
      (''oracle_feed'', 0), (''oracle_smart_fetch'', 12), (''oracle_query'', 16), (''txproxy_invoke'', 12)]"

definition defaultLimit :: "string \<Rightarrow> int" where
  "defaultLimit routeName = (case map_of default_limits routeName of Some n \<Rightarrow> n | None \<Rightarrow> 0)"

definition truncated :: "rat \<Rightarrow> int" where
  "truncated x = (if 0 \<le> x then \<lfloor>x\<rfloor> else \<lceil>x\<rceil>)"

definition resolveLimit :: "process_env \<Rightarrow> string \<Rightarrow> int" where
  "resolveLimit pe routeName =
     (if routeName = [] then 0
      else let raw = env pe [''MORPHEUS_MAX_INFLIGHT_'' @ to_upper routeName]
           in if raw = [] then defaultLimit routeName
              else case js_float raw of Some x \<Rightarrow> max (truncated x) 0 | None \<Rightarrow> 0)"

text \<open>\<open>inFlightByRoute\<close>, and the tickets that were handed out, in order: their route and \<open>released\<close>.\<close>

record overload =
  ov_inFlight :: "(string \<times> int) list"
  ov_tickets :: "(string \<times> bool) list"

definition currentInFlight :: "string \<Rightarrow> overload \<Rightarrow> int" where
  "currentInFlight routeName ov = (case obj_get (ov_inFlight ov) routeName of Some n \<Rightarrow> n | None \<Rightarrow> 0)"

definition setInFlight :: "string \<Rightarrow> int \<Rightarrow> overload \<Rightarrow> overload" where
  "setInFlight routeName value ov =
     ov\<lparr>ov_inFlight := (if value \<le> 0 then obj_del routeName (ov_inFlight ov) else obj_set routeName value (ov_inFlight ov))\<rparr>"

text \<open>
  The answer to a request: refused with a response, admitted without a ticket (the route has no
  limit), or admitted with the ticket of that number.
\<close>

datatype slot_answer = Refused http_response | Unlimited | Ticket nat

definition overloaded_response :: "string \<Rightarrow> int \<Rightarrow> int \<Rightarrow> http_response" where
  "overloaded_response routeName limit inFlight =
     \<lparr>hr_status = 503, hr_body = JObj [(''error'', JStr ''overloaded''), (''route'', JStr routeName),
        (''limit'', JNum (Fin limit)), (''in_flight'', JNum (Fin inFlight))]\<rparr>"

definition acquireOverloadSlot :: "process_env \<Rightarrow> string \<Rightarrow> jsv \<Rightarrow> overload \<Rightarrow> slot_answer \<times> overload" where
  "acquireOverloadSlot pe pathname payload ov =
     (let routeName = resolveRouteName (js_trim pathname) payload;
          limit = resolveLimit pe routeName;
          inFlight = currentInFlight routeName ov
      in if routeName = [] \<or> limit \<le> 0 then (Unlimited, ov)
         else if limit \<le> inFlight then (Refused (overloaded_response routeName limit inFlight), ov)
         else (Ticket (length (ov_tickets ov)),
               (setInFlight routeName (inFlight + 1) ov)\<lparr>ov_tickets := ov_tickets ov @ [(routeName, False)]\<rparr>))"

definition releaseTicket :: "nat \<Rightarrow> overload \<Rightarrow> overload" where
  "releaseTicket i ov =
     (case (if i < length (ov_tickets ov) then Some (ov_tickets ov ! i) else None) of
        Some (routeName, False) \<Rightarrow>
          (setInFlight routeName (currentInFlight routeName ov - 1) ov)\<lparr>ov_tickets := (ov_tickets ov)[i := (routeName, True)]\<rparr>
      | _ \<Rightarrow> ov)"

fun releaseSlot :: "slot_answer \<Rightarrow> overload \<Rightarrow> overload" where
  "releaseSlot (Ticket i) ov = releaseTicket i ov"
| "releaseSlot _ ov = ov"

definition no_slots :: overload where
  "no_slots = \<lparr>ov_inFlight = [], ov_tickets = []\<rparr>"

inductive slot_step :: "process_env \<Rightarrow> overload \<Rightarrow> overload \<Rightarrow> bool" for pe where
  acquire: "acquireOverloadSlot pe path payload ov = (a, ov') \<Longrightarrow> slot_step pe ov ov'"
| release: "slot_step pe ov (releaseTicket i ov)"

section \<open>Facts\<close>

definition open_tickets :: "string \<Rightarrow> overload \<Rightarrow> nat" where
  "open_tickets routeName ov = length (filter (\<lambda>t. t = (routeName, False)) (ov_tickets ov))"

definition slots_inv :: "process_env \<Rightarrow> overload \<Rightarrow> bool" where
  "slots_inv pe ov \<longleftrightarrow>
     (\<forall>r. currentInFlight r ov = int (open_tickets r ov) \<and> int (open_tickets r ov) \<le> resolveLimit pe r)"

lemma currentInFlight_set:
  "currentInFlight r (setInFlight r' v ov) = (if r = r' then max v 0 else currentInFlight r ov)"
  by (auto simp: currentInFlight_def setInFlight_def obj_get_set obj_get_del split: option.split)

lemma inFlight_tickets_update [simp]: "currentInFlight r (ov\<lparr>ov_tickets := ts\<rparr>) = currentInFlight r ov"
  by (simp add: currentInFlight_def)

lemma open_tickets_release:
  assumes "i < length ts" "ts ! i = (r', False)"
  shows "length (filter (\<lambda>t. t = (r, False)) (ts[i := (r', True)]))
    = length (filter (\<lambda>t. t = (r, False)) ts) - (if r = r' then 1 else 0)"
  using assms
proof (induction ts arbitrary: i)
  case (Cons t ts)
  show ?case
  proof (cases i)
    case 0
    then show ?thesis using Cons.prems by auto
  next
    case (Suc j)
    have "r' = r \<Longrightarrow> 0 < length (filter (\<lambda>t. t = (r, False)) ts)"
      using Cons.prems Suc nth_mem [of j ts] by (auto simp: filter_empty_conv)
    then show ?thesis using Cons Suc by auto
  qed
qed simp

lemma resolveLimit_nonneg: "0 \<le> resolveLimit pe r"
proof -
  have "list_all (\<lambda>p. 0 \<le> snd p) default_limits" by code_simp
  then have "map_of default_limits r = Some n \<Longrightarrow> 0 \<le> n" for n by (fastforce simp: list_all_iff dest: map_of_SomeD)
  then have "0 \<le> defaultLimit r" by (auto simp: defaultLimit_def split: option.split)
  then show ?thesis by (auto simp: resolveLimit_def Let_def split: option.split)
qed

lemma slots_invD:
  "slots_inv pe ov \<Longrightarrow> currentInFlight r ov = int (open_tickets r ov)"
  "slots_inv pe ov \<Longrightarrow> int (open_tickets r ov) \<le> resolveLimit pe r"
  by (simp_all add: slots_inv_def)

lemma acquire_cases:
  assumes "acquireOverloadSlot pe path payload ov = (a, ov')"
  obtains "ov' = ov"
  | r where "r = resolveRouteName (js_trim path) payload" "currentInFlight r ov < resolveLimit pe r"
      "ov' = (setInFlight r (currentInFlight r ov + 1) ov)\<lparr>ov_tickets := ov_tickets ov @ [(r, False)]\<rparr>"
proof -
  let ?r = "resolveRouteName (js_trim path) payload"
  consider "?r = [] \<or> resolveLimit pe ?r \<le> 0" | "resolveLimit pe ?r \<le> currentInFlight ?r ov"
    | "\<not> (?r = [] \<or> resolveLimit pe ?r \<le> 0)" "\<not> resolveLimit pe ?r \<le> currentInFlight ?r ov" by blast
  then show ?thesis
  proof cases
    case 3
    then show ?thesis using assms that(2) [OF refl] unfolding acquireOverloadSlot_def Let_def by simp
  qed (use assms that(1) in \<open>auto simp: acquireOverloadSlot_def Let_def split: if_splits\<close>)
qed

lemma slots_inv_acquire:
  assumes "slots_inv pe ov" "acquireOverloadSlot pe path payload ov = (a, ov')"
  shows "slots_inv pe ov'"
  using assms(2)
proof (cases rule: acquire_cases)
  case (2 r)
  have "currentInFlight q ov' = int (open_tickets q ov') \<and> int (open_tickets q ov') \<le> resolveLimit pe q" for q
    using 2(2) slots_invD [OF assms(1), of q] slots_invD [OF assms(1), of r]
    by (simp add: 2(3) currentInFlight_set open_tickets_def)
  then show ?thesis by (simp add: slots_inv_def)
qed (use assms(1) in simp)

lemma slots_inv_release:
  assumes "slots_inv pe ov"
  shows "slots_inv pe (releaseTicket i ov)"
proof (cases "i < length (ov_tickets ov) \<and> \<not> snd (ov_tickets ov ! i)")
  case True
  then obtain r where t: "i < length (ov_tickets ov)" "ov_tickets ov ! i = (r, False)" by (cases "ov_tickets ov ! i") auto
  have open_r: "0 < open_tickets r ov"
    using t nth_mem [of i "ov_tickets ov"] by (auto simp: open_tickets_def filter_empty_conv)
  have "currentInFlight q (releaseTicket i ov) = int (open_tickets q (releaseTicket i ov))
      \<and> int (open_tickets q (releaseTicket i ov)) \<le> resolveLimit pe q" for q
    using open_r slots_invD [OF assms, of q] slots_invD [OF assms, of r] open_tickets_release [OF t, of q]
    by (cases "q = r") (simp_all add: t releaseTicket_def currentInFlight_set open_tickets_def of_nat_diff Suc_le_eq)
  then show ?thesis by (simp add: slots_inv_def)
next
  case False
  then have "releaseTicket i ov = ov" by (auto simp: releaseTicket_def split: prod.split bool.split)
  then show ?thesis using assms by simp
qed

lemma slots_inv_start: "slots_inv pe no_slots"
  by (simp add: slots_inv_def currentInFlight_def open_tickets_def no_slots_def resolveLimit_nonneg)

interpretation slots: invariant_system "\<lambda>ov. ov = no_slots" "slot_step pe" "slots_inv pe" for pe
  by unfold_locales (auto simp: slots_inv_start slots_inv_release intro: slots_inv_acquire elim!: slot_step.cases)

lemma refused_iff:
  assumes "slots_inv pe ov"
  shows "(\<exists>response. fst (acquireOverloadSlot pe path payload ov) = Refused response) \<longleftrightarrow>
    (let r = resolveRouteName (js_trim path) payload in r \<noteq> [] \<and> 0 < resolveLimit pe r \<and> int (open_tickets r ov) = resolveLimit pe r)"
  using slots_invD [OF assms, of "resolveRouteName (js_trim path) payload"]
  by (auto simp: acquireOverloadSlot_def Let_def)

text \<open>
  C19: Under every interleaving of requests that start and end, the counter of a route is the number of
  its unreleased slots and stays within the limit; a request is refused exactly when its route has a
  limit and that many slots are taken; releasing a slot a second time changes nothing.
\<close>

theorem overload_slots_exact:
  assumes "rtranclp (slot_step pe) no_slots ov"
  shows "currentInFlight r ov = int (open_tickets r ov) \<and> int (open_tickets r ov) \<le> resolveLimit pe r
    \<and> ((\<exists>response. fst (acquireOverloadSlot pe path payload ov) = Refused response) \<longleftrightarrow>
         (let q = resolveRouteName (js_trim path) payload
          in q \<noteq> [] \<and> 0 < resolveLimit pe q \<and> int (open_tickets q ov) = resolveLimit pe q))
    \<and> releaseTicket i (releaseTicket i ov) = releaseTicket i ov"
proof (intro conjI)
  have inv: "slots_inv pe ov" using slots.inv_reachable [OF _ assms] by simp
  show "currentInFlight r ov = int (open_tickets r ov)" "int (open_tickets r ov) \<le> resolveLimit pe r"
    using slots_invD [OF inv] by simp_all
  show "(\<exists>response. fst (acquireOverloadSlot pe path payload ov) = Refused response) \<longleftrightarrow>
      (let q = resolveRouteName (js_trim path) payload
       in q \<noteq> [] \<and> 0 < resolveLimit pe q \<and> int (open_tickets q ov) = resolveLimit pe q)"
    by (rule refused_iff [OF inv])
  show "releaseTicket i (releaseTicket i ov) = releaseTicket i ov"
    by (auto simp: releaseTicket_def setInFlight_def split: prod.split bool.split option.split)
qed

definition plain_pe :: process_env where
  "plain_pe = \<lparr>pe_vars = (\<lambda>_. []), pe_runtime = (\<lambda>_. JUndef), pe_scoped = (\<lambda>_ _. JUndef)\<rparr>"

definition vrf_slot :: "overload \<Rightarrow> overload" where
  "vrf_slot ov = snd (acquireOverloadSlot plain_pe ''/vrf/random'' JNull ov)"

lemma vrf_slot_step: "slot_step plain_pe ov (vrf_slot ov)"
  by (rule slot_step.acquire [of _ "''/vrf/random''" JNull ov "fst (acquireOverloadSlot plain_pe ''/vrf/random'' JNull ov)"])
    (simp add: vrf_slot_def)

lemma vrf_route: "resolveRouteName (js_trim ''/vrf/random'') JNull = ''vrf_random''" "resolveLimit plain_pe ''vrf_random'' = 4"
  by code_simp+

lemma vrf_slot_taken:
  "currentInFlight ''vrf_random'' ov = int n \<Longrightarrow> n < 4 \<Longrightarrow> currentInFlight ''vrf_random'' (vrf_slot ov) = int (Suc n)"
  by (simp add: vrf_slot_def acquireOverloadSlot_def Let_def vrf_route currentInFlight_set)

theorem overload_slots_exact_witness:
  "(\<exists>response. fst (acquireOverloadSlot plain_pe ''/vrf/random'' JNull (vrf_slot (vrf_slot (vrf_slot (vrf_slot no_slots))))) = Refused response)
   \<and> open_tickets ''vrf_random'' (vrf_slot (vrf_slot (vrf_slot (vrf_slot no_slots)))) = 4"
proof -
  let ?ov = "vrf_slot (vrf_slot (vrf_slot (vrf_slot no_slots)))"
  have "rtranclp (slot_step plain_pe) no_slots ov \<Longrightarrow> rtranclp (slot_step plain_pe) no_slots (vrf_slot ov)" for ov
    by (erule rtranclp.rtrancl_into_rtrancl) (rule vrf_slot_step)
  then have run: "rtranclp (slot_step plain_pe) no_slots ?ov" by simp
  have "currentInFlight ''vrf_random'' no_slots = int 0" by (simp add: currentInFlight_def no_slots_def)
  then have "currentInFlight ''vrf_random'' ?ov = int 4"
    using vrf_slot_taken [of "vrf_slot (vrf_slot (vrf_slot no_slots))" 3] vrf_slot_taken [of "vrf_slot (vrf_slot no_slots)" 2]
      vrf_slot_taken [of "vrf_slot no_slots" 1] vrf_slot_taken [of no_slots 0] by simp
  then show ?thesis
    using overload_slots_exact [OF run, of "''vrf_random''" "''/vrf/random''" JNull 0] by (simp add: vrf_route Let_def)
qed

end
