(* ===== verification/Policy_Engine.thy ===== *)
theory Policy_Engine
  imports Worker_Routes
begin

text \<open>
  \<^verbatim>\<open>workers/nitro-worker/src/platform/policy-engine.js\<close> and the policy part of
  \<^verbatim>\<open>platform/request-guards.js\<close>: the decision whether a request may run, from the signals it carries.
  The fact: a request is allowed exactly when none of the reasons to stop it applies.
\<close>

section \<open>Reading signals\<close>

fun hasValue :: "jsv \<Rightarrow> bool" where
  "hasValue JUndef = False"
| "hasValue JNull = False"
| "hasValue (JStr s) = (js_trim s \<noteq> [])"
| "hasValue _ = True"

definition readBoolean :: "jsv \<Rightarrow> bool option \<Rightarrow> bool option" where
  "readBoolean v fallback =
     (if \<not> hasValue v then fallback
      else case v of JBool b \<Rightarrow> Some b
      | _ \<Rightarrow> let normalized = to_lower (js_trim (js_string v))
            in if normalized \<in> {''1'', ''true'', ''yes'', ''on'', ''enabled''} then Some True
               else if normalized \<in> {''0'', ''false'', ''no'', ''off'', ''disabled''} then Some False
               else fallback)"

definition normalizeDecision :: "jsv \<Rightarrow> string \<Rightarrow> string" where
  "normalizeDecision v fallback =
     (let normalized = to_lower (trimValue v)
      in if normalized \<in> {''deny'', ''review'', ''allow''} then normalized else fallback)"

section \<open>Decisions\<close>

record policy_decision =
  pol_workflow_id :: "string option"
  pol_allow :: bool
  pol_decision :: string
  pol_reason :: string
  pol_httpStatus :: int
  pol_scope :: "string option"
  pol_scope_id :: "string option"
  pol_require_attestation :: bool
  pol_provider_enabled :: "bool option"
  pol_attestation_available :: "bool option"

text \<open>
  \<open>buildPolicyDecision(base, overrides)\<close>: the base is an allowing decision, the overrides a decision, a
  reason and possibly a scope (empty where it is not given).
\<close>

definition buildPolicyDecision :: "policy_decision \<Rightarrow> string \<Rightarrow> string \<Rightarrow> string \<Rightarrow> string \<Rightarrow> policy_decision" where
  "buildPolicyDecision base decision reason scope scopeId =
     (let d = normalizeDecision (JStr decision) (pol_decision base)
      in base\<lparr>pol_allow := (d = ''allow''), pol_decision := d, pol_reason := or_str (js_trim reason) (pol_reason base),
           pol_httpStatus := (if d = ''allow'' then 200 else if d = ''review'' then 409 else 403),
           pol_scope := (if js_trim scope \<noteq> [] then Some (js_trim scope) else pol_scope base),
           pol_scope_id := (if js_trim scopeId \<noteq> [] then Some (js_trim scopeId) else pol_scope_id base)\<rparr>)"

definition either_member :: "jsv \<Rightarrow> string \<Rightarrow> string \<Rightarrow> jsv" where
  "either_member v a b = js_nullish (getp v a) (getp v b)"

definition policy_provider :: "jsv \<Rightarrow> string" where
  "policy_provider input = trimValue (first_truthy (map (getp input) [''provider'', ''provider_id'', ''providerId'', ''scope_id'', ''scopeId'']))"

definition policy_paused :: "jsv \<Rightarrow> bool" where
  "policy_paused input =
     (let riskAction = to_lower (trimValue (first_truthy (map (getp input) [''risk_action'', ''paused_action'', ''action''])))
      in readBoolean (either_member input ''scope_paused'' ''scopePaused'') (Some False) = Some True
         \<or> riskAction = ''pause_scope'' \<or> riskAction = ''deny'')"

definition policy_base :: "jsv \<Rightarrow> policy_decision" where
  "policy_base input =
     (let workflowId = trimValue (first_truthy (map (getp input) [''workflow_id'', ''workflowId'']));
          providerId = policy_provider input
      in \<lparr>pol_workflow_id = (if workflowId = [] then None else Some workflowId), pol_allow = True,
          pol_decision = ''allow'', pol_reason = ''allowed'', pol_httpStatus = 200,
          pol_scope = Some (if providerId \<noteq> [] then ''provider'' else or_str (trimValue (getp input ''scope'')) ''workflow''),
          pol_scope_id = (let s = or_str providerId (trimValue (first_truthy [getp input ''scope_id'', getp input ''scopeId'', JStr workflowId]))
                          in if s = [] then None else Some s),
          pol_require_attestation = (readBoolean (either_member input ''require_attestation'' ''requireAttestation'') (Some False) = Some True),
          pol_provider_enabled = readBoolean (either_member input ''provider_enabled'' ''providerEnabled'') None,
          pol_attestation_available = readBoolean (either_member input ''attestation_available'' ''attestationAvailable'') (Some True)\<rparr>)"

definition explicit_allow :: "jsv \<Rightarrow> bool option" where
  "explicit_allow input = readBoolean (getp input ''allow'') None"

definition explicit_decision :: "jsv \<Rightarrow> string" where
  "explicit_decision input =
     normalizeDecision (getp input ''decision'') (if explicit_allow input = Some False then ''deny'' else ''allow'')"

definition human_approval :: "jsv \<Rightarrow> bool" where
  "human_approval input = (readBoolean (either_member input ''require_human_approval'' ''requireHumanApproval'') (Some False) = Some True)"

definition evaluatePolicyDecision :: "jsv \<Rightarrow> policy_decision" where
  "evaluatePolicyDecision input =
     (let base = policy_base input;
          explicitDecision = explicit_decision input;
          explicitReason = trimValue (getp input ''reason'')
      in if explicit_allow input = Some False \<or> explicitDecision = ''deny'' \<or> explicitDecision = ''review''
         then buildPolicyDecision base (if explicitDecision = ''allow'' then ''deny'' else explicitDecision)
                (or_str explicitReason (if explicitDecision = ''review'' then ''review_required'' else ''policy_denied'')) [] []
         else if pol_provider_enabled base = Some False
         then buildPolicyDecision base ''deny'' ''provider_disabled'' ''provider'' (policy_provider input)
         else if policy_paused input then buildPolicyDecision base ''deny'' ''scope_paused'' [] []
         else if pol_require_attestation base \<and> pol_attestation_available base = Some False
         then buildPolicyDecision base ''review'' ''attestation_required'' [] []
         else if human_approval input then buildPolicyDecision base ''review'' ''human_approval_required'' [] []
         else buildPolicyDecision base ''allow'' ''allowed'' [] [])"

section \<open>The decision on a request\<close>

definition policy_signals :: "string list" where
  "policy_signals =
     [''provider_enabled'', ''providerEnabled'', ''require_attestation'', ''requireAttestation'',
      ''attestation_available'', ''attestationAvailable'', ''scope_paused'', ''scopePaused'', ''risk_action'', ''paused_action'',
      ''require_human_approval'', ''requireHumanApproval'']"

definition explicit_policy :: "jsv \<Rightarrow> jsv" where
  "explicit_policy payload = (let p = getp payload ''policy_decision'' in if is_plain_object p then p else JObj [])"

definition policy_input :: "jsv \<Rightarrow> jsv" where
  "policy_input payload =
     (let explicit = explicit_policy payload;
          e = getp explicit; p = getp payload
      in JObj (spread (spread (own_entries payload) (own_entries explicit))
         [(''workflow_id'', first_truthy [e ''workflow_id'', p ''workflow_id'', p ''workflowId'']),
          (''workflowId'', first_truthy [e ''workflowId'', p ''workflowId'']),
          (''provider'', first_truthy [e ''provider'', p ''provider'', p ''provider_id'', p ''providerId'']),
          (''scope'', first_truthy [e ''scope'', p ''scope'']),
          (''scope_id'', first_truthy [e ''scope_id'', e ''scopeId'', p ''scope_id'', p ''scopeId''])]))"

definition resolveRequestPolicyDecision :: "jsv \<Rightarrow> policy_decision option" where
  "resolveRequestPolicyDecision payload =
     (if own_entries (explicit_policy payload) = [] \<and> list_all (\<lambda>k. getp payload k = JUndef) policy_signals then None
      else Some (evaluatePolicyDecision (policy_input payload)))"

section \<open>Facts\<close>

lemma built_decision:
  "decision \<in> {''deny'', ''review'', ''allow''} \<Longrightarrow> pol_allow (buildPolicyDecision base decision reason scope scopeId) = (decision = ''allow'')"
  "decision \<in> {''deny'', ''review'', ''allow''} \<Longrightarrow> pol_httpStatus (buildPolicyDecision base decision reason scope scopeId)
     = (if decision = ''allow'' then 200 else if decision = ''review'' then 409 else 403)"
proof -
  assume "decision \<in> {''deny'', ''review'', ''allow''}"
  moreover have "to_lower (trimValue (JStr ''deny'')) = ''deny''" "to_lower (trimValue (JStr ''review'')) = ''review''"
    "to_lower (trimValue (JStr ''allow'')) = ''allow''" by code_simp+
  ultimately have "normalizeDecision (JStr decision) f = decision" for f by (auto simp: normalizeDecision_def)
  then show "pol_allow (buildPolicyDecision base decision reason scope scopeId) = (decision = ''allow'')"
    "pol_httpStatus (buildPolicyDecision base decision reason scope scopeId)
       = (if decision = ''allow'' then 200 else if decision = ''review'' then 409 else 403)"
    by (simp_all add: buildPolicyDecision_def Let_def)
qed

lemma explicit_decision_cases:
  obtains "explicit_decision input = ''deny''" | "explicit_decision input = ''review''" | "explicit_decision input = ''allow''"
proof -
  have "explicit_decision input \<in> {''deny'', ''review'', ''allow''}" by (simp add: explicit_decision_def normalizeDecision_def Let_def)
  then show ?thesis using that by blast
qed

lemma policy_allows_iff:
  "pol_allow (evaluatePolicyDecision input) \<longleftrightarrow>
     explicit_allow input \<noteq> Some False \<and> explicit_decision input = ''allow''
     \<and> pol_provider_enabled (policy_base input) \<noteq> Some False \<and> \<not> policy_paused input
     \<and> \<not> (pol_require_attestation (policy_base input) \<and> pol_attestation_available (policy_base input) = Some False)
     \<and> \<not> human_approval input"
  by (rule explicit_decision_cases [of input]; simp add: evaluatePolicyDecision_def Let_def built_decision)

lemma policy_status: "pol_httpStatus (evaluatePolicyDecision input) = 200 \<longleftrightarrow> pol_allow (evaluatePolicyDecision input)"
  by (rule explicit_decision_cases [of input]; simp add: evaluatePolicyDecision_def Let_def built_decision)

end
