(* ===== verification/Upstash.thy ===== *)
theory Upstash
  imports Policy_Engine Shared_Utils
begin

text \<open>
  \<^verbatim>\<open>workers/nitro-worker/src/platform/upstash.js\<close>: the Redis client behind the request guards. The
  service is a parameter: it answers a request at a time, and the answer may depend on everything sent
  before. An operation returns its result and the extended log of requests and answers. An error is
  handed on when the client is set to fail closed, and replaced by the fallback otherwise.
\<close>

section \<open>Requests\<close>

datatype up_request = UGet string | UPipe "string list list"

text \<open>A failed request, or the status and the parsed body of the response (\<open>{}\<close> if it does not parse).\<close>

type_synonym up_answer = "(int \<times> jsv) result"
type_synonym up_log = "(millis \<times> up_request \<times> up_answer) list"
type_synonym up_service = "up_log \<Rightarrow> millis \<Rightarrow> up_request \<Rightarrow> up_answer"
type_synonym 'a up_outcome = "'a result \<times> up_log"

record up_config =
  uc_enabled :: bool
  uc_failClosed :: bool
  uc_defaultTtlMs :: int

text \<open>\<open>s.replace(/\/$/, '')\<close>.\<close>

definition without_final_slash :: "string \<Rightarrow> string" where
  "without_final_slash s = (if ends_with s ''/'' then butlast s else s)"

definition resolveConfig :: "process_env \<Rightarrow> up_config" where
  "resolveConfig pe =
     (let url = without_final_slash (env pe [''UPSTASH_REDIS_REST_URL'']); token = env pe [''UPSTASH_REDIS_REST_TOKEN'']
      in \<lparr>uc_enabled = (url \<noteq> [] \<and> token \<noteq> []),
          uc_failClosed = (to_lower (env pe [''MORPHEUS_UPSTASH_FAIL_CLOSED'']) = ''true''),
          uc_defaultTtlMs = parseDurationMs (JStr (or_str (env pe [''MORPHEUS_UPSTASH_DEFAULT_TTL_MS'']) ''5m'')) 300000\<rparr>)"

definition ok_status :: "int \<Rightarrow> bool" where
  "ok_status status = (200 \<le> status \<and> status < 300)"

definition upstashRequest :: "up_config \<Rightarrow> up_service \<Rightarrow> millis \<Rightarrow> up_request \<Rightarrow> up_log \<Rightarrow> jsv up_outcome" where
  "upstashRequest cfg sv now req lg =
     (if \<not> uc_enabled cfg then (Inr JNull, lg)
      else let answer = sv lg now req
           in (case answer of
                 Inl e \<Rightarrow> Inl e
               | Inr (status, body) \<Rightarrow>
                   if ok_status status then Inr body
                   else Inl (js_string (first_truthy [getp body ''error'', getp body ''message'',
                          JStr (''upstash request failed ('' @ show_int status @ '')'')])),
               lg @ [(now, req, answer)]))"

fun parsePipelineResult :: "jsv \<Rightarrow> jsv" where
  "parsePipelineResult entry = (if is_objectlike entry then js_nullish (getp entry ''result'') JNull else JNull)"

definition safeUpstash :: "up_config \<Rightarrow> (up_log \<Rightarrow> 'a up_outcome) \<Rightarrow> 'a \<Rightarrow> up_log \<Rightarrow> 'a up_outcome" where
  "safeUpstash cfg operation fallback lg =
     (if \<not> uc_enabled cfg then (Inr fallback, lg)
      else case operation lg of
          (Inl e, lg') \<Rightarrow> (if uc_failClosed cfg then Inl e else Inr fallback, lg')
        | (Inr a, lg') \<Rightarrow> (Inr a, lg'))"

text \<open>An operation followed by a function of its result.\<close>

definition on_result :: "'a up_outcome \<Rightarrow> ('a \<Rightarrow> 'b) \<Rightarrow> 'b up_outcome" where
  "on_result r f = map_prod (map_sum id f) id r"

definition upstashPipeline :: "up_config \<Rightarrow> up_service \<Rightarrow> millis \<Rightarrow> string list list \<Rightarrow> up_log \<Rightarrow> jsv list up_outcome" where
  "upstashPipeline cfg sv now commands lg =
     safeUpstash cfg (\<lambda>l. on_result (upstashRequest cfg sv now (UPipe commands) l)
        (\<lambda>payload. case payload of JArr vs \<Rightarrow> vs | _ \<Rightarrow> [])) [] lg"

definition upstashGetString :: "up_config \<Rightarrow> up_service \<Rightarrow> millis \<Rightarrow> string \<Rightarrow> up_log \<Rightarrow> jsv up_outcome" where
  "upstashGetString cfg sv now key lg =
     safeUpstash cfg (\<lambda>l. on_result (upstashRequest cfg sv now (UGet key) l)
        (\<lambda>payload. js_nullish (getp payload ''result'') JNull)) JNull lg"

definition nth_entry :: "jsv list \<Rightarrow> nat \<Rightarrow> jsv" where
  "nth_entry vs i = (if i < length vs then vs ! i else JUndef)"

definition set_command :: "string \<Rightarrow> string \<Rightarrow> int \<Rightarrow> bool \<Rightarrow> string list" where
  "set_command key v ttlMs nx = [''SET'', key, v] @ (if nx then [''NX''] else []) @ (if 0 < ttlMs then [''PX'', show_int ttlMs] else [])"

definition upstashSetString :: "up_config \<Rightarrow> up_service \<Rightarrow> millis \<Rightarrow> string \<Rightarrow> string \<Rightarrow> int \<Rightarrow> bool \<Rightarrow> up_log \<Rightarrow> jsv up_outcome" where
  "upstashSetString cfg sv now key v ttlMs nx lg =
     safeUpstash cfg (\<lambda>l. on_result (upstashPipeline cfg sv now [set_command key v ttlMs nx] l)
        (\<lambda>vs. parsePipelineResult (nth_entry vs 0))) JNull lg"

definition upstashDelete :: "up_config \<Rightarrow> up_service \<Rightarrow> millis \<Rightarrow> string \<Rightarrow> up_log \<Rightarrow> jsnum up_outcome" where
  "upstashDelete cfg sv now key lg =
     safeUpstash cfg (\<lambda>l. on_result (upstashPipeline cfg sv now [[''DEL'', key]] l)
        (\<lambda>vs. js_to_number (js_or (parsePipelineResult (nth_entry vs 0)) (JNum (Fin 0))))) (Fin 0) lg"

text \<open>\<open>JSON.parse\<close> is a parameter, \<open>None\<close> where it throws.\<close>

definition upstashGetJson :: "(string \<Rightarrow> jsv option) \<Rightarrow> up_config \<Rightarrow> up_service \<Rightarrow> millis \<Rightarrow> string \<Rightarrow> up_log \<Rightarrow> jsv up_outcome" where
  "upstashGetJson parse cfg sv now key lg =
     on_result (upstashGetString cfg sv now key lg)
       (\<lambda>v. if \<not> truthy v then JNull else case parse (js_string v) of Some j \<Rightarrow> j | None \<Rightarrow> JNull)"

definition upstashSetJson ::
  "(string \<Rightarrow> string \<Rightarrow> bool) \<Rightarrow> up_config \<Rightarrow> up_service \<Rightarrow> millis \<Rightarrow> string \<Rightarrow> jsv \<Rightarrow> int \<Rightarrow> up_log \<Rightarrow> jsv up_outcome" where
  "upstashSetJson le cfg sv now key v ttlMs lg =
     upstashSetString cfg sv now key (stableStringify le v) (if 0 < ttlMs then ttlMs else uc_defaultTtlMs cfg) False lg"

section \<open>Counters and locks\<close>

text \<open>The count of a window; \<open>remaining\<close> and \<open>source\<close>, which no caller reads, are left out.\<close>

record window_count =
  wc_allowed :: bool
  wc_count :: jsnum
  wc_retryAfter :: int

text \<open>\<open>Math.max(Math.ceil(ttl / 1000), 1)\<close>.\<close>

fun retry_seconds :: "jsnum \<Rightarrow> int" where
  "retry_seconds (Fin ttl) = max (- ((- ttl) div 1000)) 1"
| "retry_seconds _ = 1"

definition incrementFixedWindowCounter ::
  "up_config \<Rightarrow> up_service \<Rightarrow> millis \<Rightarrow> string \<Rightarrow> jsnum \<Rightarrow> int \<Rightarrow> up_log \<Rightarrow> window_count up_outcome" where
  "incrementFixedWindowCounter cfg sv now key maximum windowMs lg =
     safeUpstash cfg (\<lambda>l.
       case upstashPipeline cfg sv now [[''INCR'', key], [''PTTL'', key]] l of
         (Inl e, l') \<Rightarrow> (Inl e, l')
       | (Inr vs, l') \<Rightarrow>
           let count = js_to_number (js_or (parsePipelineResult (nth_entry vs 0)) (JNum (Fin 0)));
               ttl = js_to_number (js_or (parsePipelineResult (nth_entry vs 1)) (JNum (Fin (- 1))));
               decide = \<lambda>ttl. \<lparr>wc_allowed = js_le count maximum, wc_count = count,
                   wc_retryAfter = (if js_le count maximum then 0 else retry_seconds ttl)\<rparr>
           in if js_le count (Fin 1) \<or> js_lt ttl (Fin 0)
              then (case upstashPipeline cfg sv now [[''PEXPIRE'', key, show_int windowMs]] l' of
                      (Inl e, l'') \<Rightarrow> (Inl e, l'')
                    | (Inr _, l'') \<Rightarrow> (Inr (decide (Fin windowMs)), l''))
              else (Inr (decide ttl), l'))
       \<lparr>wc_allowed = True, wc_count = Fin 1, wc_retryAfter = 0\<rparr> lg"

definition claimIdempotencyLock :: "up_config \<Rightarrow> up_service \<Rightarrow> millis \<Rightarrow> string \<Rightarrow> int \<Rightarrow> up_log \<Rightarrow> bool up_outcome" where
  "claimIdempotencyLock cfg sv now key ttlMs lg =
     on_result (upstashSetString cfg sv now key ''1'' ttlMs True lg) (\<lambda>v. v = JStr ''OK'')"

end
