(* ===== verification/Upstash_Locks.thy ===== *)
theory Upstash_Locks
  imports Upstash
begin

text \<open>
  Locks of concurrent requests over \<^verbatim>\<open>platform/upstash.js\<close>. The relation \<open>lock_step\<close> interleaves claims,
  releases and all other requests to the service in any order. What the service promises of
  \<open>SET key value NX PX ttl\<close> is the hypothesis \<open>nx_exclusive\<close>: it is granted only if the lock that was
  granted before has expired or was deleted.
\<close>

section \<open>The promise of the service\<close>

abbreviation lock_request :: "string \<Rightarrow> int \<Rightarrow> up_request" where
  "lock_request key ttl \<equiv> UPipe [[''SET'', key, ''1'', ''NX'', ''PX'', show_int ttl]]"

abbreviation delete_request :: "string \<Rightarrow> up_request" where
  "delete_request key \<equiv> UPipe [[''DEL'', key]]"

definition granted :: "up_answer \<Rightarrow> bool" where
  "granted answer \<longleftrightarrow>
     (case answer of
        Inr (status, JArr (v # vs)) \<Rightarrow> ok_status status \<and> parsePipelineResult v = JStr ''OK''
      | _ \<Rightarrow> False)"

definition nx_exclusive :: "up_service \<Rightarrow> bool" where
  "nx_exclusive sv \<longleftrightarrow>
     (\<forall>a b t now key ttl ttl' answer.
        0 < ttl \<and> 0 < ttl' \<and> granted answer \<and> now < t + ttl \<and> granted (sv (a @ (t, lock_request key ttl, answer) # b) now (lock_request key ttl'))
        \<longrightarrow> (\<exists>e \<in> set b. fst (snd e) = delete_request key))"

section \<open>Interleaved requests\<close>

text \<open>The clock, the log and the claims held: their key, when they were granted and for how long.\<close>

type_synonym lock_state = "millis \<times> up_log \<times> (string \<times> millis \<times> int) list"

inductive lock_step :: "up_config \<Rightarrow> up_service \<Rightarrow> lock_state \<Rightarrow> lock_state \<Rightarrow> bool" for cfg sv where
  claim: "lock_step cfg sv (now, lg, held) (now', lg', held @ [(key, now', ttl)])"
    if "now \<le> now'" "0 < ttl" "claimIdempotencyLock cfg sv now' key ttl lg = (Inr True, lg')"
| release: "lock_step cfg sv (now, lg, xs @ (key, t, ttl) # ys) (now', lg', xs @ ys)"
    if "now \<le> now'" "now' < t + ttl" "snd (upstashDelete cfg sv now' key lg) = lg'"
| other: "lock_step cfg sv (now, lg, held) (now', lg @ es, held)"
    if "now \<le> now'" "\<forall>e \<in> set es. \<forall>key. fst (snd e) \<noteq> delete_request key"

section \<open>Mutual exclusion\<close>

lemma claim_granted:
  assumes "claimIdempotencyLock cfg sv now key ttl lg = (Inr True, lg')" "0 < ttl"
  shows "lg' = lg @ [(now, lock_request key ttl, sv lg now (lock_request key ttl))]
    \<and> granted (sv lg now (lock_request key ttl))"
  using assms
  by (auto simp: claimIdempotencyLock_def set_command_def upstashSetString_def upstashPipeline_def upstashRequest_def safeUpstash_def on_result_def
      granted_def nth_entry_def Let_def split: if_splits sum.splits prod.splits jsv.splits list.splits)

lemma delete_logged:
  "snd (upstashDelete cfg sv now key lg) = lg
   \<or> (\<exists>answer. snd (upstashDelete cfg sv now key lg) = lg @ [(now, delete_request key, answer)])"
  by (auto simp: upstashDelete_def upstashPipeline_def upstashRequest_def safeUpstash_def on_result_def Let_def
      split: sum.split prod.split)

definition claim_logged :: "millis \<Rightarrow> up_log \<Rightarrow> string \<times> millis \<times> int \<Rightarrow> bool" where
  "claim_logged now lg c \<longleftrightarrow> (case c of (key, t, ttl) \<Rightarrow> t \<le> now \<and> 0 < ttl \<and>
     (\<exists>a answer b. lg = a @ (t, lock_request key ttl, answer) # b \<and> granted answer
        \<and> (now < t + ttl \<longrightarrow> (\<forall>e \<in> set b. fst (snd e) \<noteq> delete_request key))))"

definition expired_before :: "string \<times> millis \<times> int \<Rightarrow> string \<times> millis \<times> int \<Rightarrow> bool" where
  "expired_before c d \<longleftrightarrow> (case c of (key, t, ttl) \<Rightarrow> case d of (key', t', _) \<Rightarrow> key = key' \<longrightarrow> t + ttl \<le> t')"

fun lock_inv :: "lock_state \<Rightarrow> bool" where
  "lock_inv (now, lg, held) \<longleftrightarrow> list_all (claim_logged now lg) held \<and> sorted_wrt expired_before held"

lemma claim_logged_later:
  assumes "claim_logged now lg (key, t, ttl)" "now \<le> now'"
    and "now' < t + ttl \<Longrightarrow> \<forall>e \<in> set es. fst (snd e) \<noteq> delete_request key"
  shows "claim_logged now' (lg @ es) (key, t, ttl)"
proof -
  obtain a answer b where lg: "t \<le> now \<and> 0 < ttl" "lg = a @ (t, lock_request key ttl, answer) # b" "granted answer"
    "now < t + ttl \<longrightarrow> (\<forall>e \<in> set b. fst (snd e) \<noteq> delete_request key)"
    using assms(1) by (auto simp: claim_logged_def)
  have "lg @ es = a @ (t, lock_request key ttl, answer) # (b @ es)" using lg(2) by simp
  moreover have "now' < t + ttl \<longrightarrow> (\<forall>e \<in> set (b @ es). fst (snd e) \<noteq> delete_request key)" using assms(2,3) lg(4) by auto
  moreover have "t \<le> now' \<and> 0 < ttl" using lg(1) assms(2) by simp
  ultimately show ?thesis using lg(3) unfolding claim_logged_def prod.case by blast
qed

lemma claimed_excludes:
  assumes "nx_exclusive sv" "claim_logged now lg (key, t, ttl)" "now \<le> now'" "0 < ttl'" "granted (sv lg now' (lock_request key ttl'))"
  shows "t + ttl \<le> now'"
proof (rule ccontr)
  assume *: "\<not> t + ttl \<le> now'"
  obtain a answer b where lg: "lg = a @ (t, lock_request key ttl, answer) # b" "granted answer" "0 < ttl"
    "\<forall>e \<in> set b. fst (snd e) \<noteq> delete_request key"
    using assms(2,3) * by (auto simp: claim_logged_def)
  then show False using assms(1,4,5) * unfolding nx_exclusive_def by (metis not_le)
qed

lemma lock_inv_step:
  assumes "nx_exclusive sv" "lock_step cfg sv s s'" "lock_inv s"
  shows "lock_inv s'"
  using assms(2,3)
proof (cases rule: lock_step.cases)
  case (claim now now' ttl key lg lg' held)
  note granted = claim_granted [OF claim(5,4)]
  have old: "list_all (claim_logged now lg) held" "sorted_wrt expired_before held" using claim(1) assms(3) by simp_all
  have "claim_logged now' lg' c" if "c \<in> set held" for c
    using that old(1) claim_logged_later [of now lg "fst c" "fst (snd c)" "snd (snd c)" now'] claim(3)
    by (auto simp: list_all_iff granted set_command_def)
  moreover have "expired_before c (key, now', ttl)" if "c \<in> set held" for c
    using that old(1) claimed_excludes [OF assms(1), of now lg key "fst (snd c)" "snd (snd c)" now' ttl] claim(3,4) granted
    by (auto simp: list_all_iff expired_before_def)
  moreover have "claim_logged now' lg' (key, now', ttl)" using granted claim(4) unfolding claim_logged_def by fastforce
  ultimately show ?thesis using old(2) claim(2) by (auto simp: list_all_iff sorted_wrt_append)
next
  case (release now now' t ttl key lg lg' xs ys)
  have old: "list_all (claim_logged now lg) (xs @ (key, t, ttl) # ys)" "sorted_wrt expired_before (xs @ (key, t, ttl) # ys)"
    using release(1) assms(3) by simp_all
  have "claim_logged now' lg' (key', t', ttl')" if "(key', t', ttl') \<in> set (xs @ ys)" for key' t' ttl'
  proof -
    have logged: "claim_logged now lg (key', t', ttl')" "claim_logged now lg (key, t, ttl)" using old(1) that by (auto simp: list_all_iff)
    then have "t' \<le> now" "t \<le> now" by (auto simp: claim_logged_def)
    moreover have "expired_before (key', t', ttl') (key, t, ttl) \<or> expired_before (key, t, ttl) (key', t', ttl')"
      using old(2) that by (auto simp: sorted_wrt_append)
    ultimately have "key' = key \<Longrightarrow> \<not> now' < t' + ttl'" using release(3,4) by (auto simp: expired_before_def)
    moreover have "lg' = lg @ [] \<or> (\<exists>answer. lg' = lg @ [(now', delete_request key, answer)])"
      using delete_logged [of cfg sv now' key lg] release(5) by simp
    ultimately show ?thesis
      using claim_logged_later [OF logged(1) release(3), of "[]"] claim_logged_later [OF logged(1) release(3)] by fastforce
  qed
  then show ?thesis using release(2) old(2) by (auto simp: list_all_iff sorted_wrt_append)
next
  case (other now now' es lg held)
  have "claim_logged now' (lg @ es) c" if "c \<in> set held" for c
    using that other assms(3) claim_logged_later [of now lg "fst c" "fst (snd c)" "snd (snd c)" now' es]
    by (auto simp: list_all_iff)
  then show ?thesis using other(1,2) assms(3) by (simp add: list_all_iff)
qed

lemma lock_inv_run: "rtranclp (lock_step cfg sv) s s' \<Longrightarrow> nx_exclusive sv \<Longrightarrow> lock_inv s \<Longrightarrow> lock_inv s'"
  by (induction rule: rtranclp_induct) (auto intro: lock_inv_step)

text \<open>
  C18: Whatever the interleaving of claims, releases and other requests, as long as no request releases
  a lock after its lifetime: of two claims on one key that are held at the same time, the earlier had
  expired before the later was granted. So one request at a time runs under an unexpired lock.
\<close>

theorem idempotency_lock_exclusive:
  assumes "nx_exclusive sv" "rtranclp (lock_step cfg sv) (start, lg, []) (now, lg', held)"
    and "i < j" "j < length held" "fst (held ! i) = fst (held ! j)"
  shows "fst (snd (held ! i)) + snd (snd (held ! i)) \<le> fst (snd (held ! j)) \<and> fst (snd (held ! j)) \<le> now"
proof -
  have inv: "list_all (claim_logged now lg') held" "sorted_wrt expired_before held" using lock_inv_run [OF assms(2,1)] by simp_all
  have "expired_before (held ! i) (held ! j)" using inv(2) assms(3,4) by (simp add: sorted_wrt_iff_nth_less)
  moreover have "claim_logged now lg' (held ! j)" using inv(1) assms(4) by (simp add: list_all_length)
  ultimately show ?thesis using assms(5) by (auto simp: expired_before_def claim_logged_def split: prod.splits)
qed

section \<open>A service that keeps the promise\<close>

fun held_until :: "string \<Rightarrow> up_log \<Rightarrow> int \<Rightarrow> int" where
  "held_until key [] u = u"
| "held_until key ((t, req, answer) # lg) u = held_until key lg
     (case req of
        UPipe [[a, k, v, nx, px, n]] \<Rightarrow>
          (if k = key \<and> granted answer then (case js_number n of Fin ttl \<Rightarrow> max u (t + ttl) | _ \<Rightarrow> u) else u)
      | _ \<Rightarrow> if req = delete_request key then 0 else u)"

definition lock_server :: up_service where
  "lock_server lg now req = Inr (200, JArr [JObj [(''result'',
     case req of UPipe [[a, k, v, nx, px, n]] \<Rightarrow> if held_until k lg 0 \<le> now then JStr ''OK'' else JNull
     | _ \<Rightarrow> JNum (Fin 1))]])"

lemma held_until_mono: "\<forall>e \<in> set lg. fst (snd e) \<noteq> delete_request key \<Longrightarrow> u \<le> held_until key lg u"
proof (induction key lg u rule: held_until.induct)
  case (2 key t req answer lg u)
  then show ?case by (auto split: up_request.splits list.splits jsnum.splits intro: order_trans [rotated])
qed simp

lemma held_until_append: "held_until key (a @ b) u = held_until key b (held_until key a u)"
  by (induction key a u rule: held_until.induct) (simp_all del: up_request.case_cong)

lemma js_number_show_int: "0 < i \<Longrightarrow> js_number (show_int i) = Fin i"
  by (simp add: show_int_def)

lemma lock_server_exclusive: "nx_exclusive lock_server"
  unfolding nx_exclusive_def
proof (intro allI impI, elim conjE)
  fix a b :: up_log and t now ttl ttl' :: int and key and answer :: up_answer
  let ?lg = "a @ (t, lock_request key ttl, answer) # b"
  assume pos: "0 < ttl" "0 < ttl'"
  assume *: "granted answer" "now < t + ttl" "granted (lock_server ?lg now (lock_request key ttl'))"
  show "\<exists>e \<in> set b. fst (snd e) = delete_request key"
  proof (rule ccontr)
    assume "\<not> (\<exists>e \<in> set b. fst (snd e) = delete_request key)"
    then have "held_until key (a @ [(t, lock_request key ttl, answer)]) 0 \<le> held_until key ?lg 0"
      using held_until_mono [of b key "held_until key (a @ [(t, lock_request key ttl, answer)]) 0"]
      by (simp add: held_until_append)
    moreover have "t + ttl \<le> held_until key (a @ [(t, lock_request key ttl, answer)]) 0"
      using pos *(1) by (simp add: held_until_append set_command_def js_number_show_int)
    moreover have "held_until key ?lg 0 \<le> now"
      using pos *(3) by (simp add: lock_server_def granted_def set_command_def js_nullish_def split: if_splits)
    ultimately show False using *(2) by linarith
  qed
qed

definition demo_cfg :: up_config where
  "demo_cfg = \<lparr>uc_enabled = True, uc_failClosed = False, uc_defaultTtlMs = 300000\<rparr>"

definition claimed_at :: "millis \<Rightarrow> up_log \<Rightarrow> up_log" where
  "claimed_at now lg = snd (claimIdempotencyLock demo_cfg lock_server now ''k'' 10 lg)"

theorem idempotency_lock_exclusive_witness:
  "\<exists>held. rtranclp (lock_step demo_cfg lock_server) (0, [], []) (10, claimed_at 10 (claimed_at 0 []), held) \<and> length held = 2
     \<and> fst (snd (held ! 0)) + snd (snd (held ! 0)) \<le> fst (snd (held ! 1))"
proof -
  have "fst (claimIdempotencyLock demo_cfg lock_server 0 ''k'' 10 []) = Inr True"
    "fst (claimIdempotencyLock demo_cfg lock_server 10 ''k'' 10 (claimed_at 0 [])) = Inr True" by code_simp+
  then have "claimIdempotencyLock demo_cfg lock_server 0 ''k'' 10 [] = (Inr True, claimed_at 0 [])"
    "claimIdempotencyLock demo_cfg lock_server 10 ''k'' 10 (claimed_at 0 []) = (Inr True, claimed_at 10 (claimed_at 0 []))"
    by (simp_all add: claimed_at_def prod_eq_iff)
  then have "lock_step demo_cfg lock_server (0, [], []) (0, claimed_at 0 [], [] @ [(''k'', 0, 10)])"
    "lock_step demo_cfg lock_server (0, claimed_at 0 [], [(''k'', 0, 10)])
       (10, claimed_at 10 (claimed_at 0 []), [(''k'', 0, 10)] @ [(''k'', 10, 10)])"
    by - (rule lock_step.claim; simp)+
  then have run: "rtranclp (lock_step demo_cfg lock_server) (0, [], [])
      (10, claimed_at 10 (claimed_at 0 []), [(''k'', 0, 10), (''k'', 10, 10)])"
    by (auto intro: converse_rtranclp_into_rtranclp r_into_rtranclp)
  then show ?thesis using idempotency_lock_exclusive [OF lock_server_exclusive run, of 0 1] by auto
qed

text \<open>
  The lock holds no token of its owner. A request that runs longer than its lock deletes, when it ends,
  the lock that the next one has taken, and a third request runs beside that one.
\<close>

theorem late_release_frees_other:
  "let first = claimed_at 0 []; second = claimIdempotencyLock demo_cfg lock_server 10 ''k'' 10 first;
       late = snd (upstashDelete demo_cfg lock_server 12 ''k'' (snd second));
       third = claimIdempotencyLock demo_cfg lock_server 13 ''k'' 10 late
   in fst second = Inr True \<and> fst third = Inr True \<and> fst (claimIdempotencyLock demo_cfg lock_server 13 ''k'' 10 (snd second)) = Inr False"
  by code_simp

text \<open>
  An unreachable service is to be passed over unless the client is set to fail closed; a claim on a lock
  is refused then, so every request with an idempotency key is turned away.
\<close>

theorem outage_refuses_lock:
  assumes "uc_enabled cfg" "\<not> uc_failClosed cfg" "0 < ttl" "sv lg now (lock_request key ttl) = Inl e"
  shows "fst (claimIdempotencyLock cfg sv now key ttl lg) = Inr False"
  using assms by (simp add: claimIdempotencyLock_def set_command_def upstashSetString_def upstashPipeline_def upstashRequest_def safeUpstash_def
      on_result_def nth_entry_def)

end
