(* ===== verification/Spec2Isabelle.thy ===== *)
theory Spec2Isabelle
  imports Automation_Cases Automation_Control Durable_Queue_Facts Fulfillment_Policy_Cases
    Oracle_Feeds_Cases Persistor Relayed_Decrypt Relayer_Loop_Facts Router_Result_Facts Shared_Utils Tick_Reconcile Upstash_Locks
begin

text \<open>
  A verification development for the Morpheus oracle relayer,
  \<^verbatim>\<open>src/workers/morpheus-relayer/src\<close>, the parts of \<^verbatim>\<open>src/packages/shared/src\<close> it uses, and
  three parts of the worker behind it, \<^verbatim>\<open>src/workers/nitro-worker/src\<close>: the price feeds, the lanes
  that open sealed messages, and the limits on concurrent requests.

  \<^bold>\<open>The program.\<close> The relayer watches two chains (Neo N3 and Neo X) for oracle requests, has a worker
  or an enclave compute the answer, signs it and submits it as a callback. One tick per chain
  (\<^verbatim>\<open>request-processor.js\<close>) applies manual actions, hydrates the durable queue, discovers requests
  by block or by request id, defers what exceeds the backpressure cap, processes the rest, runs the
  due retries and reconciles requests the block scan missed. Processing one request
  (\<open>processEvent\<close> of \<^verbatim>\<open>fulfillment.js\<close>) claims it across instances, prepares a signed fulfillment,
  writes it to the retry queue, the state file and the durable table, submits it, and records the
  outcome. Automation jobs (\<^verbatim>\<open>automation.js\<close>) queue requests of their own when a trigger is due.
  The worker's feed route (\<open>handleOracleFeed\<close> of \<^verbatim>\<open>feeds.js\<close>), which the relayer calls on a schedule,
  asks several providers for each price, aggregates the quotes, decides which feeds are due and
  submits those to the chain, signed, in a batch or one by one.

  \<^bold>\<open>The theories\<close>, bottom up:

  \<^item> \<open>JS_Prelude\<close>, \<open>JSON_Value\<close>, \<open>Codecs\<close>: the JavaScript and Node operations the sources use
    (numbers with NaN and infinities, strings, objects as association lists, dynamic values,
    \<open>JSON.stringify\<close>, hex, base64, SHA-256), the collections of simplification rules, and the
    interfaces of an object store and of a transition system.
  \<^item> \<open>Relayer_Strings\<close>, \<open>Retry_Policy\<close>, \<open>Shared_Utils\<close>: \<^verbatim>\<open>lib/strings.js\<close>, \<^verbatim>\<open>lib/retry.js\<close> and
    \<^verbatim>\<open>utils.js\<close> (the concurrency pool as a step relation, constant-time comparison, canonical JSON).
  \<^item> \<open>Router_Intent\<close>, \<open>Router_Digest\<close>, \<open>Router_Result\<close>, \<open>Router_Result_Facts\<close>: \<^verbatim>\<open>router.js\<close>. Request
    types and worker payloads; the signed digest and what it binds; compact callbacks, recovery and
    action tickets, and the size-bounded on-chain envelope.
  \<^item> \<open>Relayer_Types\<close>, \<open>Relayer_State\<close>, \<open>Relayer_State_Facts\<close>: \<^verbatim>\<open>state.js\<close>. One record per chain with
    its cursors, processed cache, retry queue and dead letters; \<open>state_inv\<close> is the invariant that
    every operation keeps.
  \<^item> \<open>Chain_Cursor\<close>: \<^verbatim>\<open>chain-cursor.js\<close> and the request cursor; the locale \<open>scan_cursor\<close> is the
    interface both cursors implement.
  \<^item> \<open>Supabase_Backoff\<close>, \<open>Relayer_World\<close>, \<open>Persistor\<close>, \<open>Durable_Queue\<close>, \<open>Durable_Queue_Facts\<close>:
    \<^verbatim>\<open>persistence.js\<close> and \<^verbatim>\<open>queue.js\<close>. A \<open>world\<close> is the relayer state, the backoff and the trace of
    effects; the store answers through the record \<open>services\<close>, and an answer may depend on every
    effect so far.
  \<^item> \<open>Fulfillment_Policy\<close>, \<open>Fulfillment_Policy_Cases\<close>, \<open>Fulfillment_Prepare\<close>,
    \<open>Fulfillment_Prepare_Facts\<close>, \<open>Fulfillment\<close>: \<^verbatim>\<open>fulfillment.js\<close>. Error classes and redaction, signing,
    the preparation lanes, the checkpoint, delivery, and \<open>processEvent\<close> with every outcome.
  \<^item> \<open>Fulfillment_Facts\<close> (the outcome is what the state records), \<open>Fulfillment_Delivery\<close> (one
    submission per call, durable before it is delivered), \<open>Fulfillment_Progress\<close> (the retry budget and
    that a queued request settles), \<open>Fulfillment_Frame\<close> (the locale \<open>event_frame\<close>: what six updates
    keep, \<open>processEvent\<close> keeps, with its instances).
  \<^item> \<open>Request_Processor\<close>, \<open>Request_Processor_Facts\<close>: \<^verbatim>\<open>request-processor.js\<close> and the locale
    \<open>tick_invariant\<close> (what every step of a tick keeps, the tick keeps); \<open>Tick_Accounting\<close> (the cursor
    and the requests it passes), \<open>Tick_Isolation\<close> (the other chain), \<open>Tick_Reconcile\<close> (tracked
    requests, idle discovery), \<open>Tick_Durability\<close> (the work of a tick is in the state file at its end).
  \<^item> \<open>Nitro_Client\<close>: \<^verbatim>\<open>nitro.js\<close>. Candidate endpoints, timeouts and the failover loop over a network
    that answers each request; composed with the preparation lanes through their routes.
  \<^item> \<open>Feed_Sync\<close>: \<^verbatim>\<open>feed-sync.js\<close>. The spacing of runs, one call per target chain, the summary.
  \<^item> \<open>Relayer_Loop\<close>, \<open>Relayer_Loop_Facts\<close>: \<^verbatim>\<open>relayer.js\<close>, \<^verbatim>\<open>healthcheck.js\<close>, loading and saving of
    \<^verbatim>\<open>state.js\<close>. A tick over feeds, chains and automation, and the relation \<open>relayer_runs\<close> of processes
    that tick, stop and restart from the file; the locales \<open>relayer_tick\<close> and \<open>relayer_tick_blind\<close> carry
    what the parts keep to the whole tick.
  \<^item> \<open>Automation_Supervisor\<close>, \<open>Automation\<close>, \<open>Automation_Store\<close>, \<open>Automation_Facts\<close>,
    \<open>Automation_System\<close>, \<open>Automation_Cases\<close>, \<open>Automation_Control\<close>: \<^verbatim>\<open>automation.js\<close>,
    \<^verbatim>\<open>automation-supervisor.js\<close> and the automation table. The tick with a crash after any effect, as a
    step relation on the table; registration, cancellation and the guard.
  \<^item> \<open>Quote_Aggregation\<close>, \<open>Feed_Decimal\<close>, \<open>Feed_Registry\<close>, \<open>Feed_Policy\<close>, \<open>Oracle_Feeds\<close>:
    \<^verbatim>\<open>aggregation.js\<close>, \<^verbatim>\<open>decimal.js\<close>, \<^verbatim>\<open>feed-registry.js\<close>, \<^verbatim>\<open>sync-policy.js\<close> with \<^verbatim>\<open>shared.js\<close>, and
    \<^verbatim>\<open>feeds.js\<close> with \<^verbatim>\<open>feed-submit.js\<close> of the worker. Median and outliers over exact rationals, prices as
    decimal text and as integer units, the registry of pairs, the decision whether to submit, and one
    run over all symbols with the records it leaves and the invocations it relays.
  \<^item> \<open>Oracle_Feeds_Facts\<close> (the locale \<open>feed_invariant\<close>: what processing one quote keeps, a run keeps;
    the answer of a run against what reached the chain), \<open>Oracle_Feeds_Cases\<close> (concrete runs).
  \<^item> \<open>Gated_Decrypt\<close>: the decrypt lane of the worker's \<^verbatim>\<open>capabilities.js\<close> and \<^verbatim>\<open>message-reveal.js\<close>, with
    the messages read and the envelopes opened as effects; \<open>Relayed_Decrypt\<close> composes the decrypt lane
    of \<open>Fulfillment_Prepare\<close> with it.
  \<^item> \<open>Worker_Routes\<close>, \<open>Policy_Engine\<close>, \<open>Upstash\<close>, \<open>Upstash_Locks\<close>: the routing table and
    \<^verbatim>\<open>overload-guard.js\<close>, \<^verbatim>\<open>policy-engine.js\<close>, and the Redis client \<^verbatim>\<open>upstash.js\<close>. Slots and locks are
    step relations under every interleaving of requests.

  \<^bold>\<open>What the properties show.\<close> A request is accounted for at every step: by its outcome in
  \<open>processEvent\<close>, by the cursor in a tick, in the retry queue across backpressure and hydration. A
  callback is durable before it is submitted and read back as it was written; a retry always spends
  budget and a queued request settles. Digests bind the request, the result and the deployment. The
  state invariant holds after every operation and of every snapshot. An automation job broadcasts each
  execution under one request id, whatever crash interrupts a tick. A minority of providers cannot
  move an aggregated price out of the range of the others, prices survive the conversion to units
  and back, a feed run reports exactly the updates it put on the chain, spaces them, and signs what it
  submits. A sealed message is opened only after its unlock time or for its recipient, also through
  the relayer; slots and locks bound the requests that run at the same time. Theorems about concrete inputs
  record where the code departs from its comments.

  \<^bold>\<open>Readings and bounds.\<close> One handler reads the clock once. The requests of a batch run in order,
  which is \<open>mapWithConcurrency\<close> with one worker; \<open>Shared_Utils\<close> shows that the pool returns the
  results in order for every schedule. A snapshot of the state is written where the code asks for it;
  the debounce of the writer is the subject of \<open>Persistor\<close>. Strings hold Latin-1 code units. Object reads see own
  properties. The numbers of a price computation are exact rationals, as far as they are in the range
  of a double; rounding to 53 bits is not modelled. The automation table holds the rows of one network. Recursions are structural or have a
  termination proof; no fuel is used.

  \<^bold>\<open>Parameters.\<close> The answers of Supabase, the worker, the enclave and the chain nodes, the keys of the
  local verifier, random bytes, \<open>JSON.parse\<close> of a payload and \<open>Date.parse\<close> are arguments, as are the
  quotes of the price providers, the signer of the feeds, the Redis service and the decryption of an
  envelope. Hypotheses on
  them are named, and witnesses instantiate them.

  \<^bold>\<open>Not modelled.\<close> Logging and heartbeats; environment parsing (\<^verbatim>\<open>config.js\<close>), whose values are the
  configuration records; transaction building over neon-js and ethers (\<^verbatim>\<open>neo-n3.js\<close>, \<^verbatim>\<open>neox.js\<close>);
  the other routes of the worker and the composition of its guards in \<^verbatim>\<open>worker.js\<close>; of its price feeds
  the requests to the providers, the snapshots of the records and the reading of the chain's baseline;
  the enclave server, the web application, the
  contracts and the scripts.
\<close>

end
